(* ===== verification/Prelude.thy ===== *)
theory Prelude
  imports Main "HOL-Library.Word" "HOL-Library.Sublist"
begin

text \<open>
  Shared vocabulary of the development: the machine integers of the Rust sources, results of
  fallible operations, storage maps with the operations the pallets use, and two interfaces
  stated as locales: a key/value store (\<open>kv_store\<close>) and a machine whose steps keep an invariant
  (\<open>invariant_machine\<close>).
\<close>

section \<open>Machine integers and results\<close>

type_synonym u8 = "8 word"
type_synonym u16 = "16 word"
type_synonym u32 = "32 word"
type_synonym u64 = "64 word"
type_synonym u128 = "128 word"

text \<open>A Rust \<open>Result<T, E>\<close>: \<open>Inr\<close> is \<open>Ok\<close>, \<open>Inl\<close> is \<open>Err\<close>.\<close>

type_synonym ('e, 'a) result = "'e + 'a"

named_theorems storage_simps "laws of storage maps"
named_theorems handler_defs "definitions of the dispatchable functions"

text \<open>\<open>checked_add\<close> of the unsigned integers: \<open>None\<close> on overflow.\<close>

definition checked_add :: "'w::len word \<Rightarrow> 'w word \<Rightarrow> 'w word option" where
  "checked_add a b = (if unat a + unat b < 2 ^ LENGTH('w) then Some (a + b) else None)"

lemma checked_add_Some_iff:
  "checked_add a b = Some c \<longleftrightarrow> unat a + unat b < 2 ^ LENGTH('w::len) \<and> c = (a::'w word) + b"
  by (auto simp: checked_add_def)

lemma checked_add_unat:
  "checked_add a b = Some c \<Longrightarrow> unat c = unat a + unat b"
  by (auto simp: checked_add_def unat_word_ariths split: if_splits)

text \<open>\<open>saturating_sub\<close> of the unsigned integers.\<close>

definition saturating_sub :: "'w::len word \<Rightarrow> 'w word \<Rightarrow> 'w word" where
  "saturating_sub a b = (if a \<le> b then 0 else a - b)"

lemma unat_saturating_sub: "unat (saturating_sub a b) = unat a - unat b"
  by (auto simp: saturating_sub_def word_le_nat_alt unat_sub)

text \<open>\<open>saturating_add\<close> of the unsigned integers.\<close>

definition saturating_add :: "'w::len word \<Rightarrow> 'w word \<Rightarrow> 'w word" where
  "saturating_add a b = (case checked_add a b of Some c \<Rightarrow> c | None \<Rightarrow> - 1)"

lemma unat_saturating_add:
  "unat (saturating_add a (b::'w::len word)) = min (unat a + unat b) (2 ^ LENGTH('w) - 1)"
proof -
  have "unat (- 1 :: 'w word) = 2 ^ LENGTH('w) - 1"
    by (simp add: unsigned_minus_1_eq_mask mask_eq_exp_minus_1)
  then show ?thesis
    by (auto simp: saturating_add_def checked_add_def unat_word_ariths)
qed

section \<open>Storage maps\<close>

text \<open>
  A storage map: a partial map from keys to values. \<open>map_insert\<close> stores a value and
  \<open>map_mutate\<close> hands the current entry to a closure and writes back what the closure leaves,
  whatever the closure returns.
\<close>

definition map_insert :: "('k \<rightharpoonup> 'v) \<Rightarrow> 'k \<Rightarrow> 'v \<Rightarrow> ('k \<rightharpoonup> 'v)" where
  "map_insert m k v = m(k := Some v)"

definition map_remove :: "('k \<rightharpoonup> 'v) \<Rightarrow> 'k \<Rightarrow> ('k \<rightharpoonup> 'v)" where
  "map_remove m k = m(k := None)"

definition map_mutate ::
  "('k \<rightharpoonup> 'v) \<Rightarrow> 'k \<Rightarrow> ('v option \<Rightarrow> 'r \<times> 'v option) \<Rightarrow> 'r \<times> ('k \<rightharpoonup> 'v)" where
  "map_mutate m k f = (case f (m k) of (r, v) \<Rightarrow> (r, m(k := v)))"

lemma map_insert_apply [storage_simps]:
  "map_insert m k v k' = (if k' = k then Some v else m k')"
  by (simp add: map_insert_def)

lemma map_remove_apply [storage_simps]:
  "map_remove m k k' = (if k' = k then None else m k')"
  by (simp add: map_remove_def)

lemma dom_map_insert [storage_simps]: "dom (map_insert m k v) = insert k (dom m)"
  by (auto simp: map_insert_def)

lemma map_mutate_keep: "f (m k) = (r, m k) \<Longrightarrow> map_mutate m k f = (r, m)"
  by (simp add: map_mutate_def fun_upd_idem)

lemma map_upd_same: "m k = v \<Longrightarrow> m(k := v) = m"
  by (simp add: fun_upd_idem)

text \<open>
  The \<open>?\<close> operator over a computation that returns a result together with the state it leaves:
  an \<open>Err\<close> returns at once, with the state as it is at that point. \<open>map_err\<close> replaces the
  error value.
\<close>

definition and_then ::
  "('e, 'a) result \<times> 's \<Rightarrow> ('a \<Rightarrow> 's \<Rightarrow> ('e, 'b) result \<times> 's) \<Rightarrow> ('e, 'b) result \<times> 's" where
  "and_then p f = (case p of (Inl e, s) \<Rightarrow> (Inl e, s) | (Inr a, s) \<Rightarrow> f a s)"

definition map_err :: "'e \<Rightarrow> ('d, 'a) result \<times> 's \<Rightarrow> ('e, 'a) result \<times> 's" where
  "map_err e p = (case p of (Inl _, s) \<Rightarrow> (Inl e, s) | (Inr a, s) \<Rightarrow> (Inr a, s))"

lemma and_then_simps [simp]:
  "and_then (Inl e, s) f = (Inl e, s)"
  "and_then (Inr a, s) f = f a s"
  by (simp_all add: and_then_def)

lemma map_err_simps [simp]:
  "map_err e (Inl d, s) = (Inl e, s)"
  "map_err e (Inr a, s) = (Inr a, s)"
  by (simp_all add: map_err_def)

text \<open>\<open>ensure!(c, e)\<close>: an early return with \<open>e\<close> when \<open>c\<close> does not hold.\<close>

definition ensure :: "bool \<Rightarrow> 'e \<Rightarrow> 's \<Rightarrow> ('e, unit) result \<times> 's" where
  "ensure c e s = (if c then (Inr (), s) else (Inl e, s))"

lemma ensure_simps [simp]:
  "c \<Longrightarrow> ensure c e s = (Inr (), s)"
  "\<not> c \<Longrightarrow> ensure c e s = (Inl e, s)"
  by (simp_all add: ensure_def)

text \<open>
  A function that runs in a storage transaction: an \<open>Err\<close> discards every change it made to the
  storage, an \<open>Ok\<close> commits them.
\<close>

definition transactional :: "('s \<Rightarrow> ('e, 'a) result \<times> 's) \<Rightarrow> 's \<Rightarrow> ('e, 'a) result \<times> 's" where
  "transactional f s = (case f s of (Inl e, _) \<Rightarrow> (Inl e, s) | (Inr a, s') \<Rightarrow> (Inr a, s'))"

section \<open>Key/value stores\<close>

text \<open>
  What a client of a key/value store relies on: what a lookup returns after a write and after a
  removal. The client's lemmas about a batch of writes (the flush of an overlay into its
  backing database) are proved once, from these two laws.
\<close>

locale kv_store =
  fixes lookup :: "'s \<Rightarrow> 'k \<Rightarrow> 'v option"
    and put :: "'k \<Rightarrow> 'v \<Rightarrow> 's \<Rightarrow> 's"
    and delete :: "'k \<Rightarrow> 's \<Rightarrow> 's"
  assumes lookup_put: "lookup (put k v s) k' = (if k' = k then Some v else lookup s k')"
    and lookup_delete: "lookup (delete k s) k' = (if k' = k then None else lookup s k')"
begin

lemma lookup_put_other: "k' \<noteq> k \<Longrightarrow> lookup (put k v s) k' = lookup s k'"
  by (simp add: lookup_put)

lemma lookup_put_same: "lookup (put k v s) k = Some v"
  by (simp add: lookup_put)

text \<open>Applying a list of operations, \<open>Some\<close> for a write and \<open>None\<close> for a removal.\<close>

lemma lookup_batch_notin:
  "k \<notin> fst ` set ops \<Longrightarrow>
   lookup (fold (\<lambda>(k, v). case v of Some x \<Rightarrow> put k x | None \<Rightarrow> delete k) ops s) k = lookup s k"
  by (induction ops arbitrary: s) (auto simp: lookup_put lookup_delete split: option.splits)

lemma lookup_batch:
  assumes "distinct (map fst ops)"
  shows "lookup (fold (\<lambda>(k, v). case v of Some x \<Rightarrow> put k x | None \<Rightarrow> delete k) ops s) k =
    (case map_of ops k of None \<Rightarrow> lookup s k | Some v \<Rightarrow> v)"
  using assms
proof (induction ops arbitrary: s)
  case Nil
  then show ?case by simp
next
  case (Cons op ops)
  obtain k1 v1 where op: "op = (k1, v1)" by (cases op)
  show ?case
  proof (cases "k = k1")
    case True
    with Cons.prems op have "k \<notin> fst ` set ops" by simp
    then show ?thesis
      using True op
      by (cases v1) (simp_all add: lookup_batch_notin lookup_put lookup_delete)
  next
    case False
    with Cons op show ?thesis
      by (cases v1) (simp_all add: lookup_put lookup_delete split: option.splits)
  qed
qed

end

interpretation smap: kv_store "\<lambda>m k. m k" "\<lambda>k v m. map_insert m k v" "\<lambda>k m. map_remove m k"
  by unfold_locales (simp_all add: storage_simps)

section \<open>Machines with an invariant\<close>

text \<open>
  A machine that is driven by a sequence of commands. \<open>inv\<close> is kept by every command that the
  side condition \<open>ok\<close> allows in the state it meets; then it is kept by whole runs.
\<close>

fun run_ok :: "('c \<Rightarrow> 's \<Rightarrow> 's) \<Rightarrow> ('c \<Rightarrow> 's \<Rightarrow> bool) \<Rightarrow> 'c list \<Rightarrow> 's \<Rightarrow> bool" where
  "run_ok step ok [] s = True"
| "run_ok step ok (c # cs) s = (ok c s \<and> run_ok step ok cs (step c s))"

locale invariant_machine =
  fixes step :: "'c \<Rightarrow> 's \<Rightarrow> 's"
    and ok :: "'c \<Rightarrow> 's \<Rightarrow> bool"
    and inv :: "'s \<Rightarrow> bool"
  assumes step_inv: "inv s \<Longrightarrow> ok c s \<Longrightarrow> inv (step c s)"
begin

lemma run_inv: "inv s \<Longrightarrow> run_ok step ok cs s \<Longrightarrow> inv (fold step cs s)"
  by (induction cs arbitrary: s) (auto intro: step_inv)

end

text \<open>
  A machine that also relates the state after a step to the state before it by a reflexive and
  transitive order: then the end of a run is above its start.
\<close>

locale monotone_machine = invariant_machine step ok inv
  for step :: "'c \<Rightarrow> 's \<Rightarrow> 's" and ok :: "'c \<Rightarrow> 's \<Rightarrow> bool" and inv :: "'s \<Rightarrow> bool" +
  fixes below :: "'s \<Rightarrow> 's \<Rightarrow> bool"
  assumes below_refl: "below s s"
    and below_trans: "below s t \<Longrightarrow> below t u \<Longrightarrow> below s u"
    and step_below: "inv s \<Longrightarrow> ok c s \<Longrightarrow> below s (step c s)"
begin

lemma run_below: "inv s \<Longrightarrow> run_ok step ok cs s \<Longrightarrow> below s (fold step cs s)"
  by (induction cs arbitrary: s) (auto intro: below_refl below_trans step_below step_inv)

end

text \<open>
  A machine that refines an abstract one: every step does to the abstraction what the abstract
  machine does with the abstract command.
\<close>

locale refined_machine = invariant_machine step ok inv
  for step :: "'c \<Rightarrow> 's \<Rightarrow> 's" and ok :: "'c \<Rightarrow> 's \<Rightarrow> bool" and inv :: "'s \<Rightarrow> bool" +
  fixes abs_state :: "'s \<Rightarrow> 't"
    and abs_command :: "'c \<Rightarrow> 'd"
    and abs_step :: "'d \<Rightarrow> 't \<Rightarrow> 't"
  assumes step_refines:
    "inv s \<Longrightarrow> ok c s \<Longrightarrow> abs_state (step c s) = abs_step (abs_command c) (abs_state s)"
begin

lemma run_refines:
  "inv s \<Longrightarrow> run_ok step ok cs s \<Longrightarrow>
   abs_state (fold step cs s) = fold abs_step (map abs_command cs) (abs_state s)"
  by (induction cs arbitrary: s) (simp_all add: step_refines [symmetric] step_inv)

end

lemma run_ok_True [simp]: "run_ok step (\<lambda>_ _. True) cs s"
  by (induction cs arbitrary: s) auto

section \<open>Lists\<close>

text \<open>A loop that raises a flag when it meets an element with a property.\<close>

lemma fold_flag: "fold (\<lambda>x b. if P x then True else b) xs b = (b \<or> (\<exists>x \<in> set xs. P x))"
  by (induction xs arbitrary: b) auto

lemma suffix_snoc_same: "suffix xs ys \<Longrightarrow> suffix (xs @ [z]) (ys @ [z])"
  by (auto simp: suffix_def)

lemma distinct_map_filter_image:
  "distinct (map f xs) \<Longrightarrow> distinct (map f (filter P xs))"
  by (rule distinct_map_filter)

lemma sum_list_fold: "fold (+) xs (a::'a::comm_monoid_add) = a + sum_list xs"
  by (induction xs arbitrary: a) (simp_all add: ac_simps)

end
