(* ===== verification/Votechain_Pallet.thy ===== *)
theory Votechain_Pallet
  imports Prelude
begin

text \<open>
  The voting pallet (\<open>pallets/votechain/src/lib.rs\<close>): its configuration, data, storage, events
  and errors, and its six dispatchable functions. A dispatchable takes the storage and returns
  its result together with the storage it leaves: only \<open>create_election\<close> runs in a storage
  transaction, so an error of any other function leaves the writes made before it.

  A storage map is a partial map: \<open>insert\<close> and \<open>mutate\<close> of the framework are \<open>map_insert\<close> and
  \<open>map_mutate\<close> of the prelude. The field \<open>events\<close> is the log of the calls of \<open>deposit_event\<close> (the framework
  keeps no events in the genesis block).

  The configuration carries what the pallet gets from the framework as functions: the origin
  checks \<open>ensure_signed\<close> (the account that signed, or \<open>None\<close>) and \<open>ensure_root\<close>, and the hash of
  an encoded election or candidate (\<open>T::Hashing::hash_of\<close>).
\<close>

section \<open>Data\<close>

record election =
  description :: "u8 list"
  is_open :: bool

record 'h candidate =
  candidate_name :: "u8 list"
  c_election_id :: 'h

record ('a, 'h) vote =
  candidate_id :: 'h
  v_election_id :: 'h
  author :: 'a

record ('o, 'a, 'h) pallet_config =
  ElectionMinBytes :: u32
  ElectionMaxBytes :: u32
  CandidateMinBytes :: u32
  CandidateMaxBytes :: u32
  ensure_signed :: "'o \<Rightarrow> 'a option"
  ensure_root :: "'o \<Rightarrow> bool"
  hash_of_election :: "election \<Rightarrow> 'h"
  hash_of_candidate :: "'h candidate \<Rightarrow> 'h"

datatype ('a, 'h) event =
    SomethingStored u32 'a
  | ElectionStored "u8 list" 'h
  | ElectionUpdated bool 'h
  | CandidateStored "u8 list" 'h
  | VoteStored 'h 'h

datatype pallet_error =
    NoneValue
  | StorageOverflow
  | ElectionNotEnoughBytes
  | ElectionTooManyBytes
  | CandidateNotEnoughBytes
  | CandidateTooManyBytes
  | ElectionNotFound
  | CandidateNotFound
  | OriginNotSudo

text \<open>A dispatch fails with \<open>BadOrigin\<close> from the origin checks or with an error of the pallet.\<close>

datatype dispatch_error = BadOrigin | Module pallet_error

record ('a, 'h) storage =
  something :: "u32 option"
  elections :: "'h \<rightharpoonup> election"
  election_candidates :: "'h \<rightharpoonup> 'h candidate list"
  election_votes :: "'h \<rightharpoonup> ('a, 'h) vote list"
  candidates :: "'h \<rightharpoonup> 'h candidate"
  candidate_votes :: "'h \<rightharpoonup> ('a, 'h) vote list"
  events :: "('a, 'h) event list"

definition empty_storage :: "('a, 'h) storage" where
  "empty_storage = \<lparr>something = None, elections = Map.empty, election_candidates = Map.empty,
     election_votes = Map.empty, candidates = Map.empty, candidate_votes = Map.empty, events = []\<rparr>"

type_synonym 's dispatch_result = "(dispatch_error, unit) result \<times> 's"

section \<open>Storage accesses\<close>

definition deposit_event :: "('a, 'h) event \<Rightarrow> ('a, 'h) storage \<Rightarrow> ('a, 'h) storage" where
  "deposit_event e s = s\<lparr>events := events s @ [e]\<rparr>"

definition mutate_elections ::
  "'h \<Rightarrow> (election option \<Rightarrow> (unit, unit) result \<times> election option) \<Rightarrow>
   ('a, 'h) storage \<Rightarrow> (unit, unit) result \<times> ('a, 'h) storage" where
  "mutate_elections k f s = (case map_mutate (elections s) k f of (r, m) \<Rightarrow> (r, s\<lparr>elections := m\<rparr>))"

definition mutate_election_votes ::
  "'h \<Rightarrow> (('a, 'h) vote list option \<Rightarrow> (unit, unit) result \<times> ('a, 'h) vote list option) \<Rightarrow>
   ('a, 'h) storage \<Rightarrow> (unit, unit) result \<times> ('a, 'h) storage" where
  "mutate_election_votes k f s =
     (case map_mutate (election_votes s) k f of (r, m) \<Rightarrow> (r, s\<lparr>election_votes := m\<rparr>))"

definition mutate_candidate_votes ::
  "'h \<Rightarrow> (('a, 'h) vote list option \<Rightarrow> (unit, unit) result \<times> ('a, 'h) vote list option) \<Rightarrow>
   ('a, 'h) storage \<Rightarrow> (unit, unit) result \<times> ('a, 'h) storage" where
  "mutate_candidate_votes k f s =
     (case map_mutate (candidate_votes s) k f of (r, m) \<Rightarrow> (r, s\<lparr>candidate_votes := m\<rparr>))"

text \<open>The closure of \<open>create_candidate\<close> also writes other storage maps, so it takes the storage.\<close>

definition mutate_election_candidates ::
  "'h \<Rightarrow> ('h candidate list option \<Rightarrow> ('a, 'h) storage \<Rightarrow>
     (unit, unit) result \<times> 'h candidate list option \<times> ('a, 'h) storage) \<Rightarrow>
   ('a, 'h) storage \<Rightarrow> (unit, unit) result \<times> ('a, 'h) storage" where
  "mutate_election_candidates k f s =
     (case f (election_candidates s k) s of
        (r, v, s') \<Rightarrow> (r, s'\<lparr>election_candidates := (election_candidates s')(k := v)\<rparr>))"

section \<open>Dispatchable functions\<close>

definition signed_origin ::
  "('o, 'a, 'h) pallet_config \<Rightarrow> 'o \<Rightarrow> 's \<Rightarrow> (dispatch_error, 'a) result \<times> 's" where
  "signed_origin cfg origin s =
     (case ensure_signed cfg origin of None \<Rightarrow> (Inl BadOrigin, s) | Some who \<Rightarrow> (Inr who, s))"

definition root_origin ::
  "('o, 'a, 'h) pallet_config \<Rightarrow> 'o \<Rightarrow> 's \<Rightarrow> (dispatch_error, unit) result \<times> 's" where
  "root_origin cfg origin s = ensure (ensure_root cfg origin) BadOrigin s"

definition do_something ::
  "('o, 'a, 'h) pallet_config \<Rightarrow> 'o \<Rightarrow> u32 \<Rightarrow> ('a, 'h) storage \<Rightarrow> ('a, 'h) storage dispatch_result" where
  "do_something cfg origin x s =
     and_then (signed_origin cfg origin s) (\<lambda>who s.
       let s1 = s\<lparr>something := Some x\<rparr>
       in (Inr (), deposit_event (SomethingStored x who) s1))"

definition cause_error ::
  "('o, 'a, 'h) pallet_config \<Rightarrow> 'o \<Rightarrow> ('a, 'h) storage \<Rightarrow> ('a, 'h) storage dispatch_result" where
  "cause_error cfg origin s =
     and_then (signed_origin cfg origin s) (\<lambda>_ s.
       case something s of
         None \<Rightarrow> (Inl (Module NoneValue), s)
       | Some old \<Rightarrow>
           (case checked_add old 1 of
              None \<Rightarrow> (Inl (Module StorageOverflow), s)
            | Some new \<Rightarrow> (Inr (), s\<lparr>something := Some new\<rparr>)))"

definition create_election_body ::
  "('o, 'a, 'h) pallet_config \<Rightarrow> 'o \<Rightarrow> u8 list \<Rightarrow> ('a, 'h) storage \<Rightarrow> ('a, 'h) storage dispatch_result" where
  "create_election_body cfg origin desc s =
     and_then (root_origin cfg origin s) (\<lambda>_ s.
     and_then (ensure (word_of_nat (length desc) > ElectionMinBytes cfg)
                 (Module ElectionNotEnoughBytes) s) (\<lambda>_ s.
     and_then (ensure (word_of_nat (length desc) < ElectionMaxBytes cfg)
                 (Module ElectionTooManyBytes) s) (\<lambda>_ s.
       let election = \<lparr>description = desc, is_open = True\<rparr>;
           election_id = hash_of_election cfg election;
           s1 = s\<lparr>elections := map_insert (elections s) election_id election\<rparr>;
           s2 = s1\<lparr>election_candidates := map_insert (election_candidates s1) election_id []\<rparr>;
           s3 = s2\<lparr>election_votes := map_insert (election_votes s2) election_id []\<rparr>
       in (Inr (), deposit_event (ElectionStored desc election_id) s3))))"

definition create_election ::
  "('o, 'a, 'h) pallet_config \<Rightarrow> 'o \<Rightarrow> u8 list \<Rightarrow> ('a, 'h) storage \<Rightarrow> ('a, 'h) storage dispatch_result" where
  "create_election cfg origin desc = transactional (create_election_body cfg origin desc)"

definition close_election ::
  "('o, 'a, 'h) pallet_config \<Rightarrow> 'o \<Rightarrow> 'h \<Rightarrow> ('a, 'h) storage \<Rightarrow> ('a, 'h) storage dispatch_result" where
  "close_election cfg origin election_id s =
     and_then (root_origin cfg origin s) (\<lambda>_ s.
     and_then (map_err (Module ElectionNotFound)
       (mutate_elections election_id (\<lambda>e. case e of
            None \<Rightarrow> (Inl (), None)
          | Some election \<Rightarrow>
              if is_open election then (Inr (), Some (election\<lparr>is_open := False\<rparr>))
              else (Inl (), Some election)) s)) (\<lambda>_ s.
       (Inr (), deposit_event (ElectionUpdated False election_id) s)))"

definition create_candidate ::
  "('o, 'a, 'h) pallet_config \<Rightarrow> 'o \<Rightarrow> u8 list \<Rightarrow> 'h \<Rightarrow> ('a, 'h) storage \<Rightarrow>
   ('a, 'h) storage dispatch_result" where
  "create_candidate cfg origin name election_id s =
     and_then (root_origin cfg origin s) (\<lambda>_ s.
     and_then (ensure (word_of_nat (length name) > CandidateMinBytes cfg)
                 (Module CandidateNotEnoughBytes) s) (\<lambda>_ s.
     and_then (ensure (word_of_nat (length name) < CandidateMaxBytes cfg)
                 (Module CandidateTooManyBytes) s) (\<lambda>_ s.
       let candidate = \<lparr>candidate_name = name, c_election_id = election_id\<rparr>;
           cid = hash_of_candidate cfg candidate
       in and_then (map_err (Module ElectionNotFound)
            (mutate_election_candidates election_id (\<lambda>cs s. case cs of
                 None \<Rightarrow> (Inl (), None, s)
               | Some vec \<Rightarrow>
                   let s1 = s\<lparr>candidates := map_insert (candidates s) cid candidate\<rparr>;
                       s2 = s1\<lparr>candidate_votes := map_insert (candidate_votes s1) cid []\<rparr>
                   in (Inr (), Some (vec @ [candidate]), s2)) s)) (\<lambda>_ s.
          (Inr (), deposit_event (CandidateStored name cid) s)))))"

text \<open>The loop of \<open>create_vote\<close> over the stored votes, with its flag.\<close>

definition vote_exists :: "'a \<Rightarrow> ('a, 'h) vote list \<Rightarrow> bool" where
  "vote_exists vote_author vec = fold (\<lambda>x b. if author x = vote_author then True else b) vec False"

definition create_vote ::
  "('o, 'a, 'h) pallet_config \<Rightarrow> 'o \<Rightarrow> 'h \<Rightarrow> 'h \<Rightarrow> ('a, 'h) storage \<Rightarrow>
   ('a, 'h) storage dispatch_result" where
  "create_vote cfg origin cid election_id s =
     and_then (signed_origin cfg origin s) (\<lambda>vote_author s.
       let vote = \<lparr>candidate_id = cid, v_election_id = election_id, author = vote_author\<rparr>
       in and_then (map_err (Module ElectionNotFound)
            (mutate_elections election_id (\<lambda>e. case e of
                 None \<Rightarrow> (Inl (), None)
               | Some election \<Rightarrow>
                   if is_open election then (Inr (), Some election) else (Inl (), Some election)) s))
         (\<lambda>_ s. and_then (map_err (Module ElectionNotFound)
            (mutate_election_votes election_id (\<lambda>vs. case vs of
                 None \<Rightarrow> (Inl (), None)
               | Some vec \<Rightarrow>
                   if vote_exists vote_author vec then (Inl (), Some vec)
                   else (Inr (), Some (vec @ [vote]))) s))
         (\<lambda>_ s. and_then (map_err (Module CandidateNotFound)
            (mutate_candidate_votes cid (\<lambda>vs. case vs of
                 None \<Rightarrow> (Inl (), None)
               | Some vec \<Rightarrow> (Inr (), Some (vec @ [vote]))) s))
         (\<lambda>_ s. (Inr (), deposit_event (VoteStored election_id cid) s)))))"

section \<open>Calls\<close>

datatype 'h call =
    DoSomething u32
  | CauseError
  | CreateElection "u8 list"
  | CloseElection 'h
  | CreateCandidate "u8 list" 'h
  | CreateVote 'h 'h

fun dispatch ::
  "('o, 'a, 'h) pallet_config \<Rightarrow> 'o \<Rightarrow> 'h call \<Rightarrow> ('a, 'h) storage \<Rightarrow> ('a, 'h) storage dispatch_result" where
  "dispatch cfg origin (DoSomething x) s = do_something cfg origin x s"
| "dispatch cfg origin CauseError s = cause_error cfg origin s"
| "dispatch cfg origin (CreateElection d) s = create_election cfg origin d s"
| "dispatch cfg origin (CloseElection e) s = close_election cfg origin e s"
| "dispatch cfg origin (CreateCandidate n e) s = create_candidate cfg origin n e s"
| "dispatch cfg origin (CreateVote c e) s = create_vote cfg origin c e s"

text \<open>
  The weights the pallet declares, with the database weights of the runtime
  (\<open>T::DbWeight::get().writes(n)\<close> and \<open>reads_writes(r, w)\<close>) as parameters.
\<close>

definition do_something_weight :: "(u64 \<Rightarrow> u64) \<Rightarrow> u64" where
  "do_something_weight db_writes = 10000 + db_writes 1"

definition cause_error_weight :: "(u64 \<Rightarrow> u64 \<Rightarrow> u64) \<Rightarrow> u64" where
  "cause_error_weight db_reads_writes = 10000 + db_reads_writes 1 1"

definition create_election_weight :: u64 where "create_election_weight = 10000"
definition close_election_weight :: u64 where "close_election_weight = 5000"
definition create_candidate_weight :: u64 where "create_candidate_weight = 5000"
definition create_vote_weight :: u64 where "create_vote_weight = 5000"

fun call_weight :: "(u64 \<Rightarrow> u64) \<Rightarrow> (u64 \<Rightarrow> u64 \<Rightarrow> u64) \<Rightarrow> 'h call \<Rightarrow> u64" where
  "call_weight db_writes db_reads_writes (DoSomething x) = do_something_weight db_writes"
| "call_weight db_writes db_reads_writes CauseError = cause_error_weight db_reads_writes"
| "call_weight db_writes db_reads_writes (CreateElection d) = create_election_weight"
| "call_weight db_writes db_reads_writes (CloseElection e) = close_election_weight"
| "call_weight db_writes db_reads_writes (CreateCandidate n e) = create_candidate_weight"
| "call_weight db_writes db_reads_writes (CreateVote c e) = create_vote_weight"

section \<open>The functions, branch by branch\<close>

lemma vote_exists_iff: "vote_exists who vec \<longleftrightarrow> who \<in> author ` set vec"
  by (auto simp: vote_exists_def fold_flag)

lemma do_something_eq:
  "do_something cfg origin x s =
    (case ensure_signed cfg origin of
       None \<Rightarrow> (Inl BadOrigin, s)
     | Some who \<Rightarrow> (Inr (), s\<lparr>something := Some x, events := events s @ [SomethingStored x who]\<rparr>))"
  by (simp add: do_something_def signed_origin_def deposit_event_def Let_def split: option.splits)

lemma cause_error_eq:
  "cause_error cfg origin s =
    (case ensure_signed cfg origin of
       None \<Rightarrow> (Inl BadOrigin, s)
     | Some who \<Rightarrow>
        (case something s of
           None \<Rightarrow> (Inl (Module NoneValue), s)
         | Some old \<Rightarrow>
            (if unat old = 2 ^ 32 - 1 then (Inl (Module StorageOverflow), s)
             else (Inr (), s\<lparr>something := Some (old + 1)\<rparr>))))"
proof -
  have "checked_add old 1 = (if unat old = 2 ^ 32 - 1 then None else Some (old + 1))" for old :: u32
    using unsigned_less [of old, where 'a = nat] by (auto simp: checked_add_def)
  then show ?thesis
    by (simp add: cause_error_def signed_origin_def split: option.splits)
qed

lemma create_election_eq:
  "create_election cfg origin desc s =
    (if \<not> ensure_root cfg origin then (Inl BadOrigin, s)
     else if \<not> ElectionMinBytes cfg < word_of_nat (length desc) then (Inl (Module ElectionNotEnoughBytes), s)
     else if \<not> word_of_nat (length desc) < ElectionMaxBytes cfg then (Inl (Module ElectionTooManyBytes), s)
     else let e = \<lparr>description = desc, is_open = True\<rparr>; k = hash_of_election cfg e in
       (Inr (), s\<lparr>elections := (elections s)(k \<mapsto> e),
          election_candidates := (election_candidates s)(k \<mapsto> []),
          election_votes := (election_votes s)(k \<mapsto> []),
          events := events s @ [ElectionStored desc k]\<rparr>))"
  by (simp add: create_election_def create_election_body_def transactional_def root_origin_def
      ensure_def deposit_event_def map_insert_def Let_def)

lemma close_election_eq:
  "close_election cfg origin k s =
    (if \<not> ensure_root cfg origin then (Inl BadOrigin, s)
     else case elections s k of
       None \<Rightarrow> (Inl (Module ElectionNotFound), s)
     | Some e \<Rightarrow>
        (if is_open e
         then (Inr (), s\<lparr>elections := (elections s)(k \<mapsto> e\<lparr>is_open := False\<rparr>),
                 events := events s @ [ElectionUpdated False k]\<rparr>)
         else (Inl (Module ElectionNotFound), s)))"
  by (auto simp: close_election_def root_origin_def ensure_def mutate_elections_def map_mutate_def
      deposit_event_def map_upd_same split: option.splits)

lemma create_candidate_eq:
  "create_candidate cfg origin name e s =
    (if \<not> ensure_root cfg origin then (Inl BadOrigin, s)
     else if \<not> CandidateMinBytes cfg < word_of_nat (length name) then (Inl (Module CandidateNotEnoughBytes), s)
     else if \<not> word_of_nat (length name) < CandidateMaxBytes cfg then (Inl (Module CandidateTooManyBytes), s)
     else case election_candidates s e of
       None \<Rightarrow> (Inl (Module ElectionNotFound), s)
     | Some cs \<Rightarrow>
        (let c = \<lparr>candidate_name = name, c_election_id = e\<rparr>; k = hash_of_candidate cfg c in
         (Inr (), s\<lparr>election_candidates := (election_candidates s)(e \<mapsto> cs @ [c]),
            candidates := (candidates s)(k \<mapsto> c),
            candidate_votes := (candidate_votes s)(k \<mapsto> []),
            events := events s @ [CandidateStored name k]\<rparr>)))"
  by (auto simp: create_candidate_def root_origin_def ensure_def mutate_election_candidates_def
      deposit_event_def map_insert_def map_upd_same Let_def split: option.splits)

lemma create_vote_eq:
  "create_vote cfg origin c e s =
    (case ensure_signed cfg origin of
       None \<Rightarrow> (Inl BadOrigin, s)
     | Some who \<Rightarrow>
        (case elections s e of
           None \<Rightarrow> (Inl (Module ElectionNotFound), s)
         | Some el \<Rightarrow>
            (if \<not> is_open el then (Inl (Module ElectionNotFound), s)
             else case election_votes s e of
               None \<Rightarrow> (Inl (Module ElectionNotFound), s)
             | Some vs \<Rightarrow>
                (if who \<in> author ` set vs then (Inl (Module ElectionNotFound), s)
                 else let v = \<lparr>candidate_id = c, v_election_id = e, author = who\<rparr>;
                          s1 = s\<lparr>election_votes := (election_votes s)(e \<mapsto> vs @ [v])\<rparr> in
                   (case candidate_votes s c of
                      None \<Rightarrow> (Inl (Module CandidateNotFound), s1)
                    | Some cv \<Rightarrow>
                        (Inr (), s1\<lparr>candidate_votes := (candidate_votes s)(c \<mapsto> cv @ [v]),
                           events := events s @ [VoteStored e c]\<rparr>))))))"
  by (auto simp: create_vote_def signed_origin_def mutate_elections_def mutate_election_votes_def
      mutate_candidate_votes_def map_mutate_def deposit_event_def map_upd_same vote_exists_iff Let_def
      split: option.splits)

lemmas handler_eqs =
  do_something_eq cause_error_eq create_election_eq close_election_eq create_candidate_eq create_vote_eq

end
