(* ===== verification/Votechain_Runs.thy ===== *)
theory Votechain_Runs
  imports Votechain_Invariants
begin

text \<open>
  What whole runs of calls preserve. \<open>keeps_elections\<close> and \<open>keeps_candidates\<close> say that a call
  does not create again an election or a candidate that is stored already (a second
  \<open>create_election\<close> with the same description, or \<open>create_candidate\<close> with the same name for the
  same election, replaces the entries of the first). Under \<open>keeps_elections\<close> the election
  side of the storage only grows and a closed election is frozen (\<open>election_order\<close>); the votes
  filed under candidates are the last of those filed under the election (\<open>tally_suffix\<close>), and the two
  agree exactly (\<open>tally_exact\<close>) when no call fails after its first write.
\<close>

section \<open>Calls that create nothing again\<close>

definition keeps_elections ::
  "('o, 'a, 'h) pallet_config \<Rightarrow> 'o \<times> 'h call \<Rightarrow> ('a, 'h) storage \<Rightarrow> bool" where
  "keeps_elections cfg oc s =
     (case snd oc of
        CreateElection d \<Rightarrow> elections s (hash_of_election cfg \<lparr>description = d, is_open = True\<rparr>) = None
      | _ \<Rightarrow> True)"

definition keeps_candidates ::
  "('o, 'a, 'h) pallet_config \<Rightarrow> 'o \<times> 'h call \<Rightarrow> ('a, 'h) storage \<Rightarrow> bool" where
  "keeps_candidates cfg oc s =
     (case snd oc of
        CreateCandidate n e \<Rightarrow>
          candidates s (hash_of_candidate cfg \<lparr>candidate_name = n, c_election_id = e\<rparr>) = None
      | _ \<Rightarrow> True)"

definition votes_for_known :: "'o \<times> 'h call \<Rightarrow> ('a, 'h) storage \<Rightarrow> bool" where
  "votes_for_known oc s = (case snd oc of CreateVote c e \<Rightarrow> candidates s c \<noteq> None | _ \<Rightarrow> True)"

lemma keeps_simps [simp]:
  "keeps_elections cfg (origin, CreateElection d) s \<longleftrightarrow>
     elections s (hash_of_election cfg \<lparr>description = d, is_open = True\<rparr>) = None"
  "keeps_candidates cfg (origin, CreateCandidate n e) s \<longleftrightarrow>
     candidates s (hash_of_candidate cfg \<lparr>candidate_name = n, c_election_id = e\<rparr>) = None"
  "votes_for_known (origin, CreateVote c e) s \<longleftrightarrow> candidates s c \<noteq> None"
  by (simp_all add: keeps_elections_def keeps_candidates_def votes_for_known_def)

section \<open>The order on storages\<close>

text \<open>
  \<open>t\<close> comes after \<open>s\<close>: every election of \<open>s\<close> is still there with its description, its votes
  are those of \<open>s\<close> followed by newer ones, and it is not open if it was closed in \<open>s\<close>, with
  exactly the votes it had then.
\<close>

definition votes_of :: "('a, 'h) storage \<Rightarrow> 'h \<Rightarrow> ('a, 'h) vote list" where
  "votes_of s e = (case election_votes s e of None \<Rightarrow> [] | Some vs \<Rightarrow> vs)"

definition ballots_for :: "('a, 'h) storage \<Rightarrow> 'h \<Rightarrow> ('a, 'h) vote list" where
  "ballots_for s c = (case candidate_votes s c of None \<Rightarrow> [] | Some vs \<Rightarrow> vs)"

definition closed_in :: "('a, 'h) storage \<Rightarrow> 'h \<Rightarrow> bool" where
  "closed_in s e = (case elections s e of None \<Rightarrow> False | Some el \<Rightarrow> \<not> is_open el)"

definition election_order :: "('a, 'h) storage \<Rightarrow> ('a, 'h) storage \<Rightarrow> bool" where
  "election_order s t \<longleftrightarrow>
     (\<forall>e el. elections s e = Some el \<longrightarrow>
        (\<exists>el'. elections t e = Some el' \<and> description el' = description el)) \<and>
     (\<forall>e. prefix (votes_of s e) (votes_of t e)) \<and>
     (\<forall>e. closed_in s e \<longrightarrow> closed_in t e \<and> votes_of t e = votes_of s e) \<and>
     prefix (events s) (events t)"

lemma election_order_refl: "election_order s s"
  by (simp add: election_order_def)

lemma election_order_trans: "election_order s t \<Longrightarrow> election_order t u \<Longrightarrow> election_order s u"
  unfolding election_order_def by (metis prefix_order.trans)

lemma election_order_votes: "election_order s t \<Longrightarrow> v \<in> set (votes_of s e) \<Longrightarrow> v \<in> set (votes_of t e)"
  unfolding election_order_def by (meson set_mono_prefix subsetD)

lemma election_order_closed:
  "election_order s t \<Longrightarrow> closed_in s e \<Longrightarrow> closed_in t e \<and> votes_of t e = votes_of s e"
  by (simp add: election_order_def)

lemma effect_election_order:
  assumes "effect cfg origin call s s'" "well_formed cfg s" "keeps_elections cfg (origin, call) s"
  shows "election_order s s'"
  using assms(1)
proof cases
  case (eff_create_election el d k evs)
  have "election_votes s k = None"
    using well_formed_None_iff [OF assms(2)] assms(3) eff_create_election by simp
  then show ?thesis
    using assms eff_create_election by (auto simp: election_order_def votes_of_def closed_in_def)
qed (auto simp: election_order_def votes_of_def closed_in_def)

lemma apply_call_election_order:
  "well_formed cfg s \<Longrightarrow> keeps_elections cfg oc s \<Longrightarrow> election_order s (apply_call cfg oc s)"
  using effect_election_order [OF apply_call_effect] by (cases oc) fastforce

interpretation growing_pallet:
  monotone_machine "apply_call cfg" "keeps_elections cfg" "well_formed cfg" election_order
  for cfg :: "('o, 'a, 'h) pallet_config"
proof unfold_locales
  fix s :: "('a, 'h) storage" and oc :: "'o \<times> 'h call"
  assume "well_formed cfg s" "keeps_elections cfg oc s"
  then show "well_formed cfg (apply_call cfg oc s)"
    by (simp add: well_formed_effect [OF apply_call_effect])
qed (auto intro: election_order_refl election_order_trans apply_call_election_order)

section \<open>The two copies of a vote\<close>

definition tally_suffix :: "('a, 'h) storage \<Rightarrow> bool" where
  "tally_suffix s \<longleftrightarrow> (\<forall>e c. suffix (filter (\<lambda>v. v_election_id v = e) (ballots_for s c))
                               (filter (\<lambda>v. candidate_id v = c) (votes_of s e)))"

definition tally_exact :: "('a, 'h) storage \<Rightarrow> bool" where
  "tally_exact s \<longleftrightarrow> (\<forall>e c. filter (\<lambda>v. v_election_id v = e) (ballots_for s c) =
                              filter (\<lambda>v. candidate_id v = c) (votes_of s e))"

lemma votes_of_empty [simp]: "votes_of empty_storage e = []"
  by (simp add: votes_of_def empty_storage_def)

lemma ballots_for_empty [simp]: "ballots_for empty_storage c = []"
  by (simp add: ballots_for_def empty_storage_def)

text \<open>How \<open>votes_of\<close> and \<open>ballots_for\<close> see each effect.\<close>

lemma effect_tallies:
  assumes "effect cfg origin call s s'" "well_formed cfg s" "keeps_elections cfg (origin, call) s"
  obtains
    "votes_of s' = votes_of s" "ballots_for s' = ballots_for s"
  | n e where "call = CreateCandidate n e" "votes_of s' = votes_of s"
      "ballots_for s' = (ballots_for s)
         (hash_of_candidate cfg \<lparr>candidate_name = n, c_election_id = e\<rparr> := [])"
  | c e who where "call = CreateVote c e" "candidates s c = None"
      "votes_of s' = (votes_of s)
         (e := votes_of s e @ [\<lparr>candidate_id = c, v_election_id = e, author = who\<rparr>])"
      "ballots_for s' = ballots_for s"
  | c e who where "call = CreateVote c e" "candidates s c \<noteq> None"
      "votes_of s' = (votes_of s)
         (e := votes_of s e @ [\<lparr>candidate_id = c, v_election_id = e, author = who\<rparr>])"
      "ballots_for s' = (ballots_for s)
         (c := ballots_for s c @ [\<lparr>candidate_id = c, v_election_id = e, author = who\<rparr>])"
  using assms(1)
proof cases
  case eff_none
  then show ?thesis using that(1) by simp
next
  case eff_something
  then show ?thesis using that(1) by (simp add: votes_of_def ballots_for_def fun_eq_iff)
next
  case (eff_create_election el d k)
  then have "election_votes s k = None"
    using well_formed_None_iff [OF assms(2)] assms(3) by simp
  then show ?thesis
    using that(1) eff_create_election by (simp add: votes_of_def ballots_for_def fun_eq_iff)
next
  case eff_close_election
  then show ?thesis using that(1) by (simp add: votes_of_def ballots_for_def fun_eq_iff)
next
  case eff_create_candidate
  then show ?thesis using that(2) by (simp add: votes_of_def ballots_for_def fun_eq_iff)
next
  case (eff_orphan_vote who e el vs c v)
  moreover from this have "candidates s c = None"
    using well_formed_None_iff [OF assms(2)] by (metis option.distinct(1))
  ultimately show ?thesis
    by (intro that(3) [of c e who]) (simp_all add: votes_of_def ballots_for_def fun_eq_iff)
next
  case (eff_vote who e el vs c cv v)
  moreover from this have "candidates s c \<noteq> None"
    using well_formed_None_iff [OF assms(2)] by (metis option.distinct(1))
  ultimately show ?thesis
    by (intro that(4) [of c e who]) (simp_all add: votes_of_def ballots_for_def fun_eq_iff)
qed

lemma tally_suffix_effect:
  assumes "effect cfg origin call s s'" "well_formed cfg s" "keeps_elections cfg (origin, call) s"
    and "tally_suffix s"
  shows "tally_suffix s'"
  using assms(1-3)
proof (cases rule: effect_tallies)
  case (3 c e who)
  have "candidate_votes s c = None"
    using 3(2) well_formed_None_iff [OF assms(2)] by simp
  then have "ballots_for s c = []"
    by (simp add: ballots_for_def)
  then show ?thesis
    using 3 assms(4) by (auto simp: tally_suffix_def)
qed (use assms(4) in \<open>auto simp: tally_suffix_def suffix_snoc_same\<close>)

lemma tally_exact_effect:
  assumes "effect cfg origin call s s'" "well_formed cfg s" "keeps_elections cfg (origin, call) s"
    and "keeps_candidates cfg (origin, call) s" "votes_for_known (origin, call) s" "tally_exact s"
  shows "tally_exact s'"
  using assms(1-3)
proof (cases rule: effect_tallies)
  case (2 n e)
  let ?k = "hash_of_candidate cfg \<lparr>candidate_name = n, c_election_id = e\<rparr>"
  have "candidate_votes s ?k = None"
    using 2(1) assms(4) well_formed_None_iff [OF assms(2)] by simp
  then have "(ballots_for s)(?k := []) = ballots_for s"
    by (simp add: ballots_for_def fun_eq_iff)
  then show ?thesis
    using 2 assms(6) by (simp add: tally_exact_def)
qed (use assms(5,6) in \<open>auto simp: tally_exact_def\<close>)

interpretation suffix_pallet:
  invariant_machine "apply_call cfg" "keeps_elections cfg" "\<lambda>s. well_formed cfg s \<and> tally_suffix s"
  for cfg :: "('o, 'a, 'h) pallet_config"
  by unfold_locales
    (auto intro: growing_pallet.step_inv tally_suffix_effect [OF apply_call_effect])

interpretation exact_pallet:
  invariant_machine "apply_call cfg"
    "\<lambda>oc s. keeps_elections cfg oc s \<and> keeps_candidates cfg oc s \<and> votes_for_known oc s"
    "\<lambda>s. well_formed cfg s \<and> tally_exact s"
  for cfg :: "('o, 'a, 'h) pallet_config"
  by unfold_locales
    (auto intro: growing_pallet.step_inv tally_exact_effect [OF apply_call_effect])

end
