(* ===== verification/Votechain_Ballot.thy ===== *)
theory Votechain_Ballot
  imports Votechain_Runs
begin

text \<open>
  What the voting pallet promises, without its storage layout: a set of ballots, each open or
  closed with the roll of those who voted and for whom. \<open>pallet_refines_ballot\<close> shows that the
  dispatchables of the pallet implement these ballots.
\<close>

section \<open>Ballots\<close>

type_synonym ('a, 'h) ballots = "'h \<rightharpoonup> bool \<times> ('a \<times> 'h) list"

datatype ('a, 'h) ballot_command = Open_ballot 'h | Close_ballot 'h | Cast 'a 'h 'h | Stay

text \<open>The first component tells whether the operation was accepted.\<close>

fun ballot_op :: "('a, 'h) ballot_command \<Rightarrow> ('a, 'h) ballots \<Rightarrow> bool \<times> ('a, 'h) ballots" where
  "ballot_op (Open_ballot k) b = (True, b(k \<mapsto> (True, [])))"
| "ballot_op (Close_ballot k) b =
     (case b k of Some (True, roll) \<Rightarrow> (True, b(k \<mapsto> (False, roll))) | _ \<Rightarrow> (False, b))"
| "ballot_op (Cast who c k) b =
     (case b k of
        Some (True, roll) \<Rightarrow>
          if who \<in> fst ` set roll then (False, b) else (True, b(k \<mapsto> (True, roll @ [(who, c)])))
      | _ \<Rightarrow> (False, b))"
| "ballot_op Stay b = (True, b)"

definition ballot_step :: "('a, 'h) ballot_command \<Rightarrow> ('a, 'h) ballots \<Rightarrow> ('a, 'h) ballots" where
  "ballot_step op b = snd (ballot_op op b)"

section \<open>The ballots of a storage\<close>

definition roll_of :: "('a, 'h) vote list \<Rightarrow> ('a \<times> 'h) list" where
  "roll_of vs = map (\<lambda>v. (author v, candidate_id v)) vs"

definition ballots_of :: "('a, 'h) storage \<Rightarrow> ('a, 'h) ballots" where
  "ballots_of s k = map_option (\<lambda>el. (is_open el, roll_of (votes_of s k))) (elections s k)"

text \<open>The ballot operation that a call stands for, by its origin and its arguments.\<close>

definition op_of_call :: "('o, 'a, 'h) pallet_config \<Rightarrow> 'o \<times> 'h call \<Rightarrow> ('a, 'h) ballot_command" where
  "op_of_call cfg oc =
     (case snd oc of
        CreateElection d \<Rightarrow>
          if ensure_root cfg (fst oc) \<and> ElectionMinBytes cfg < word_of_nat (length d) \<and>
             word_of_nat (length d) < ElectionMaxBytes cfg
          then Open_ballot (hash_of_election cfg \<lparr>description = d, is_open = True\<rparr>) else Stay
      | CloseElection k \<Rightarrow> if ensure_root cfg (fst oc) then Close_ballot k else Stay
      | CreateVote c k \<Rightarrow>
          (case ensure_signed cfg (fst oc) of Some who \<Rightarrow> Cast who c k | None \<Rightarrow> Stay)
      | _ \<Rightarrow> Stay)"

lemma roll_of_simps [simp]:
  "roll_of [] = []" "roll_of (vs @ [v]) = roll_of vs @ [(author v, candidate_id v)]"
  "fst ` set (roll_of vs) = author ` set vs"
  by (auto simp: roll_of_def image_image)

lemma ballots_of_empty: "ballots_of empty_storage = Map.empty"
  by (simp add: ballots_of_def empty_storage_def fun_eq_iff)

lemma ballots_of_cong:
  "elections s' = elections s \<Longrightarrow> election_votes s' = election_votes s \<Longrightarrow> ballots_of s' = ballots_of s"
  by (simp add: ballots_of_def votes_of_def fun_eq_iff)

lemma ballots_of_vote:
  assumes "elections s k = Some el" "election_votes s k = Some vs"
    and "elections s' = elections s" "election_votes s' = (election_votes s)(k \<mapsto> vs @ [v])"
  shows "ballots_of s' = (ballots_of s)(k \<mapsto> (is_open el, roll_of vs @ [(author v, candidate_id v)]))"
  using assms by (simp add: ballots_of_def votes_of_def fun_eq_iff)

lemma create_vote_refines:
  assumes "well_formed cfg s" "ensure_signed cfg origin = Some who"
  shows "ballots_of (snd (create_vote cfg origin c k s)) = ballot_step (Cast who c k) (ballots_of s)
    \<and> (fst (ballot_op (Cast who c k) (ballots_of s)) \<longleftrightarrow>
           fst (create_vote cfg origin c k s) \<in> {Inr (), Inl (Module CandidateNotFound)})"
proof (cases "elections s k")
  case None
  then show ?thesis
    using assms(2) by (simp add: create_vote_eq ballot_step_def ballots_of_def)
next
  case (Some el)
  then obtain vs where vs: "election_votes s k = Some vs"
    using well_formed_None_iff(2) [OF assms(1)] by (metis not_None_eq)
  have ballot: "ballots_of s k = Some (is_open el, roll_of vs)"
    using Some vs by (simp add: ballots_of_def votes_of_def)
  show ?thesis
  proof (cases "is_open el \<and> who \<notin> author ` set vs")
    case True
    then show ?thesis
      using assms(2) Some vs ballot
      by (cases "candidate_votes s c")
        (simp_all add: create_vote_eq ballot_step_def Let_def ballots_of_vote [OF Some vs])
  next
    case False
    then show ?thesis
      using assms(2) Some vs ballot by (auto simp: create_vote_eq ballot_step_def Let_def)
  qed
qed

lemma close_election_refines:
  assumes "ensure_root cfg origin"
  shows "ballots_of (snd (close_election cfg origin k s)) = ballot_step (Close_ballot k) (ballots_of s)"
proof (cases "elections s k")
  case None
  then show ?thesis
    using assms by (simp add: close_election_eq ballot_step_def ballots_of_def)
next
  case (Some el)
  then show ?thesis
    using assms
    by (cases "is_open el") (simp_all add: close_election_eq ballot_step_def ballots_of_def
        votes_of_def fun_eq_iff)
qed

lemma ballot_step_Stay [simp]: "ballot_step Stay b = b"
  by (simp add: ballot_step_def)

lemma create_election_refines:
  "ballots_of (snd (create_election cfg origin d s)) =
   ballot_step (op_of_call cfg (origin, CreateElection d)) (ballots_of s)"
  by (simp add: create_election_eq op_of_call_def ballot_step_def Let_def)
    (simp add: ballots_of_def votes_of_def fun_eq_iff)

lemma create_candidate_refines:
  "ballots_of (snd (create_candidate cfg origin n e s)) = ballots_of s"
  by (rule ballots_of_cong) (simp_all add: create_candidate_eq Let_def split: option.split)

lemma counter_refines:
  "ballots_of (snd (do_something cfg origin x s)) = ballots_of s"
  "ballots_of (snd (cause_error cfg origin s)) = ballots_of s"
  by (rule ballots_of_cong; simp add: do_something_eq cause_error_eq split: option.split)+

lemma apply_call_refines:
  assumes "well_formed cfg s"
  shows "ballots_of (apply_call cfg oc s) = ballot_step (op_of_call cfg oc) (ballots_of s)"
proof (cases oc)
  case (Pair origin call)
  show ?thesis
  proof (cases call)
    case (CreateVote c k)
    with Pair create_vote_refines [OF assms, of origin] show ?thesis
      by (cases "ensure_signed cfg origin")
        (simp_all add: apply_call_def op_of_call_def create_vote_eq)
  next
    case (CloseElection k)
    show ?thesis
    proof (cases "ensure_root cfg origin")
      case True
      with Pair CloseElection close_election_refines [OF True] show ?thesis
        by (simp add: apply_call_def op_of_call_def)
    next
      case False
      with Pair CloseElection show ?thesis
        by (simp add: apply_call_def op_of_call_def close_election_eq)
    qed
  next
    case (CreateElection d)
    with Pair show ?thesis
      by (simp add: apply_call_def create_election_refines)
  qed (simp_all add: Pair apply_call_def op_of_call_def create_candidate_refines counter_refines)
qed

interpretation ballot_pallet:
  refined_machine "apply_call cfg" "\<lambda>_ _. True" "well_formed cfg" ballots_of "op_of_call cfg" ballot_step
  for cfg :: "('o, 'a, 'h) pallet_config"
  by unfold_locales (rule apply_call_refines)

end
