(* ===== verification/Votechain_Properties.thy ===== *)
theory Votechain_Properties
  imports Votechain_Ballot "HOL-Library.Multiset"
begin

text \<open>
  The properties of the voting pallet, each with an instance at a concrete storage. The
  instances use \<open>demo_config\<close>: an origin is \<open>None\<close> for root and \<open>Some who\<close> for a signed
  origin, and the two hash functions are concrete functions of the lengths.
\<close>

section \<open>A concrete instance\<close>

definition demo_config :: "(nat option, nat, nat) pallet_config" where
  "demo_config = \<lparr>ElectionMinBytes = 8, ElectionMaxBytes = 4096, CandidateMinBytes = 8,
     CandidateMaxBytes = 4096, ensure_signed = (\<lambda>origin. origin), ensure_root = (\<lambda>origin. origin = None),
     hash_of_election = (\<lambda>el. length (description el)),
     hash_of_candidate = (\<lambda>c. 100 + length (candidate_name c))\<rparr>"

definition demo_text :: "u8 list" where "demo_text = [1, 2, 3, 4, 5, 6, 7, 8, 9]"

text \<open>Election 9 with candidate 109, and one vote of author 1.\<close>

definition demo_setup :: "(nat, nat) storage" where
  "demo_setup = fold (apply_call demo_config)
     [(None, CreateElection demo_text), (None, CreateCandidate demo_text 9)] empty_storage"

definition demo_voted :: "(nat, nat) storage" where
  "demo_voted = apply_call demo_config (Some 1, CreateVote 109 9) demo_setup"

definition demo_closed :: "(nat, nat) storage" where
  "demo_closed = apply_call demo_config (None, CloseElection 9) demo_voted"

definition demo_vote :: "nat \<Rightarrow> (nat, nat) vote" where
  "demo_vote who = \<lparr>candidate_id = 109, v_election_id = 9, author = who\<rparr>"

lemma demo_config_simps [simp]:
  "ElectionMinBytes demo_config = 8" "ElectionMaxBytes demo_config = 4096"
  "CandidateMinBytes demo_config = 8" "CandidateMaxBytes demo_config = 4096"
  "ensure_signed demo_config origin = origin" "ensure_root demo_config origin \<longleftrightarrow> origin = None"
  "hash_of_election demo_config el = length (description el)"
  "hash_of_candidate demo_config c = 100 + length (candidate_name c)"
  by (simp_all add: demo_config_def)

lemma length_demo_text [simp]: "length demo_text = 9"
  by (simp add: demo_text_def)

lemma demo_setup_eq:
  "demo_setup = \<lparr>something = None, elections = [9 \<mapsto> \<lparr>description = demo_text, is_open = True\<rparr>],
     election_candidates = [9 \<mapsto> [\<lparr>candidate_name = demo_text, c_election_id = 9\<rparr>]],
     election_votes = [9 \<mapsto> []], candidates = [109 \<mapsto> \<lparr>candidate_name = demo_text, c_election_id = 9\<rparr>],
     candidate_votes = [109 \<mapsto> []],
     events = [ElectionStored demo_text 9, CandidateStored demo_text 109]\<rparr>"
  by (simp add: demo_setup_def apply_call_def create_election_eq create_candidate_eq Let_def
      empty_storage_def)

lemma demo_voted_eq:
  "demo_voted = demo_setup\<lparr>election_votes := [9 \<mapsto> [demo_vote 1]],
     candidate_votes := [109 \<mapsto> [demo_vote 1]], events := events demo_setup @ [VoteStored 9 109]\<rparr>"
  by (simp add: demo_voted_def apply_call_def create_vote_eq Let_def demo_setup_eq demo_vote_def)

lemma demo_closed_eq:
  "demo_closed = demo_voted\<lparr>elections := [9 \<mapsto> \<lparr>description = demo_text, is_open = False\<rparr>],
     events := events demo_voted @ [ElectionUpdated False 9]\<rparr>"
  by (simp add: demo_closed_def apply_call_def close_election_eq demo_voted_eq demo_setup_eq)

lemma demo_reachable:
  "reachable demo_config demo_setup" "reachable demo_config demo_voted" "reachable demo_config demo_closed"
  unfolding demo_closed_def demo_voted_def demo_setup_def
  by (intro after_call reachable_run genesis)+

section \<open>One vote per voter\<close>

text \<open>
  C1: in every storage the calls can reach, whatever their order and whether they succeed or
  fail, no two votes of an election have the same author.
\<close>

theorem one_vote_per_author:
  "reachable cfg s \<Longrightarrow> election_votes s e = Some vs \<Longrightarrow> distinct (map author vs)"
  using reachable_well_formed by (auto simp: well_formed_def one_vote_each_def)

theorem one_vote_per_author_witness:
  "reachable demo_config demo_voted \<and> election_votes demo_voted 9 = Some [demo_vote 1] \<and>
   distinct (map author [demo_vote 1])"
  using one_vote_per_author [OF demo_reachable(2), of 9 "[demo_vote 1]"] demo_reachable(2)
  by (simp add: demo_voted_eq)

text \<open>
  C2: \<open>create_vote\<close> succeeds exactly when the origin is signed, the election exists and is
  open, its author has not voted in it and the candidate is registered; then it appends the
  same vote to the votes of the election and to those of the candidate, deposits one event and
  changes nothing else.
\<close>

theorem create_vote_ok_iff:
  "create_vote cfg origin c e s = (Inr (), s') \<longleftrightarrow>
   (\<exists>who el vs cv. ensure_signed cfg origin = Some who \<and> elections s e = Some el \<and> is_open el \<and>
      election_votes s e = Some vs \<and> who \<notin> author ` set vs \<and> candidate_votes s c = Some cv \<and>
      (let v = \<lparr>candidate_id = c, v_election_id = e, author = who\<rparr> in
       s' = s\<lparr>election_votes := (election_votes s)(e \<mapsto> vs @ [v]),
              candidate_votes := (candidate_votes s)(c \<mapsto> cv @ [v]),
              events := events s @ [VoteStored e c]\<rparr>))"
  by (auto simp: create_vote_eq Let_def split: option.splits)

section \<open>Runs\<close>

lemma voter_rejected:
  assumes "well_formed cfg s" "ensure_signed cfg origin = Some who" "who \<in> author ` set (votes_of s e)"
  shows "create_vote cfg origin c e s = (Inl (Module ElectionNotFound), s)"
proof -
  obtain vs where "election_votes s e = Some vs" "who \<in> author ` set vs"
    using assms(3) by (cases "election_votes s e") (auto simp: votes_of_def)
  then show ?thesis
    using assms(2) by (auto simp: create_vote_eq split: option.splits)
qed

text \<open>
  C3: after a successful vote, and after any run of further calls that does not create a stored
  election again, the same account cannot vote in that election for any candidate: the call
  fails with \<open>ElectionNotFound\<close> and changes nothing.
\<close>

theorem no_second_vote:
  assumes "reachable cfg s" "create_vote cfg origin c e s = (Inr (), s1)"
    and "run_ok (apply_call cfg) (keeps_elections cfg) calls s1"
    and "ensure_signed cfg origin' = ensure_signed cfg origin"
  shows "create_vote cfg origin' c' e (fold (apply_call cfg) calls s1) =
           (Inl (Module ElectionNotFound), fold (apply_call cfg) calls s1)"
proof -
  obtain who where who: "ensure_signed cfg origin = Some who" "who \<in> author ` set (votes_of s1 e)"
    using assms(2) by (force simp: create_vote_eq votes_of_def Let_def split: option.splits if_splits)
  have "s1 = apply_call cfg (origin, CreateVote c e) s"
    using assms(2) by (simp add: apply_call_def)
  then have wf: "well_formed cfg s1"
    using assms(1) by (simp add: reachable_well_formed after_call)
  have "who \<in> author ` set (votes_of (fold (apply_call cfg) calls s1) e)"
    using who(2) election_order_votes [OF growing_pallet.run_below [OF wf assms(3)]] by auto
  moreover have "well_formed cfg (fold (apply_call cfg) calls s1)"
    using wf wf_pallet.run_inv by fastforce
  ultimately show ?thesis
    using who(1) assms(4) by (intro voter_rejected) simp_all
qed

theorem no_second_vote_witness:
  "create_vote demo_config (Some 1) 109 9 (fold (apply_call demo_config) [(Some 2, CreateVote 109 9)] demo_voted)
     = (Inl (Module ElectionNotFound), fold (apply_call demo_config) [(Some 2, CreateVote 109 9)] demo_voted)"
proof -
  have "create_vote demo_config (Some 1) 109 9 demo_setup = (Inr (), demo_voted)"
    by (simp add: demo_voted_def apply_call_def demo_setup_eq create_vote_eq Let_def)
  then show ?thesis
    by (rule no_second_vote [OF demo_reachable(1)]) (simp_all add: keeps_elections_def)
qed

text \<open>
  C4: once an election is closed it stays closed and its votes are frozen, over every run that
  does not create a stored election again; a vote in it fails and changes nothing.
\<close>

theorem closed_election_frozen:
  assumes "reachable cfg s" "closed_in s e" "run_ok (apply_call cfg) (keeps_elections cfg) calls s"
  shows "closed_in (fold (apply_call cfg) calls s) e
    \<and> votes_of (fold (apply_call cfg) calls s) e = votes_of s e
    \<and> create_vote cfg origin c e (fold (apply_call cfg) calls s) =
        (Inl (if ensure_signed cfg origin = None then BadOrigin else Module ElectionNotFound),
         fold (apply_call cfg) calls s)"
proof -
  have "closed_in (fold (apply_call cfg) calls s) e
      \<and> votes_of (fold (apply_call cfg) calls s) e = votes_of s e"
    by (rule election_order_closed [OF growing_pallet.run_below
          [OF reachable_well_formed [OF assms(1)] assms(3)] assms(2)])
  then show ?thesis
    by (auto simp: closed_in_def create_vote_eq split: option.splits)
qed

theorem closed_election_frozen_witness:
  "closed_in (fold (apply_call demo_config) [(Some 2, CreateVote 109 9)] demo_closed) 9
   \<and> votes_of (fold (apply_call demo_config) [(Some 2, CreateVote 109 9)] demo_closed) 9 = [demo_vote 1]"
proof -
  have "closed_in demo_closed 9" "votes_of demo_closed 9 = [demo_vote 1]"
    by (simp_all add: closed_in_def votes_of_def demo_closed_eq demo_voted_eq)
  then show ?thesis
    using closed_election_frozen [OF demo_reachable(3), of 9 "[(Some 2, CreateVote 109 9)]"]
    by (simp add: keeps_elections_def)
qed

text \<open>
  C5: every reachable storage is well formed: the maps about elections have the same keys, those
  about candidates too, entries are stored under their own hashes, votes under the election and the
  candidate they name, and every listed candidate is registered.
\<close>

theorem storage_well_formed: "reachable cfg s \<Longrightarrow> well_formed cfg s"
  by (rule reachable_well_formed)

theorem storage_well_formed_witness: "well_formed demo_config demo_voted"
  by (rule storage_well_formed [OF demo_reachable(2)])

text \<open>
  C13: a run that does not create a stored election again only appends: every election keeps its
  description, its votes so far are a prefix of its later votes, and the deposited events are a
  prefix of the later ones.
\<close>

theorem runs_append_only:
  assumes "reachable cfg s" "run_ok (apply_call cfg) (keeps_elections cfg) calls s"
  shows "prefix (votes_of s e) (votes_of (fold (apply_call cfg) calls s) e)
    \<and> prefix (events s) (events (fold (apply_call cfg) calls s))
    \<and> (case elections s e of None \<Rightarrow> True | Some el \<Rightarrow>
         (\<exists>el'. elections (fold (apply_call cfg) calls s) e = Some el' \<and> description el' = description el))"
proof -
  have "election_order s (fold (apply_call cfg) calls s)"
    using assms by (intro growing_pallet.run_below reachable_well_formed)
  then show ?thesis
    unfolding election_order_def by (cases "elections s e") simp_all
qed

theorem runs_append_only_witness:
  "prefix [demo_vote 1] (votes_of (fold (apply_call demo_config) [(Some 2, CreateVote 109 9)] demo_voted) 9)"
  using runs_append_only [OF demo_reachable(2), of "[(Some 2, CreateVote 109 9)]" 9]
  by (simp add: keeps_elections_def votes_of_def demo_voted_eq)

section \<open>Errors and authority\<close>

text \<open>
  C7: a call that fails leaves the storage as it was, except a vote that fails with
  \<open>CandidateNotFound\<close>: that one leaves every map but \<open>ElectionVotes\<close> as it was.
\<close>

theorem failing_call_unchanged:
  "dispatch cfg origin call s = (Inl err, s') \<Longrightarrow>
   s' = (if err = Module CandidateNotFound then s\<lparr>election_votes := election_votes s'\<rparr> else s)"
  by (cases call) (auto simp: handler_eqs Let_def split: option.splits if_splits)

theorem failing_call_unchanged_witness:
  "dispatch demo_config (Some 1) (CreateVote 109 9) demo_voted = (Inl (Module ElectionNotFound), demo_voted)"
proof -
  have "fst (dispatch demo_config (Some 1) (CreateVote 109 9) demo_voted) = Inl (Module ElectionNotFound)"
    by (simp add: create_vote_eq demo_voted_eq demo_setup_eq demo_vote_def)
  then show ?thesis
    using failing_call_unchanged [of demo_config "Some 1" "CreateVote 109 9" demo_voted "Module ElectionNotFound"]
    by (metis (no_types) dispatch_error.inject pallet_error.distinct prod.collapse)
qed

text \<open>
  C8: a vote for a candidate that is not registered fails with \<open>CandidateNotFound\<close>, but its first
  write stays: the vote is filed under the election, and the voter's next vote, for whichever
  candidate, is rejected.
\<close>

theorem orphan_vote_persists:
  assumes "ensure_signed cfg origin = Some who" "elections s e = Some el" "is_open el"
    and "election_votes s e = Some vs" "who \<notin> author ` set vs" "candidate_votes s c = None"
  defines "s' \<equiv> s\<lparr>election_votes := (election_votes s)
     (e \<mapsto> vs @ [\<lparr>candidate_id = c, v_election_id = e, author = who\<rparr>])\<rparr>"
  shows "create_vote cfg origin c e s = (Inl (Module CandidateNotFound), s')
    \<and> create_vote cfg origin c' e s' = (Inl (Module ElectionNotFound), s')"
  using assms by (simp add: create_vote_eq Let_def)

theorem orphan_vote_persists_witness:
  "fst (create_vote demo_config (Some 1) 7 9 demo_setup) = Inl (Module CandidateNotFound)
   \<and> fst (create_vote demo_config (Some 1) 109 9 (snd (create_vote demo_config (Some 1) 7 9 demo_setup)))
       = Inl (Module ElectionNotFound)"
  using orphan_vote_persists [of demo_config "Some 1" 1 demo_setup 9
      "\<lparr>description = demo_text, is_open = True\<rparr>" "[]" 7 109]
  by (simp add: demo_setup_eq)

fun needs_root :: "'h call \<Rightarrow> bool" where
  "needs_root (CreateElection _) = True"
| "needs_root (CloseElection _) = True"
| "needs_root (CreateCandidate _ _) = True"
| "needs_root _ = False"

text \<open>
  C9: the calls that create or close elections and create candidates are refused with
  \<open>BadOrigin\<close> exactly when the origin is not root, the others exactly when it is not signed, and a
  refused call changes nothing.
\<close>

theorem dispatch_authority:
  "dispatch cfg origin call s = (Inl BadOrigin, s) \<longleftrightarrow>
   (if needs_root call then \<not> ensure_root cfg origin else ensure_signed cfg origin = None)"
  by (cases call) (auto simp: handler_eqs Let_def split: option.splits if_splits)

section \<open>The tallies\<close>

text \<open>
  C10: over every run from the empty storage that does not create a stored election again, the
  votes for candidate \<open>c\<close> in election \<open>e\<close> filed under the candidate are the last ones of those filed
  under the election, so a candidate is never credited with more votes than were cast for it.
\<close>

theorem tally_never_exceeds:
  assumes "run_ok (apply_call cfg) (keeps_elections cfg) calls empty_storage"
  defines "t \<equiv> fold (apply_call cfg) calls empty_storage"
  shows "suffix (filter (\<lambda>v. v_election_id v = e) (ballots_for t c))
      (filter (\<lambda>v. candidate_id v = c) (votes_of t e))
    \<and> length (filter (\<lambda>v. v_election_id v = e) (ballots_for t c)) \<le> length (votes_of t e)"
proof -
  have "tally_suffix empty_storage"
    by (simp add: tally_suffix_def)
  then have "tally_suffix t"
    unfolding t_def using suffix_pallet.run_inv [OF _ assms(1)] well_formed_empty by blast
  then have "suffix (filter (\<lambda>v. v_election_id v = e) (ballots_for t c))
      (filter (\<lambda>v. candidate_id v = c) (votes_of t e))"
    by (simp add: tally_suffix_def)
  then show ?thesis
    using suffix_length_le length_filter_le le_trans by blast
qed

definition demo_calls :: "(nat option \<times> nat call) list" where
  "demo_calls = [(None, CreateElection demo_text), (None, CreateCandidate demo_text 9),
     (Some 1, CreateVote 109 9), (Some 2, CreateVote 109 9)]"

lemma demo_calls_run:
  "fold (apply_call demo_config) demo_calls empty_storage =
     demo_setup\<lparr>election_votes := [9 \<mapsto> [demo_vote 1, demo_vote 2]],
       candidate_votes := [109 \<mapsto> [demo_vote 1, demo_vote 2]],
       events := events demo_setup @ [VoteStored 9 109, VoteStored 9 109]\<rparr>"
  by (simp add: demo_calls_def apply_call_def handler_eqs Let_def empty_storage_def demo_setup_eq demo_vote_def)

lemma demo_calls_ok:
  "run_ok (apply_call demo_config) (keeps_elections demo_config) demo_calls empty_storage"
  "run_ok (apply_call demo_config)
     (\<lambda>oc s. keeps_elections demo_config oc s \<and> keeps_candidates demo_config oc s \<and> votes_for_known oc s)
     demo_calls empty_storage"
  by (simp_all add: demo_calls_def apply_call_def handler_eqs Let_def empty_storage_def
      keeps_elections_def keeps_candidates_def votes_for_known_def)

theorem tally_never_exceeds_witness:
  "length (filter (\<lambda>v. v_election_id v = 9)
     (ballots_for (fold (apply_call demo_config) demo_calls empty_storage) 109)) \<le> 2"
  using tally_never_exceeds [OF demo_calls_ok(1), of 9 109]
  by (simp add: demo_calls_run votes_of_def ballots_for_def)

text \<open>
  C11: if moreover no candidate is registered again and every vote names a registered
  candidate, the two copies agree: the votes for \<open>c\<close> in \<open>e\<close> under the candidate are exactly those under
  the election, in the same order.
\<close>

theorem tallies_agree:
  assumes "run_ok (apply_call cfg)
     (\<lambda>oc s. keeps_elections cfg oc s \<and> keeps_candidates cfg oc s \<and> votes_for_known oc s) calls empty_storage"
  defines "t \<equiv> fold (apply_call cfg) calls empty_storage"
  shows "filter (\<lambda>v. v_election_id v = e) (ballots_for t c) = filter (\<lambda>v. candidate_id v = c) (votes_of t e)"
proof -
  have "tally_exact empty_storage"
    by (simp add: tally_exact_def)
  then have "tally_exact t"
    unfolding t_def using exact_pallet.run_inv [OF _ assms(1)] well_formed_empty by blast
  then show ?thesis
    by (simp add: tally_exact_def)
qed

theorem tallies_agree_witness:
  "filter (\<lambda>v. candidate_id v = 109) (votes_of (fold (apply_call demo_config) demo_calls empty_storage) 9) =
     [demo_vote 1, demo_vote 2]"
  using tallies_agree [OF demo_calls_ok(2), of 9 109]
  by (simp add: demo_calls_run ballots_for_def demo_vote_def)

text \<open>
  C6: the pallet implements the ballots of \<open>Votechain_Ballot\<close>: over every run of calls, failed ones
  included, from the empty storage, the ballots of the storage are what the ballot operations of the
  calls make of the empty set of ballots.
\<close>

theorem pallet_refines_ballot:
  "ballots_of (fold (apply_call cfg) calls empty_storage) =
     fold ballot_step (map (op_of_call cfg) calls) Map.empty"
  using ballot_pallet.run_refines [OF well_formed_empty, of cfg calls]
  by (simp add: ballots_of_empty)

lemma create_vote_result_cong:
  assumes "elections s' = elections s"
    and "\<And>who. ensure_signed cfg origin = Some who \<Longrightarrow>
      who \<in> author ` set (votes_of s' e) \<longleftrightarrow> who \<in> author ` set (votes_of s e)"
    and "election_votes s' e = None \<longleftrightarrow> election_votes s e = None"
    and "candidate_votes s' c = None \<longleftrightarrow> candidate_votes s c = None"
  shows "fst (create_vote cfg origin c e s') = fst (create_vote cfg origin c e s)"
proof (cases "ensure_signed cfg origin")
  case None
  then show ?thesis by (simp add: create_vote_eq)
next
  case (Some who)
  then show ?thesis
    using assms(1,3,4) assms(2) [OF Some]
    by (cases "elections s e"; cases "election_votes s e"; cases "election_votes s' e";
        cases "candidate_votes s c"; cases "candidate_votes s' c")
      (simp_all add: create_vote_eq votes_of_def Let_def)
qed

text \<open>The effect of a vote as additions to the two vote maps.\<close>

lemma create_vote_adds:
  assumes "ensure_signed cfg origin = Some who"
    and "create_vote cfg origin c e s = (r, s')"
    and "v = \<lparr>candidate_id = c, v_election_id = e, author = who\<rparr>"
  shows "elections s' = elections s" "candidates s' = candidates s"
    "votes_of s' = (votes_of s)(e := votes_of s e @
       (if r \<in> {Inr (), Inl (Module CandidateNotFound)} then [v] else []))"
    "ballots_for s' = (ballots_for s)(c := ballots_for s c @ (if r = Inr () then [v] else []))"
    "election_votes s' k = None \<longleftrightarrow> election_votes s k = None"
    "candidate_votes s' k = None \<longleftrightarrow> candidate_votes s k = None"
  using assms
  by (auto simp: create_vote_eq votes_of_def ballots_for_def fun_eq_iff Let_def
      split: option.splits if_splits)

lemmas create_vote_adds_of = create_vote_adds [OF _ surjective_pairing refl]

text \<open>
  C12: votes of two different voters can come in either order: both orders give the same
  results, the same elections and candidates and, under every election and candidate, the same votes up to
  their order.
\<close>

theorem votes_commute:
  fixes cfg :: "('o, 'a, 'h) pallet_config" and s :: "('a, 'h) storage" and c1 c2 e1 e2 :: 'h
  assumes "ensure_signed cfg o1 = Some a1" "ensure_signed cfg o2 = Some a2" "a1 \<noteq> a2"
  defines "s1 \<equiv> snd (create_vote cfg o1 c1 e1 s)" and "s2 \<equiv> snd (create_vote cfg o2 c2 e2 s)"
  shows "fst (create_vote cfg o1 c1 e1 s2) = fst (create_vote cfg o1 c1 e1 s)
    \<and> fst (create_vote cfg o2 c2 e2 s1) = fst (create_vote cfg o2 c2 e2 s)
    \<and> (let t = snd (create_vote cfg o2 c2 e2 s1); t' = snd (create_vote cfg o1 c1 e1 s2) in
       elections t = elections t' \<and> candidates t = candidates t' \<and>
       mset (votes_of t e) = mset (votes_of t' e) \<and> mset (ballots_for t c) = mset (ballots_for t' c))"
proof -
  note adds = create_vote_adds_of [OF assms(1), of c1 e1] create_vote_adds_of [OF assms(2), of c2 e2]
  have r1: "fst (create_vote cfg o1 c1 e1 s2) = fst (create_vote cfg o1 c1 e1 s)"
    unfolding s2_def using assms(1-3) by (intro create_vote_result_cong) (auto simp: adds)
  have r2: "fst (create_vote cfg o2 c2 e2 s1) = fst (create_vote cfg o2 c2 e2 s)"
    unfolding s1_def using assms(1-3) by (intro create_vote_result_cong) (auto simp: adds)
  show ?thesis
    using r1 r2 by (simp add: adds s1_def s2_def Let_def)
qed

theorem votes_commute_witness:
  "fst (create_vote demo_config (Some 2) 109 9 (snd (create_vote demo_config (Some 1) 109 9 demo_setup))) = Inr ()"
  using votes_commute [where cfg = demo_config and s = demo_setup, of "Some 1" 1 "Some 2" 2 109 9 109 9]
  by (simp add: create_vote_eq demo_setup_eq Let_def)

section \<open>Elections and candidates\<close>

lemma word_of_nat_bounds:
  assumes "n < 2 ^ 32"
  shows "(lo :: u32) < word_of_nat n \<longleftrightarrow> unat lo < n" "word_of_nat n < (hi :: u32) \<longleftrightarrow> n < unat hi"
  using assms by (simp_all add: word_less_nat_alt unat_of_nat)

text \<open>
  C14: an election is created exactly by root and with a description strictly longer than
  \<open>ElectionMinBytes\<close> and strictly shorter than \<open>ElectionMaxBytes\<close> (the length, below 2^32, is
  cast to u32); it is then open, with no candidate and no vote, under the hash of its data.
\<close>

theorem create_election_ok_iff:
  assumes "length desc < 2 ^ 32"
  shows "create_election cfg origin desc s = (Inr (), s') \<longleftrightarrow>
    ensure_root cfg origin \<and> unat (ElectionMinBytes cfg) < length desc \<and>
    length desc < unat (ElectionMaxBytes cfg) \<and>
    (let el = \<lparr>description = desc, is_open = True\<rparr>; k = hash_of_election cfg el in
     s' = s\<lparr>elections := (elections s)(k \<mapsto> el), election_candidates := (election_candidates s)(k \<mapsto> []),
            election_votes := (election_votes s)(k \<mapsto> []),
            events := events s @ [ElectionStored desc k]\<rparr>)"
  using word_of_nat_bounds [OF assms] by (auto simp: create_election_eq Let_def)

theorem create_election_ok_iff_witness:
  "create_election demo_config None demo_text empty_storage = (Inr (),
     empty_storage\<lparr>elections := [9 \<mapsto> \<lparr>description = demo_text, is_open = True\<rparr>],
       election_candidates := [9 \<mapsto> []], election_votes := [9 \<mapsto> []],
       events := [ElectionStored demo_text 9]\<rparr>)
   \<and> create_election demo_config None (tl demo_text) empty_storage \<noteq> (Inr (), empty_storage)"
  by (simp add: create_election_ok_iff empty_storage_def)

text \<open>
  C15: a candidate is registered exactly by root, with a name of allowed length and for an election
  that exists, open or closed; it is then listed last in that election and has no votes.
\<close>

theorem create_candidate_ok_iff:
  assumes "length name < 2 ^ 32"
  shows "create_candidate cfg origin name e s = (Inr (), s') \<longleftrightarrow>
    ensure_root cfg origin \<and> unat (CandidateMinBytes cfg) < length name \<and>
    length name < unat (CandidateMaxBytes cfg) \<and>
    (\<exists>cs. election_candidates s e = Some cs \<and>
      (let c = \<lparr>candidate_name = name, c_election_id = e\<rparr>; k = hash_of_candidate cfg c in
       s' = s\<lparr>election_candidates := (election_candidates s)(e \<mapsto> cs @ [c]),
              candidates := (candidates s)(k \<mapsto> c), candidate_votes := (candidate_votes s)(k \<mapsto> []),
              events := events s @ [CandidateStored name k]\<rparr>))"
  using word_of_nat_bounds [OF assms] by (auto simp: create_candidate_eq Let_def split: option.splits)

theorem create_candidate_ok_iff_witness:
  "create_candidate demo_config None demo_text 9 demo_closed = (Inr (),
     demo_closed\<lparr>election_candidates := [9 \<mapsto> [\<lparr>candidate_name = demo_text, c_election_id = 9\<rparr>,
         \<lparr>candidate_name = demo_text, c_election_id = 9\<rparr>]],
       candidate_votes := [109 \<mapsto> []],
       events := events demo_closed @ [CandidateStored demo_text 109]\<rparr>)"
  by (simp add: create_candidate_ok_iff demo_closed_eq demo_voted_eq demo_setup_eq)

text \<open>
  C16: \<open>create_vote\<close> does not look at the election of the candidate: a voter can vote in an open
  election for a candidate that was registered for another one.
\<close>

theorem cross_election_vote:
  assumes "reachable cfg s" "ensure_signed cfg origin = Some who" "elections s e = Some el" "is_open el"
    and "who \<notin> author ` set (votes_of s e)" "candidates s c = Some cand" "c_election_id cand \<noteq> e"
  shows "fst (create_vote cfg origin c e s) = Inr ()
    \<and> last (ballots_for (snd (create_vote cfg origin c e s)) c) =
        \<lparr>candidate_id = c, v_election_id = e, author = who\<rparr>"
proof -
  obtain vs cv where "election_votes s e = Some vs" "candidate_votes s c = Some cv"
    using assms(1,3,6) well_formed_None_iff [OF reachable_well_formed] by (metis not_Some_eq)
  then show ?thesis
    using assms by (simp add: create_vote_eq votes_of_def ballots_for_def Let_def)
qed

definition demo_two_elections :: "(nat, nat) storage" where
  "demo_two_elections = apply_call demo_config (None, CreateElection (0 # demo_text)) demo_setup"

theorem cross_election_vote_witness:
  "fst (create_vote demo_config (Some 1) 109 10 demo_two_elections) = Inr ()"
proof -
  have eq: "demo_two_elections = demo_setup\<lparr>
      elections := (elections demo_setup)(10 \<mapsto> \<lparr>description = 0 # demo_text, is_open = True\<rparr>),
      election_candidates := (election_candidates demo_setup)(10 \<mapsto> []),
      election_votes := (election_votes demo_setup)(10 \<mapsto> []),
      events := events demo_setup @ [ElectionStored (0 # demo_text) 10]\<rparr>"
    by (simp add: demo_two_elections_def apply_call_def create_election_eq Let_def)
  have "reachable demo_config demo_two_elections"
    unfolding demo_two_elections_def by (rule after_call [OF demo_reachable(1)])
  from cross_election_vote [OF this, of "Some 1" 1 10 "\<lparr>description = 0 # demo_text, is_open = True\<rparr>"
      109 "\<lparr>candidate_name = demo_text, c_election_id = 9\<rparr>"]
  show ?thesis
    by (simp add: eq demo_setup_eq votes_of_def)
qed

text \<open>
  C17: creating an election again with the description of a stored one, even of a closed one,
  succeeds: it is open again and its candidates and votes are gone, so every voter can vote again,
  while the votes filed under its candidates remain.
\<close>

theorem recreation_resets:
  assumes "reachable cfg s" "ensure_root cfg origin" "elections s e = Some el"
    and "ElectionMinBytes cfg < word_of_nat (length (description el))"
    and "word_of_nat (length (description el)) < ElectionMaxBytes cfg"
  defines "t \<equiv> snd (create_election cfg origin (description el) s)"
  shows "fst (create_election cfg origin (description el) s) = Inr ()
    \<and> elections t e = Some (el\<lparr>is_open := True\<rparr>) \<and> votes_of t e = []
    \<and> election_candidates t e = Some [] \<and> candidate_votes t = candidate_votes s"
proof -
  have "e = hash_of_election cfg (el\<lparr>is_open := True\<rparr>)"
    using reachable_well_formed [OF assms(1)] assms(3) by (simp add: well_formed_def keyed_by_hash_def)
  moreover have "el\<lparr>is_open := True\<rparr> = \<lparr>description = description el, is_open = True\<rparr>"
    by (cases el) simp
  ultimately show ?thesis
    using assms(2,4,5) by (simp add: t_def create_election_eq votes_of_def Let_def)
qed

theorem recreation_resets_witness:
  "votes_of demo_closed 9 = [demo_vote 1]
   \<and> votes_of (snd (create_election demo_config None demo_text demo_closed)) 9 = []"
  using recreation_resets [OF demo_reachable(3), of None 9 "\<lparr>description = demo_text, is_open = False\<rparr>"]
  by (simp add: demo_closed_eq demo_voted_eq votes_of_def)

text \<open>
  \<open>cause_error\<close> adds one to the stored number; it fails with \<open>StorageOverflow\<close> exactly at
  \<open>u32::MAX\<close> and with \<open>NoneValue\<close> when nothing is stored, so the number never wraps around.
\<close>

theorem cause_error_counts:
  assumes "ensure_signed cfg origin = Some who"
  shows "case cause_error cfg origin s of
      (Inr _, s') \<Rightarrow> \<exists>old new. something s = Some old \<and> s' = s\<lparr>something := Some new\<rparr> \<and> unat new = unat old + 1
    | (Inl err, s') \<Rightarrow> s' = s \<and>
        (something s = None \<and> err = Module NoneValue \<or> something s = Some (- 1) \<and> err = Module StorageOverflow)"
proof (cases "something s")
  case None
  then show ?thesis using assms by (simp add: cause_error_eq)
next
  case (Some old)
  have "unat old = 2 ^ 32 - 1 \<longleftrightarrow> old = - 1"
    by (simp add: word_unat_eq_iff unsigned_minus_1_eq_mask mask_eq_exp_minus_1)
  moreover have "old \<noteq> - 1 \<Longrightarrow> unat (old + 1) = unat old + 1"
    using unatSuc [of old] by (simp add: eq_neg_iff_add_eq_0 add.commute)
  ultimately show ?thesis
    using assms Some by (cases "old = - 1") (auto simp: cause_error_eq)
qed

theorem cause_error_counts_witness:
  "something (snd (cause_error demo_config (Some 1) (empty_storage\<lparr>something := Some 41\<rparr>))) = Some 42"
  using cause_error_counts [of demo_config "Some 1" 1 "empty_storage\<lparr>something := Some 41\<rparr>"]
  by (simp add: cause_error_eq)

end
