(* ===== verification/Primitives.thy ===== *)
theory Primitives
  imports Prelude
begin

text \<open>
  The primitive types of the node (\<open>primitives/src/lib.rs\<close>). The numbers have their widths. The headers, blocks and
  block identifiers are the framework's generic ones at the node's types; they are records of the fields that the program
  fills in and reads, over the hashes \<open>'h\<close>, digest items \<open>'d\<close> and opaque extrinsics \<open>'x\<close> of the framework. Accounts and
  signatures are type parameters of the definitions that use them.
\<close>

section \<open>Numbers\<close>

type_synonym BlockNumber = u32
type_synonym AccountIndex = u32
type_synonym Balance = u128
type_synonym Moment = u64
type_synonym Index = u32
type_synonym Timestamp = u64

section \<open>Headers and blocks\<close>

record ('n, 'h, 'd) generic_header =
  hd_parent_hash :: 'h
  hd_number :: 'n
  hd_state_root :: 'h
  hd_extrinsics_root :: 'h
  hd_digest :: "'d list"

record ('hdr, 'x) generic_block =
  bk_header :: 'hdr
  bk_extrinsics :: "'x list"

datatype ('h, 'n) block_id = Id_hash 'h | Id_number 'n

text \<open>The only digest items that the program itself makes are those before the runtime runs, of an engine.\<close>

datatype 'engine digest_item = Pre_runtime 'engine "u8 list"

type_synonym ('h, 'd) Header = "(BlockNumber, 'h, 'd) generic_header"
type_synonym ('h, 'd, 'x) Block = "(('h, 'd) Header, 'x) generic_block"
type_synonym 'h BlockId = "('h, BlockNumber) block_id"

end
