(* ===== verification/Runtime_Constants.thy ===== *)
theory Runtime_Constants
  imports Complex_Main Primitives
begin

text \<open>
  The constants of the runtime: money and time (\<open>runtime/src/constants.rs\<close>) and the
  \<open>parameter_types!\<close> of \<open>runtime/src/lib.rs\<close>, in the order of the pallets that use them, each at the
  width the code gives it.
\<close>

section \<open>Money\<close>

definition MILLICENTS :: Balance where "MILLICENTS = 1000000000"
definition CENTS :: Balance where "CENTS = 1000 * MILLICENTS"
definition DOLLARS :: Balance where "DOLLARS = 100 * CENTS"

definition deposit :: "u32 \<Rightarrow> u32 \<Rightarrow> Balance" where
  "deposit items bytes = ucast items * 15 * CENTS + ucast bytes * 6 * CENTS"

section \<open>Time\<close>

text \<open>
  The epoch length in slots is computed in \<open>f64\<close>; all the numbers involved are small integers, which
  \<open>f64\<close> represents exactly, so the model computes with rationals and truncates at the end.
\<close>

definition MILLISECS_PER_BLOCK :: Moment where "MILLISECS_PER_BLOCK = 3000"
definition SECS_PER_BLOCK :: Moment where "SECS_PER_BLOCK = MILLISECS_PER_BLOCK div 1000"
definition SLOT_DURATION :: Moment where "SLOT_DURATION = MILLISECS_PER_BLOCK"
definition PRIMARY_PROBABILITY :: "u64 \<times> u64" where "PRIMARY_PROBABILITY = (1, 4)"
definition MINUTES :: BlockNumber where "MINUTES = 60 div ucast SECS_PER_BLOCK"
definition HOURS :: BlockNumber where "HOURS = MINUTES * 60"
definition DAYS :: BlockNumber where "DAYS = HOURS * 24"
definition EPOCH_DURATION_IN_BLOCKS :: BlockNumber where "EPOCH_DURATION_IN_BLOCKS = 10 * MINUTES"

definition SLOT_FILL_RATE :: rat where
  "SLOT_FILL_RATE = of_nat (unat MILLISECS_PER_BLOCK) / of_nat (unat SLOT_DURATION)"

definition EPOCH_DURATION_IN_SLOTS :: u64 where
  "EPOCH_DURATION_IN_SLOTS = word_of_int \<lfloor>of_nat (unat EPOCH_DURATION_IN_BLOCKS) * SLOT_FILL_RATE\<rfloor>"

section \<open>Parameters of the pallets\<close>

subsection \<open>System\<close>

definition BlockHashCount :: BlockNumber where "BlockHashCount = 2400"
definition ElectionMinBytes_rt :: u32 where "ElectionMinBytes_rt = 8"
definition ElectionMaxBytes_rt :: u32 where "ElectionMaxBytes_rt = 4096"
definition CandidateMinBytes_rt :: u32 where "CandidateMinBytes_rt = 8"
definition CandidateMaxBytes_rt :: u32 where "CandidateMaxBytes_rt = 4096"

subsection \<open>Multisig\<close>

definition DepositBase :: Balance where "DepositBase = deposit 1 88"
definition DepositFactor :: Balance where "DepositFactor = deposit 0 32"

subsection \<open>Proxy\<close>

definition ProxyDepositBase :: Balance where "ProxyDepositBase = deposit 1 8"
definition ProxyDepositFactor :: Balance where "ProxyDepositFactor = deposit 0 33"
definition AnnouncementDepositBase :: Balance where "AnnouncementDepositBase = deposit 1 8"
definition AnnouncementDepositFactor :: Balance where "AnnouncementDepositFactor = deposit 0 66"

subsection \<open>Scheduler and preimages\<close>

definition NoPreimagePostponement :: "u32 option" where "NoPreimagePostponement = Some 10"
definition PreimageMaxSize :: u32 where "PreimageMaxSize = 4096 * 1024"
definition PreimageBaseDeposit :: Balance where "PreimageBaseDeposit = 1 * DOLLARS"
definition PreimageByteDeposit :: Balance where "PreimageByteDeposit = 1 * CENTS"

subsection \<open>Staking\<close>

definition SessionsPerEra :: u32 where "SessionsPerEra = 6"
definition BondingDuration :: u32 where "BondingDuration = 24 * 28"
definition SlashDeferDuration :: u32 where "SlashDeferDuration = 24 * 7"
definition MaxNominatorRewardedPerValidator :: u32 where "MaxNominatorRewardedPerValidator = 256"
definition OffchainRepeat :: BlockNumber where "OffchainRepeat = 5"

subsection \<open>Babe\<close>

definition EpochDuration :: u64 where "EpochDuration = EPOCH_DURATION_IN_SLOTS"
definition ExpectedBlockTime :: Moment where "ExpectedBlockTime = MILLISECS_PER_BLOCK"
definition ReportLongevity :: u64 where "ReportLongevity = ucast BondingDuration * ucast SessionsPerEra * EpochDuration"

subsection \<open>Indices, balances and fees\<close>

definition IndexDeposit :: Balance where "IndexDeposit = 1 * DOLLARS"
definition ExistentialDeposit :: Balance where "ExistentialDeposit = 1 * DOLLARS"
definition MaxLocks :: u32 where "MaxLocks = 50"
definition MaxReserves :: u32 where "MaxReserves = 50"
definition TransactionByteFee :: Balance where "TransactionByteFee = 10 * MILLICENTS"
definition OperationalFeeMultiplier :: u8 where "OperationalFeeMultiplier = 5"

subsection \<open>Timestamp and authorship\<close>

definition MinimumPeriod :: Moment where "MinimumPeriod = SLOT_DURATION div 2"
definition UncleGenerations :: BlockNumber where "UncleGenerations = 5"

subsection \<open>Unsigned priorities and limits of im-online\<close>

definition ImOnlineUnsignedPriority :: u64 where "ImOnlineUnsignedPriority = - 1"
definition StakingUnsignedPriority :: u64 where "StakingUnsignedPriority = - 1 div 2"
definition MaxAuthorities :: u32 where "MaxAuthorities = 100"
definition MaxKeys :: u32 where "MaxKeys = 10000"
definition MaxPeerInHeartbeats :: u32 where "MaxPeerInHeartbeats = 10000"
definition MaxPeerDataEncodingSize :: u32 where "MaxPeerDataEncodingSize = 1000"

subsection \<open>Election provider\<close>

definition SignedPhase :: u32 where "SignedPhase = EPOCH_DURATION_IN_BLOCKS div 4"
definition UnsignedPhase :: u32 where "UnsignedPhase = EPOCH_DURATION_IN_BLOCKS div 4"
definition SignedRewardBase :: Balance where "SignedRewardBase = 1 * DOLLARS"
definition SignedDepositBase :: Balance where "SignedDepositBase = 1 * DOLLARS"
definition SignedDepositByte :: Balance where "SignedDepositByte = 1 * CENTS"
definition MultiPhaseUnsignedPriority :: u64 where "MultiPhaseUnsignedPriority = StakingUnsignedPriority - 1"
definition MINER_MAX_ITERATIONS :: u32 where "MINER_MAX_ITERATIONS = 10"

subsection \<open>Referenda and conviction voting\<close>

definition VoteLockingPeriod :: BlockNumber where "VoteLockingPeriod = 30 * DAYS"
definition AlarmInterval :: BlockNumber where "AlarmInterval = 1"
definition SubmissionDeposit :: Balance where "SubmissionDeposit = 100 * DOLLARS"
definition UndecidingTimeout :: BlockNumber where "UndecidingTimeout = 28 * DAYS"

subsection \<open>Democracy\<close>

definition LaunchPeriod :: BlockNumber where "LaunchPeriod = 28 * 24 * 60 * MINUTES"
definition VotingPeriod :: BlockNumber where "VotingPeriod = 28 * 24 * 60 * MINUTES"
definition FastTrackVotingPeriod :: BlockNumber where "FastTrackVotingPeriod = 3 * 24 * 60 * MINUTES"
definition MinimumDeposit :: Balance where "MinimumDeposit = 100 * DOLLARS"
definition EnactmentPeriod :: BlockNumber where "EnactmentPeriod = 30 * 24 * 60 * MINUTES"
definition CooloffPeriod :: BlockNumber where "CooloffPeriod = 28 * 24 * 60 * MINUTES"
definition MaxProposals :: u32 where "MaxProposals = 100"

subsection \<open>Council, technical committee and elections\<close>

definition CouncilMotionDuration :: BlockNumber where "CouncilMotionDuration = 5 * DAYS"
definition CouncilMaxProposals :: u32 where "CouncilMaxProposals = 100"
definition CouncilMaxMembers :: u32 where "CouncilMaxMembers = 100"
definition CandidacyBond :: Balance where "CandidacyBond = 10 * DOLLARS"
definition VotingBondBase :: Balance where "VotingBondBase = deposit 1 64"
definition VotingBondFactor :: Balance where "VotingBondFactor = deposit 0 32"
definition TermDuration :: BlockNumber where "TermDuration = 7 * DAYS"
definition DesiredMembers :: u32 where "DesiredMembers = 13"
definition DesiredRunnersUp :: u32 where "DesiredRunnersUp = 7"
definition TechnicalMotionDuration :: BlockNumber where "TechnicalMotionDuration = 5 * DAYS"
definition TechnicalMaxProposals :: u32 where "TechnicalMaxProposals = 100"
definition TechnicalMaxMembers :: u32 where "TechnicalMaxMembers = 100"

subsection \<open>Treasury, bounties and tips\<close>

definition ProposalBondMinimum :: Balance where "ProposalBondMinimum = 1 * DOLLARS"
definition SpendPeriod :: BlockNumber where "SpendPeriod = 1 * DAYS"
definition TipCountdown :: BlockNumber where "TipCountdown = 1 * DAYS"
definition TipReportDepositBase :: Balance where "TipReportDepositBase = 1 * DOLLARS"
definition DataDepositPerByte :: Balance where "DataDepositPerByte = 1 * CENTS"
definition BountyDepositBase :: Balance where "BountyDepositBase = 1 * DOLLARS"
definition BountyDepositPayoutDelay :: BlockNumber where "BountyDepositPayoutDelay = 1 * DAYS"
definition BountyUpdatePeriod :: BlockNumber where "BountyUpdatePeriod = 14 * DAYS"
definition MaximumReasonLength :: u32 where "MaximumReasonLength = 300"
definition BountyValueMinimum :: Balance where "BountyValueMinimum = 5 * DOLLARS"
definition MaxApprovals :: u32 where "MaxApprovals = 100"
definition MaxActiveChildBountyCount :: u32 where "MaxActiveChildBountyCount = 5"
definition ChildBountyValueMinimum :: Balance where "ChildBountyValueMinimum = 1 * DOLLARS"

subsection \<open>Contracts\<close>

definition DepositPerItem :: Balance where "DepositPerItem = deposit 1 0"
definition DepositPerByte :: Balance where "DepositPerByte = deposit 0 1"
definition MaxValueSize :: u32 where "MaxValueSize = 16 * 1024"

subsection \<open>Identity and recovery\<close>

definition BasicDeposit :: Balance where "BasicDeposit = 10 * DOLLARS"
definition FieldDeposit :: Balance where "FieldDeposit = 250 * CENTS"
definition SubAccountDeposit :: Balance where "SubAccountDeposit = 2 * DOLLARS"
definition MaxSubAccounts :: u32 where "MaxSubAccounts = 100"
definition MaxAdditionalFields :: u32 where "MaxAdditionalFields = 100"
definition MaxRegistrars :: u32 where "MaxRegistrars = 20"
definition ConfigDepositBase :: Balance where "ConfigDepositBase = 5 * DOLLARS"
definition FriendDepositFactor :: Balance where "FriendDepositFactor = 50 * CENTS"
definition MaxFriends :: u16 where "MaxFriends = 9"
definition RecoveryDeposit :: Balance where "RecoveryDeposit = 5 * DOLLARS"

subsection \<open>Society\<close>

definition CandidateDeposit :: Balance where "CandidateDeposit = 10 * DOLLARS"
definition WrongSideDeduction :: Balance where "WrongSideDeduction = 2 * DOLLARS"
definition MaxStrikes :: u32 where "MaxStrikes = 10"
definition RotationPeriod :: BlockNumber where "RotationPeriod = 80 * HOURS"
definition PeriodSpend :: Balance where "PeriodSpend = 500 * DOLLARS"
definition MaxLockDuration :: BlockNumber where "MaxLockDuration = 36 * 30 * DAYS"
definition ChallengePeriod :: BlockNumber where "ChallengePeriod = 7 * DAYS"
definition MaxCandidateIntake :: u32 where "MaxCandidateIntake = 10"
definition MinVestedTransfer :: Balance where "MinVestedTransfer = 100 * DOLLARS"

subsection \<open>Lottery, assets, gilt and uniques\<close>

definition MaxCalls :: u32 where "MaxCalls = 10"
definition MaxGenerateRandom :: u32 where "MaxGenerateRandom = 10"
definition AssetDeposit :: Balance where "AssetDeposit = 100 * DOLLARS"
definition ApprovalDeposit :: Balance where "ApprovalDeposit = 1 * DOLLARS"
definition StringLimit :: u32 where "StringLimit = 50"
definition MetadataDepositBase :: Balance where "MetadataDepositBase = 10 * DOLLARS"
definition MetadataDepositPerByte :: Balance where "MetadataDepositPerByte = 1 * DOLLARS"
definition QueueCount :: u32 where "QueueCount = 300"
definition MaxQueueLen :: u32 where "MaxQueueLen = 1000"
definition FifoQueueLen :: u32 where "FifoQueueLen = 500"
definition Period :: BlockNumber where "Period = 30 * DAYS"
definition MinFreeze :: Balance where "MinFreeze = 100 * DOLLARS"
definition IntakePeriod :: BlockNumber where "IntakePeriod = 10"
definition MaxIntakeBids :: u32 where "MaxIntakeBids = 10"
definition ClassDeposit :: Balance where "ClassDeposit = 100 * DOLLARS"
definition InstanceDeposit :: Balance where "InstanceDeposit = 1 * DOLLARS"
definition KeyLimit :: u32 where "KeyLimit = 32"
definition ValueLimit :: u32 where "ValueLimit = 256"

text \<open>Every constant unfolded, for proofs that compute.\<close>

lemmas constant_defs =
  MILLICENTS_def CENTS_def DOLLARS_def deposit_def MILLISECS_PER_BLOCK_def SECS_PER_BLOCK_def
  SLOT_DURATION_def MINUTES_def HOURS_def DAYS_def EPOCH_DURATION_IN_BLOCKS_def SLOT_FILL_RATE_def

lemmas parameter_defs =
  BlockHashCount_def ElectionMinBytes_rt_def ElectionMaxBytes_rt_def CandidateMinBytes_rt_def
  CandidateMaxBytes_rt_def DepositBase_def DepositFactor_def ProxyDepositBase_def
  ProxyDepositFactor_def AnnouncementDepositBase_def AnnouncementDepositFactor_def
  NoPreimagePostponement_def PreimageMaxSize_def PreimageBaseDeposit_def
  PreimageByteDeposit_def SessionsPerEra_def BondingDuration_def SlashDeferDuration_def
  MaxNominatorRewardedPerValidator_def OffchainRepeat_def EpochDuration_def
  ExpectedBlockTime_def ReportLongevity_def IndexDeposit_def ExistentialDeposit_def
  MaxLocks_def MaxReserves_def TransactionByteFee_def OperationalFeeMultiplier_def
  MinimumPeriod_def UncleGenerations_def ImOnlineUnsignedPriority_def
  StakingUnsignedPriority_def MaxAuthorities_def MaxKeys_def MaxPeerInHeartbeats_def
  MaxPeerDataEncodingSize_def SignedPhase_def UnsignedPhase_def SignedRewardBase_def
  SignedDepositBase_def SignedDepositByte_def MultiPhaseUnsignedPriority_def
  MINER_MAX_ITERATIONS_def VoteLockingPeriod_def AlarmInterval_def SubmissionDeposit_def
  UndecidingTimeout_def LaunchPeriod_def VotingPeriod_def FastTrackVotingPeriod_def
  MinimumDeposit_def EnactmentPeriod_def CooloffPeriod_def MaxProposals_def
  CouncilMotionDuration_def CouncilMaxProposals_def CouncilMaxMembers_def CandidacyBond_def
  VotingBondBase_def VotingBondFactor_def TermDuration_def DesiredMembers_def
  DesiredRunnersUp_def TechnicalMotionDuration_def TechnicalMaxProposals_def
  TechnicalMaxMembers_def ProposalBondMinimum_def SpendPeriod_def TipCountdown_def
  TipReportDepositBase_def DataDepositPerByte_def BountyDepositBase_def
  BountyDepositPayoutDelay_def BountyUpdatePeriod_def MaximumReasonLength_def
  BountyValueMinimum_def MaxApprovals_def MaxActiveChildBountyCount_def
  ChildBountyValueMinimum_def DepositPerItem_def DepositPerByte_def MaxValueSize_def
  BasicDeposit_def FieldDeposit_def SubAccountDeposit_def MaxSubAccounts_def
  MaxAdditionalFields_def MaxRegistrars_def ConfigDepositBase_def FriendDepositFactor_def
  MaxFriends_def RecoveryDeposit_def CandidateDeposit_def WrongSideDeduction_def MaxStrikes_def
  RotationPeriod_def PeriodSpend_def MaxLockDuration_def ChallengePeriod_def
  MaxCandidateIntake_def MinVestedTransfer_def MaxCalls_def MaxGenerateRandom_def
  AssetDeposit_def ApprovalDeposit_def StringLimit_def MetadataDepositBase_def
  MetadataDepositPerByte_def QueueCount_def MaxQueueLen_def FifoQueueLen_def Period_def
  MinFreeze_def IntakePeriod_def MaxIntakeBids_def ClassDeposit_def InstanceDeposit_def
  KeyLimit_def ValueLimit_def

section \<open>Values\<close>

lemma money_values:
  "MILLICENTS = 10 ^ 9" "CENTS = 10 ^ 12" "DOLLARS = 10 ^ 14"
  by (simp_all add: MILLICENTS_def CENTS_def DOLLARS_def)

lemma time_values:
  "MILLISECS_PER_BLOCK = 3000" "SECS_PER_BLOCK = 3" "MINUTES = 20" "HOURS = 1200" "DAYS = 28800"
  "EPOCH_DURATION_IN_BLOCKS = 200" "SLOT_FILL_RATE = 1" "EPOCH_DURATION_IN_SLOTS = 200"
  "SLOT_DURATION = 3000"
  by (simp_all add: constant_defs EPOCH_DURATION_IN_SLOTS_def)

text \<open>A deposit is computed without wrap-around, whatever its two arguments.\<close>

lemma unat_deposit: "unat (deposit items bytes) = (15 * unat items + 6 * unat bytes) * 10 ^ 12"
proof -
  have bound: "unat items < 2 ^ 32" "unat bytes < 2 ^ 32"
    using unsigned_less [of items, where 'a = nat] unsigned_less [of bytes, where 'a = nat] by simp_all
  then show ?thesis
    by (simp add: deposit_def money_values unat_word_ariths unsigned_ucast_eq take_bit_nat_eq_self)
qed

end
