(* ===== verification/Runtime_Pallets.thy ===== *)
theory Runtime_Pallets
  imports Runtime_Constants
begin

text \<open>
  The pallets of the runtime (\<open>construct_runtime!\<close> of \<open>runtime/src/lib.rs\<close>) in the order of their
  declaration. The order gives each pallet its index, which is the first byte of its encoded
  calls, and it is the order in which the hooks of a block run.
\<close>

datatype pallet =
    System | Utility | Babe | Timestamp | Authorship | Indices | Balances | TransactionPayment
    | AssetTxPayment | ElectionProviderMultiPhase | Staking | Session | Democracy | Council |
    TechnicalCommittee | Elections | TechnicalMembership | Grandpa | Treasury | Contracts |
    Sudo | ImOnline | AuthorityDiscovery | Offences | Historical | RandomnessCollectiveFlip |
    Identity | Society | Recovery | Vesting | Scheduler | Preimage | Proxy | Multisig |
    Bounties | Tips | Assets | Mmr | Lottery | Gilt | Uniques | TransactionStorage | BagsList |
    ChildBounties | Referenda | ConvictionVoting | Votechain

definition construct_runtime :: "pallet list" where
  "construct_runtime = [
     System, Utility, Babe, Timestamp, Authorship, Indices, Balances, TransactionPayment,
     AssetTxPayment, ElectionProviderMultiPhase, Staking, Session, Democracy, Council,
     TechnicalCommittee, Elections, TechnicalMembership, Grandpa, Treasury, Contracts, Sudo,
     ImOnline, AuthorityDiscovery, Offences, Historical, RandomnessCollectiveFlip, Identity,
     Society, Recovery, Vesting, Scheduler, Preimage, Proxy, Multisig, Bounties, Tips, Assets,
     Mmr, Lottery, Gilt, Uniques, TransactionStorage, BagsList, ChildBounties, Referenda,
     ConvictionVoting, Votechain]"

text \<open>The position of a pallet in the declaration, as the index of its calls.\<close>

fun index_of :: "'x \<Rightarrow> 'x list \<Rightarrow> nat" where
  "index_of x [] = 0"
| "index_of x (y # ys) = (if x = y then 0 else Suc (index_of x ys))"

definition pallet_index :: "pallet \<Rightarrow> nat" where
  "pallet_index p = index_of p construct_runtime"

text \<open>The benchmarked pallets (\<open>define_benchmarks!\<close>), in order; \<open>None\<close> stands for the baseline.\<close>

definition define_benchmarks :: "pallet option list" where
  "define_benchmarks = [
     None, Some Assets, Some Babe, Some BagsList, Some Balances, Some Bounties, Some
     ChildBounties, Some Council, Some ConvictionVoting, Some Contracts, Some Democracy, Some
     ElectionProviderMultiPhase, Some Elections, Some Gilt, Some Grandpa, Some Identity, Some
     ImOnline, Some Indices, Some Lottery, Some TechnicalMembership, Some Mmr, Some Multisig,
     Some Offences, Some Preimage, Some Proxy, Some Referenda, Some Scheduler, Some Session,
     Some Staking, Some System, Some Timestamp, Some Tips, Some TransactionStorage, Some
     Treasury, Some Uniques, Some Utility, Some Vesting, Some Votechain]"

lemma distinct_construct_runtime: "distinct construct_runtime"
  by (simp add: construct_runtime_def)

lemma every_pallet_declared: "p \<in> set construct_runtime"
  by (cases p) (simp_all add: construct_runtime_def)

lemma index_of_nth: "x \<in> set xs \<Longrightarrow> index_of x xs < length xs \<and> xs ! index_of x xs = x"
  by (induction xs) auto

lemma pallet_index_nth: "construct_runtime ! pallet_index p = p" "pallet_index p < length construct_runtime"
  using index_of_nth [OF every_pallet_declared] by (simp_all add: pallet_index_def)

text \<open>
  The call indices are a bijection between the pallets and the positions of the declaration: two pallets
  never share one, each fits in a byte, System has index 0, and the authorship pallet comes before the session
  pallet, so its hooks run first and the author is noted in the right session.
\<close>

theorem pallet_indices:
  "(pallet_index p = pallet_index q \<longleftrightarrow> p = q) \<and> pallet_index p < 256
   \<and> construct_runtime ! pallet_index p = p \<and> pallet_index System = 0
   \<and> pallet_index Authorship < pallet_index Session \<and> pallet_index Votechain = length construct_runtime - 1"
proof -
  have "length construct_runtime \<le> 256"
    by (simp add: construct_runtime_def)
  then show ?thesis
    using pallet_index_nth [of p] pallet_index_nth [of q]
    by (auto simp: pallet_index_def construct_runtime_def)
qed

end
