(* ===== verification/Runtime_Proxy.thy ===== *)
theory Runtime_Proxy
  imports Runtime_Pallets
begin

text \<open>
  The kinds of proxy of the runtime: which calls each may make (\<open>InstanceFilter::filter\<close>) and the
  order between kinds that the proxy pallet consults (\<open>is_superset\<close>). A call is the pallet it is for
  and the call of that pallet; whether a call of the vesting pallet is a \<open>vested_transfer\<close>, and one of
  the indices pallet a \<open>transfer\<close>, is read off the pallets' own call types, which are parameters.
\<close>

datatype proxy_type = Any_proxy | NonTransfer_proxy | Governance_proxy | Staking_proxy

text \<open>The derived \<open>Ord\<close>: the order of the declaration.\<close>

fun proxy_rank :: "proxy_type \<Rightarrow> nat" where
  "proxy_rank Any_proxy = 0"
| "proxy_rank NonTransfer_proxy = 1"
| "proxy_rank Governance_proxy = 2"
| "proxy_rank Staking_proxy = 3"

lemma proxy_rank_eq: "proxy_rank x = proxy_rank y \<longleftrightarrow> x = y"
  by (cases x; cases y) simp_all

instantiation proxy_type :: linorder
begin

definition less_eq_proxy_type :: "proxy_type \<Rightarrow> proxy_type \<Rightarrow> bool" where
  "less_eq_proxy_type x y \<longleftrightarrow> proxy_rank x \<le> proxy_rank y"

definition less_proxy_type :: "proxy_type \<Rightarrow> proxy_type \<Rightarrow> bool" where
  "less_proxy_type x y \<longleftrightarrow> proxy_rank x < proxy_rank y"

instance
  by standard (auto simp: less_eq_proxy_type_def less_proxy_type_def proxy_rank_eq)

end

definition default_proxy :: proxy_type where "default_proxy = Any_proxy"

datatype 'c runtime_call = Call (call_pallet: pallet) (inner_call: 'c)

definition proxy_filter ::
  "('c \<Rightarrow> bool) \<Rightarrow> ('c \<Rightarrow> bool) \<Rightarrow> proxy_type \<Rightarrow> 'c runtime_call \<Rightarrow> bool" where
  "proxy_filter is_vested_transfer is_indices_transfer self c =
     (case self of
        Any_proxy \<Rightarrow> True
      | NonTransfer_proxy \<Rightarrow> \<not> (case c of Call p i \<Rightarrow>
          p = Balances \<or> p = Assets \<or> p = Uniques \<or>
          p = Vesting \<and> is_vested_transfer i \<or> p = Indices \<and> is_indices_transfer i)
      | Governance_proxy \<Rightarrow> (case c of Call p i \<Rightarrow>
          p = Democracy \<or> p = Council \<or> p = Society \<or> p = TechnicalCommittee \<or> p = Elections \<or> p = Treasury)
      | Staking_proxy \<Rightarrow> (case c of Call p i \<Rightarrow> p = Staking))"

fun is_superset :: "proxy_type \<Rightarrow> proxy_type \<Rightarrow> bool" where
  "is_superset x y =
     (if x = y then True
      else case (x, y) of
          (Any_proxy, _) \<Rightarrow> True
        | (_, Any_proxy) \<Rightarrow> False
        | (NonTransfer_proxy, _) \<Rightarrow> True
        | _ \<Rightarrow> False)"

declare is_superset.simps [simp del]

lemma is_superset_iff:
  "is_superset x y \<longleftrightarrow> x = y \<or> x = Any_proxy \<or> x = NonTransfer_proxy \<and> y \<noteq> Any_proxy"
  by (cases x; cases y) (simp_all add: is_superset.simps)

lemma is_superset_order:
  "is_superset x x"
  "is_superset x y \<Longrightarrow> is_superset y z \<Longrightarrow> is_superset x z"
  "is_superset x y \<Longrightarrow> is_superset y x \<Longrightarrow> x = y"
  by (auto simp: is_superset_iff)

lemma superset_respects_order: "is_superset x y \<Longrightarrow> x \<le> y"
  by (cases x; cases y) (simp_all add: is_superset_iff less_eq_proxy_type_def)

text \<open>
  C32: \<open>is_superset\<close> is inclusion of the allowed calls: one kind is a superset of another exactly when it
  lets through every call that the other lets through, whatever the calls of the pallets are.
\<close>

theorem is_superset_is_inclusion:
  "is_superset x y \<longleftrightarrow>
     (\<forall>c. proxy_filter is_vested_transfer is_indices_transfer y c \<longrightarrow>
          proxy_filter is_vested_transfer is_indices_transfer x c)"
proof
  assume "is_superset x y"
  then show "\<forall>c. proxy_filter is_vested_transfer is_indices_transfer y c \<longrightarrow>
      proxy_filter is_vested_transfer is_indices_transfer x c"
    by (cases x; cases y) (auto simp: is_superset_iff proxy_filter_def split: runtime_call.splits)
next
  assume *: "\<forall>c. proxy_filter is_vested_transfer is_indices_transfer y c \<longrightarrow>
      proxy_filter is_vested_transfer is_indices_transfer x c"
  have "proxy_filter is_vested_transfer is_indices_transfer y (Call p i) \<longrightarrow>
      proxy_filter is_vested_transfer is_indices_transfer x (Call p i)" for p i
    using * by blast
  from this [of Balances] this [of Staking] this [of Democracy] this [of System] show "is_superset x y"
    by (cases x; cases y) (simp_all add: is_superset_iff proxy_filter_def)
qed

theorem is_superset_is_inclusion_witness:
  "is_superset NonTransfer_proxy Governance_proxy
   \<and> proxy_filter (\<lambda>_ :: nat. True) (\<lambda>_. True) Governance_proxy (Call Council 0)
   \<and> proxy_filter (\<lambda>_ :: nat. True) (\<lambda>_. True) NonTransfer_proxy (Call Council 0)"
proof -
  have "is_superset NonTransfer_proxy Governance_proxy"
    by (simp add: is_superset_iff)
  then show ?thesis
    using is_superset_is_inclusion [of NonTransfer_proxy Governance_proxy "\<lambda>_ :: nat. True" "\<lambda>_. True"]
    by (auto simp: proxy_filter_def)
qed

text \<open>
  A proxy for governance or staking cannot vote or manage elections of the voting pallet for its
  principal, while the other two kinds can, and no kind but \<open>Any\<close> lets a balance transfer through.
\<close>

theorem proxies_and_votechain:
  "(proxy_filter is_vested_transfer is_indices_transfer x (Call Votechain i) \<longleftrightarrow>
      x = Any_proxy \<or> x = NonTransfer_proxy)
   \<and> (proxy_filter is_vested_transfer is_indices_transfer x (Call Balances i) \<longleftrightarrow> x = Any_proxy)"
  by (cases x) (simp_all add: proxy_filter_def)

end
