(* ===== verification/Runtime_Fees.thy ===== *)
theory Runtime_Fees
  imports Runtime_Constants
begin

text \<open>
  Where the fees go: \<open>DealWithFees\<close> of \<open>runtime/src/lib.rs\<close>, and \<open>Author\<close> and
  \<open>CreditToBlockAuthor\<close> of \<open>runtime/src/impls.rs\<close>. An imbalance is an abstract value with the
  framework's operations as parameters; the model returns what each handler does with each
  imbalance, in order.
\<close>

section \<open>Handlers\<close>

datatype ('a, 'i) fee_action =
    Treasury_on_unbalanced 'i
  | Resolve_creating 'a 'i
  | Dropped 'i

text \<open>\<open>Author::on_nonzero_unbalanced\<close>: without an author the amount is dropped at the end of the call.\<close>

definition author_on_nonzero_unbalanced :: "'a option \<Rightarrow> 'i \<Rightarrow> ('a, 'i) fee_action list" where
  "author_on_nonzero_unbalanced block_author amount =
     (case block_author of Some a \<Rightarrow> [Resolve_creating a amount] | None \<Rightarrow> [Dropped amount])"

text \<open>
  The framework's \<open>on_unbalanced\<close> hands an imbalance to \<open>on_nonzero_unbalanced\<close> unless it is zero;
  \<open>zero_test\<close> is its test.
\<close>

definition author_on_unbalanced :: "('i \<Rightarrow> bool) \<Rightarrow> 'a option \<Rightarrow> 'i \<Rightarrow> ('a, 'i) fee_action list" where
  "author_on_unbalanced zero_test block_author amount =
     (if zero_test amount then [Dropped amount] else author_on_nonzero_unbalanced block_author amount)"

record 'i imbalance_ops =
  ration :: "'i \<Rightarrow> u32 \<Rightarrow> u32 \<Rightarrow> 'i \<times> 'i"
  ration_merge_into :: "'i \<Rightarrow> u32 \<Rightarrow> u32 \<Rightarrow> 'i \<times> 'i \<Rightarrow> 'i \<times> 'i"
  is_zero :: "'i \<Rightarrow> bool"

text \<open>\<open>DealWithFees::on_unbalanceds\<close>; what is left in the iterator is dropped with it.\<close>

definition deal_with_fees ::
  "'i imbalance_ops \<Rightarrow> 'a option \<Rightarrow> 'i list \<Rightarrow> ('a, 'i) fee_action list" where
  "deal_with_fees ops block_author fees_then_tips =
     (case fees_then_tips of
        [] \<Rightarrow> []
      | fees # rest \<Rightarrow>
          let split = ration ops fees 80 20 in
          let (split, rest) =
            (case rest of
               tips # rest \<Rightarrow> (ration_merge_into ops tips 80 20 split, rest)
             | [] \<Rightarrow> (split, []))
          in Treasury_on_unbalanced (fst split)
             # author_on_unbalanced (is_zero ops) block_author (snd split) @ map Dropped rest)"

text \<open>\<open>CreditToBlockAuthor::handle_credit\<close>; \<open>resolve\<close> returns the credit it could not resolve.\<close>

definition handle_credit ::
  "('a \<Rightarrow> 'i \<Rightarrow> 'i option) \<Rightarrow> 'a option \<Rightarrow> 'i \<Rightarrow> ('a, 'i) fee_action list" where
  "handle_credit resolve block_author credit =
     (case block_author of
        None \<Rightarrow> [Dropped credit]
      | Some a \<Rightarrow> (case resolve a credit of
           None \<Rightarrow> [Resolve_creating a credit]
         | Some rejected \<Rightarrow> [Dropped rejected]))"

section \<open>Amounts\<close>

text \<open>
  \<open>amount_laws\<close> states what the framework documents of its imbalances, \<open>val\<close> being the amount of one, a u128: \<open>ration\<close> splits
  without loss, its first part being the given share rounded down, and \<open>ration_merge_into\<close> adds such a split to
  another. The arithmetic saturates and a ratio of zeros gives zeros, so all this holds only where the parts of the ratio have a
  sum that is not zero and no product or sum overflows.
\<close>

definition ratio_ok :: "nat \<Rightarrow> u32 \<Rightarrow> u32 \<Rightarrow> bool" where
  "ratio_ok v a b \<longleftrightarrow> 0 < unat a + unat b \<and> unat a + unat b < 2 ^ 32 \<and> v * unat a < 2 ^ 128"

definition amount_laws :: "'i imbalance_ops \<Rightarrow> ('i \<Rightarrow> nat) \<Rightarrow> bool" where
  "amount_laws ops val \<longleftrightarrow>
     (\<forall>i a b l r. ration ops i a b = (l, r) \<and> ratio_ok (val i) a b \<longrightarrow>
        val l = val i * unat a div (unat a + unat b) \<and> val r = val i - val l) \<and>
     (\<forall>i a b l r l' r'. ration_merge_into ops i a b (l, r) = (l', r') \<and> ratio_ok (val i) a b
        \<and> val l + val i < 2 ^ 128 \<and> val r + val i < 2 ^ 128 \<longrightarrow>
        val l' = val l + val i * unat a div (unat a + unat b) \<and>
        val r' = val r + (val i - val i * unat a div (unat a + unat b)))"

lemma amount_laws_ration:
  "amount_laws ops val \<Longrightarrow> ration ops i a b = (l, r) \<Longrightarrow> ratio_ok (val i) a b \<Longrightarrow>
     val l = val i * unat a div (unat a + unat b) \<and> val r = val i - val l"
  unfolding amount_laws_def by metis

lemma amount_laws_merge:
  "amount_laws ops val \<Longrightarrow> ration_merge_into ops i a b (l, r) = (l', r') \<Longrightarrow> ratio_ok (val i) a b \<Longrightarrow>
     val l + val i < 2 ^ 128 \<Longrightarrow> val r + val i < 2 ^ 128 \<Longrightarrow>
     val l' = val l + val i * unat a div (unat a + unat b) \<and>
     val r' = val r + (val i - val i * unat a div (unat a + unat b))"
  unfolding amount_laws_def by metis

fun treasury_amount :: "('i \<Rightarrow> nat) \<Rightarrow> ('a, 'i) fee_action \<Rightarrow> nat" where
  "treasury_amount val (Treasury_on_unbalanced i) = val i"
| "treasury_amount val _ = 0"

fun credited_amount :: "('i \<Rightarrow> nat) \<Rightarrow> ('a, 'i) fee_action \<Rightarrow> nat" where
  "credited_amount val (Resolve_creating a i) = val i"
| "credited_amount val _ = 0"

fun dropped_amount :: "('i \<Rightarrow> nat) \<Rightarrow> ('a, 'i) fee_action \<Rightarrow> nat" where
  "dropped_amount val (Dropped i) = val i"
| "dropped_amount val _ = 0"

definition total :: "('x \<Rightarrow> nat) \<Rightarrow> 'x list \<Rightarrow> nat" where
  "total f xs = sum_list (map f xs)"

lemma total_simps [simp]:
  "total f [] = 0" "total f (x # xs) = f x + total f xs" "total f (xs @ ys) = total f xs + total f ys"
  by (simp_all add: total_def)

lemma total_map_Dropped [simp]:
  "total (treasury_amount val) (map Dropped xs) = 0"
  "total (credited_amount val) (map Dropped xs) = 0"
  "total (dropped_amount val) (map Dropped xs) = total val xs"
  by (induction xs) simp_all

lemma author_amounts:
  assumes "zero_test amount \<Longrightarrow> val amount = 0"
  shows "total (treasury_amount val) (author_on_unbalanced zero_test block_author amount) = 0"
    and "total (credited_amount val) (author_on_unbalanced zero_test block_author amount) =
      (if block_author = None then 0 else val amount)"
    and "total (dropped_amount val) (author_on_unbalanced zero_test block_author amount) =
      (if block_author = None then val amount else 0)"
  using assms by (auto simp: author_on_unbalanced_def author_on_nonzero_unbalanced_def split: option.splits)

text \<open>
  C33: of the fees and the tip of a transaction the treasury gets 80% of each, rounded down,
  and the author of the block all the rest; without an author that rest is dropped. Nothing is lost or created. This is for
  imbalances that keep the documented laws, and while eighty times the fees and the tip together fit u128: beyond that the
  framework's arithmetic saturates.
\<close>

theorem deal_with_fees_amounts:
  fixes block_author :: "'a option" and fees tips :: 'i
  assumes laws: "amount_laws ops val" and zero: "\<And>i. is_zero ops i \<Longrightarrow> val i = 0"
    and fits: "(val fees + val tips) * 80 < 2 ^ 128"
  defines "actions \<equiv> deal_with_fees ops block_author [fees, tips]"
  shows "total (treasury_amount val) actions = val fees * 80 div 100 + val tips * 80 div 100
    \<and> total (if block_author = None then dropped_amount val else credited_amount val) actions =
        val fees + val tips - (val fees * 80 div 100 + val tips * 80 div 100)
    \<and> total (if block_author = None then credited_amount val else dropped_amount val) actions = 0"
proof -
  obtain l r where lr: "ration ops fees 80 20 = (l, r)"
    by (cases "ration ops fees 80 20")
  obtain l' r' where lr': "ration_merge_into ops tips 80 20 (l, r) = (l', r')"
    by (cases "ration_merge_into ops tips 80 20 (l, r)")
  have ok: "ratio_ok (val fees) 80 20" "ratio_ok (val tips) 80 20"
    using fits by (simp_all add: ratio_ok_def)
  have l: "val l = val fees * 80 div 100" "val r = val fees - val l"
    using amount_laws_ration [OF laws lr ok(1)] by simp_all
  then have "val l \<le> val fees" "val r \<le> val fees"
    by simp_all
  then have room: "val l + val tips < 2 ^ 128" "val r + val tips < 2 ^ 128"
    using fits by simp_all
  from amount_laws_merge [OF laws lr' ok(2) room]
  have "val l' = val l + val tips * 80 div 100" "val r' = val r + (val tips - val tips * 80 div 100)"
    by simp_all
  moreover have "n * 80 div 100 \<le> n" for n :: nat
    by simp
  ultimately show ?thesis
    using l author_amounts [of "is_zero ops" r' val block_author] zero [of r']
    by (cases block_author) (simp_all add: actions_def deal_with_fees_def lr lr')
qed

text \<open>An instance: u128 amounts with the saturating arithmetic that the framework documents.\<close>

definition saturating_mul :: "'w::len word \<Rightarrow> 'w word \<Rightarrow> 'w word" where
  "saturating_mul a b = (if unat a * unat b < 2 ^ LENGTH('w) then a * b else - 1)"

definition balance_ration :: "Balance \<Rightarrow> u32 \<Rightarrow> u32 \<Rightarrow> Balance \<times> Balance" where
  "balance_ration i a b =
     (let t = saturating_add a b in
      if t = 0 then (0, 0) else (let x = min i (saturating_mul i (ucast a) div ucast t) in (x, i - x)))"

definition balance_imbalance :: "Balance imbalance_ops" where
  "balance_imbalance = \<lparr>
     ration = balance_ration,
     ration_merge_into = (\<lambda>i a b lr. case balance_ration i a b of
        (l, r) \<Rightarrow> (saturating_add (fst lr) l, saturating_add (snd lr) r)),
     is_zero = (\<lambda>i. i = 0)\<rparr>"

lemma unat_ucast_u32: "unat (ucast (a :: u32) :: u128) = unat a"
proof -
  have "unat a < 2 ^ 128"
    by (rule order_less_le_trans [OF unsigned_less]) simp
  then show ?thesis
    by (simp add: unsigned_ucast_eq take_bit_nat_eq_self)
qed

lemma fraction_le: "v * a div (a + b) \<le> (v :: nat)"
proof (cases "a + b = 0")
  case False
  have "v * a div (a + b) \<le> v * (a + b) div (a + b)"
    by (intro div_le_mono mult_le_mono2) simp
  then show ?thesis
    using nonzero_mult_div_cancel_right [OF False, of v] by simp
qed simp

lemma balance_ration_amounts:
  assumes "ratio_ok (unat i) a b"
  shows "unat (fst (balance_ration i a b)) = unat i * unat a div (unat a + unat b)"
    and "unat (snd (balance_ration i a b)) = unat i - unat i * unat a div (unat a + unat b)"
proof -
  let ?t = "saturating_add a b"
  have t: "unat ?t = unat a + unat b" "?t \<noteq> 0"
  proof -
    show "unat ?t = unat a + unat b"
      using assms by (simp add: unat_saturating_add ratio_ok_def)
    then show "?t \<noteq> 0"
      using assms by (auto simp: ratio_ok_def)
  qed
  have "unat (i * ucast a) = unat i * unat a"
    using assms by (simp add: ratio_ok_def unat_word_ariths unat_ucast_u32)
  then have x: "unat (saturating_mul i (ucast a) div ucast ?t) = unat i * unat a div (unat a + unat b)"
    using assms by (simp add: saturating_mul_def ratio_ok_def unat_div unat_ucast_u32 t)
  then have le: "saturating_mul i (ucast a) div ucast ?t \<le> i"
    by (simp add: word_le_nat_alt fraction_le)
  then show "unat (fst (balance_ration i a b)) = unat i * unat a div (unat a + unat b)"
    "unat (snd (balance_ration i a b)) = unat i - unat i * unat a div (unat a + unat b)"
    using x t(2) by (simp_all add: balance_ration_def Let_def min_absorb2 unat_sub)
qed

lemma balance_imbalance_laws: "amount_laws balance_imbalance unat"
proof -
  have "unat l' = unat l + unat i * unat a div (unat a + unat b) \<and>
        unat r' = unat r + (unat i - unat i * unat a div (unat a + unat b))"
    if "ration_merge_into balance_imbalance i a b (l, r) = (l', r')" and ok: "ratio_ok (unat i) a b"
      and room: "unat l + unat i < 2 ^ 128" "unat r + unat i < 2 ^ 128" for i a b l r l' r'
  proof -
    have parts: "l' = saturating_add l (fst (balance_ration i a b))" "r' = saturating_add r (snd (balance_ration i a b))"
      using that(1) by (auto simp: balance_imbalance_def split: prod.splits)
    have "unat i * unat a div (unat a + unat b) \<le> unat i"
      by (rule fraction_le)
    then show ?thesis
      using room by (simp add: parts unat_saturating_add balance_ration_amounts [OF ok])
  qed
  moreover have "unat l = unat i * unat a div (unat a + unat b) \<and> unat r = unat i - unat l"
    if "ration balance_imbalance i a b = (l, r)" "ratio_ok (unat i) a b" for i a b l r
    using that balance_ration_amounts [OF that(2)] by (simp add: balance_imbalance_def)
  ultimately show ?thesis
    unfolding amount_laws_def by blast
qed

theorem deal_with_fees_amounts_witness:
  "total (treasury_amount unat) (deal_with_fees balance_imbalance (Some ''alice'') [101, 9]) = 87
   \<and> total (credited_amount unat) (deal_with_fees balance_imbalance (Some ''alice'') [101, 9]) = 23"
proof -
  have "unat i = 0" if "is_zero balance_imbalance i" for i
    using that by (simp add: balance_imbalance_def)
  from deal_with_fees_amounts [OF balance_imbalance_laws this, of 101 9 "Some ''alice''"] show ?thesis
    by simp
qed

end
