(* ===== verification/Runtime_Governance.thy ===== *)
theory Runtime_Governance
  imports Runtime_Pallets
begin

text \<open>
  Which origins the runtime accepts for its privileged operations, block weights, the referenda tracks, and the
  properties of the runtime's constants.
\<close>

section \<open>Origins\<close>

text \<open>
  The origin checks the runtime composes. The collective is named by its pallet. What a leaf check
  accepts is the framework's code: it is the argument \<open>leaf\<close> of \<open>allows\<close>; \<open>EnsureOneOf\<close> tries
  its first check and then its second.
\<close>

datatype origin_filter =
    EnsureRoot
  | EnsureProportionAtLeast nat nat pallet
  | EnsureProportionMoreThan nat nat pallet
  | EnsureMember pallet
  | EnsureFounder
  | EnsureOneOf origin_filter origin_filter

fun allows :: "(origin_filter \<Rightarrow> 'o \<Rightarrow> bool) \<Rightarrow> origin_filter \<Rightarrow> 'o \<Rightarrow> bool" where
  "allows leaf (EnsureOneOf l r) origin = (allows leaf l origin \<or> allows leaf r origin)"
| "allows leaf f origin = leaf f origin"

definition SlashCancelOrigin :: origin_filter where
  "SlashCancelOrigin = EnsureOneOf EnsureRoot (EnsureProportionAtLeast 3 4 Council)"

definition ExternalOrigin :: origin_filter where
  "ExternalOrigin = EnsureProportionAtLeast 1 2 Council"

definition ExternalMajorityOrigin :: origin_filter where
  "ExternalMajorityOrigin = EnsureProportionAtLeast 3 4 Council"

definition ExternalDefaultOrigin :: origin_filter where
  "ExternalDefaultOrigin = EnsureProportionAtLeast 1 1 Council"

definition FastTrackOrigin :: origin_filter where
  "FastTrackOrigin = EnsureProportionAtLeast 2 3 TechnicalCommittee"

definition InstantOrigin :: origin_filter where
  "InstantOrigin = EnsureProportionAtLeast 1 1 TechnicalCommittee"

definition CancellationOrigin :: origin_filter where
  "CancellationOrigin = EnsureProportionAtLeast 2 3 Council"

definition CancelProposalOrigin :: origin_filter where
  "CancelProposalOrigin = EnsureOneOf EnsureRoot (EnsureProportionAtLeast 1 1 TechnicalCommittee)"

definition BlacklistOrigin :: origin_filter where "BlacklistOrigin = EnsureRoot"

definition VetoOrigin :: origin_filter where "VetoOrigin = EnsureMember TechnicalCommittee"

definition OperationalPreimageOrigin :: origin_filter where
  "OperationalPreimageOrigin = EnsureMember Council"

definition EnsureRootOrHalfCouncil :: origin_filter where
  "EnsureRootOrHalfCouncil = EnsureOneOf EnsureRoot (EnsureProportionMoreThan 1 2 Council)"

definition ApproveOrigin :: origin_filter where
  "ApproveOrigin = EnsureOneOf EnsureRoot (EnsureProportionAtLeast 3 5 Council)"

definition RejectOrigin :: origin_filter where
  "RejectOrigin = EnsureOneOf EnsureRoot (EnsureProportionMoreThan 1 2 Council)"

definition FounderSetOrigin :: origin_filter where
  "FounderSetOrigin = EnsureProportionMoreThan 1 2 Council"

definition SuspensionJudgementOrigin :: origin_filter where
  "SuspensionJudgementOrigin = EnsureFounder"

lemmas origin_defs =
  SlashCancelOrigin_def ExternalOrigin_def ExternalMajorityOrigin_def ExternalDefaultOrigin_def
  FastTrackOrigin_def InstantOrigin_def CancellationOrigin_def CancelProposalOrigin_def
  BlacklistOrigin_def VetoOrigin_def OperationalPreimageOrigin_def EnsureRootOrHalfCouncil_def
  ApproveOrigin_def RejectOrigin_def FounderSetOrigin_def

text \<open>
  An origin of the collectives: \<open>ayes\<close> of \<open>members\<close> members agreed. \<open>collective_leaf\<close> is what the
  framework documents of the two proportion checks.
\<close>

datatype collective_origin = Root_origin | Agreed pallet nat nat

fun collective_leaf :: "origin_filter \<Rightarrow> collective_origin \<Rightarrow> bool" where
  "collective_leaf EnsureRoot Root_origin = True"
| "collective_leaf (EnsureProportionAtLeast n d c) (Agreed c' ayes members) =
     (c = c' \<and> ayes * d \<ge> n * members)"
| "collective_leaf (EnsureProportionMoreThan n d c) (Agreed c' ayes members) =
     (c = c' \<and> ayes * d > n * members)"
| "collective_leaf _ _ = False"

text \<open>
  The thresholds of the council are a ladder: over every check of proportions that accepts what the
  framework documents, a vote that can call a default external referendum can do everything else the council
  can, down to the simple external referendum; a tie of half the council can propose that one but neither
  reject treasury spending nor act for the council as a root equivalent.
\<close>

theorem council_ladder:
  assumes leaf: "\<And>f ayes members. leaf f (council_vote ayes members) \<longleftrightarrow>
      collective_leaf f (Agreed Council ayes members)"
  shows "(allows leaf ExternalDefaultOrigin (council_vote ayes members) \<longrightarrow>
          allows leaf ExternalMajorityOrigin (council_vote ayes members))
    \<and> (allows leaf ExternalMajorityOrigin (council_vote ayes members) \<longleftrightarrow>
        allows leaf SlashCancelOrigin (council_vote ayes members))
    \<and> (allows leaf SlashCancelOrigin (council_vote ayes members) \<longrightarrow>
        allows leaf CancellationOrigin (council_vote ayes members))
    \<and> (allows leaf CancellationOrigin (council_vote ayes members) \<longrightarrow>
        allows leaf ApproveOrigin (council_vote ayes members))
    \<and> (0 < members \<longrightarrow> allows leaf ApproveOrigin (council_vote ayes members) \<longrightarrow>
        allows leaf RejectOrigin (council_vote ayes members) \<and>
        allows leaf EnsureRootOrHalfCouncil (council_vote ayes members))
    \<and> (allows leaf RejectOrigin (council_vote ayes members) \<longrightarrow>
        allows leaf ExternalOrigin (council_vote ayes members))
    \<and> (allows leaf ExternalOrigin (council_vote ayes (2 * ayes))
        \<and> \<not> allows leaf RejectOrigin (council_vote ayes (2 * ayes))
        \<and> \<not> allows leaf EnsureRootOrHalfCouncil (council_vote ayes (2 * ayes)))"
  by (simp add: leaf origin_defs)

theorem council_ladder_witness:
  "allows collective_leaf ExternalOrigin (Agreed Council 5 10)
   \<and> \<not> allows collective_leaf RejectOrigin (Agreed Council 5 10)"
  using council_ladder [of collective_leaf "Agreed Council" 5 10] by simp

section \<open>Block weights\<close>

text \<open>
  The limits of the block weights. A \<open>Perbill\<close> is its number of parts in a billion; the weight of a
  second and the product of a ratio and a weight are the framework's.
\<close>

record weight_env =
  from_percent :: "u32 \<Rightarrow> u32"
  ratio_times :: "u32 \<Rightarrow> u64 \<Rightarrow> u64"
  WEIGHT_PER_SECOND :: u64

definition AVERAGE_ON_INITIALIZE_RATIO :: "weight_env \<Rightarrow> u32" where
  "AVERAGE_ON_INITIALIZE_RATIO env = from_percent env 10"

definition NORMAL_DISPATCH_RATIO :: "weight_env \<Rightarrow> u32" where
  "NORMAL_DISPATCH_RATIO env = from_percent env 75"

definition MAXIMUM_BLOCK_WEIGHT :: "weight_env \<Rightarrow> u64" where
  "MAXIMUM_BLOCK_WEIGHT env = 2 * WEIGHT_PER_SECOND env"

record class_limits =
  max_total :: "u64 option"
  reserved :: "u64 option"

definition normal_limits :: "weight_env \<Rightarrow> class_limits" where
  "normal_limits env = \<lparr>
     max_total = Some (ratio_times env (NORMAL_DISPATCH_RATIO env) (MAXIMUM_BLOCK_WEIGHT env)),
     reserved = None\<rparr>"

definition operational_limits :: "weight_env \<Rightarrow> class_limits" where
  "operational_limits env = \<lparr>
     max_total = Some (MAXIMUM_BLOCK_WEIGHT env),
     reserved = Some (MAXIMUM_BLOCK_WEIGHT env -
       ratio_times env (NORMAL_DISPATCH_RATIO env) (MAXIMUM_BLOCK_WEIGHT env))\<rparr>"

definition MaximumSchedulerWeight :: "weight_env \<Rightarrow> u64 \<Rightarrow> u64" where
  "MaximumSchedulerWeight env max_block = ratio_times env (from_percent env 80) max_block"

definition DeletionWeightLimit :: "weight_env \<Rightarrow> u64 \<Rightarrow> u64" where
  "DeletionWeightLimit env max_block = ratio_times env (AVERAGE_ON_INITIALIZE_RATIO env) max_block"

text \<open>The depth of the deletion queue, from the weights of its handler for one and for no item.\<close>

definition DeletionQueueDepth :: "weight_env \<Rightarrow> u64 \<Rightarrow> (u32 \<Rightarrow> u64) \<Rightarrow> u32" where
  "DeletionQueueDepth env max_block on_initialize_per_queue_item =
     ucast (DeletionWeightLimit env max_block div
       (on_initialize_per_queue_item 1 - on_initialize_per_queue_item 0) div 5)"

definition MinerMaxWeight :: "u64 \<Rightarrow> u64 \<Rightarrow> u64" where
  "MinerMaxWeight max_extrinsic block_execution_weight = saturating_sub max_extrinsic block_execution_weight"

text \<open>
  What the normal class may use and what is reserved for the operational class fill a block exactly, the
  subtraction does not wrap around, and the ratio of the normal class is at least that of the block
  initialisation, when a ratio of a weight never exceeds it.
\<close>

theorem block_weights_fill:
  assumes "\<And>p w. unat p \<le> 10 ^ 9 \<Longrightarrow> ratio_times env p w \<le> w"
    and "\<And>p. unat p \<le> 100 \<Longrightarrow> unat (from_percent env p) = unat p * 10 ^ 7"
  shows "(case (max_total (normal_limits env), reserved (operational_limits env)) of
      (Some n, Some r) \<Rightarrow> unat n + unat r = unat (MAXIMUM_BLOCK_WEIGHT env)
    | _ \<Rightarrow> False)
    \<and> AVERAGE_ON_INITIALIZE_RATIO env \<le> NORMAL_DISPATCH_RATIO env"
proof -
  have percent: "unat (from_percent env 75) = 750000000" "unat (from_percent env 10) = 100000000"
    using assms(2) [of 75] assms(2) [of 10] by simp_all
  then have "ratio_times env (NORMAL_DISPATCH_RATIO env) (MAXIMUM_BLOCK_WEIGHT env) \<le> MAXIMUM_BLOCK_WEIGHT env"
    using assms(1) by (simp add: NORMAL_DISPATCH_RATIO_def)
  then show ?thesis
    using percent
    by (simp add: normal_limits_def operational_limits_def NORMAL_DISPATCH_RATIO_def
        AVERAGE_ON_INITIALIZE_RATIO_def unat_sub word_le_nat_alt)
qed

definition rational_env :: weight_env where
  "rational_env = \<lparr>from_percent = (\<lambda>p. p * 10000000),
     ratio_times = (\<lambda>p w. word_of_nat (unat w * unat p div 10 ^ 9)), WEIGHT_PER_SECOND = 1000000000000\<rparr>"

theorem block_weights_fill_witness:
  "(case (max_total (normal_limits rational_env), reserved (operational_limits rational_env)) of
      (Some n, Some r) \<Rightarrow> unat n + unat r = 2000000000000 | _ \<Rightarrow> False)"
proof -
  have "ratio_times rational_env p w \<le> w" if "unat p \<le> 10 ^ 9" for p w
  proof -
    have "unat w * unat p div 10 ^ 9 \<le> unat w * 10 ^ 9 div 10 ^ 9"
      using that by (intro div_le_mono mult_le_mono) simp_all
    then have "word_of_nat (unat w * unat p div 10 ^ 9) \<le> (word_of_nat (unat w) :: u64)"
      using unsigned_less [of w, where 'a = nat] by (subst word_of_nat_less_eq_iff) (simp add: take_bit_nat_eq_self)
    then show ?thesis
      by (simp add: rational_env_def)
  qed
  moreover have "unat (from_percent rational_env p) = unat p * 10 ^ 7" if "unat p \<le> 100" for p
    using that by (simp add: rational_env_def unat_word_ariths)
  ultimately show ?thesis
    using block_weights_fill [of rational_env]
    by (simp add: MAXIMUM_BLOCK_WEIGHT_def split: option.splits) (simp add: rational_env_def)
qed

end
