(* ===== verification/Runtime_Transactions.thy ===== *)
theory Runtime_Transactions
  imports Runtime_Governance Votechain_Pallet
begin

text \<open>
  The runtime's own code around transactions and its configuration: the signed extensions and
  \<open>create_transaction\<close> for off-chain workers, the number of balancing rounds of the election miner, the
  referenda tracks, the runtime APIs that do more than call a pallet, the parameters the runtime gives the voting
  pallet, and the properties of the constants.
\<close>

section \<open>The voting pallet in the runtime\<close>

text \<open>The pallet's configuration, with the origin checks and hashes of the framework.\<close>

definition votechain_runtime_config ::
  "('o \<Rightarrow> 'a option) \<Rightarrow> ('o \<Rightarrow> bool) \<Rightarrow> (election \<Rightarrow> 'h) \<Rightarrow> ('h candidate \<Rightarrow> 'h) \<Rightarrow>
   ('o, 'a, 'h) pallet_config" where
  "votechain_runtime_config signer is_root hash_el hash_ca = \<lparr>
     ElectionMinBytes = ElectionMinBytes_rt, ElectionMaxBytes = ElectionMaxBytes_rt,
     CandidateMinBytes = CandidateMinBytes_rt, CandidateMaxBytes = CandidateMaxBytes_rt,
     ensure_signed = signer, ensure_root = is_root,
     hash_of_election = hash_el, hash_of_candidate = hash_ca\<rparr>"

text \<open>The configuration of the pallet's mock runtime.\<close>

definition votechain_mock_config ::
  "('o \<Rightarrow> 'a option) \<Rightarrow> ('o \<Rightarrow> bool) \<Rightarrow> (election \<Rightarrow> 'h) \<Rightarrow> ('h candidate \<Rightarrow> 'h) \<Rightarrow>
   ('o, 'a, 'h) pallet_config" where
  "votechain_mock_config signer is_root hash_el hash_ca = \<lparr>
     ElectionMinBytes = 8, ElectionMaxBytes = 4096, CandidateMinBytes = 8, CandidateMaxBytes = 4096,
     ensure_signed = signer, ensure_root = is_root,
     hash_of_election = hash_el, hash_of_candidate = hash_ca\<rparr>"

text \<open>
  The runtime and the mock runtime of the tests configure the pallet alike, and in both root can create an
  election exactly with a description of 9 to 4095 bytes.
\<close>

theorem runtime_election_bounds:
  assumes "length desc < 2 ^ 32" "is_root origin"
  shows "votechain_mock_config signer is_root hash_el hash_ca = votechain_runtime_config signer is_root hash_el hash_ca
    \<and> (fst (create_election (votechain_runtime_config signer is_root hash_el hash_ca) origin desc s) = Inr ()
        \<longleftrightarrow> 9 \<le> length desc \<and> length desc \<le> 4095)"
proof -
  have "(8 :: u32) < word_of_nat (length desc) \<longleftrightarrow> 8 < length desc"
    and "word_of_nat (length desc) < (4096 :: u32) \<longleftrightarrow> length desc < 4096"
    using assms(1) by (simp_all add: word_less_nat_alt unat_of_nat)
  then show ?thesis
    using assms(2)
    by (auto simp: votechain_mock_config_def votechain_runtime_config_def parameter_defs create_election_eq Let_def)
qed

theorem runtime_election_bounds_witness:
  "fst (create_election (votechain_runtime_config (\<lambda>_ :: unit. None :: nat option) (\<lambda>_. True)
      (\<lambda>el. length (description el)) (\<lambda>c. length (candidate_name c)))
      () [1, 2, 3, 4, 5, 6, 7, 8] empty_storage) \<noteq> Inr ()"
  by (subst runtime_election_bounds [THEN conjunct2]) simp_all

section \<open>Transactions of off-chain workers\<close>

datatype ('era, 'asset) signed_extension =
    CheckNonZeroSender
  | CheckSpecVersion
  | CheckTxVersion
  | CheckGenesis
  | CheckEra 'era
  | CheckNonce Index
  | CheckWeight
  | ChargeAssetTxPayment Balance "'asset option"

text \<open>The extensions of a transaction, in the order of the type \<open>SignedExtra\<close>.\<close>

definition signed_extra :: "'era \<Rightarrow> Index \<Rightarrow> Balance \<Rightarrow> 'asset option \<Rightarrow> ('era, 'asset) signed_extension list" where
  "signed_extra era nonce tip asset =
     [CheckNonZeroSender, CheckSpecVersion, CheckTxVersion, CheckGenesis, CheckEra era, CheckNonce nonce,
      CheckWeight, ChargeAssetTxPayment tip asset]"

text \<open>\<open>u32::checked_next_power_of_two\<close>: the smallest power of two at least \<open>n\<close>, if u32 has one.\<close>

definition checked_next_power_of_two :: "u32 \<Rightarrow> u32 option" where
  "checked_next_power_of_two n = map_option (\<lambda>k. 2 ^ k) (find (\<lambda>k. unat n \<le> 2 ^ k) [0 ..< 32])"

definition mortal_period :: "u32 \<Rightarrow> u64" where
  "mortal_period block_hash_count =
     ucast (case checked_next_power_of_two block_hash_count of Some c \<Rightarrow> c div 2 | None \<Rightarrow> 2)"

record ('call, 'era, 'asset, 'payload, 'bytes, 'sig, 'public, 'account, 'address) tx_env =
  block_number :: BlockNumber
  era_mortal :: "u64 \<Rightarrow> u64 \<Rightarrow> 'era"
  signed_payload_new ::
    "'call \<Rightarrow> ('era, 'asset) signed_extension list \<Rightarrow> 'payload option"
  using_encoded :: "'payload \<Rightarrow> 'bytes"
  sign :: "'bytes \<Rightarrow> 'public \<Rightarrow> 'sig option"
  deconstruct :: "'payload \<Rightarrow> 'call \<times> ('era, 'asset) signed_extension list"
  unlookup :: "'account \<Rightarrow> 'address"

definition create_transaction ::
  "('call, 'era, 'asset, 'payload, 'bytes, 'sig, 'public, 'account, 'address) tx_env \<Rightarrow>
   'call \<Rightarrow> 'public \<Rightarrow> 'account \<Rightarrow> Index \<Rightarrow>
   ('call \<times> 'address \<times> 'sig \<times> ('era, 'asset) signed_extension list) option" where
  "create_transaction env call public account nonce =
     (let tip = 0;
          period = mortal_period BlockHashCount;
          current_block = saturating_sub (ucast (block_number env)) 1;
          era = era_mortal env period current_block;
          extra = signed_extra era nonce tip None
      in case signed_payload_new env call extra of
           None \<Rightarrow> None
         | Some raw_payload \<Rightarrow>
             (case sign env (using_encoded env raw_payload) public of
                None \<Rightarrow> None
              | Some signature \<Rightarrow>
                  (case deconstruct env raw_payload of
                     (call, extra) \<Rightarrow> Some (call, unlookup env account, signature, extra))))"

lemma find_upt_least:
  "k < j \<Longrightarrow> P k \<Longrightarrow> (\<And>l. l < k \<Longrightarrow> \<not> P l) \<Longrightarrow> find P [0 ..< j] = Some k"
  by (auto simp: find_Some_iff intro!: exI [of _ k])

lemma unat_power_of_two: "k < LENGTH('w::len) \<Longrightarrow> unat (2 ^ k :: 'w word) = 2 ^ k"
  by (metis of_nat_numeral of_nat_power power_strict_increasing_iff one_less_numeral_iff semiring_norm(76)
      take_bit_nat_eq_self unsigned_of_nat)

lemma runtime_mortal_period: "mortal_period BlockHashCount = 2048"
  by (simp add: mortal_period_def checked_next_power_of_two_def BlockHashCount_def upt_conv_Cons)

text \<open>
  The period of the mortal era is the largest power of two below twice the number of remembered block
  hashes, halved; it is a power of two, below the number of remembered hashes, and 2048 for the runtime.
\<close>

theorem mortal_period_bounds:
  assumes "2 \<le> unat n" "unat n \<le> 2 ^ 31"
  shows "(\<exists>k. unat (mortal_period n) = 2 ^ k) \<and> unat (mortal_period n) < unat n
    \<and> unat n \<le> 2 * unat (mortal_period n) \<and> mortal_period BlockHashCount = 2048"
proof -
  define k where "k = (LEAST k. unat n \<le> 2 ^ k)"
  have k: "unat n \<le> 2 ^ k" "\<And>l. l < k \<Longrightarrow> \<not> unat n \<le> 2 ^ l"
    unfolding k_def using assms(2) by (rule LeastI) (rule not_less_Least)
  have "k \<le> 31"
    using k(2) assms(2) by (meson not_le)
  have "k \<noteq> 0"
    using k(1) assms(1) by (intro notI) simp
  then obtain m where m: "k = Suc m"
    using not0_implies_Suc by blast
  have "checked_next_power_of_two n = Some (2 ^ k)"
    using k \<open>k \<le> 31\<close> unfolding checked_next_power_of_two_def
    by (subst find_upt_least [of k]) simp_all
  moreover have "(2 ^ k :: u32) div 2 = 2 ^ m"
    using \<open>k \<le> 31\<close> m
    by (simp add: word_unat_eq_iff unat_div_distrib unat_power_of_two del: power_Suc) simp
  ultimately have period: "unat (mortal_period n) = 2 ^ m"
    using \<open>k \<le> 31\<close> m by (simp add: mortal_period_def unsigned_ucast_eq take_bit_nat_eq_self unat_power_of_two)
  have "2 ^ m < unat n"
    using k(2) [of m] m by simp
  moreover have "mortal_period BlockHashCount = 2048"
    by (rule runtime_mortal_period)
  ultimately show ?thesis
    using period k(1) m by auto
qed

theorem mortal_period_bounds_witness:
  "unat (mortal_period 2400) < 2400 \<and> 2400 \<le> 2 * unat (mortal_period 2400)"
  using mortal_period_bounds [of 2400] by simp

text \<open>
  \<open>create_transaction\<close> gives a transaction exactly when the payload can be built and signed; then the payload
  carries the eight extensions in the order of \<open>SignedExtra\<close>, with no tip, the given nonce and an era of 2048
  blocks starting at the block before \<open>System::block_number\<close>, and what is signed is that payload.
\<close>

theorem create_transaction_iff:
  "create_transaction env call public account nonce = Some (call', address, signature, extra) \<longleftrightarrow>
   (\<exists>payload.
      signed_payload_new env call
        [CheckNonZeroSender, CheckSpecVersion, CheckTxVersion, CheckGenesis,
         CheckEra (era_mortal env 2048 (word_of_nat (unat (block_number env) - 1))), CheckNonce nonce,
         CheckWeight, ChargeAssetTxPayment 0 None] = Some payload
      \<and> sign env (using_encoded env payload) public = Some signature
      \<and> deconstruct env payload = (call', extra) \<and> address = unlookup env account)"
proof -
  have "saturating_sub (ucast n) 1 = (word_of_nat (unat n - 1) :: u64)" for n :: u32
    using unsigned_less [of n, where 'a = nat]
    by (simp add: word_unat_eq_iff unat_saturating_sub unsigned_ucast_eq unat_of_nat take_bit_nat_eq_self)
  moreover have "mortal_period BlockHashCount = 2048"
    by (rule runtime_mortal_period)
  ultimately show ?thesis
    by (auto simp: create_transaction_def signed_extra_def Let_def split: option.splits prod.splits)
qed

section \<open>The election miner\<close>

text \<open>
  \<open>OffchainRandomBalancing::get\<close>: the number of balancing rounds, from the random seed of the
  off-chain worker, and the tolerance; \<open>decode_u32\<close> decodes a number from the seed padded with zeroes.
\<close>

definition offchain_random_balancing :: "(u8 list \<Rightarrow> u32) \<Rightarrow> u32 \<Rightarrow> u8 list \<Rightarrow> (nat \<times> u128) option" where
  "offchain_random_balancing decode_u32 max_iterations seed =
     (let iters =
        (if max_iterations = 0 then 0
         else unat (decode_u32 seed mod saturating_add max_iterations 1))
      in Some (iters, 0))"

text \<open>
  Whatever the seed, the miner makes at most \<open>MINER_MAX_ITERATIONS\<close> rounds of balancing: the divisor is
  never zero, also at the largest u32, and every count up to the maximum is reached by some seed.
\<close>

theorem balancing_rounds_bounded:
  "(\<exists>n \<le> unat max_iterations. offchain_random_balancing decode_u32 max_iterations seed = Some (n, 0))
   \<and> (n \<le> 10 \<longleftrightarrow> offchain_random_balancing (\<lambda>_. word_of_nat n) MINER_MAX_ITERATIONS seed = Some (n, 0))"
proof
  have max: "unat max_iterations < 2 ^ 32"
    using unsigned_less [of max_iterations, where 'a = nat] by simp
  show "\<exists>n \<le> unat max_iterations. offchain_random_balancing decode_u32 max_iterations seed = Some (n, 0)"
  proof (cases "max_iterations = 0 \<or> unat max_iterations = 2 ^ 32 - 1")
    case True
    then show ?thesis
      using unsigned_less [of "decode_u32 seed mod saturating_add max_iterations 1", where 'a = nat]
      by (auto simp: offchain_random_balancing_def)
  next
    case False
    then have "unat (saturating_add max_iterations 1) = unat max_iterations + 1"
      using max by (simp add: unat_saturating_add)
    then have "unat (decode_u32 seed mod saturating_add max_iterations 1) \<le> unat max_iterations"
      by (simp add: unat_mod_distrib flip: less_Suc_eq_le)
    then show ?thesis
      using False by (simp add: offchain_random_balancing_def)
  qed
  have "unat (saturating_add (10 :: u32) 1) = 11"
    by (simp add: unat_saturating_add)
  then show "n \<le> 10 \<longleftrightarrow> offchain_random_balancing (\<lambda>_. word_of_nat n) MINER_MAX_ITERATIONS seed = Some (n, 0)"
    by (auto simp: offchain_random_balancing_def MINER_MAX_ITERATIONS_def unat_mod_distrib unat_of_nat)
qed

end
