(* ===== verification/Runtime_Api.thy ===== *)
theory Runtime_Api
  imports Runtime_Transactions
begin

text \<open>
  The referenda tracks, the reward curve, the runtime version, and those runtime APIs that do more than hand
  their arguments to a pallet. The pallets' functions and the decoders are parameters. At the end, the properties of the
  constants of the runtime.
\<close>

section \<open>Version\<close>

record runtime_version =
  spec_name :: string
  impl_name :: string
  authoring_version :: u32
  spec_version :: u32
  impl_version :: u32
  transaction_version :: u32
  state_version :: u8

definition VERSION :: runtime_version where
  "VERSION = \<lparr>spec_name = ''node-votechain'', impl_name = ''node-votechain'', authoring_version = 10,
     spec_version = 268, impl_version = 0, transaction_version = 2, state_version = 1\<rparr>"

section \<open>Referenda tracks\<close>

text \<open>A percentage is kept as the number the code passes to \<open>Perbill::from_percent\<close>.\<close>

datatype curve = LinearDecreasing (curve_begin: u32) (curve_delta: u32)

record track_info =
  track_name :: string
  max_deciding :: u32
  decision_deposit :: Balance
  prepare_period :: BlockNumber
  decision_period :: BlockNumber
  confirm_period :: BlockNumber
  min_enactment_period :: BlockNumber
  min_approval :: curve
  min_turnout :: curve

definition tracks :: "(u8 \<times> track_info) list" where
  "tracks = [(0, \<lparr>track_name = ''root'', max_deciding = 1, decision_deposit = 10, prepare_period = 4,
     decision_period = 4, confirm_period = 2, min_enactment_period = 4,
     min_approval = LinearDecreasing 100 50, min_turnout = LinearDecreasing 100 100\<rparr>)]"

datatype 'a raw_origin = RawRoot | RawSigned 'a | RawNone

text \<open>\<open>as_system\<close> is the framework's conversion of an origin to a system origin.\<close>

definition track_for :: "('o \<Rightarrow> 'a raw_origin option) \<Rightarrow> 'o \<Rightarrow> (unit, u8) result" where
  "track_for as_system origin =
     (case as_system origin of
        Some system_origin \<Rightarrow> (case system_origin of RawRoot \<Rightarrow> Inr 0 | _ \<Rightarrow> Inl ())
      | None \<Rightarrow> Inl ())"

text \<open>
  Only the root origin has a track, and every track an origin is given is one that \<open>tracks\<close> declares, with
  an approval curve that ends at half and periods that fit: the confirmation is no longer than the decision.
\<close>

theorem track_for_declared:
  "(track_for as_system origin = Inr t \<longleftrightarrow> as_system origin = Some RawRoot \<and> t = 0)
   \<and> (case track_for as_system origin of Inl _ \<Rightarrow> True | Inr t \<Rightarrow>
        (case map_of tracks t of None \<Rightarrow> False | Some info \<Rightarrow>
           confirm_period info \<le> decision_period info \<and>
           curve_begin (min_approval info) - curve_delta (min_approval info) = 50))"
  by (auto simp: track_for_def tracks_def split: option.splits raw_origin.splits)

section \<open>Rewards\<close>

text \<open>The reward curve, in parts per million as the macro takes them.\<close>

record reward_curve =
  min_inflation :: nat
  max_inflation :: nat
  ideal_stake :: nat
  falloff :: nat
  max_piece_count :: nat
  test_precision :: nat

definition REWARD_CURVE :: reward_curve where
  "REWARD_CURVE = \<lparr>min_inflation = 25000, max_inflation = 100000, ideal_stake = 500000, falloff = 50000,
     max_piece_count = 40, test_precision = 5000\<rparr>"

section \<open>Runtime APIs\<close>

definition submit_report_equivocation ::
  "('k \<Rightarrow> 'p option) \<Rightarrow> ('e \<Rightarrow> 'p \<Rightarrow> unit option) \<Rightarrow> 'e \<Rightarrow> 'k \<Rightarrow> unit option" where
  "submit_report_equivocation decode submit equivocation_proof key_owner_proof =
     (case decode key_owner_proof of
        None \<Rightarrow> None
      | Some proof \<Rightarrow> submit equivocation_proof proof)"

definition generate_key_ownership_proof ::
  "('t \<times> 'id \<Rightarrow> 'p option) \<Rightarrow> ('p \<Rightarrow> u8 list) \<Rightarrow> 't \<Rightarrow> 'set \<Rightarrow> 'id \<Rightarrow> u8 list option" where
  "generate_key_ownership_proof prove encode key_type set_id authority_id =
     map_option encode (prove (key_type, authority_id))"

record ('auth, 'rand, 'allowed) babe_configuration =
  slot_duration :: u64
  epoch_length :: u64
  babe_c :: "u64 \<times> u64"
  genesis_authorities :: "'auth list"
  randomness :: 'rand
  allowed_slots :: 'allowed

datatype allowed_slots = PrimarySlots | PrimaryAndSecondaryPlainSlots | PrimaryAndSecondaryVRFSlots

definition BABE_GENESIS_EPOCH_CONFIG :: "(u64 \<times> u64) \<times> allowed_slots" where
  "BABE_GENESIS_EPOCH_CONFIG = (PRIMARY_PROBABILITY, PrimaryAndSecondaryPlainSlots)"

definition babe_configuration ::
  "u64 \<Rightarrow> 'auth list \<Rightarrow> 'rand \<Rightarrow> ('auth, 'rand, allowed_slots) babe_configuration" where
  "babe_configuration babe_slot_duration babe_authorities babe_randomness =
     \<lparr>slot_duration = babe_slot_duration, epoch_length = EpochDuration,
      babe_c = fst BABE_GENESIS_EPOCH_CONFIG, genesis_authorities = babe_authorities,
      randomness = babe_randomness, allowed_slots = snd BABE_GENESIS_EPOCH_CONFIG\<rparr>"

text \<open>The Merkle mountain range API.\<close>

datatype 'e mmr_error = Verify | Other_mmr 'e

definition mmr_generate_proof ::
  "('i \<Rightarrow> ('e mmr_error, 'leaf \<times> 'proof) result) \<Rightarrow> ('leaf \<Rightarrow> 'opaque) \<Rightarrow> 'i \<Rightarrow>
   ('e mmr_error, 'opaque \<times> 'proof) result" where
  "mmr_generate_proof generate from_leaf leaf_index =
     (case generate leaf_index of
        Inl e \<Rightarrow> Inl e
      | Inr (leaf, proof) \<Rightarrow> Inr (from_leaf leaf, proof))"

definition mmr_verify_proof ::
  "('opaque \<Rightarrow> 'leaf option) \<Rightarrow> ('leaf \<Rightarrow> 'proof \<Rightarrow> ('e mmr_error, unit) result) \<Rightarrow> 'opaque \<Rightarrow> 'proof \<Rightarrow>
   ('e mmr_error, unit) result" where
  "mmr_verify_proof try_decode verify_leaf leaf proof =
     (case try_decode leaf of
        None \<Rightarrow> Inl Verify
      | Some l \<Rightarrow> verify_leaf l proof)"

text \<open>The calls of the contracts API run the pallet's bare functions with debug output on.\<close>

definition contracts_call ::
  "('acc \<Rightarrow> 'acc \<Rightarrow> Balance \<Rightarrow> u64 \<Rightarrow> Balance option \<Rightarrow> u8 list \<Rightarrow> bool \<Rightarrow> 'r) \<Rightarrow>
   'acc \<Rightarrow> 'acc \<Rightarrow> Balance \<Rightarrow> u64 \<Rightarrow> Balance option \<Rightarrow> u8 list \<Rightarrow> 'r" where
  "contracts_call bare_call origin dest value gas_limit storage_deposit_limit input_data =
     bare_call origin dest value gas_limit storage_deposit_limit input_data True"

definition contracts_instantiate ::
  "('acc \<Rightarrow> Balance \<Rightarrow> u64 \<Rightarrow> Balance option \<Rightarrow> 'code \<Rightarrow> u8 list \<Rightarrow> u8 list \<Rightarrow> bool \<Rightarrow> 'r) \<Rightarrow>
   'acc \<Rightarrow> Balance \<Rightarrow> u64 \<Rightarrow> Balance option \<Rightarrow> 'code \<Rightarrow> u8 list \<Rightarrow> u8 list \<Rightarrow> 'r" where
  "contracts_instantiate bare_instantiate origin value gas_limit storage_deposit_limit code data salt =
     bare_instantiate origin value gas_limit storage_deposit_limit code data salt True"

lemma mmr_round_trip:
  assumes "mmr_generate_proof generate from_leaf i = Inr (opaque, proof)"
    and "\<And>leaf. try_decode (from_leaf leaf) = Some leaf"
    and "\<And>leaf proof. generate i = Inr (leaf, proof) \<Longrightarrow> verify_leaf leaf proof = Inr ()"
  shows "mmr_verify_proof try_decode verify_leaf opaque proof = Inr ()"
  using assms by (auto simp: mmr_generate_proof_def mmr_verify_proof_def split: sum.splits prod.splits)

section \<open>Constants\<close>

text \<open>
  A storage deposit is 15 cents per item and 6 cents per byte exactly: the product and the sum never wrap
  around in the balance type, at any number of items and bytes; so the deposits of the runtime grow with both.
\<close>

theorem deposit_exact:
  "unat (deposit items bytes) = (15 * unat items + 6 * unat bytes) * unat CENTS
   \<and> (deposit items bytes \<le> deposit items' bytes \<longleftrightarrow> items \<le> items')
   \<and> (deposit items bytes \<le> deposit items bytes' \<longleftrightarrow> bytes \<le> bytes')"
  by (simp add: unat_deposit word_le_nat_alt money_values)

text \<open>
  The durations of the runtime are the ones their units say: an epoch is as many slots as blocks, a
  report of misbehaviour stays valid for exactly the bonding duration, slashes are deferred for a quarter of it
  rather than beyond it, the democracy periods are whole days, and the two election phases fit in the epoch.
\<close>

theorem durations_consistent:
  "unat EPOCH_DURATION_IN_SLOTS = unat EPOCH_DURATION_IN_BLOCKS
   \<and> unat ReportLongevity = unat BondingDuration * unat SessionsPerEra * unat EpochDuration
   \<and> unat BondingDuration = 4 * unat SlashDeferDuration
   \<and> LaunchPeriod = 28 * DAYS \<and> VotingPeriod = 28 * DAYS \<and> FastTrackVotingPeriod = 3 * DAYS
   \<and> EnactmentPeriod = 30 * DAYS \<and> CooloffPeriod = 28 * DAYS
   \<and> unat SignedPhase + unat UnsignedPhase \<le> unat EPOCH_DURATION_IN_BLOCKS
   \<and> 2 * unat MinimumPeriod = unat SLOT_DURATION
   \<and> unat DAYS * unat MILLISECS_PER_BLOCK = 24 * 60 * 60 * 1000"
  by (simp add: time_values parameter_defs)

text \<open>
  Heartbeats come before staking's unsigned transactions and those before the election miner's, the
  elected council fits in the council's size limit, and the minimum lengths of the voting pallet are below its maximum lengths.
\<close>

theorem limits_consistent:
  "MultiPhaseUnsignedPriority < StakingUnsignedPriority \<and> StakingUnsignedPriority < ImOnlineUnsignedPriority
   \<and> DesiredMembers \<le> CouncilMaxMembers
   \<and> ElectionMinBytes_rt < ElectionMaxBytes_rt \<and> CandidateMinBytes_rt < CandidateMaxBytes_rt"
  by (simp add: parameter_defs)

end
