(* ===== verification/Runtime_Config.thy ===== *)
theory Runtime_Config
  imports Runtime_Api
begin

text \<open>
  The configurations of the pallets of the runtime (the \<open>Config\<close> implementations of \<open>runtime/src/lib.rs\<close>): for each
  pallet its associated types and constants by name. A value is another pallet of the runtime, the unit type, a number, an
  origin check, the weights of a crate, a tuple, a generic type applied to such values, or a type that is only named. The
  arguments \<open>Self\<close>, \<open>Runtime\<close> and \<open>AccountId\<close> of generic types are left out.
\<close>

section \<open>Values\<close>

datatype config_value =
    Ref pallet
  | Unit
  | Number nat
  | Origin origin_filter
  | Weights string
  | Tuple "config_value list"
  | App string "config_value list"
  | Text string

type_synonym config_entries = "(string \<times> config_value) list"

definition ElectionsPhragmenPalletId :: string where "ElectionsPhragmenPalletId = ''phrelect''"
definition TreasuryPalletId :: string where "TreasuryPalletId = ''py/trsry''"
definition SocietyPalletId :: string where "SocietyPalletId = ''py/socie''"
definition LotteryPalletId :: string where "LotteryPalletId = ''py/lotto''"

section \<open>The configurations\<close>

definition config_System :: config_entries where
  "config_System = [
     (''BaseCallFilter'', Text ''Everything''), (''BlockWeights'', Text ''RuntimeBlockWeights''),
     (''BlockLength'', Text ''RuntimeBlockLength''), (''DbWeight'', Text ''RocksDbWeight''),
     (''Origin'', Text ''Origin''), (''Call'', Text ''Call''), (''Index'', Text ''Index''),
     (''BlockNumber'', Text ''BlockNumber''), (''Hash'', Text ''Hash''), (''Hashing'', Text ''BlakeTwo256''),
     (''AccountId'', Text ''AccountId''), (''Lookup'', Ref Indices),
     (''Header'', App ''generic::Header'' [Text ''BlockNumber'', Text ''BlakeTwo256'']),
     (''Event'', Text ''Event''), (''BlockHashCount'', Number (unat BlockHashCount)),
     (''Version'', Text ''Version''), (''PalletInfo'', Text ''PalletInfo''),
     (''AccountData'', App ''pallet_balances::AccountData'' [Text ''Balance'']), (''OnNewAccount'', Unit),
     (''OnKilledAccount'', Unit), (''SystemWeightInfo'', Weights ''frame_system''),
     (''SS58Prefix'', Number 42), (''OnSetCode'', Unit), (''MaxConsumers'', Number 16)]"

definition config_RandomnessCollectiveFlip :: config_entries where
  "config_RandomnessCollectiveFlip = []"

definition config_Utility :: config_entries where
  "config_Utility = [
     (''Event'', Text ''Event''), (''Call'', Text ''Call''), (''PalletsOrigin'', Text ''OriginCaller''),
     (''WeightInfo'', Weights ''pallet_utility'')]"

definition config_Multisig :: config_entries where
  "config_Multisig = [
     (''Event'', Text ''Event''), (''Call'', Text ''Call''), (''Currency'', Ref Balances),
     (''DepositBase'', Number (unat DepositBase)), (''DepositFactor'', Number (unat DepositFactor)),
     (''MaxSignatories'', Number 100), (''WeightInfo'', Weights ''pallet_multisig'')]"

definition config_Proxy :: config_entries where
  "config_Proxy = [
     (''Event'', Text ''Event''), (''Call'', Text ''Call''), (''Currency'', Ref Balances),
     (''ProxyType'', Text ''ProxyType''), (''ProxyDepositBase'', Number (unat ProxyDepositBase)),
     (''ProxyDepositFactor'', Number (unat ProxyDepositFactor)), (''MaxProxies'', Number 32),
     (''WeightInfo'', Weights ''pallet_proxy''), (''MaxPending'', Number 32),
     (''CallHasher'', Text ''BlakeTwo256''),
     (''AnnouncementDepositBase'', Number (unat AnnouncementDepositBase)),
     (''AnnouncementDepositFactor'', Number (unat AnnouncementDepositFactor))]"

definition config_Scheduler :: config_entries where
  "config_Scheduler = [
     (''Event'', Text ''Event''), (''Origin'', Text ''Origin''), (''PalletsOrigin'', Text ''OriginCaller''),
     (''Call'', Text ''Call''), (''MaximumWeight'', Text ''MaximumSchedulerWeight''),
     (''ScheduleOrigin'', Origin EnsureRoot), (''MaxScheduledPerBlock'', Number 50),
     (''WeightInfo'', Weights ''pallet_scheduler''), (''OriginPrivilegeCmp'', Text ''EqualPrivilegeOnly''),
     (''PreimageProvider'', Ref Preimage), (''NoPreimagePostponement'', Text ''NoPreimagePostponement'')]"

definition config_Preimage :: config_entries where
  "config_Preimage = [
     (''WeightInfo'', Weights ''pallet_preimage''), (''Event'', Text ''Event''),
     (''Currency'', Ref Balances), (''ManagerOrigin'', Origin EnsureRoot),
     (''MaxSize'', Number (unat PreimageMaxSize)), (''BaseDeposit'', Number (unat PreimageBaseDeposit)),
     (''ByteDeposit'', Number (unat PreimageByteDeposit))]"

definition config_Babe :: config_entries where
  "config_Babe = [
     (''EpochDuration'', Number (unat EpochDuration)),
     (''ExpectedBlockTime'', Number (unat ExpectedBlockTime)),
     (''EpochChangeTrigger'', Text ''pallet_babe::ExternalTrigger''), (''DisabledValidators'', Ref Session),
     (''KeyOwnerProofSystem'', Ref Historical),
     (''KeyOwnerProof'', Text ''<Self::KeyOwnerProofSystem as KeyOwnerProofSystem<( KeyTypeId, pallet_babe::AuthorityId, )>>::Proof''),
     (''KeyOwnerIdentification'', Text ''<Self::KeyOwnerProofSystem as KeyOwnerProofSystem<( KeyTypeId, pallet_babe::AuthorityId, )>>::IdentificationTuple''),
     (''HandleEquivocation'', App ''pallet_babe::EquivocationHandler'' [Text ''Self::KeyOwnerIdentification'', Ref Offences, Number (unat ReportLongevity)]),
     (''WeightInfo'', Unit), (''MaxAuthorities'', Number (unat MaxAuthorities))]"

definition config_Indices :: config_entries where
  "config_Indices = [
     (''AccountIndex'', Text ''AccountIndex''), (''Currency'', Ref Balances),
     (''Deposit'', Number (unat IndexDeposit)), (''Event'', Text ''Event''),
     (''WeightInfo'', Weights ''pallet_indices'')]"

definition config_Balances :: config_entries where
  "config_Balances = [
     (''MaxLocks'', Number (unat MaxLocks)), (''MaxReserves'', Number (unat MaxReserves)),
     (''ReserveIdentifier'', Text ''[u8; 8]''), (''Balance'', Text ''Balance''), (''DustRemoval'', Unit),
     (''Event'', Text ''Event''), (''ExistentialDeposit'', Number (unat ExistentialDeposit)),
     (''AccountStore'', Ref System), (''WeightInfo'', Weights ''pallet_balances'')]"

definition config_TransactionPayment :: config_entries where
  "config_TransactionPayment = [
     (''OnChargeTransaction'', App ''CurrencyAdapter'' [Ref Balances, Text ''DealWithFees'']),
     (''TransactionByteFee'', Number (unat TransactionByteFee)),
     (''OperationalFeeMultiplier'', Number (unat OperationalFeeMultiplier)),
     (''WeightToFee'', App ''IdentityFee'' [Text ''Balance'']),
     (''FeeMultiplierUpdate'', App ''TargetedFeeAdjustment'' [Text ''TargetBlockFullness'', Text ''AdjustmentVariable'', Text ''MinimumMultiplier''])]"

definition config_AssetTxPayment :: config_entries where
  "config_AssetTxPayment = [
     (''Fungibles'', Ref Assets),
     (''OnChargeAssetTransaction'', App ''pallet_asset_tx_payment::FungiblesAdapter'' [App ''pallet_assets::BalanceToAssetBalance'' [Ref Balances, Text ''ConvertInto''], Text ''CreditToBlockAuthor''])]"

definition config_Timestamp :: config_entries where
  "config_Timestamp = [
     (''Moment'', Text ''Moment''), (''OnTimestampSet'', Ref Babe),
     (''MinimumPeriod'', Number (unat MinimumPeriod)), (''WeightInfo'', Weights ''pallet_timestamp'')]"

definition config_Authorship :: config_entries where
  "config_Authorship = [
     (''FindAuthor'', App ''pallet_session::FindAccountFromAuthorIndex'' [Ref Babe]),
     (''UncleGenerations'', Number (unat UncleGenerations)), (''FilterUncle'', Unit),
     (''EventHandler'', Tuple [Ref Staking, Ref ImOnline])]"

definition config_Session :: config_entries where
  "config_Session = [
     (''Event'', Text ''Event''), (''ValidatorId'', Text ''<Self as frame_system::Config>::AccountId''),
     (''ValidatorIdOf'', Text ''pallet_staking::StashOf''), (''ShouldEndSession'', Ref Babe),
     (''NextSessionRotation'', Ref Babe),
     (''SessionManager'', App ''pallet_session::historical::NoteHistoricalRoot'' [Ref Staking]),
     (''SessionHandler'', Text ''<SessionKeys as OpaqueKeys>::KeyTypeIdProviders''),
     (''Keys'', Text ''SessionKeys''), (''WeightInfo'', Weights ''pallet_session'')]"

definition config_Historical :: config_entries where
  "config_Historical = [
     (''FullIdentification'', App ''pallet_staking::Exposure'' [Text ''Balance'']),
     (''FullIdentificationOf'', Text ''pallet_staking::ExposureOf'')]"

definition config_Staking :: config_entries where
  "config_Staking = [
     (''MaxNominations'', Text ''MaxNominations''), (''Currency'', Ref Balances),
     (''UnixTime'', Ref Timestamp), (''CurrencyToVote'', Text ''U128CurrencyToVote''),
     (''RewardRemainder'', Ref Treasury), (''Event'', Text ''Event''), (''Slash'', Ref Treasury),
     (''Reward'', Unit), (''SessionsPerEra'', Number (unat SessionsPerEra)),
     (''BondingDuration'', Number (unat BondingDuration)),
     (''SlashDeferDuration'', Number (unat SlashDeferDuration)),
     (''SlashCancelOrigin'', Origin SlashCancelOrigin), (''SessionInterface'', Text ''Self''),
     (''EraPayout'', App ''pallet_staking::ConvertCurve'' [Text ''RewardCurve'']),
     (''NextNewSession'', Ref Session),
     (''MaxNominatorRewardedPerValidator'', Number (unat MaxNominatorRewardedPerValidator)),
     (''OffendingValidatorsThreshold'', Text ''OffendingValidatorsThreshold''),
     (''ElectionProvider'', Ref ElectionProviderMultiPhase),
     (''GenesisElectionProvider'', Text ''onchain::OnChainSequentialPhragmen''),
     (''SortedListProvider'', Ref BagsList), (''WeightInfo'', Weights ''pallet_staking''),
     (''BenchmarkingConfig'', Text ''StakingBenchmarkingConfig'')]"

definition config_OnchainElection :: config_entries where
  "config_OnchainElection = [
     (''Accuracy'', Text ''Perbill''),
     (''DataProvider'', Text ''<Self as pallet_election_provider_multi_phase::Config>::DataProvider'')]"

definition config_ElectionProviderMultiPhase :: config_entries where
  "config_ElectionProviderMultiPhase = [
     (''Event'', Text ''Event''), (''Currency'', Ref Balances),
     (''EstimateCallFee'', Ref TransactionPayment), (''SignedPhase'', Number (unat SignedPhase)),
     (''UnsignedPhase'', Number (unat UnsignedPhase)),
     (''SolutionImprovementThreshold'', Text ''SolutionImprovementThreshold''),
     (''OffchainRepeat'', Number (unat OffchainRepeat)), (''MinerMaxWeight'', Text ''MinerMaxWeight''),
     (''MinerMaxLength'', Text ''MinerMaxLength''),
     (''MinerTxPriority'', Number (unat MultiPhaseUnsignedPriority)), (''SignedMaxSubmissions'', Number 10),
     (''SignedRewardBase'', Number (unat SignedRewardBase)),
     (''SignedDepositBase'', Number (unat SignedDepositBase)),
     (''SignedDepositByte'', Number (unat SignedDepositByte)), (''SignedDepositWeight'', Unit),
     (''SignedMaxWeight'', Text ''MinerMaxWeight''), (''SlashHandler'', Unit), (''RewardHandler'', Unit),
     (''DataProvider'', Ref Staking), (''Solution'', Text ''NposSolution16''),
     (''Fallback'', Text ''pallet_election_provider_multi_phase::NoFallback''),
     (''GovernanceFallback'', Text ''frame_election_provider_support::onchain::OnChainSequentialPhragmen''),
     (''Solver'', App ''frame_election_provider_support::SequentialPhragmen'' [Text ''pallet_election_provider_multi_phase::SolutionAccuracyOf'', Text ''OffchainRandomBalancing'']),
     (''WeightInfo'', Weights ''pallet_election_provider_multi_phase''),
     (''ForceOrigin'', Origin EnsureRootOrHalfCouncil),
     (''BenchmarkingConfig'', Text ''ElectionProviderBenchmarkConfig''),
     (''VoterSnapshotPerBlock'', Number 10000)]"

definition config_BagsList :: config_entries where
  "config_BagsList = [
     (''Event'', Text ''Event''), (''VoteWeightProvider'', Ref Staking),
     (''WeightInfo'', Weights ''pallet_bags_list''), (''BagThresholds'', Text ''BagThresholds'')]"

definition config_ConvictionVoting :: config_entries where
  "config_ConvictionVoting = [
     (''WeightInfo'', Weights ''pallet_conviction_voting''), (''Event'', Text ''Event''),
     (''Currency'', Ref Balances), (''VoteLockingPeriod'', Number (unat VoteLockingPeriod)),
     (''MaxVotes'', Number 512),
     (''MaxTurnout'', App ''frame_support::traits::TotalIssuanceOf'' [Ref Balances, Text ''Self::AccountId'']),
     (''Polls'', Ref Referenda)]"

definition config_Referenda :: config_entries where
  "config_Referenda = [
     (''WeightInfo'', Weights ''pallet_referenda''), (''Call'', Text ''Call''), (''Event'', Text ''Event''),
     (''Scheduler'', Ref Scheduler), (''Currency'', Ref Balances), (''CancelOrigin'', Origin EnsureRoot),
     (''KillOrigin'', Origin EnsureRoot), (''Slash'', Unit),
     (''Votes'', Text ''pallet_conviction_voting::VotesOf''),
     (''Tally'', Text ''pallet_conviction_voting::TallyOf''),
     (''SubmissionDeposit'', Number (unat SubmissionDeposit)), (''MaxQueued'', Number 100),
     (''UndecidingTimeout'', Number (unat UndecidingTimeout)),
     (''AlarmInterval'', Number (unat AlarmInterval)), (''Tracks'', Text ''TracksInfo'')]"

definition config_Democracy :: config_entries where
  "config_Democracy = [
     (''Proposal'', Text ''Call''), (''Event'', Text ''Event''), (''Currency'', Ref Balances),
     (''EnactmentPeriod'', Number (unat EnactmentPeriod)), (''LaunchPeriod'', Number (unat LaunchPeriod)),
     (''VotingPeriod'', Number (unat VotingPeriod)), (''VoteLockingPeriod'', Number (unat EnactmentPeriod)),
     (''MinimumDeposit'', Number (unat MinimumDeposit)), (''ExternalOrigin'', Origin ExternalOrigin),
     (''ExternalMajorityOrigin'', Origin ExternalMajorityOrigin),
     (''ExternalDefaultOrigin'', Origin ExternalDefaultOrigin),
     (''FastTrackOrigin'', Origin FastTrackOrigin), (''InstantOrigin'', Origin InstantOrigin),
     (''InstantAllowed'', App ''frame_support::traits::ConstBool'' [Text ''true'']),
     (''FastTrackVotingPeriod'', Number (unat FastTrackVotingPeriod)),
     (''CancellationOrigin'', Origin CancellationOrigin),
     (''CancelProposalOrigin'', Origin CancelProposalOrigin), (''BlacklistOrigin'', Origin BlacklistOrigin),
     (''VetoOrigin'', Origin VetoOrigin), (''CooloffPeriod'', Number (unat CooloffPeriod)),
     (''PreimageByteDeposit'', Number (unat PreimageByteDeposit)),
     (''OperationalPreimageOrigin'', Origin OperationalPreimageOrigin), (''Slash'', Ref Treasury),
     (''Scheduler'', Ref Scheduler), (''PalletsOrigin'', Text ''OriginCaller''), (''MaxVotes'', Number 100),
     (''WeightInfo'', Weights ''pallet_democracy''), (''MaxProposals'', Number (unat MaxProposals))]"

definition config_Council :: config_entries where
  "config_Council = [
     (''Origin'', Text ''Origin''), (''Proposal'', Text ''Call''), (''Event'', Text ''Event''),
     (''MotionDuration'', Number (unat CouncilMotionDuration)),
     (''MaxProposals'', Number (unat CouncilMaxProposals)),
     (''MaxMembers'', Number (unat CouncilMaxMembers)),
     (''DefaultVote'', Text ''pallet_collective::PrimeDefaultVote''),
     (''WeightInfo'', Weights ''pallet_collective'')]"

definition config_Elections :: config_entries where
  "config_Elections = [
     (''Event'', Text ''Event''), (''PalletId'', Text ElectionsPhragmenPalletId),
     (''Currency'', Ref Balances), (''ChangeMembers'', Ref Council), (''InitializeMembers'', Ref Council),
     (''CurrencyToVote'', Text ''U128CurrencyToVote''), (''CandidacyBond'', Number (unat CandidacyBond)),
     (''VotingBondBase'', Number (unat VotingBondBase)),
     (''VotingBondFactor'', Number (unat VotingBondFactor)), (''LoserCandidate'', Unit),
     (''KickedMember'', Unit), (''DesiredMembers'', Number (unat DesiredMembers)),
     (''DesiredRunnersUp'', Number (unat DesiredRunnersUp)), (''TermDuration'', Number (unat TermDuration)),
     (''WeightInfo'', Weights ''pallet_elections_phragmen'')]"

definition config_TechnicalCommittee :: config_entries where
  "config_TechnicalCommittee = [
     (''Origin'', Text ''Origin''), (''Proposal'', Text ''Call''), (''Event'', Text ''Event''),
     (''MotionDuration'', Number (unat TechnicalMotionDuration)),
     (''MaxProposals'', Number (unat TechnicalMaxProposals)),
     (''MaxMembers'', Number (unat TechnicalMaxMembers)),
     (''DefaultVote'', Text ''pallet_collective::PrimeDefaultVote''),
     (''WeightInfo'', Weights ''pallet_collective'')]"

definition config_TechnicalMembership :: config_entries where
  "config_TechnicalMembership = [
     (''Event'', Text ''Event''), (''AddOrigin'', Origin EnsureRootOrHalfCouncil),
     (''RemoveOrigin'', Origin EnsureRootOrHalfCouncil), (''SwapOrigin'', Origin EnsureRootOrHalfCouncil),
     (''ResetOrigin'', Origin EnsureRootOrHalfCouncil), (''PrimeOrigin'', Origin EnsureRootOrHalfCouncil),
     (''MembershipInitialized'', Ref TechnicalCommittee), (''MembershipChanged'', Ref TechnicalCommittee),
     (''MaxMembers'', Number (unat TechnicalMaxMembers)), (''WeightInfo'', Weights ''pallet_membership'')]"

definition config_Treasury :: config_entries where
  "config_Treasury = [
     (''PalletId'', Text TreasuryPalletId), (''Currency'', Ref Balances),
     (''ApproveOrigin'', Origin ApproveOrigin), (''RejectOrigin'', Origin RejectOrigin),
     (''Event'', Text ''Event''), (''OnSlash'', Unit), (''ProposalBond'', Text ''ProposalBond''),
     (''ProposalBondMinimum'', Number (unat ProposalBondMinimum)), (''ProposalBondMaximum'', Unit),
     (''SpendPeriod'', Number (unat SpendPeriod)), (''Burn'', Text ''Burn''), (''BurnDestination'', Unit),
     (''SpendFunds'', Ref Bounties), (''WeightInfo'', Weights ''pallet_treasury''),
     (''MaxApprovals'', Number (unat MaxApprovals))]"

definition config_Bounties :: config_entries where
  "config_Bounties = [
     (''Event'', Text ''Event''), (''BountyDepositBase'', Number (unat BountyDepositBase)),
     (''BountyDepositPayoutDelay'', Number (unat BountyDepositPayoutDelay)),
     (''BountyUpdatePeriod'', Number (unat BountyUpdatePeriod)),
     (''BountyCuratorDeposit'', Text ''BountyCuratorDeposit''),
     (''BountyValueMinimum'', Number (unat BountyValueMinimum)),
     (''DataDepositPerByte'', Number (unat DataDepositPerByte)),
     (''MaximumReasonLength'', Number (unat MaximumReasonLength)),
     (''WeightInfo'', Weights ''pallet_bounties''), (''ChildBountyManager'', Ref ChildBounties)]"

definition config_ChildBounties :: config_entries where
  "config_ChildBounties = [
     (''Event'', Text ''Event''), (''MaxActiveChildBountyCount'', Number (unat MaxActiveChildBountyCount)),
     (''ChildBountyValueMinimum'', Number (unat ChildBountyValueMinimum)),
     (''ChildBountyCuratorDepositBase'', Text ''ChildBountyCuratorDepositBase''),
     (''WeightInfo'', Weights ''pallet_child_bounties'')]"

definition config_Tips :: config_entries where
  "config_Tips = [
     (''Event'', Text ''Event''), (''DataDepositPerByte'', Number (unat DataDepositPerByte)),
     (''MaximumReasonLength'', Number (unat MaximumReasonLength)), (''Tippers'', Ref Elections),
     (''TipCountdown'', Number (unat TipCountdown)), (''TipFindersFee'', Text ''TipFindersFee''),
     (''TipReportDepositBase'', Number (unat TipReportDepositBase)),
     (''WeightInfo'', Weights ''pallet_tips'')]"

definition config_Contracts :: config_entries where
  "config_Contracts = [
     (''Time'', Ref Timestamp), (''Randomness'', Ref RandomnessCollectiveFlip), (''Currency'', Ref Balances),
     (''Event'', Text ''Event''), (''Call'', Text ''Call''), (''CallFilter'', Text ''Nothing''),
     (''DepositPerItem'', Number (unat DepositPerItem)), (''DepositPerByte'', Number (unat DepositPerByte)),
     (''CallStack'', Text ''[pallet_contracts::Frame<Self>; 31]''),
     (''WeightPrice'', Ref TransactionPayment), (''WeightInfo'', Weights ''pallet_contracts''),
     (''ChainExtension'', Unit), (''DeletionQueueDepth'', Text ''DeletionQueueDepth''),
     (''DeletionWeightLimit'', Text ''DeletionWeightLimit''), (''Schedule'', Text ''Schedule''),
     (''AddressGenerator'', Text ''pallet_contracts::DefaultAddressGenerator'')]"

definition config_Sudo :: config_entries where
  "config_Sudo = [
     (''Event'', Text ''Event''), (''Call'', Text ''Call'')]"

definition config_ImOnline :: config_entries where
  "config_ImOnline = [
     (''AuthorityId'', Text ''ImOnlineId''), (''Event'', Text ''Event''),
     (''NextSessionRotation'', Ref Babe), (''ValidatorSet'', Ref Historical),
     (''ReportUnresponsiveness'', Ref Offences),
     (''UnsignedPriority'', Number (unat ImOnlineUnsignedPriority)),
     (''WeightInfo'', Weights ''pallet_im_online''), (''MaxKeys'', Number (unat MaxKeys)),
     (''MaxPeerInHeartbeats'', Number (unat MaxPeerInHeartbeats)),
     (''MaxPeerDataEncodingSize'', Number (unat MaxPeerDataEncodingSize))]"

definition config_Offences :: config_entries where
  "config_Offences = [
     (''Event'', Text ''Event''),
     (''IdentificationTuple'', Text ''pallet_session::historical::IdentificationTuple''),
     (''OnOffenceHandler'', Ref Staking)]"

definition config_AuthorityDiscovery :: config_entries where
  "config_AuthorityDiscovery = [
     (''MaxAuthorities'', Number (unat MaxAuthorities))]"

definition config_Grandpa :: config_entries where
  "config_Grandpa = [
     (''Event'', Text ''Event''), (''Call'', Text ''Call''), (''KeyOwnerProofSystem'', Ref Historical),
     (''KeyOwnerProof'', Text ''<Self::KeyOwnerProofSystem as KeyOwnerProofSystem<(KeyTypeId, GrandpaId)>>::Proof''),
     (''KeyOwnerIdentification'', Text ''<Self::KeyOwnerProofSystem as KeyOwnerProofSystem<( KeyTypeId, GrandpaId, )>>::IdentificationTuple''),
     (''HandleEquivocation'', App ''pallet_grandpa::EquivocationHandler'' [Text ''Self::KeyOwnerIdentification'', Ref Offences, Number (unat ReportLongevity)]),
     (''WeightInfo'', Unit), (''MaxAuthorities'', Number (unat MaxAuthorities))]"

definition config_Identity :: config_entries where
  "config_Identity = [
     (''Event'', Text ''Event''), (''Currency'', Ref Balances),
     (''BasicDeposit'', Number (unat BasicDeposit)), (''FieldDeposit'', Number (unat FieldDeposit)),
     (''SubAccountDeposit'', Number (unat SubAccountDeposit)),
     (''MaxSubAccounts'', Number (unat MaxSubAccounts)),
     (''MaxAdditionalFields'', Number (unat MaxAdditionalFields)),
     (''MaxRegistrars'', Number (unat MaxRegistrars)), (''Slashed'', Ref Treasury),
     (''ForceOrigin'', Origin EnsureRootOrHalfCouncil),
     (''RegistrarOrigin'', Origin EnsureRootOrHalfCouncil), (''WeightInfo'', Weights ''pallet_identity'')]"

definition config_Recovery :: config_entries where
  "config_Recovery = [
     (''Event'', Text ''Event''), (''Call'', Text ''Call''), (''Currency'', Ref Balances),
     (''ConfigDepositBase'', Number (unat ConfigDepositBase)),
     (''FriendDepositFactor'', Number (unat FriendDepositFactor)),
     (''MaxFriends'', Number (unat MaxFriends)), (''RecoveryDeposit'', Number (unat RecoveryDeposit))]"

definition config_Society :: config_entries where
  "config_Society = [
     (''Event'', Text ''Event''), (''PalletId'', Text SocietyPalletId), (''Currency'', Ref Balances),
     (''Randomness'', Ref RandomnessCollectiveFlip), (''CandidateDeposit'', Number (unat CandidateDeposit)),
     (''WrongSideDeduction'', Number (unat WrongSideDeduction)), (''MaxStrikes'', Number (unat MaxStrikes)),
     (''PeriodSpend'', Number (unat PeriodSpend)), (''MembershipChanged'', Unit),
     (''RotationPeriod'', Number (unat RotationPeriod)),
     (''MaxLockDuration'', Number (unat MaxLockDuration)), (''FounderSetOrigin'', Origin FounderSetOrigin),
     (''SuspensionJudgementOrigin'', Origin SuspensionJudgementOrigin),
     (''MaxCandidateIntake'', Number (unat MaxCandidateIntake)),
     (''ChallengePeriod'', Number (unat ChallengePeriod))]"

definition config_Vesting :: config_entries where
  "config_Vesting = [
     (''Event'', Text ''Event''), (''Currency'', Ref Balances),
     (''BlockNumberToBalance'', Text ''ConvertInto''),
     (''MinVestedTransfer'', Number (unat MinVestedTransfer)), (''WeightInfo'', Weights ''pallet_vesting''),
     (''MAX_VESTING_SCHEDULES'', Number 28)]"

definition config_Mmr :: config_entries where
  "config_Mmr = [
     (''INDEXING_PREFIX'', Text ''mmr''), (''Hashing'', Text ''<Runtime as frame_system::Config>::Hashing''),
     (''Hash'', Text ''<Runtime as frame_system::Config>::Hash''), (''LeafData'', Ref System),
     (''OnNewRoot'', Unit), (''WeightInfo'', Unit)]"

definition config_Lottery :: config_entries where
  "config_Lottery = [
     (''PalletId'', Text LotteryPalletId), (''Call'', Text ''Call''), (''Currency'', Ref Balances),
     (''Randomness'', Ref RandomnessCollectiveFlip), (''Event'', Text ''Event''),
     (''ManagerOrigin'', Origin EnsureRoot), (''MaxCalls'', Number (unat MaxCalls)),
     (''ValidateCall'', Ref Lottery), (''MaxGenerateRandom'', Number (unat MaxGenerateRandom)),
     (''WeightInfo'', Weights ''pallet_lottery'')]"

definition config_Assets :: config_entries where
  "config_Assets = [
     (''Event'', Text ''Event''), (''Balance'', Text ''u128''), (''AssetId'', Text ''u32''),
     (''Currency'', Ref Balances), (''ForceOrigin'', Origin EnsureRoot),
     (''AssetDeposit'', Number (unat AssetDeposit)), (''AssetAccountDeposit'', Number (unat DOLLARS)),
     (''MetadataDepositBase'', Number (unat MetadataDepositBase)),
     (''MetadataDepositPerByte'', Number (unat MetadataDepositPerByte)),
     (''ApprovalDeposit'', Number (unat ApprovalDeposit)), (''StringLimit'', Number (unat StringLimit)),
     (''Freezer'', Unit), (''Extra'', Unit), (''WeightInfo'', Weights ''pallet_assets'')]"

definition config_Gilt :: config_entries where
  "config_Gilt = [
     (''Event'', Text ''Event''), (''Currency'', Ref Balances), (''CurrencyBalance'', Text ''Balance''),
     (''AdminOrigin'', Origin EnsureRoot), (''Deficit'', Unit), (''Surplus'', Unit),
     (''IgnoredIssuance'', Text ''IgnoredIssuance''), (''QueueCount'', Number (unat QueueCount)),
     (''MaxQueueLen'', Number (unat MaxQueueLen)), (''FifoQueueLen'', Number (unat FifoQueueLen)),
     (''Period'', Number (unat Period)), (''MinFreeze'', Number (unat MinFreeze)),
     (''IntakePeriod'', Number (unat IntakePeriod)), (''MaxIntakeBids'', Number (unat MaxIntakeBids)),
     (''WeightInfo'', Weights ''pallet_gilt'')]"

definition config_Uniques :: config_entries where
  "config_Uniques = [
     (''Event'', Text ''Event''), (''ClassId'', Text ''u32''), (''InstanceId'', Text ''u32''),
     (''Currency'', Ref Balances), (''ForceOrigin'', Origin EnsureRoot),
     (''ClassDeposit'', Number (unat ClassDeposit)), (''InstanceDeposit'', Number (unat InstanceDeposit)),
     (''MetadataDepositBase'', Number (unat MetadataDepositBase)),
     (''AttributeDepositBase'', Number (unat MetadataDepositBase)),
     (''DepositPerByte'', Number (unat MetadataDepositPerByte)),
     (''StringLimit'', Number (unat StringLimit)), (''KeyLimit'', Number (unat KeyLimit)),
     (''ValueLimit'', Number (unat ValueLimit)), (''WeightInfo'', Weights ''pallet_uniques'')]"

definition config_TransactionStorage :: config_entries where
  "config_TransactionStorage = [
     (''Event'', Text ''Event''), (''Currency'', Ref Balances), (''Call'', Text ''Call''),
     (''FeeDestination'', Unit), (''WeightInfo'', Weights ''pallet_transaction_storage'')]"

definition config_Votechain :: config_entries where
  "config_Votechain = [
     (''Event'', Text ''Event''), (''Currency'', Ref Balances),
     (''ElectionMinBytes'', Number (unat ElectionMinBytes_rt)),
     (''ElectionMaxBytes'', Number (unat ElectionMaxBytes_rt)),
     (''CandidateMinBytes'', Number (unat CandidateMinBytes_rt)),
     (''CandidateMaxBytes'', Number (unat CandidateMaxBytes_rt))]"

text \<open>The configuration of each pallet, and the crate it comes from (\<open>construct_runtime!\<close>).\<close>

primrec runtime_config :: "pallet \<Rightarrow> config_entries" where
  "runtime_config System = config_System"
| "runtime_config Utility = config_Utility"
| "runtime_config Babe = config_Babe"
| "runtime_config Timestamp = config_Timestamp"
| "runtime_config Authorship = config_Authorship"
| "runtime_config Indices = config_Indices"
| "runtime_config Balances = config_Balances"
| "runtime_config TransactionPayment = config_TransactionPayment"
| "runtime_config AssetTxPayment = config_AssetTxPayment"
| "runtime_config ElectionProviderMultiPhase = config_ElectionProviderMultiPhase"
| "runtime_config Staking = config_Staking"
| "runtime_config Session = config_Session"
| "runtime_config Democracy = config_Democracy"
| "runtime_config Council = config_Council"
| "runtime_config TechnicalCommittee = config_TechnicalCommittee"
| "runtime_config Elections = config_Elections"
| "runtime_config TechnicalMembership = config_TechnicalMembership"
| "runtime_config Grandpa = config_Grandpa"
| "runtime_config Treasury = config_Treasury"
| "runtime_config Contracts = config_Contracts"
| "runtime_config Sudo = config_Sudo"
| "runtime_config ImOnline = config_ImOnline"
| "runtime_config AuthorityDiscovery = config_AuthorityDiscovery"
| "runtime_config Offences = config_Offences"
| "runtime_config Historical = config_Historical"
| "runtime_config RandomnessCollectiveFlip = config_RandomnessCollectiveFlip"
| "runtime_config Identity = config_Identity"
| "runtime_config Society = config_Society"
| "runtime_config Recovery = config_Recovery"
| "runtime_config Vesting = config_Vesting"
| "runtime_config Scheduler = config_Scheduler"
| "runtime_config Preimage = config_Preimage"
| "runtime_config Proxy = config_Proxy"
| "runtime_config Multisig = config_Multisig"
| "runtime_config Bounties = config_Bounties"
| "runtime_config Tips = config_Tips"
| "runtime_config Assets = config_Assets"
| "runtime_config Mmr = config_Mmr"
| "runtime_config Lottery = config_Lottery"
| "runtime_config Gilt = config_Gilt"
| "runtime_config Uniques = config_Uniques"
| "runtime_config TransactionStorage = config_TransactionStorage"
| "runtime_config BagsList = config_BagsList"
| "runtime_config ChildBounties = config_ChildBounties"
| "runtime_config Referenda = config_Referenda"
| "runtime_config ConvictionVoting = config_ConvictionVoting"
| "runtime_config Votechain = config_Votechain"

primrec pallet_crate :: "pallet \<Rightarrow> string" where
  "pallet_crate System = ''frame_system''"
| "pallet_crate Utility = ''pallet_utility''"
| "pallet_crate Babe = ''pallet_babe''"
| "pallet_crate Timestamp = ''pallet_timestamp''"
| "pallet_crate Authorship = ''pallet_authorship''"
| "pallet_crate Indices = ''pallet_indices''"
| "pallet_crate Balances = ''pallet_balances''"
| "pallet_crate TransactionPayment = ''pallet_transaction_payment''"
| "pallet_crate AssetTxPayment = ''pallet_asset_tx_payment''"
| "pallet_crate ElectionProviderMultiPhase = ''pallet_election_provider_multi_phase''"
| "pallet_crate Staking = ''pallet_staking''"
| "pallet_crate Session = ''pallet_session''"
| "pallet_crate Democracy = ''pallet_democracy''"
| "pallet_crate Council = ''pallet_collective''"
| "pallet_crate TechnicalCommittee = ''pallet_collective''"
| "pallet_crate Elections = ''pallet_elections_phragmen''"
| "pallet_crate TechnicalMembership = ''pallet_membership''"
| "pallet_crate Grandpa = ''pallet_grandpa''"
| "pallet_crate Treasury = ''pallet_treasury''"
| "pallet_crate Contracts = ''pallet_contracts''"
| "pallet_crate Sudo = ''pallet_sudo''"
| "pallet_crate ImOnline = ''pallet_im_online''"
| "pallet_crate AuthorityDiscovery = ''pallet_authority_discovery''"
| "pallet_crate Offences = ''pallet_offences''"
| "pallet_crate Historical = ''pallet_session_historical''"
| "pallet_crate RandomnessCollectiveFlip = ''pallet_randomness_collective_flip''"
| "pallet_crate Identity = ''pallet_identity''"
| "pallet_crate Society = ''pallet_society''"
| "pallet_crate Recovery = ''pallet_recovery''"
| "pallet_crate Vesting = ''pallet_vesting''"
| "pallet_crate Scheduler = ''pallet_scheduler''"
| "pallet_crate Preimage = ''pallet_preimage''"
| "pallet_crate Proxy = ''pallet_proxy''"
| "pallet_crate Multisig = ''pallet_multisig''"
| "pallet_crate Bounties = ''pallet_bounties''"
| "pallet_crate Tips = ''pallet_tips''"
| "pallet_crate Assets = ''pallet_assets''"
| "pallet_crate Mmr = ''pallet_mmr''"
| "pallet_crate Lottery = ''pallet_lottery''"
| "pallet_crate Gilt = ''pallet_gilt''"
| "pallet_crate Uniques = ''pallet_uniques''"
| "pallet_crate TransactionStorage = ''pallet_transaction_storage''"
| "pallet_crate BagsList = ''pallet_bags_list''"
| "pallet_crate ChildBounties = ''pallet_child_bounties''"
| "pallet_crate Referenda = ''pallet_referenda''"
| "pallet_crate ConvictionVoting = ''pallet_conviction_voting''"
| "pallet_crate Votechain = ''pallet_votechain''"

lemmas config_defs =
  config_System_def config_Utility_def config_Babe_def config_Timestamp_def config_Authorship_def
  config_Indices_def config_Balances_def config_TransactionPayment_def config_AssetTxPayment_def
  config_ElectionProviderMultiPhase_def config_Staking_def config_Session_def config_Democracy_def
  config_Council_def config_TechnicalCommittee_def config_Elections_def
  config_TechnicalMembership_def config_Grandpa_def config_Treasury_def config_Contracts_def
  config_Sudo_def config_ImOnline_def config_AuthorityDiscovery_def config_Offences_def
  config_Historical_def config_RandomnessCollectiveFlip_def config_Identity_def config_Society_def
  config_Recovery_def config_Vesting_def config_Scheduler_def config_Preimage_def config_Proxy_def
  config_Multisig_def config_Bounties_def config_Tips_def config_Assets_def config_Mmr_def
  config_Lottery_def config_Gilt_def config_Uniques_def config_TransactionStorage_def
  config_BagsList_def config_ChildBounties_def config_Referenda_def config_ConvictionVoting_def
  config_Votechain_def

section \<open>What the configurations name\<close>

fun value_refs :: "config_value \<Rightarrow> pallet list" where
  "value_refs (Ref p) = [p]"
| "value_refs (Tuple vs) = concat (map value_refs vs)"
| "value_refs (App c vs) = concat (map value_refs vs)"
| "value_refs _ = []"

definition named_pallets :: "pallet \<Rightarrow> pallet list" where
  "named_pallets p = concat (map (\<lambda>(n, v). value_refs v) (runtime_config p))"

fun value_origins :: "config_value \<Rightarrow> origin_filter list" where
  "value_origins (Origin f) = [f]"
| "value_origins _ = []"

definition configured_origins :: "pallet \<Rightarrow> origin_filter list" where
  "configured_origins p = concat (map (\<lambda>(n, v). value_origins v) (runtime_config p))"

fun value_weights :: "config_value \<Rightarrow> string list" where
  "value_weights (Weights c) = [c]"
| "value_weights _ = []"

definition configured_weights :: "pallet \<Rightarrow> string list" where
  "configured_weights p = concat (map (\<lambda>(n, v). value_weights v) (runtime_config p))"

lemma configured_origins_iff: "f \<in> set (configured_origins p) \<longleftrightarrow> (\<exists>n. (n, Origin f) \<in> set (runtime_config p))"
proof -
  have "f \<in> set (value_origins v) \<longleftrightarrow> v = Origin f" for v
    by (cases v) auto
  then show ?thesis
    by (force simp: configured_origins_def)
qed

lemma configured_weights_iff: "c \<in> set (configured_weights p) \<longleftrightarrow> (\<exists>n. (n, Weights c) \<in> set (runtime_config p))"
proof -
  have "c \<in> set (value_weights v) \<longleftrightarrow> v = Weights c" for v
    by (cases v) auto
  then show ?thesis
    by (force simp: configured_weights_def)
qed

text \<open>The origins of each pallet; those not listed have none.\<close>

lemma origins_of:
  "configured_origins p = (case p of
     Staking \<Rightarrow> [SlashCancelOrigin]
   | ElectionProviderMultiPhase \<Rightarrow> [EnsureRootOrHalfCouncil]
   | Democracy \<Rightarrow> [ExternalOrigin, ExternalMajorityOrigin, ExternalDefaultOrigin, FastTrackOrigin, InstantOrigin,
       CancellationOrigin, CancelProposalOrigin, BlacklistOrigin, VetoOrigin, OperationalPreimageOrigin]
   | TechnicalMembership \<Rightarrow> replicate 5 EnsureRootOrHalfCouncil
   | Treasury \<Rightarrow> [ApproveOrigin, RejectOrigin]
   | Identity \<Rightarrow> replicate 2 EnsureRootOrHalfCouncil
   | Society \<Rightarrow> [FounderSetOrigin, SuspensionJudgementOrigin]
   | Referenda \<Rightarrow> [EnsureRoot, EnsureRoot]
   | Scheduler \<Rightarrow> [EnsureRoot] | Preimage \<Rightarrow> [EnsureRoot] | Lottery \<Rightarrow> [EnsureRoot] | Assets \<Rightarrow> [EnsureRoot]
   | Gilt \<Rightarrow> [EnsureRoot] | Uniques \<Rightarrow> [EnsureRoot]
   | _ \<Rightarrow> [])"
  by (cases p) (simp_all only: configured_origins_def runtime_config.simps config_defs list.map concat.simps
      value_origins.simps append.simps prod.case pallet.case numeral_nat replicate.simps)

text \<open>The pallets each configuration names.\<close>

lemma named_of:
  "set (named_pallets p) = (case p of
     System \<Rightarrow> {Indices}
   | Babe \<Rightarrow> {Session, Offences, Historical}
   | Timestamp \<Rightarrow> {Babe}
   | Authorship \<Rightarrow> {Babe, Staking, ImOnline}
   | Indices \<Rightarrow> {Balances}
   | Balances \<Rightarrow> {System}
   | TransactionPayment \<Rightarrow> {Balances}
   | AssetTxPayment \<Rightarrow> {Balances, Assets}
   | ElectionProviderMultiPhase \<Rightarrow> {Balances, TransactionPayment, Staking}
   | Staking \<Rightarrow> {Timestamp, Balances, ElectionProviderMultiPhase, Session, Treasury, BagsList}
   | Session \<Rightarrow> {Babe, Staking}
   | Democracy \<Rightarrow> {Balances, Treasury, Scheduler}
   | Elections \<Rightarrow> {Balances, Council}
   | TechnicalMembership \<Rightarrow> {TechnicalCommittee}
   | Grandpa \<Rightarrow> {Offences, Historical}
   | Treasury \<Rightarrow> {Balances, Bounties}
   | Contracts \<Rightarrow> {Timestamp, Balances, TransactionPayment, RandomnessCollectiveFlip}
   | ImOnline \<Rightarrow> {Babe, Offences, Historical}
   | Offences \<Rightarrow> {Staking}
   | Identity \<Rightarrow> {Balances, Treasury}
   | Society \<Rightarrow> {Balances, RandomnessCollectiveFlip}
   | Recovery \<Rightarrow> {Balances}
   | Vesting \<Rightarrow> {Balances}
   | Scheduler \<Rightarrow> {Preimage}
   | Preimage \<Rightarrow> {Balances}
   | Proxy \<Rightarrow> {Balances}
   | Multisig \<Rightarrow> {Balances}
   | Bounties \<Rightarrow> {ChildBounties}
   | Tips \<Rightarrow> {Elections}
   | Assets \<Rightarrow> {Balances}
   | Mmr \<Rightarrow> {System}
   | Lottery \<Rightarrow> {Balances, RandomnessCollectiveFlip, Lottery}
   | Gilt \<Rightarrow> {Balances}
   | Uniques \<Rightarrow> {Balances}
   | TransactionStorage \<Rightarrow> {Balances}
   | BagsList \<Rightarrow> {Staking}
   | Referenda \<Rightarrow> {Balances, Scheduler}
   | ConvictionVoting \<Rightarrow> {Balances, Referenda}
   | Votechain \<Rightarrow> {Balances}
   | _ \<Rightarrow> {})"
  by (cases p) (simp_all add: named_pallets_def config_defs insert_commute)

lemma weights_of:
  "set (configured_weights p) \<subseteq> {pallet_crate p}"
  by (cases p) (simp_all only: configured_weights_def runtime_config.simps config_defs list.map concat.simps
      value_weights.simps append.simps prod.case pallet_crate.simps list.set insert_subset empty_subsetI insertI1 simp_thms)

section \<open>Properties\<close>

text \<open>
  C18: every privileged operation of a configured pallet needs a majority: whatever a vote of a collective is accepted
  for, at least half of its members agreed, except for the founder's judgement and the two rights a single member has. Root
  is accepted everywhere but for the democracy's and the society's own motions, and no configuration gives the voting pallet
  an origin of its own.
\<close>

theorem configured_authority:
  assumes "(name, Origin f) \<in> set (runtime_config p)"
    and leaf: "\<And>f c ayes members. leaf f (vote c ayes members) \<longleftrightarrow> collective_leaf f (Agreed c ayes members)"
    and root: "\<And>f. leaf f root_o \<longleftrightarrow> f = EnsureRoot"
  shows "(allows leaf f (vote c ayes members) \<longrightarrow> c \<in> {Council, TechnicalCommittee} \<and> members \<le> 2 * ayes)
    \<and> (p \<notin> {Democracy, Society} \<longrightarrow> allows leaf f root_o)
    \<and> (p = Democracy \<longrightarrow> (allows leaf f root_o \<longleftrightarrow> f \<in> {CancelProposalOrigin, BlacklistOrigin}))
    \<and> p \<noteq> Votechain"
proof -
  have "f \<in> set (configured_origins p)"
    using assms(1) by (auto simp: configured_origins_iff)
  then show ?thesis
    unfolding origins_of
    by (cases p) (auto simp: origin_defs SuspensionJudgementOrigin_def leaf root)
qed

theorem configured_authority_witness:
  "\<not> allows collective_leaf SlashCancelOrigin (Agreed Council 2 5)"
proof -
  have "(''SlashCancelOrigin'', Origin SlashCancelOrigin) \<in> set (runtime_config Staking)"
    by (simp add: config_Staking_def)
  moreover have "collective_leaf f Root_origin \<longleftrightarrow> f = EnsureRoot" for f
    by (cases f) simp_all
  ultimately show ?thesis
    using configured_authority [of "''SlashCancelOrigin''" SlashCancelOrigin Staking collective_leaf Agreed Root_origin
        Council 2 5] by fastforce
qed

definition names_rel :: "(pallet \<times> pallet) set" where
  "names_rel = {(p, q). q \<in> set (named_pallets p)}"

lemma names_rel_iff: "(p, q) \<in> names_rel \<longleftrightarrow> q \<in> set (named_pallets p)"
  by (simp add: names_rel_def)

lemma names_closed:
  "(p, q) \<in> names_rel\<^sup>* \<Longrightarrow> p \<in> S \<Longrightarrow> (\<And>x. x \<in> S \<Longrightarrow> set (named_pallets x) \<subseteq> S) \<Longrightarrow> q \<in> S"
  by (induction rule: rtrancl_induct) (auto simp: names_rel_iff)

text \<open>
  The voting pallet stands alone: no pallet's configuration names it, so that only dispatched calls reach it, and
  its own reaches the balances, the system and the indices only; contracts can call nothing, and the other signed calls are not
  filtered.
\<close>

theorem voting_isolated:
  "Votechain \<notin> set (named_pallets p)
   \<and> ((Votechain, q) \<in> names_rel\<^sup>* \<longleftrightarrow> q \<in> {Votechain, Balances, System, Indices})
   \<and> (''CallFilter'', Text ''Nothing'') \<in> set (runtime_config Contracts)
   \<and> (''BaseCallFilter'', Text ''Everything'') \<in> set (runtime_config System)"
proof -
  have steps: "(Votechain, Balances) \<in> names_rel" "(Balances, System) \<in> names_rel" "(System, Indices) \<in> names_rel"
    by (simp_all add: names_rel_iff named_of)
  have "q \<in> {Votechain, Balances, System, Indices}" if "(Votechain, q) \<in> names_rel\<^sup>*"
    by (rule names_closed [OF that]) (auto simp: named_of)
  moreover have "(Votechain, q) \<in> names_rel\<^sup>*" if "q \<in> {Votechain, Balances, System, Indices}"
    using that steps by (auto intro: rtrancl_into_rtrancl)
  moreover have "Votechain \<notin> set (named_pallets p)"
    by (cases p) (simp_all add: named_of)
  ultimately show ?thesis
    by (auto simp: config_Contracts_def config_System_def)
qed

text \<open>
  No pallet charges the weights of another one: the weights in a configuration come from the crate the pallet
  is declared with.
\<close>

theorem weights_of_own_crate:
  "(name, Weights crate) \<in> set (runtime_config p) \<Longrightarrow> crate = pallet_crate p"
  using weights_of [of p] configured_weights_iff [of crate p] by blast

theorem weights_of_own_crate_witness:
  "''pallet_collective'' = pallet_crate TechnicalCommittee"
  by (rule weights_of_own_crate [of "''WeightInfo''"]) (simp add: config_TechnicalCommittee_def)

text \<open>The four bounds of the voting pallet are those of its configuration.\<close>

lemma votechain_config_bounds:
  "let c = votechain_runtime_config signer is_root hash_el hash_ca in
   {(''ElectionMinBytes'', Number (unat (ElectionMinBytes c))), (''ElectionMaxBytes'', Number (unat (ElectionMaxBytes c))),
    (''CandidateMinBytes'', Number (unat (CandidateMinBytes c))), (''CandidateMaxBytes'', Number (unat (CandidateMaxBytes c)))}
   \<subseteq> set (runtime_config Votechain)"
  by (simp add: votechain_runtime_config_def config_Votechain_def)

text \<open>
  Where punished or dropped funds go: to the treasury from three pallets; the others drop them, as the unit type does.
\<close>

definition fund_sinks :: "string list" where
  "fund_sinks = [''Slash'', ''Slashed'', ''SlashHandler'', ''OnSlash'', ''DustRemoval'', ''LoserCandidate'',
     ''KickedMember'', ''BurnDestination'', ''Deficit'', ''Surplus'', ''FeeDestination'', ''RewardRemainder'']"

definition sinks_of :: "pallet \<Rightarrow> config_entries" where
  "sinks_of p = filter (\<lambda>(n, v). n \<in> set fund_sinks) (runtime_config p)"

lemma treasury_sinks:
  "sinks_of Staking = [(''RewardRemainder'', Ref Treasury), (''Slash'', Ref Treasury)]"
  "sinks_of Democracy = [(''Slash'', Ref Treasury)]" "sinks_of Identity = [(''Slashed'', Ref Treasury)]"
  "sinks_of ElectionProviderMultiPhase = [(''SlashHandler'', Unit)]" "sinks_of Referenda = [(''Slash'', Unit)]"
  "sinks_of Balances = [(''DustRemoval'', Unit)]"
  "sinks_of Elections = [(''LoserCandidate'', Unit), (''KickedMember'', Unit)]"
  "sinks_of Treasury = [(''OnSlash'', Unit), (''BurnDestination'', Unit)]"
  by (simp_all add: sinks_of_def fund_sinks_def config_defs)

end
