(* ===== verification/Runtime_Delegation.thy ===== *)
theory Runtime_Delegation
  imports Runtime_Config
begin

text \<open>
  The methods of the runtime APIs that hand their arguments to another part of the runtime (\<open>impl_runtime_apis!\<close> of
  \<open>runtime/src/lib.rs\<close>), and the storage keys the benchmarks do not count. The methods that compute something
  themselves are in \<open>Runtime_Api\<close>.
\<close>

section \<open>Methods\<close>

datatype api_target = Executive | Pallet_fn pallet | Session_keys | Inherent_data

text \<open>A method: its name and parameters, and the function it calls with its arguments, references being dropped.\<close>

type_synonym api_method = "string \<times> string list \<times> api_target \<times> string \<times> string list"

definition Core_methods :: "api_method list" where
  "Core_methods = [
     (''execute_block'', [''block''], Executive, ''execute_block'',
      [''block'']),
     (''initialize_block'', [''header''], Executive, ''initialize_block'',
      [''header''])]"

definition Block_Builder_methods :: "api_method list" where
  "Block_Builder_methods = [
     (''apply_extrinsic'', [''extrinsic''], Executive, ''apply_extrinsic'',
      [''extrinsic'']),
     (''finalize_block'', [], Executive, ''finalize_block'',
      []),
     (''inherent_extrinsics'', [''data''], Inherent_data, ''create_extrinsics'',
      [''data'']),
     (''check_inherents'', [''block'', ''data''], Inherent_data, ''check_extrinsics'',
      [''data'', ''block''])]"

definition Tagged_Transaction_Queue_methods :: "api_method list" where
  "Tagged_Transaction_Queue_methods = [
     (''validate_transaction'', [''source'', ''tx'', ''block_hash''], Executive, ''validate_transaction'',
      [''source'', ''tx'', ''block_hash''])]"

definition Offchain_Worker_Api_methods :: "api_method list" where
  "Offchain_Worker_Api_methods = [
     (''offchain_worker'', [''header''], Executive, ''offchain_worker'',
      [''header''])]"

definition Grandpa_Api_methods :: "api_method list" where
  "Grandpa_Api_methods = [
     (''grandpa_authorities'', [], Pallet_fn Grandpa, ''grandpa_authorities'',
      []),
     (''current_set_id'', [], Pallet_fn Grandpa, ''current_set_id'',
      [])]"

definition Babe_Api_methods :: "api_method list" where
  "Babe_Api_methods = [
     (''current_epoch_start'', [], Pallet_fn Babe, ''current_epoch_start'',
      []),
     (''current_epoch'', [], Pallet_fn Babe, ''current_epoch'',
      []),
     (''next_epoch'', [], Pallet_fn Babe, ''next_epoch'',
      [])]"

definition Authority_Discovery_Api_methods :: "api_method list" where
  "Authority_Discovery_Api_methods = [
     (''authorities'', [], Pallet_fn AuthorityDiscovery, ''authorities'',
      [])]"

definition Account_Nonce_Api_methods :: "api_method list" where
  "Account_Nonce_Api_methods = [
     (''account_nonce'', [''account''], Pallet_fn System, ''account_nonce'',
      [''account''])]"

definition Contracts_Api_methods :: "api_method list" where
  "Contracts_Api_methods = [
     (''call'', [''origin'', ''dest'', ''value'', ''gas_limit'', ''storage_deposit_limit'', ''input_data''], Pallet_fn Contracts, ''bare_call'',
      [''origin'', ''dest'', ''value'', ''gas_limit'', ''storage_deposit_limit'', ''input_data'', ''true'']),
     (''instantiate'', [''origin'', ''value'', ''gas_limit'', ''storage_deposit_limit'', ''code'', ''data'', ''salt''], Pallet_fn Contracts, ''bare_instantiate'',
      [''origin'', ''value'', ''gas_limit'', ''storage_deposit_limit'', ''code'', ''data'', ''salt'', ''true'']),
     (''upload_code'', [''origin'', ''code'', ''storage_deposit_limit''], Pallet_fn Contracts, ''bare_upload_code'',
      [''origin'', ''code'', ''storage_deposit_limit'']),
     (''get_storage'', [''address'', ''key''], Pallet_fn Contracts, ''get_storage'',
      [''address'', ''key''])]"

definition Transaction_Payment_Api_methods :: "api_method list" where
  "Transaction_Payment_Api_methods = [
     (''query_info'', [''uxt'', ''len''], Pallet_fn TransactionPayment, ''query_info'',
      [''uxt'', ''len'']),
     (''query_fee_details'', [''uxt'', ''len''], Pallet_fn TransactionPayment, ''query_fee_details'',
      [''uxt'', ''len''])]"

definition Session_Keys_methods :: "api_method list" where
  "Session_Keys_methods = [
     (''generate_session_keys'', [''seed''], Session_keys, ''generate'',
      [''seed'']),
     (''decode_session_keys'', [''encoded''], Session_keys, ''decode_into_raw_public_keys'',
      [''encoded''])]"

definition Try_Runtime_methods :: "api_method list" where
  "Try_Runtime_methods = [
     (''execute_block_no_check'', [''block''], Executive, ''execute_block_no_check'',
      [''block''])]"

definition runtime_methods :: "api_method list" where
  "runtime_methods = concat [Core_methods, Block_Builder_methods,
     Tagged_Transaction_Queue_methods, Offchain_Worker_Api_methods, Grandpa_Api_methods, Babe_Api_methods,
     Authority_Discovery_Api_methods, Account_Nonce_Api_methods, Contracts_Api_methods,
     Transaction_Payment_Api_methods, Session_Keys_methods, Try_Runtime_methods]"

text \<open>The storage keys the benchmarks leave out of their counts, in hexadecimal.\<close>

definition benchmark_whitelist :: "string list" where
  "benchmark_whitelist = [
     ''26aa394eea5630e07c48ae0c9558cef702a5c1b19ab7a04f536c519aca4983ac'',
     ''c2261276cc9d1f8598ea4b6a74b15c2f57c875e4cff74148e4628f264b974c80'',
     ''26aa394eea5630e07c48ae0c9558cef7ff553b5a9862a516939d82b3d3d8661a'',
     ''26aa394eea5630e07c48ae0c9558cef70a98fdbe9ce6c55837576c60c7af3850'',
     ''26aa394eea5630e07c48ae0c9558cef780d41e5e16056765bc8461851072c9d7'',
     ''26aa394eea5630e07c48ae0c9558cef734abf5cb34d6244378cddbf18e849d96'',
     ''26aa394eea5630e07c48ae0c9558cef7b99d880ec681799c0cf30e8886371da95ecffd7b6c0f78751baa9d281e0bfa3a6d6f646c70792f74727372790000000000000000000000000000000000000000'']"

lemmas method_defs =
  runtime_methods_def Core_methods_def Block_Builder_methods_def Tagged_Transaction_Queue_methods_def Offchain_Worker_Api_methods_def Grandpa_Api_methods_def Babe_Api_methods_def
  Authority_Discovery_Api_methods_def Account_Nonce_Api_methods_def Contracts_Api_methods_def Transaction_Payment_Api_methods_def Session_Keys_methods_def Try_Runtime_methods_def

section \<open>Properties\<close>

definition method_pallets :: "api_method list \<Rightarrow> pallet list" where
  "method_pallets ms = concat (map (\<lambda>(n, ps, t, f, args). case t of Pallet_fn p \<Rightarrow> [p] | _ \<Rightarrow> []) ms)"

text \<open>
  The methods hand over all their parameters, in order and unchanged, but for the inherents, where the data is what
  the function is called on; the two that run a contract add that debug
  messages are wanted.
\<close>

lemma methods_hand_over:
  "\<forall>(n, ps, t, f, args) \<in> set runtime_methods.
     t \<noteq> Inherent_data \<longrightarrow> args = ps @ (if f \<in> {''bare_call'', ''bare_instantiate''} then [''true''] else [])"
  by (simp add: method_defs)

text \<open>The voting pallet has no API: elections and votes are read from the storage.\<close>

lemma methods_pallets:
  "set (method_pallets runtime_methods) =
     {Grandpa, Babe, AuthorityDiscovery, System, Contracts, TransactionPayment}"
  by (simp add: method_pallets_def method_defs insert_commute)

definition hex_digit :: "nat \<Rightarrow> char" where
  "hex_digit n = (if n < 10 then char_of (48 + n) else char_of (87 + n))"

definition hex_of :: "string \<Rightarrow> string" where
  "hex_of s = concat (map (\<lambda>c. [hex_digit (of_char c div 16), hex_digit (of_char c mod 16)]) s)"

text \<open>
  The key of the treasury's account: the prefix of the accounts, a hash, and the account id of the treasury's pallet
  identifier, which starts with \<open>modl\<close> and is filled up with zeros to 32 bytes. The other keys are 32 bytes long.
\<close>

lemma whitelist_treasury:
  "drop 96 (last benchmark_whitelist) = hex_of (''modl'' @ TreasuryPalletId) @ replicate 40 (CHR ''0'')"
  by code_simp

lemma whitelist_lengths: "\<forall>k \<in> set (butlast benchmark_whitelist). length k = 64"
  by code_simp

end
