(* ===== verification/Runtime_Multiplier.thy ===== *)
theory Runtime_Multiplier
  imports Runtime_Governance Complex_Main
begin

text \<open>
  The fee multiplier (\<open>runtime/src/lib.rs\<close>, \<open>runtime/src/impls.rs\<close>): its parameters, the reference computation the
  repository compares the framework's adjustment with, and the two simulations that bound how fast it moves. The
  fixed-point and floating-point numbers are real numbers; the adjustment itself is the framework's and is a parameter
  that follows the reference up to a relative error.
\<close>

section \<open>Parameters\<close>

definition TargetBlockFullness :: real where "TargetBlockFullness = 25 / 100"

definition AdjustmentVariable :: real where "AdjustmentVariable = 1 / 100000"

definition MinimumMultiplier :: real where "MinimumMultiplier = 1 / 1000000000"

definition max_normal :: "u64 option \<Rightarrow> u64 \<Rightarrow> u64" where
  "max_normal normal_max_total max_block = (case normal_max_total of Some w \<Rightarrow> w | None \<Rightarrow> max_block)"

text \<open>The target is that part of the normal weight, rounded by the framework.\<close>

definition target :: "(real \<Rightarrow> u64) \<Rightarrow> u64 \<Rightarrow> u64" where
  "target round_weight normal = round_weight (TargetBlockFullness * real (unat normal))"

section \<open>The reference\<close>

definition truth_value_update :: "u64 \<Rightarrow> u64 \<Rightarrow> u64 \<Rightarrow> real \<Rightarrow> real" where
  "truth_value_update normal ideal block_weight previous =
     (let previous_float = max previous MinimumMultiplier;
          m = real (unat normal);
          block_weight = min (real (unat block_weight)) m;
          v = AdjustmentVariable;
          ss = real (unat ideal);
          s = block_weight;
          t1 = v * (s / m - ss / m);
          t2 = v ^ 2 * (s / m - ss / m) ^ 2 / 2
      in previous_float * (1 + t1 + t2))"

text \<open>The multiplier after a number of blocks, and the loop that counts the blocks until the minimum is reached.\<close>

definition min_change_per_day :: "(real \<Rightarrow> real) \<Rightarrow> real" where
  "min_change_per_day update = fold (\<lambda>_ fm. update fm) [0..<unat DAYS] 1"

partial_function (option) reach_minimum :: "(real \<Rightarrow> real) \<Rightarrow> real \<Rightarrow> nat \<Rightarrow> nat option" where
  "reach_minimum update fm iterations =
     (let next = update fm; fm = next in
      if fm = MinimumMultiplier then Some iterations else reach_minimum update fm (iterations + 1))"

definition time_to_reach_zero :: "(real \<Rightarrow> real) \<Rightarrow> nat option" where
  "time_to_reach_zero update = reach_minimum update 1 0"

text \<open>
  The framework's adjustment for one block weight: never below the minimum, at the minimum where the reference is, and
  otherwise the reference up to one part in \<open>10 ^ 8\<close>.
\<close>

definition follows :: "(real \<Rightarrow> real) \<Rightarrow> (real \<Rightarrow> real) \<Rightarrow> bool" where
  "follows update reference \<longleftrightarrow>
     (\<forall>x \<ge> MinimumMultiplier. MinimumMultiplier \<le> update x
        \<and> (reference x \<le> MinimumMultiplier \<longrightarrow> update x = MinimumMultiplier)
        \<and> (MinimumMultiplier < reference x \<longrightarrow> \<bar>update x - reference x\<bar> \<le> x / 10 ^ 8))"

section \<open>Lemmas\<close>

lemma MinimumMultiplier_pos: "0 < MinimumMultiplier"
  by (simp add: MinimumMultiplier_def)

text \<open>The factor of one step: with a quarter of the weight as the ideal, an empty and a full block.\<close>

lemma truth_factor:
  assumes "0 < normal" "4 * unat ideal = unat normal" "MinimumMultiplier \<le> x"
  shows "truth_value_update normal ideal 0 x = x * (1 - 25 / 10 ^ 7 + 3125 / 10 ^ 15)"
    and "truth_value_update normal ideal normal x = x * (1 + 75 / 10 ^ 7 + 28125 / 10 ^ 15)"
proof -
  have "real (unat normal) = 4 * real (unat ideal)"
    by (metis assms(2) of_nat_mult of_nat_numeral)
  moreover have "0 < real (unat normal)"
    using assms(1) by (simp only: of_nat_0_less_iff unat_gt_0)
  ultimately have part: "real (unat ideal) / real (unat normal) = 1 / 4"
    "real (unat normal) / real (unat normal) = 1" by simp_all
  have weights: "min (real (unat (0 :: u64))) (real (unat normal)) = 0"
    "min (real (unat normal)) (real (unat normal)) = real (unat normal)"
    by (simp_all only: unat_0 of_nat_0 min.idem min_absorb1 of_nat_0_le_iff)
  have x: "max x MinimumMultiplier = x"
    using assms(3) by simp
  have "truth_value_update normal ideal 0 x =
      x * (1 + AdjustmentVariable * (0 - 1 / 4) + AdjustmentVariable ^ 2 * (0 - 1 / 4) ^ 2 / 2)"
    by (simp only: truth_value_update_def Let_def weights x part div_0)
  then show "truth_value_update normal ideal 0 x = x * (1 - 25 / 10 ^ 7 + 3125 / 10 ^ 15)"
    by (simp add: AdjustmentVariable_def power2_eq_square)
  have "truth_value_update normal ideal normal x =
      x * (1 + AdjustmentVariable * (1 - 1 / 4) + AdjustmentVariable ^ 2 * (1 - 1 / 4) ^ 2 / 2)"
    by (simp only: truth_value_update_def Let_def weights x part)
  then show "truth_value_update normal ideal normal x = x * (1 + 75 / 10 ^ 7 + 28125 / 10 ^ 15)"
    by (simp add: AdjustmentVariable_def power2_eq_square)
qed

text \<open>A step on an empty block, from above the minimum.\<close>

lemma empty_step:
  assumes "follows update (truth_value_update normal ideal 0)" "0 < normal" "4 * unat ideal = unat normal"
    and "MinimumMultiplier \<le> x"
  shows "MinimumMultiplier \<le> update x"
    and "update x = MinimumMultiplier \<or> update x \<le> x * (1 - 24 / 10 ^ 7)"
    and "2 * MinimumMultiplier \<le> x \<Longrightarrow> x * (1 - 26 / 10 ^ 7) \<le> update x"
proof -
  note truth = truth_factor(1) [OF assms(2-4)]
  have pos: "0 < x"
    using assms(4) MinimumMultiplier_pos by linarith
  show min: "MinimumMultiplier \<le> update x"
    using assms(1,4) by (simp add: follows_def)
  have close: "\<bar>update x - x * (1 - 25 / 10 ^ 7 + 3125 / 10 ^ 15)\<bar> \<le> x / 10 ^ 8"
    if "update x \<noteq> MinimumMultiplier"
    using assms(1,4) that unfolding follows_def truth [symmetric] by (metis not_less)
  show "update x = MinimumMultiplier \<or> update x \<le> x * (1 - 24 / 10 ^ 7)"
  proof (cases "update x = MinimumMultiplier")
    case False
    then have "update x \<le> x * (1 - 25 / 10 ^ 7 + 3125 / 10 ^ 15) + x / 10 ^ 8"
      using close by linarith
    also have "\<dots> = x * (1 - 25 / 10 ^ 7 + 3125 / 10 ^ 15 + 1 / 10 ^ 8)"
      by (simp add: field_simps)
    also have "\<dots> \<le> x * (1 - 24 / 10 ^ 7)"
      using pos by (intro mult_left_mono) simp_all
    finally show ?thesis ..
  qed simp
  assume "2 * MinimumMultiplier \<le> x"
  then have "MinimumMultiplier < truth_value_update normal ideal 0 x"
    unfolding truth using MinimumMultiplier_pos by (simp add: field_simps)
  then have "\<bar>update x - truth_value_update normal ideal 0 x\<bar> \<le> x / 10 ^ 8"
    using assms(1,4) unfolding follows_def by blast
  then have close: "\<bar>update x - x * (1 - 25 / 10 ^ 7 + 3125 / 10 ^ 15)\<bar> \<le> x / 10 ^ 8"
    unfolding truth .
  have "x * (1 - 26 / 10 ^ 7) \<le> x * (1 - 25 / 10 ^ 7 + 3125 / 10 ^ 15 - 1 / 10 ^ 8)"
    using pos by (intro mult_left_mono) simp_all
  also have "\<dots> = x * (1 - 25 / 10 ^ 7 + 3125 / 10 ^ 15) - x / 10 ^ 8"
    by (simp add: field_simps)
  also have "\<dots> \<le> update x"
    using close by linarith
  finally show "x * (1 - 26 / 10 ^ 7) \<le> update x" .
qed

lemma iterate_lower:
  assumes "follows update (truth_value_update normal ideal 0)" "0 < normal" "4 * unat ideal = unat normal"
  shows "2 * MinimumMultiplier \<le> (1 - 26 / 10 ^ 7) ^ n \<Longrightarrow> (1 - 26 / 10 ^ 7) ^ n \<le> (update ^^ n) 1"
proof (induction n)
  case (Suc n)
  let ?a = "1 - 26 / 10 ^ 7 :: real"
  have "?a ^ Suc n \<le> ?a ^ n"
    by (simp add: power_decreasing)
  then have le: "2 * MinimumMultiplier \<le> ?a ^ n"
    using Suc.prems by linarith
  then have x: "?a ^ n \<le> (update ^^ n) 1"
    by (rule Suc.IH)
  then have "2 * MinimumMultiplier \<le> (update ^^ n) 1"
    using le by linarith
  then have "(update ^^ n) 1 * ?a \<le> update ((update ^^ n) 1)"
    using empty_step(3) [OF assms] MinimumMultiplier_pos by fastforce
  moreover have "?a ^ n * ?a \<le> (update ^^ n) 1 * ?a"
    using x by (intro mult_right_mono) simp_all
  ultimately show ?case
    by (simp only: power_Suc2 funpow.simps comp_apply)
qed simp

lemma slow_decay: "n \<le> 533334 \<Longrightarrow> 2 * MinimumMultiplier \<le> (1 - 26 / 10 ^ 7) ^ n"
proof -
  let ?a = "1 - 26 / 10 ^ 7 :: real"
  assume n: "n \<le> 533334"
  have "1 + real 133334 * (- 26 / 10 ^ 7) \<le> (1 + (- 26 / 10 ^ 7)) ^ 133334"
    by (rule Bernoulli_inequality) simp
  then have "6 / 10 \<le> ?a ^ 133334"
    by simp
  then have "(6 / 10) ^ 4 \<le> (?a ^ 133334) ^ 4"
    by (intro power_mono) simp_all
  then have "(6 / 10) ^ 4 \<le> ?a ^ 533336"
    by (simp flip: power_mult)
  also have "?a ^ 533336 \<le> ?a ^ n"
    using n by (intro power_decreasing) simp_all
  finally have "(6 / 10) ^ 4 \<le> ?a ^ n" .
  moreover have "2 * MinimumMultiplier \<le> (6 / 10) ^ 4"
    by (simp add: MinimumMultiplier_def power4_eq_xxxx)
  ultimately show ?thesis
    by linarith
qed

lemma iterate_min: "follows update (truth_value_update normal ideal 0) \<Longrightarrow> MinimumMultiplier \<le> (update ^^ n) 1"
  by (induction n) (simp_all add: follows_def MinimumMultiplier_def)

text \<open>The multiplier reaches the minimum exactly, after finitely many empty blocks.\<close>

lemma minimum_reached:
  assumes "follows update (truth_value_update normal ideal 0)" "0 < normal" "4 * unat ideal = unat normal"
  shows "\<exists>n. (update ^^ Suc n) 1 = MinimumMultiplier"
proof (rule ccontr)
  let ?b = "1 - 24 / 10 ^ 7 :: real"
  assume never: "\<nexists>n. (update ^^ Suc n) 1 = MinimumMultiplier"
  have "(update ^^ n) 1 \<le> ?b ^ n" for n
  proof (induction n)
    case (Suc n)
    have "(update ^^ Suc n) 1 \<le> (update ^^ n) 1 * ?b"
      using empty_step(2) [OF assms iterate_min [OF assms(1)], of n] never by simp
    also have "\<dots> \<le> ?b ^ n * ?b"
      using Suc.IH by (intro mult_right_mono) simp_all
    finally show ?case
      by (simp only: power_Suc2)
  qed simp
  moreover obtain n where "?b ^ n < MinimumMultiplier"
    using real_arch_pow_inv [OF MinimumMultiplier_pos, of ?b] by auto
  ultimately show False
    using iterate_min [OF assms(1), of n] by (meson not_less order_trans)
qed

lemma reach_minimum_Some:
  "(\<forall>j < n. (update ^^ Suc j) x \<noteq> MinimumMultiplier) \<Longrightarrow> (update ^^ Suc n) x = MinimumMultiplier \<Longrightarrow>
     reach_minimum update x i = Some (i + n)"
proof (induction n arbitrary: x i)
  case 0
  then show ?case by (simp add: reach_minimum.simps Let_def)
next
  case (Suc n)
  have "update x \<noteq> MinimumMultiplier"
    using Suc.prems(1) by fastforce
  moreover have "\<forall>j < n. (update ^^ Suc j) (update x) \<noteq> MinimumMultiplier"
    using Suc.prems(1) by (metis Suc_mono comp_apply funpow_Suc_right)
  moreover have "(update ^^ Suc n) (update x) = MinimumMultiplier"
    using Suc.prems(2) by (metis comp_apply funpow_Suc_right)
  ultimately show ?case
    using Suc.IH [of "update x" "i + 1"] by (simp add: reach_minimum.simps [of update x i] Let_def)
qed

section \<open>Properties\<close>

text \<open>
  C30: on a chain whose blocks stay empty the loop that waits for the smallest multiplier ends, and not before
  533333 blocks, which are 18 and a half days: for every adjustment that follows the reference up to one part in a hundred
  million.
\<close>

theorem time_to_reach_zero_returns:
  assumes "follows update (truth_value_update normal ideal 0)" "0 < normal" "4 * unat ideal = unat normal"
  shows "\<exists>n. time_to_reach_zero update = Some n \<and> 533333 < n \<and> (update ^^ Suc n) 1 = MinimumMultiplier
    \<and> 37 * unat DAYS < 2 * n"
proof -
  define n where "n = (LEAST n. (update ^^ Suc n) 1 = MinimumMultiplier)"
  have reached: "(update ^^ Suc n) 1 = MinimumMultiplier"
    unfolding n_def using minimum_reached [OF assms] by (rule LeastI_ex)
  have before: "\<forall>j < n. (update ^^ Suc j) 1 \<noteq> MinimumMultiplier"
    unfolding n_def using not_less_Least by blast
  have "533333 < n"
  proof (rule ccontr)
    assume "\<not> 533333 < n"
    then have slow: "2 * MinimumMultiplier \<le> (1 - 26 / 10 ^ 7) ^ Suc n"
      by (intro slow_decay) simp
    then have "2 * MinimumMultiplier \<le> (update ^^ Suc n) 1"
      using iterate_lower [OF assms slow] by linarith
    then show False
      using reached MinimumMultiplier_pos by simp
  qed
  moreover have "unat DAYS = 28800"
    by (simp add: DAYS_def HOURS_def MINUTES_def SECS_PER_BLOCK_def MILLISECS_PER_BLOCK_def)
  ultimately show ?thesis
    using reach_minimum_Some [OF before reached, of 0] reached by (simp add: time_to_reach_zero_def)
qed

definition demo_update :: "u64 \<Rightarrow> u64 \<Rightarrow> u64 \<Rightarrow> real \<Rightarrow> real" where
  "demo_update normal ideal w x = max MinimumMultiplier (truth_value_update normal ideal w x)"

lemma demo_update_follows: "follows (demo_update normal ideal w) (truth_value_update normal ideal w)"
  using MinimumMultiplier_pos by (simp add: follows_def demo_update_def)

theorem time_to_reach_zero_returns_witness:
  "\<exists>n. time_to_reach_zero (demo_update 1500000000000 375000000000 0) = Some n \<and> 533333 < n"
  using time_to_reach_zero_returns [OF demo_update_follows, of 1500000000000 375000000000] by auto

lemma fold_const: "fold (\<lambda>_. f) xs x = (f ^^ length xs) x"
  by (induction xs arbitrary: x) (simp_all del: funpow.simps add: funpow_Suc_right)

lemma iterate_full:
  assumes "follows update (truth_value_update normal ideal normal)" "0 < normal" "4 * unat ideal = unat normal"
  shows "(1 + 749 / 10 ^ 8) ^ n \<le> (update ^^ n) 1"
proof (induction n)
  case (Suc n)
  let ?c = "1 + 749 / 10 ^ 8 :: real" and ?x = "(update ^^ n) 1"
  have "1 \<le> ?c ^ n"
    by (rule one_le_power) simp
  then have "1 \<le> ?x"
    using Suc.IH by linarith
  moreover have "MinimumMultiplier \<le> 1"
    by (simp add: MinimumMultiplier_def)
  ultimately have x: "MinimumMultiplier \<le> ?x" "0 < ?x"
    by linarith+
  note truth = truth_factor(2) [OF assms(2,3) x(1)]
  have "?x * 1 < truth_value_update normal ideal normal ?x"
    unfolding truth using x(2) by (intro mult_strict_left_mono) simp_all
  then have "MinimumMultiplier < truth_value_update normal ideal normal ?x"
    using x(1) by linarith
  then have "\<bar>update ?x - truth_value_update normal ideal normal ?x\<bar> \<le> ?x / 10 ^ 8"
    using assms(1) x(1) unfolding follows_def by blast
  then have close: "\<bar>update ?x - ?x * (1 + 75 / 10 ^ 7 + 28125 / 10 ^ 15)\<bar> \<le> ?x / 10 ^ 8"
    unfolding truth .
  have "?c ^ n * ?c \<le> ?x * ?c"
    using Suc.IH by (intro mult_right_mono) simp_all
  also have "\<dots> \<le> ?x * (1 + 75 / 10 ^ 7 + 28125 / 10 ^ 15 - 1 / 10 ^ 8)"
    using x(2) by (intro mult_left_mono) simp_all
  also have "\<dots> = ?x * (1 + 75 / 10 ^ 7 + 28125 / 10 ^ 15) - ?x / 10 ^ 8"
    by (simp add: field_simps)
  also have "\<dots> \<le> update ?x"
    using close by linarith
  finally show ?case
    by (simp only: power_Suc2 funpow.simps comp_apply)
qed simp

text \<open>The reference in terms of the distance \<open>d\<close> between the weight of the block and the ideal one.\<close>

lemma scaled_difference:
  fixes a b m :: real
  assumes "0 < m" "0 \<le> a" "a \<le> m" "0 \<le> b" "b \<le> m"
  shows "\<bar>a / m - b / m\<bar> \<le> 1" "0 < a / m - b / m \<longleftrightarrow> b < a" "a / m - b / m < 0 \<longleftrightarrow> a < b"
  using assms by (simp_all add: divide_less_cancel field_simps abs_le_iff)

lemma truth_delta:
  assumes "0 < normal" "ideal \<le> normal" "MinimumMultiplier \<le> x"
  shows "\<exists>d. truth_value_update normal ideal w x = x * (1 + (d / 10 ^ 5) * (1 + d / (2 * 10 ^ 5)))
    \<and> \<bar>d\<bar> \<le> 1 \<and> (0 < d \<longleftrightarrow> ideal < w \<and> ideal < normal) \<and> (d < 0 \<longleftrightarrow> w < ideal)"
proof -
  let ?m = "real (unat normal)" and ?w = "min (real (unat w)) (real (unat normal))"
  define d where "d = ?w / ?m - real (unat ideal) / ?m"
  have m: "0 < ?m"
    using assms(1) by (simp only: of_nat_0_less_iff unat_gt_0)
  have le: "0 \<le> ?w" "?w \<le> ?m" "0 \<le> real (unat ideal)" "real (unat ideal) \<le> ?m"
    using assms(2) by (simp_all only: of_nat_le_iff word_le_nat_alt min.cobounded2 of_nat_0_le_iff min_def split: if_split)
      simp_all
  have "truth_value_update normal ideal w x = x * (1 + AdjustmentVariable * d + AdjustmentVariable ^ 2 * d ^ 2 / 2)"
    using assms(3) by (simp only: truth_value_update_def Let_def d_def max_absorb1)
  then have "truth_value_update normal ideal w x = x * (1 + (d / 10 ^ 5) * (1 + d / (2 * 10 ^ 5)))"
    by (simp add: AdjustmentVariable_def power2_eq_square field_simps)
  moreover have "real (unat ideal) < ?w \<longleftrightarrow> ideal < w \<and> ideal < normal" "?w < real (unat ideal) \<longleftrightarrow> w < ideal"
    using assms(2) by (auto simp only: word_less_nat_alt word_le_nat_alt of_nat_less_iff min_less_iff_conj min_less_iff_disj)
  ultimately show ?thesis
    using scaled_difference [OF m le] by (intro exI [of _ d]) (simp only: d_def simp_thms)
qed

lemma drift_bound: "\<bar>d\<bar> \<le> 1 \<Longrightarrow> - 1 < (d / 10 ^ 5) * (1 + d / (2 * 10 ^ 5))" for d :: real
proof -
  assume "\<bar>d\<bar> \<le> 1"
  then have "- 1 < d / 10 ^ 5"
    by (simp add: abs_le_iff)
  moreover have "(d / 10 ^ 5) * (1 + d / (2 * 10 ^ 5)) = d / 10 ^ 5 + d ^ 2 / (2 * 10 ^ 10)"
    by (simp add: power2_eq_square field_simps)
  moreover have "0 \<le> d ^ 2 / (2 * 10 ^ 10)"
    by simp
  ultimately show ?thesis
    by linarith
qed

text \<open>
  A day of full blocks raises the multiplier from 1 above 1.234, for every adjustment that follows the
  reference; the reference itself rises exactly when the block is heavier than the target, falls exactly when it is lighter, and
  never becomes negative.
\<close>

theorem multiplier_moves:
  assumes "0 < normal" "ideal \<le> normal" "MinimumMultiplier \<le> x"
  shows "(x < truth_value_update normal ideal w x \<longleftrightarrow> ideal < w \<and> ideal < normal)
    \<and> (truth_value_update normal ideal w x < x \<longleftrightarrow> w < ideal)
    \<and> 0 < truth_value_update normal ideal w x
    \<and> (follows update (truth_value_update normal ideal normal) \<and> 4 * unat ideal = unat normal \<longrightarrow>
        1234 / 1000 < min_change_per_day update)"
proof -
  obtain d where truth: "truth_value_update normal ideal w x = x * (1 + (d / 10 ^ 5) * (1 + d / (2 * 10 ^ 5)))"
    and d: "\<bar>d\<bar> \<le> 1" "0 < d \<longleftrightarrow> ideal < w \<and> ideal < normal" "d < 0 \<longleftrightarrow> w < ideal"
    using truth_delta [OF assms] by blast
  have x: "0 < x"
    using assms(3) MinimumMultiplier_pos by linarith
  have factor: "0 < 1 + d / (2 * 10 ^ 5)" "- 1 < (d / 10 ^ 5) * (1 + d / (2 * 10 ^ 5))"
    using d(1) drift_bound [of d] by (auto simp: abs_le_iff)
  define e where "e = (d / 10 ^ 5) * (1 + d / (2 * 10 ^ 5))"
  have sign: "0 < e \<longleftrightarrow> 0 < d" "e < 0 \<longleftrightarrow> d < 0"
    using factor(1) by (simp_all add: e_def zero_less_mult_iff mult_less_0_iff)
  have "x * (1 + e) = x + x * e" "- 1 < e"
    using factor(2) by (simp_all add: e_def distrib_left)
  then have moves: "x < x * (1 + e) \<longleftrightarrow> 0 < e" "x * (1 + e) < x \<longleftrightarrow> e < 0"
    using x by (simp_all add: zero_less_mult_iff mult_less_0_iff)
  have "0 < x * (1 + e)"
    using x \<open>- 1 < e\<close> by (intro mult_pos_pos) simp_all
  have "1234 / 1000 < min_change_per_day update"
    if "follows update (truth_value_update normal ideal normal)" "4 * unat ideal = unat normal"
  proof -
    have "1234 / 1000 < (1 + real 3600 * (749 / 10 ^ 8)) ^ 8"
      by (simp add: power_divide)
    also have "\<dots> \<le> ((1 + 749 / 10 ^ 8) ^ 3600) ^ 8"
      by (intro power_mono Bernoulli_inequality) simp_all
    also have "\<dots> = (1 + 749 / 10 ^ 8) ^ 28800"
      by (simp flip: power_mult)
    also have "\<dots> \<le> (update ^^ 28800) 1"
      by (rule iterate_full [OF that(1) assms(1) that(2)])
    also have "\<dots> = min_change_per_day update"
      by (simp add: min_change_per_day_def fold_const DAYS_def HOURS_def MINUTES_def SECS_PER_BLOCK_def
          MILLISECS_PER_BLOCK_def)
    finally show ?thesis .
  qed
  then show ?thesis
    unfolding truth using moves sign d(2,3) \<open>0 < x * (1 + e)\<close> by (simp add: e_def)
qed

theorem multiplier_moves_witness:
  "truth_value_update 1500000000000 375000000000 0 1 < 1
   \<and> 1234 / 1000 < min_change_per_day (demo_update 1500000000000 375000000000 1500000000000)"
proof -
  have "MinimumMultiplier \<le> 1"
    by (simp add: MinimumMultiplier_def)
  then show ?thesis
    using multiplier_moves [of 1500000000000 375000000000 1 0
        "demo_update 1500000000000 375000000000 1500000000000"] demo_update_follows [of 1500000000000]
    by (simp add: word_less_nat_alt word_le_nat_alt)
qed

end
