(* ===== verification/Voter_Bags.thy ===== *)
theory Voter_Bags
  imports Runtime_Constants
begin

text \<open>
  The thresholds of the bags of voters (\<open>runtime/src/voter_bags.rs\<close>), and the bag a vote weight falls into: that of the
  least threshold that is not below it.
\<close>

definition EXISTENTIAL_WEIGHT :: u64 where "EXISTENTIAL_WEIGHT = 100000000000000"

text \<open>The ratio is an \<open>f64\<close> literal; the model keeps its decimal value.\<close>

definition CONSTANT_RATIO :: rat where "CONSTANT_RATIO = 10628253590743408 / 10000000000000000"

definition THRESHOLDS_low :: "u64 list" where
  "THRESHOLDS_low = [
     100000000000000, 106282535907434, 112959774389150, 120056512776105, 127599106300477,
     135615565971369, 144135662599590, 153191037357827, 162815319286803, 173044250183800,
     183915817337347, 195470394601017, 207750892330229, 220802916738890, 234674939267673,
     249418476592914, 265088281944639, 281742548444211, 299443125216738, 318255747080822,
     338250278668647, 359500973883001, 382086751654776, 406091489025036, 431604332640068,
     458720029816222, 487539280404019, 518169110758247, 550723271202866, 585322658466782,
     622095764659305, 661179154452653, 702717972243610, 746866481177808, 793788636038393,
     843658692126636, 896661852395681, 952994955240703, 1012867205499736, 1076500951379881,
     1144132510194192, 1216013045975769, 1292409502228280, 1373605593276862, 1459902857901004,
     1551621779162291, 1649102974585730, 1752708461114642, 1862822999536805, 1979855523374646,
     2104240657545975, 2236440332435128, 2376945499368703, 2526277953866680, 2684992273439945,
     2853677877130641, 3032961214443876, 3223508091799862, 3426026145146232, 3641267467913124,
     3870031404070482, 4113167516660186, 4371578742827277, 4646224747067156, 4938125485141739,
     5248364991899922, 5578095407069235, 5928541253969291, 6301003987036955, 6696866825051405,
     7117599888008300, 7564765656719910, 8040024775416580, 8545142218898723, 9081993847142344,
     9652573371700016, 10258999759768490, 10903525103419522, 11588542983217942,
     12316597357287042, 13090392008832678, 13912800587211472, 14786877279832732,
     15715868154526436, 16703223214499558, 17752609210649358, 18867923258814856,
     20053307312537008, 21313163545075252, 22652170697804756, 24075301455707600,
     25587840914485432, 27195406207875088, 28903967368057400, 30719869496628636,
     32649856328471220, 34701095276033064, 36881204047022752, 39198278934370992,
     41660924883519016]"

definition THRESHOLDS_high :: "u64 list" where
  "THRESHOLDS_high = [
     44278287448695240, 47060086756856400, 50016653605425536, 53158967827883320,
     56498699069691424, 60048250125977912, 63820803001928304, 67830367866937216,
     72091835084322176, 76621030509822880, 81434774264248528, 86550943198537824,
     91988537283208848, 97767750168749840, 103910044178992000, 110438230015967792,
     117376551472255616, 124750775465407920, 132588287728824640, 140918194514440064,
     149771430684917568, 159180874596775264, 169181470201085280, 179810356815193344,
     191107007047393216, 203113373386768288, 215874044002592672, 229436408331885600,
     243850833070063392, 259170849218267264, 275453350882006752, 292758806559399232,
     311151483703668992, 330699687393865920, 351476014000157824, 373557620785735808,
     397026512446556096, 421969845653044224, 448480252724740928, 476656185639923904,
     506602281657757760, 538429751910786752, 572256794410890176, 608209033002485632,
     646419983893124352, 687031551494039552, 730194555412054016, 776069290549944960,
     824826122395314176, 876646119708695936, 931721726960522368, 990257479014182144,
     1052470760709299712, 1118592614166106112, 1188868596808997376, 1263559693295730432,
     1342943284738898688, 1427314178819094784, 1516985704615302400, 1612290876218400768,
     1713583629449105408, 1821240136273157632, 1935660201795120128, 2057268749018809600,
     2186517396888336384, 2323886137470138880, 2469885118504583168, 2625056537947004416,
     2789976657533970944, 2965257942852572160, 3151551337860326400, 3349548682302620672,
     3559985281005267968, 3783642634583792128, 4021351341710503936, 4273994183717548544,
     4542509402991247872, 4827894187332742144, 5131208373224844288, 5453578381757959168,
     5796201401831965696, 6160349836169256960, 6547376026650146816, 6958717276519173120,
     7395901188113309696, 7860551335934872576, 8354393296137270272, 8879261054815360000,
     9437103818898946048, 10029993254943105024, 10660131182698121216, 11329857752030707712,
     12041660133563240448, 12798181755305525248, 13602232119581272064, 14456797236706498560,
     15365050714167523328, 16330365542480556032, 17356326621502140416, 18446744073709551615]"

definition THRESHOLDS :: "u64 list" where "THRESHOLDS = THRESHOLDS_low @ THRESHOLDS_high"

text \<open>The bag of a weight, as the table is meant to be used: the first threshold that is at least the weight.\<close>

definition bag_for :: "u64 \<Rightarrow> u64 option" where
  "bag_for weight = find (\<lambda>t. weight \<le> t) THRESHOLDS"

fun ascending :: "'a::linorder list \<Rightarrow> bool" where
  "ascending (x # y # zs) = (x < y \<and> ascending (y # zs))"
| "ascending _ = True"

lemma ascending_append:
  "xs \<noteq> [] \<Longrightarrow> ys \<noteq> [] \<Longrightarrow> ascending (xs @ ys) \<longleftrightarrow> ascending xs \<and> last xs < hd ys \<and> ascending ys"
  by (induction xs rule: ascending.induct) (cases ys; auto)+

lemma ascending_sorted: "ascending xs \<Longrightarrow> sorted_wrt (<) xs"
proof (induction xs rule: ascending.induct)
  case (1 x y zs)
  then show ?case by auto
qed auto

lemma thresholds_low: "ascending THRESHOLDS_low" "length THRESHOLDS_low = 100" "THRESHOLDS_low \<noteq> []"
    "hd THRESHOLDS_low = EXISTENTIAL_WEIGHT"
  by (simp_all add: THRESHOLDS_low_def EXISTENTIAL_WEIGHT_def)

lemma thresholds_high: "ascending THRESHOLDS_high" "length THRESHOLDS_high = 100" "THRESHOLDS_high \<noteq> []"
    "last THRESHOLDS_high = - 1" "last THRESHOLDS_low < hd THRESHOLDS_high"
  by (simp_all add: THRESHOLDS_high_def THRESHOLDS_low_def)

lemma thresholds_sorted: "sorted_wrt (<) THRESHOLDS"
  using ascending_sorted [of THRESHOLDS] thresholds_low thresholds_high
  by (simp add: THRESHOLDS_def ascending_append)

text \<open>
  The 200 thresholds are strictly increasing from the existential weight to the largest weight, so every
  weight falls into exactly one bag: its threshold is the least one that is not below the weight.
\<close>

theorem every_weight_has_a_bag:
  "length THRESHOLDS = 200 \<and> sorted_wrt (<) THRESHOLDS \<and> hd THRESHOLDS = EXISTENTIAL_WEIGHT
   \<and> last THRESHOLDS = - 1
   \<and> (\<exists>t. bag_for weight = Some t \<and> t = Min {t \<in> set THRESHOLDS. weight \<le> t})"
proof -
  have "last THRESHOLDS \<in> set THRESHOLDS"
    using thresholds_high(3) by (intro last_in_set) (simp add: THRESHOLDS_def)
  moreover have "last THRESHOLDS = - 1"
    using thresholds_high by (simp add: THRESHOLDS_def)
  moreover have "weight \<le> - 1"
    by (rule word_order.extremum)
  ultimately have "bag_for weight \<noteq> None"
    unfolding bag_for_def find_None_iff by metis
  then obtain t where t: "bag_for weight = Some t"
    by blast
  then obtain i where i: "i < length THRESHOLDS" "t = THRESHOLDS ! i" "weight \<le> t"
      "\<forall>j < i. \<not> weight \<le> THRESHOLDS ! j"
    unfolding bag_for_def find_Some_iff by blast
  have "Min {t \<in> set THRESHOLDS. weight \<le> t} = t"
  proof (rule Min_eqI)
    show "finite {t \<in> set THRESHOLDS. weight \<le> t}" by simp
    show "t \<in> {t \<in> set THRESHOLDS. weight \<le> t}"
      using i by simp
    fix u
    assume "u \<in> {t \<in> set THRESHOLDS. weight \<le> t}"
    then obtain j where "j < length THRESHOLDS" "u = THRESHOLDS ! j" "weight \<le> u"
      by (auto simp: in_set_conv_nth)
    then show "t \<le> u"
      using i thresholds_sorted by (metis less_imp_le linorder_neqE_nat order_refl sorted_wrt_nth_less)
  qed
  then show ?thesis
    using t thresholds_sorted thresholds_low thresholds_high by (simp add: THRESHOLDS_def)
qed

end
