(* ===== verification/Bench_Core.thy ===== *)
theory Bench_Core
  imports Prelude "HOL-Library.Multiset"
begin

text \<open>
  The benchmark runner (\<open>bench/src/core.rs\<close>, \<open>bench/src/common.rs\<close>): the path of a benchmark and its filter,
  the two averages, the units of the output, the mode and the size types. Durations are numbers of
  nanoseconds. Sums of durations are \<open>u128\<close> in the code; fifty durations of at most \<open>2^94\<close> nanoseconds (the
  largest a Rust \<open>Duration\<close> holds) stay below \<open>2^128\<close>, so the model adds natural numbers, and the
  casts to \<open>u64\<close> are modelled.
\<close>

section \<open>Paths\<close>

type_synonym path = "string list"

definition path_new :: "string list \<Rightarrow> path" where "path_new initial = initial"

definition path_push :: "string \<Rightarrow> path \<Rightarrow> path" where "path_push item p = p @ [item]"

definition path_full :: "path \<Rightarrow> string" where
  "path_full p = fold (\<lambda>next val. val @ ''::'' @ next) p ''''"

text \<open>\<open>str::contains\<close>: whether a string occurs in another.\<close>

fun starts_with :: "string \<Rightarrow> string \<Rightarrow> bool" where
  "starts_with [] s = True"
| "starts_with (c # cs) [] = False"
| "starts_with (c # cs) (d # ds) = (c = d \<and> starts_with cs ds)"

fun str_contains :: "string \<Rightarrow> string \<Rightarrow> bool" where
  "str_contains [] pat = (pat = [])"
| "str_contains (c # cs) pat = (starts_with pat (c # cs) \<or> str_contains cs pat)"

definition path_has :: "path \<Rightarrow> string \<Rightarrow> bool" where
  "path_has p pat = str_contains (path_full p) pat"

lemma starts_with_iff: "starts_with p s \<longleftrightarrow> (\<exists>r. s = p @ r)"
  by (induction p s rule: starts_with.induct) auto

lemma str_contains_iff: "str_contains s p \<longleftrightarrow> (\<exists>l r. s = l @ p @ r)"
proof (induction s arbitrary: p)
  case Nil
  then show ?case by auto
next
  case step: (Cons c s)
  show ?case
  proof
    assume "str_contains (c # s) p"
    then consider r where "c # s = p @ r" | l r where "s = l @ p @ r"
      using step by (auto simp: starts_with_iff)
    then show "\<exists>l r. c # s = l @ p @ r"
      by cases (metis append_Nil, metis append_Cons)
  next
    assume "\<exists>l r. c # s = l @ p @ r"
    then obtain l r where lr: "c # s = l @ p @ r" by blast
    show "str_contains (c # s) p"
    proof (cases l)
      case Nil
      then have "starts_with p (c # s)"
        using lr by (simp add: starts_with_iff)
      then show ?thesis by simp
    next
      case (Cons a l')
      then have "\<exists>l r. s = l @ p @ r"
        using lr by auto
      then show ?thesis
        using step.IH by simp
    qed
  qed
qed

lemma path_full_fold: "fold (\<lambda>next val. val @ ''::'' @ next) p acc = acc @ concat (map (\<lambda>x. ''::'' @ x) p)"
  by (induction p arbitrary: acc) simp_all

lemma path_full_eq: "path_full p = concat (map (\<lambda>x. ''::'' @ x) p)"
  using path_full_fold [of p "[]"] by (simp add: path_full_def)

text \<open>
  A filter selects a benchmark exactly when it occurs in the benchmark's full path; so every component of
  the path selects it, so does every joined run of components, and pushing a component keeps what was selected.
\<close>

theorem path_has_components:
  "(path_has p pat \<longleftrightarrow> (\<exists>l r. path_full p = l @ pat @ r))
   \<and> path_has (xs @ ys @ zs) (path_full ys)
   \<and> path_has (xs @ [item] @ zs) item
   \<and> path_full (path_push item p) = path_full p @ ''::'' @ item"
proof -
  have "\<exists>l r. path_full (xs @ ys @ zs) = l @ path_full ys @ r"
    by (intro exI [of _ "path_full xs"] exI [of _ "path_full zs"]) (simp add: path_full_eq)
  moreover have "\<exists>l r. path_full (xs @ [item] @ zs) = l @ item @ r"
    by (intro exI [of _ "path_full xs @ ''::''"] exI [of _ "path_full zs"]) (simp add: path_full_eq)
  ultimately show ?thesis
    by (simp add: path_has_def str_contains_iff path_push_def path_full_eq)
qed

section \<open>Modes and sizes\<close>

datatype mode = Regular | Profile

definition mode_from_str :: "string \<Rightarrow> (string, mode) result" where
  "mode_from_str day =
     (if day = ''regular'' then Inr Regular
      else if day = ''profile'' then Inr Profile
      else Inl ''Could not parse mode'')"

datatype size_type = Empty_size | Small_size | Medium_size | Large_size | Full_size | Custom_size nat

fun transactions :: "size_type \<Rightarrow> nat option" where
  "transactions Empty_size = Some 0"
| "transactions Small_size = Some 10"
| "transactions Medium_size = Some 100"
| "transactions Large_size = Some 500"
| "transactions Full_size = None"
| "transactions (Custom_size val) = Some val"

fun size_type_display :: "size_type \<Rightarrow> string" where
  "size_type_display Empty_size = ''empty''"
| "size_type_display Small_size = ''small''"
| "size_type_display Medium_size = ''medium''"
| "size_type_display Large_size = ''large''"
| "size_type_display Full_size = ''full''"
| "size_type_display (Custom_size _) = ''custom''"

section \<open>Running\<close>

record benchmark_output =
  output_name :: string
  raw_average :: u64
  average :: u64

text \<open>
  The number as the output shows it: the number itself in nanoseconds, or a quotient with a number of decimals and
  a unit; \<open>show_int\<close> and \<open>show_f64\<close> are the formatters of the standard library, the latter taking
  the number of decimals, the dividend and the divisor.
\<close>

definition ns_format :: "(u64 \<Rightarrow> string) \<Rightarrow> (nat \<Rightarrow> u64 \<Rightarrow> nat \<Rightarrow> string) \<Rightarrow> string \<Rightarrow> u64 \<Rightarrow> string" where
  "ns_format show_int show_f64 micro v =
     (if v < 100 then show_int v @ '' ns''
      else if v < 100000 then show_f64 1 v 1000 @ '' '' @ micro
      else if v < 1000000 then show_f64 4 v 1000000 @ '' ms''
      else if v < 100000000 then show_f64 1 v 1000000 @ '' ms''
      else show_f64 4 v 1000000000 @ '' s'')"

definition output_display :: "(u64 \<Rightarrow> string) \<Rightarrow> benchmark_output \<Rightarrow> string" where
  "output_display fmt out =
     output_name out @ '': avg '' @ fmt (raw_average out) @ '', w_avg '' @ fmt (average out)"

text \<open>
  \<open>run_benchmark\<close>: fifty runs of the benchmark, whose state \<open>run\<close> may change, and two averages over the
  sorted durations.
\<close>

fun run_times :: "nat \<Rightarrow> ('b \<Rightarrow> nat \<times> 'b) \<Rightarrow> 'b \<Rightarrow> nat list" where
  "run_times 0 run b = []"
| "run_times (Suc n) run b = (case run b of (d, b') \<Rightarrow> d # run_times n run b')"

definition raw_average_of :: "nat list \<Rightarrow> u64" where
  "raw_average_of durations = word_of_nat (sum_list durations div length durations)"

definition average_of :: "nat list \<Rightarrow> u64" where
  "average_of durations = word_of_nat (sum_list (take 30 (drop 10 durations)) div 30)"

definition run_benchmark :: "string \<Rightarrow> ('b \<Rightarrow> nat \<times> 'b) \<Rightarrow> 'b \<Rightarrow> benchmark_output" where
  "run_benchmark name run b =
     (let durations = sort (run_times 50 run b)
      in \<lparr>output_name = name, raw_average = raw_average_of durations, average = average_of durations\<rparr>)"

lemma length_run_times [simp]: "length (run_times n run b) = n"
  by (induction n arbitrary: b) (simp_all split: prod.split)

lemma sum_list_bounds:
  "(\<And>x. x \<in> set xs \<Longrightarrow> lo \<le> x \<and> x \<le> (hi::nat)) \<Longrightarrow>
   length xs * lo \<le> sum_list xs \<and> sum_list xs \<le> length xs * hi"
  by (induction xs) (force simp: add_mono)+

lemma mean_bounds:
  assumes "\<And>x. x \<in> set xs \<Longrightarrow> lo \<le> x \<and> x \<le> (hi::nat)" "xs \<noteq> []"
  shows "lo \<le> sum_list xs div length xs \<and> sum_list xs div length xs \<le> hi"
proof -
  have "length xs * lo \<le> sum_list xs" "sum_list xs \<le> length xs * hi"
    using sum_list_bounds [OF assms(1)] by simp_all
  then show ?thesis
    using assms(2) div_le_mono [of "length xs * lo" "sum_list xs" "length xs"]
      div_le_mono [of "sum_list xs" "length xs * hi" "length xs"]
    by simp
qed

lemma sorted_averages:
  assumes "length s = 50" "sorted s" "\<And>d. d \<in> set s \<Longrightarrow> d < 2 ^ 64"
  shows "Min (set s) \<le> unat (raw_average_of s) \<and> unat (raw_average_of s) \<le> Max (set s)
    \<and> s ! 10 \<le> unat (average_of s) \<and> unat (average_of s) \<le> s ! 39"
proof -
  have "s \<noteq> []"
    using assms(1) by auto
  then have raw: "Min (set s) \<le> sum_list s div length s \<and> sum_list s div length s \<le> Max (set s)"
    by (intro mean_bounds) auto
  have "s ! 10 \<le> x \<and> x \<le> s ! 39" if mid: "x \<in> set (take 30 (drop 10 s))" for x
  proof -
    from mid obtain i where "i < 30" "x = s ! (10 + i)"
      using assms(1) by (auto simp: in_set_conv_nth)
    then show ?thesis
      using assms(1,2) by (auto intro!: sorted_nth_mono)
  qed
  moreover have "length (take 30 (drop 10 s)) = 30" "take 30 (drop 10 s) \<noteq> []"
    using assms(1) by auto
  ultimately have mid: "s ! 10 \<le> sum_list (take 30 (drop 10 s)) div 30
      \<and> sum_list (take 30 (drop 10 s)) div 30 \<le> s ! 39"
    using mean_bounds [of "take 30 (drop 10 s)" "s ! 10" "s ! 39"] by metis
  have "s ! 39 < 2 ^ 64"
    using nth_mem [of 39 s] assms(1,3) by simp
  moreover have "Max (set s) < 2 ^ 64"
    using Max_in [of "set s"] \<open>s \<noteq> []\<close> assms(3) by simp
  ultimately have "unat (raw_average_of s) = sum_list s div length s"
    and "unat (average_of s) = sum_list (take 30 (drop 10 s)) div 30"
    using raw mid unfolding raw_average_of_def average_of_def
    by (simp_all add: unat_of_nat)
  then show ?thesis
    using raw mid by simp
qed

text \<open>
  When every duration fits in 64 bits, both averages lie between the shortest and the longest duration,
  and the second one, which leaves out the ten shortest and the ten longest runs, between the eleventh and the
  fortieth of the sorted durations.
\<close>

theorem averages_bounded:
  assumes "\<And>d. d \<in> set (run_times 50 run b) \<Longrightarrow> d < 2 ^ 64"
  shows "Min (set (run_times 50 run b)) \<le> unat (raw_average (run_benchmark name run b))
    \<and> unat (raw_average (run_benchmark name run b)) \<le> Max (set (run_times 50 run b))
    \<and> sort (run_times 50 run b) ! 10 \<le> unat (average (run_benchmark name run b))
    \<and> unat (average (run_benchmark name run b)) \<le> sort (run_times 50 run b) ! 39"
  using sorted_averages [of "sort (run_times 50 run b)"] assms by (simp add: run_benchmark_def Let_def)

theorem averages_bounded_witness:
  "unat (average (run_benchmark ''w'' (Pair 7) (0 :: nat))) = 7"
proof -
  have times: "run_times n (Pair 7) m = replicate n 7" for n and m :: nat
    by (induction n) simp_all
  have "sort (replicate 50 (7 :: nat)) = replicate 50 7"
    by (simp add: sorted_sort_id)
  moreover have "d < 2 ^ 64" if "d \<in> set (run_times 50 (Pair 7) (0 :: nat))" for d
    using that by (simp add: times)
  ultimately show ?thesis
    using averages_bounded [of "Pair 7" "0 :: nat" "''w''"] by (auto simp: times)
qed

end
