(* ===== verification/Bench_Trie.thy ===== *)
theory Bench_Trie
  imports Bench_Core "HOL-Library.Monad_Syntax"
begin

text \<open>
  The trie benchmarks: the overlay over a database (\<open>bench/src/simple_trie.rs\<close>), the two databases it may sit on
  (\<open>bench/src/tempdb.rs\<close>), the flush of the overlay (\<open>bench/src/generator.rs\<close>, \<open>bench/src/trie.rs\<close>) and the generation of a
  trie. The databases, the trie library and the hash functions are third-party code: their operations are parameters, and a
  \<open>None\<close> is a panic, of an \<open>expect\<close> on their errors among others.
\<close>

section \<open>Key/value databases\<close>

type_synonym bytes = "u8 list"

text \<open>The operations of a write transaction.\<close>

datatype db_op = Insert_op u32 bytes bytes | Delete_op u32 bytes | DeletePrefix_op u32 bytes

text \<open>
  What is called of a database of type \<open>'d\<close>: a lookup in a column, and a write. Both can fail, and every failure here is a
  panic of the caller.
\<close>

record 'd kvdb =
  kv_get :: "'d \<Rightarrow> u32 \<Rightarrow> bytes \<Rightarrow> bytes option option"
  kv_write :: "'d \<Rightarrow> db_op list \<Rightarrow> 'd option"

text \<open>
  What the key/value interface documents of a database that keeps the last value of every key of every column, as RocksDB
  does: a lookup that returns gives that value, and a write that returns has applied the operations in order, each to its
  own column. \<open>content\<close> is what the columns map the keys to.
\<close>

fun apply_op :: "u32 \<Rightarrow> db_op \<Rightarrow> (bytes \<rightharpoonup> bytes) \<Rightarrow> (bytes \<rightharpoonup> bytes)" where
  "apply_op col (Insert_op c key val) m = (if c = col then map_insert m key val else m)"
| "apply_op col (Delete_op c key) m = (if c = col then map_remove m key else m)"
| "apply_op col (DeletePrefix_op c pfx) m = (if c = col then (\<lambda>k. if take (length pfx) k = pfx then None else m k) else m)"

definition column_law :: "'d kvdb \<Rightarrow> ('d \<Rightarrow> u32 \<Rightarrow> bytes \<rightharpoonup> bytes) \<Rightarrow> bool" where
  "column_law kv content \<longleftrightarrow>
     (\<forall>d col key v. kv_get kv d col key = Some v \<longrightarrow> v = content d col key)
     \<and> (\<forall>d ops d'. kv_write kv d ops = Some d' \<longrightarrow> (\<forall>col. content d' col = fold (apply_op col) ops (content d col)))"

lemma column_law_get: "column_law kv content \<Longrightarrow> kv_get kv d col key = Some v \<Longrightarrow> v = content d col key"
  by (simp add: column_law_def)

lemma column_law_write:
  "column_law kv content \<Longrightarrow> kv_write kv d ops = Some d' \<Longrightarrow> content d' col = fold (apply_op col) ops (content d col)"
  by (simp add: column_law_def)

section \<open>The overlay\<close>

record 'd simple_trie =
  db :: 'd
  overlay :: "bytes \<rightharpoonup> bytes option"

definition trie_get :: "'d kvdb \<Rightarrow> ('k \<Rightarrow> 'p \<Rightarrow> bytes) \<Rightarrow> 'd simple_trie \<Rightarrow> 'k \<Rightarrow> 'p \<Rightarrow> bytes option option" where
  "trie_get kv prefixed_key t key pfx =
     (let key = prefixed_key key pfx in
      case overlay t key of Some val \<Rightarrow> Some val | None \<Rightarrow> kv_get kv (db t) 0 key)"

definition trie_contains :: "'d kvdb \<Rightarrow> ('k \<Rightarrow> 'p \<Rightarrow> bytes) \<Rightarrow> 'd simple_trie \<Rightarrow> 'k \<Rightarrow> 'p \<Rightarrow> bool option" where
  "trie_contains kv prefixed_key t hash pfx = map_option (\<lambda>v. v \<noteq> None) (trie_get kv prefixed_key t hash pfx)"

definition trie_emplace ::
  "('k \<Rightarrow> 'p \<Rightarrow> bytes) \<Rightarrow> 'd simple_trie \<Rightarrow> 'k \<Rightarrow> 'p \<Rightarrow> bytes \<Rightarrow> 'd simple_trie" where
  "trie_emplace prefixed_key t key pfx val =
     t\<lparr>overlay := map_insert (overlay t) (prefixed_key key pfx) (Some val)\<rparr>"

definition trie_insert ::
  "('k \<Rightarrow> 'p \<Rightarrow> bytes) \<Rightarrow> (bytes \<Rightarrow> 'k) \<Rightarrow> 'd simple_trie \<Rightarrow> 'p \<Rightarrow> bytes \<Rightarrow> 'k \<times> 'd simple_trie" where
  "trie_insert prefixed_key hash t pfx val =
     (let key = hash val in (key, trie_emplace prefixed_key t key pfx val))"

definition trie_remove :: "('k \<Rightarrow> 'p \<Rightarrow> bytes) \<Rightarrow> 'd simple_trie \<Rightarrow> 'k \<Rightarrow> 'p \<Rightarrow> 'd simple_trie" where
  "trie_remove prefixed_key t key pfx =
     t\<lparr>overlay := map_insert (overlay t) (prefixed_key key pfx) None\<rparr>"

text \<open>What the trie shows under a stored key; nothing where the database fails.\<close>

definition trie_view :: "'d kvdb \<Rightarrow> 'd simple_trie \<Rightarrow> bytes \<Rightarrow> bytes option" where
  "trie_view kv t k = (case trie_get kv (\<lambda>k p. k) t k () of Some val \<Rightarrow> val | None \<Rightarrow> None)"

interpretation overlay: kv_store "trie_view kv"
  "\<lambda>k v t. trie_emplace (\<lambda>k p. k) t k () v" "\<lambda>k t. trie_remove (\<lambda>k p. k) t k ()" for kv
  by unfold_locales
    (simp_all add: trie_view_def trie_get_def trie_emplace_def trie_remove_def storage_simps split: option.split)

section \<open>Flushing the overlay\<close>

text \<open>The loop over the entries of the overlay that fills the transaction, in the map's iteration order.\<close>

definition flush_ops :: "(bytes \<times> bytes option) list \<Rightarrow> db_op list" where
  "flush_ops entries =
     map (\<lambda>(key, val). case val of Some v \<Rightarrow> Insert_op 0 key v | None \<Rightarrow> Delete_op 0 key) entries"

lemma fold_flush_ops:
  "fold (apply_op 0) (flush_ops entries) m =
   fold (\<lambda>(k, v). case v of Some x \<Rightarrow> (\<lambda>m. map_insert m k x) | None \<Rightarrow> (\<lambda>m. map_remove m k)) entries m"
  by (induction entries arbitrary: m) (auto simp: flush_ops_def split: option.splits)

lemma fold_flush_ops_other: "col \<noteq> 0 \<Longrightarrow> fold (apply_op col) (flush_ops entries) m = m"
  by (induction entries arbitrary: m) (auto simp: flush_ops_def split: option.splits)

text \<open>
  C38: flushing the overlay commits what the trie showed, on a database that keeps the last value of every key of
  every column, as RocksDB does. In whatever order the hash map hands out its entries, when the write returns, column 0 maps
  every key that could be looked up through the overlay to what that lookup gave, removals included; a lookup through a new,
  empty overlay that returns gives the same; and no other column has changed. (On the parity database, which counts references
  and stores the last 32 bytes of a key, this is not so: see \<open>parity_flush\<close>.)
\<close>

theorem flush_commits_view:
  assumes "column_law kv content" "distinct (map fst entries)" "\<And>k. map_of entries k = overlay t k"
    and "kv_write kv (db t) (flush_ops entries) = Some d'"
  shows "(\<forall>key pfx v. trie_get kv prefixed_key t key pfx = Some v \<longrightarrow>
        content d' 0 (prefixed_key key pfx) = v
        \<and> trie_get kv prefixed_key \<lparr>db = d', overlay = Map.empty\<rparr> key pfx \<in> {None, Some v})
    \<and> (\<forall>col. col \<noteq> 0 \<longrightarrow> content d' col = content (db t) col)"
proof -
  note written = column_law_write [OF assms(1,4)]
  have committed: "content d' 0 k = (case overlay t k of Some val \<Rightarrow> val | None \<Rightarrow> content (db t) 0 k)" for k
    using smap.lookup_batch [OF assms(2), of "content (db t) 0" k] assms(3) [of k]
    by (simp add: written fold_flush_ops split: option.split)
  have column0: "content d' 0 (prefixed_key key pfx) = v" if "trie_get kv prefixed_key t key pfx = Some v" for key pfx v
    using that column_law_get [OF assms(1), of "db t" 0 "prefixed_key key pfx"]
    by (auto simp: trie_get_def Let_def committed split: option.splits)
  have again: "trie_get kv prefixed_key \<lparr>db = d', overlay = Map.empty\<rparr> key pfx
      \<in> {None, Some (content d' 0 (prefixed_key key pfx))}" for key pfx
    using column_law_get [OF assms(1), of d' 0 "prefixed_key key pfx"]
    by (cases "kv_get kv d' 0 (prefixed_key key pfx)") (simp_all add: trie_get_def Let_def)
  have other: "content d' col = content (db t) col" if "col \<noteq> 0" for col
    using that by (simp add: written fold_flush_ops_other)
  show ?thesis
  proof (intro conjI allI impI)
    fix key pfx v
    assume got: "trie_get kv prefixed_key t key pfx = Some v"
    show "trie_get kv prefixed_key \<lparr>db = d', overlay = Map.empty\<rparr> key pfx \<in> {None, Some v}"
      using again [of key pfx] unfolding column0 [OF got] .
  qed (simp_all add: column0 other)
qed

text \<open>A database in memory, with one map for each column.\<close>

definition memory_kvdb :: "(u32 \<Rightarrow> bytes \<rightharpoonup> bytes) kvdb" where
  "memory_kvdb = \<lparr>kv_get = (\<lambda>d col key. Some (d col key)), kv_write = (\<lambda>d ops. Some (\<lambda>col. fold (apply_op col) ops (d col)))\<rparr>"

lemma memory_kvdb_law: "column_law memory_kvdb (\<lambda>d. d)"
  by (auto simp: column_law_def memory_kvdb_def)

theorem flush_commits_view_witness:
  "\<exists>d'. kv_write memory_kvdb (\<lambda>_. [[2] \<mapsto> [5], [3] \<mapsto> [6]]) (flush_ops [([1], Some [7]), ([2], None)]) = Some d'
     \<and> d' 0 [1] = Some [7] \<and> d' 0 [2] = None \<and> d' 1 = [[2] \<mapsto> [5], [3] \<mapsto> [6]]"
proof -
  let ?db = "\<lambda>_ :: u32. [[2] \<mapsto> [5], [3] \<mapsto> [6 :: u8]]"
  let ?t = "\<lparr>db = ?db, overlay = [[1] \<mapsto> Some [7], [2] \<mapsto> None]\<rparr>"
  obtain d' where d': "kv_write memory_kvdb (db ?t) (flush_ops [([1], Some [7]), ([2], None)]) = Some d'"
    by (simp add: memory_kvdb_def)
  have "distinct (map fst [([1 :: u8], Some [7 :: u8]), ([2], None)])" "\<And>k. map_of [([1], Some [7]), ([2], None)] k = overlay ?t k"
    by simp_all
  note flushed = flush_commits_view [OF memory_kvdb_law this d', where prefixed_key = "\<lambda>k (p :: unit). k"]
  have "trie_get memory_kvdb (\<lambda>k (p :: unit). k) ?t [1] () = Some (Some [7])" "trie_get memory_kvdb (\<lambda>k (p :: unit). k) ?t [2] () = Some None"
    by (simp_all add: trie_get_def)
  then have "d' 0 [1] = Some [7]" "d' 0 [2] = None"
    using conjunct1 [OF conjunct1 [OF flushed, rule_format, of "[1]" "()"]]
      conjunct1 [OF conjunct1 [OF flushed, rule_format, of "[2]" "()"]] by simp_all
  moreover have "d' 1 = ?db 1"
    using conjunct2 [OF flushed, rule_format, of 1] by simp
  ultimately show ?thesis
    using d' by (intro exI [of _ d']) simp
qed

section \<open>Generating a trie\<close>

text \<open>
  The mutable trie of the trie library over a \<open>simple_trie\<close>, which it reads and changes through the operations above alone:
  the database under the overlay is left as it is, and its commit gives the root and the overlay.
\<close>

record ('d, 'm, 'r) trie_lib =
  tl_new :: "'d simple_trie \<Rightarrow> 'm"
  tl_from_existing :: "'d simple_trie \<Rightarrow> 'r \<Rightarrow> 'm option"
  tl_get :: "'m \<Rightarrow> bytes \<Rightarrow> bytes option option"
  tl_insert :: "'m \<Rightarrow> bytes \<Rightarrow> bytes \<Rightarrow> 'm option"
  tl_commit :: "'m \<Rightarrow> ('r \<times> (bytes \<rightharpoonup> bytes option)) option"

fun insert_all :: "('m \<Rightarrow> bytes \<Rightarrow> bytes \<Rightarrow> 'm option) \<Rightarrow> (bytes \<times> bytes) list \<Rightarrow> 'm \<Rightarrow> 'm option" where
  "insert_all ins [] trie_db = Some trie_db"
| "insert_all ins ((key, val) # key_values) trie_db =
     (case ins trie_db key val of None \<Rightarrow> None | Some trie_db \<Rightarrow> insert_all ins key_values trie_db)"

definition null_key :: bytes where
  "null_key = [0x03, 0x17, 0x0a, 0x2e, 0x75, 0x97, 0xb7, 0xb7, 0xe3, 0xd8, 0x4c, 0x05, 0x39, 0x1d, 0x13, 0x9a,
     0x62, 0xb1, 0x57, 0xe7, 0x87, 0x86, 0xd8, 0xc0, 0x82, 0xf2, 0x9d, 0xcf, 0x4c, 0x11, 0x13, 0x14]"

text \<open>
  An overlay with the null node, the trie filled with the entries, and the flush; \<open>entries\<close> is the iteration order of the
  hash map. Inserting, committing and writing can each panic.
\<close>

definition generate_trie ::
  "'d kvdb \<Rightarrow> ('d, 'm, 'r) trie_lib \<Rightarrow> ((bytes \<rightharpoonup> bytes option) \<Rightarrow> (bytes \<times> bytes option) list) \<Rightarrow>
   'd \<Rightarrow> (bytes \<times> bytes) list \<Rightarrow> ('r \<times> 'd) option" where
  "generate_trie kv lib entries database key_values = do {
     let trie = \<lparr>db = database, overlay = map_insert Map.empty null_key (Some [0])\<rparr>;
     trie_db \<leftarrow> insert_all (tl_insert lib) key_values (tl_new lib trie);
     (root, overlay) \<leftarrow> tl_commit lib trie_db;
     database \<leftarrow> kv_write kv database (flush_ops (entries overlay));
     Some (root, database)
   }"

section \<open>Databases\<close>

datatype database_type = RocksDb | ParityDb

text \<open>The parity database is given the last 32 bytes of a key; a shorter key panics.\<close>

definition parity_key :: "bytes \<Rightarrow> bytes option" where
  "parity_key key = (if length key < 32 then None else Some (drop (length key - 32) key))"

definition parity_get :: "('p \<Rightarrow> u8 \<Rightarrow> bytes \<Rightarrow> bytes option option) \<Rightarrow> 'p \<Rightarrow> u32 \<Rightarrow> bytes \<Rightarrow> bytes option option" where
  "parity_get get pdb col key = (case parity_key key of None \<Rightarrow> None | Some key \<Rightarrow> get pdb (ucast col) key)"

fun parity_write :: "db_op list \<Rightarrow> (u8 \<times> bytes \<times> bytes option) list option" where
  "parity_write [] = Some []"
| "parity_write (Insert_op col key val # ops) =
     (case (parity_key key, parity_write ops) of
        (Some k, Some rest) \<Rightarrow> Some ((ucast col, k, Some val) # rest) | _ \<Rightarrow> None)"
| "parity_write (Delete_op col key # ops) =
     (case (parity_key key, parity_write ops) of
        (Some k, Some rest) \<Rightarrow> Some ((ucast col, k, None) # rest) | _ \<Rightarrow> None)"
| "parity_write (DeletePrefix_op col pfx # ops) = None"

text \<open>The wrapper as a key/value database; \<open>get\<close> and \<open>commit\<close> are the parity database's own.\<close>

definition parity_db_wrapper ::
  "('p \<Rightarrow> u8 \<Rightarrow> bytes \<Rightarrow> bytes option option) \<Rightarrow> ('p \<Rightarrow> (u8 \<times> bytes \<times> bytes option) list \<Rightarrow> 'p option) \<Rightarrow> 'p kvdb" where
  "parity_db_wrapper get commit =
     \<lparr>kv_get = parity_get get,
      kv_write = (\<lambda>pdb ops. case parity_write ops of None \<Rightarrow> None | Some ops \<Rightarrow> commit pdb ops)\<rparr>"

lemma parity_write_flush:
  "(\<forall>e \<in> set entries. 32 \<le> length (fst e)) \<Longrightarrow>
   parity_write (flush_ops entries) = Some (map (\<lambda>(k, v). (0, drop (length k - 32) k, v)) entries)"
proof (induction entries)
  case (Cons e entries)
  then show ?case
    by (cases e; cases "snd e") (auto simp: flush_ops_def parity_key_def)
qed (simp add: flush_ops_def)

text \<open>
  What is documented of a column with reference counts and preimages, the settings of the code: giving a key that is there
  adds a reference to it, its value being the same, and a removal takes one, the last one with the value. \<open>rows\<close> are the values of
  the keys with their references.
\<close>

fun count_reference :: "bytes \<Rightarrow> bytes option \<Rightarrow> (bytes \<rightharpoonup> bytes \<times> nat) \<Rightarrow> (bytes \<rightharpoonup> bytes \<times> nat)" where
  "count_reference k (Some v) m = (case m k of None \<Rightarrow> m(k \<mapsto> (v, 1)) | Some (w, n) \<Rightarrow> m(k \<mapsto> (w, n + 1)))"
| "count_reference k None m =
     (case m k of None \<Rightarrow> m | Some (w, n) \<Rightarrow> if n \<le> 1 then m(k := None) else m(k \<mapsto> (w, n - 1)))"

definition reference_law ::
  "('p \<Rightarrow> (u8 \<times> bytes \<times> bytes option) list \<Rightarrow> 'p option) \<Rightarrow> ('p \<Rightarrow> u8 \<Rightarrow> bytes \<rightharpoonup> bytes \<times> nat) \<Rightarrow> bool" where
  "reference_law commit rows \<longleftrightarrow>
     (\<forall>pdb ops pdb'. commit pdb ops = Some pdb' \<longrightarrow>
        (\<forall>col. rows pdb' col = fold (\<lambda>(c, k, v). if c = col then count_reference k v else id) ops (rows pdb col)))"

lemma count_reference_other: "k' \<noteq> k \<Longrightarrow> count_reference k v m k' = m k'"
  by (cases v) (auto split: option.splits)

lemma count_reference_here: "m k = m' k \<Longrightarrow> count_reference k v m k = count_reference k v m' k"
  by (cases v) (auto split: option.splits)

lemma fold_count_reference_other:
  "k \<notin> (\<lambda>e. short (fst e)) ` set entries \<Longrightarrow>
     fold (\<lambda>(c, k, v). if c = col then count_reference k v else id) (map (\<lambda>(k, v). (col, short k, v)) entries) m k = m k"
  by (induction entries arbitrary: m) (auto simp: count_reference_other)

lemma fold_count_reference:
  assumes "distinct (map (\<lambda>e. short (fst e)) entries)" "(key, val) \<in> set entries"
  shows "fold (\<lambda>(c, k, v). if c = col then count_reference k v else id) (map (\<lambda>(k, v). (col, short k, v)) entries) m (short key)
    = count_reference (short key) val m (short key)"
  using assms
proof (induction entries arbitrary: m)
  case (Cons e entries)
  obtain k v where e: "e = (k, v)" by fastforce
  have step: "fold (\<lambda>(c, k, v). if c = col then count_reference k v else id) (map (\<lambda>(k, v). (col, short k, v)) (e # entries)) m =
      fold (\<lambda>(c, k, v). if c = col then count_reference k v else id) (map (\<lambda>(k, v). (col, short k, v)) entries)
        (count_reference (short k) v m)"
    by (simp add: e)
  show ?case
  proof (cases "(key, val) = e")
    case True
    then have "k = key" "v = val" "short key \<notin> (\<lambda>e. short (fst e)) ` set entries"
      using Cons.prems(1) by (auto simp: e)
    then show ?thesis
      unfolding step by (simp add: fold_count_reference_other)
  next
    case False
    then have listed: "(key, val) \<in> set entries"
      using Cons.prems(2) by simp
    then have "short k \<noteq> short key"
      using Cons.prems(1) by (force simp: e)
    then have "count_reference (short k) v m (short key) = m (short key)"
      by (simp add: count_reference_other)
    moreover have "fold (\<lambda>(c, k, v). if c = col then count_reference k v else id) (map (\<lambda>(k, v). (col, short k, v)) entries)
        (count_reference (short k) v m) (short key) = count_reference (short key) val (count_reference (short k) v m) (short key)"
      by (rule Cons.IH) (use Cons.prems(1) listed in simp_all)
    ultimately show ?thesis
      unfolding step by (metis count_reference_here)
  qed
qed simp

text \<open>
  A flush to the parity database counts one reference for every entry of the overlay, when the last 32 bytes of their keys differ:
  a new key gets its value, but a removed key keeps its value if it had more than one reference.
\<close>

lemma parity_flush:
  assumes "reference_law commit rows" "\<forall>e \<in> set entries. 32 \<le> length (fst e)"
    and "distinct (map (\<lambda>e. drop (length (fst e) - 32) (fst e)) entries)"
    and "kv_write (parity_db_wrapper get commit) pdb (flush_ops entries) = Some pdb'" "(key, val) \<in> set entries"
  shows "rows pdb' 0 (drop (length key - 32) key)
    = count_reference (drop (length key - 32) key) val (rows pdb 0) (drop (length key - 32) key)"
proof -
  have "commit pdb (map (\<lambda>(k, v). (0, drop (length k - 32) k, v)) entries) = Some pdb'"
    using assms(4) by (simp add: parity_db_wrapper_def parity_write_flush [OF assms(2)])
  then show ?thesis
    using assms(1) fold_count_reference [OF assms(3,5)] by (simp add: reference_law_def)
qed

end
