(* ===== verification/Bench_Sizes.thy ===== *)
theory Bench_Sizes
  imports Bench_Trie
begin

text \<open>
  Sizes and samples of the trie benchmarks (\<open>bench/src/trie.rs\<close>): the database sizes, the printing of large
  numbers, the pool of value sizes with its weighted draw, and the loops that fill the database and pick the keys to
  sample. Random numbers come from a generator state with the two operations the code uses.
\<close>

section \<open>Database sizes\<close>

definition SAMPLE_SIZE :: nat where "SAMPLE_SIZE = 100"
definition TEST_WRITE_SIZE :: nat where "TEST_WRITE_SIZE = 128"

datatype database_size = Empty_db | Smallest_db | Small_db | Medium_db | Large_db | Huge_db

fun database_size_display :: "database_size \<Rightarrow> string" where
  "database_size_display Empty_db = ''empty''"
| "database_size_display Smallest_db = ''smallest''"
| "database_size_display Small_db = ''small''"
| "database_size_display Medium_db = ''medium''"
| "database_size_display Large_db = ''large''"
| "database_size_display Huge_db = ''huge''"

fun keys_value :: "database_size \<Rightarrow> nat" where
  "keys_value Empty_db = 200"
| "keys_value Smallest_db = 1000"
| "keys_value Small_db = 10000"
| "keys_value Medium_db = 100000"
| "keys_value Large_db = 200000"
| "keys_value Huge_db = 1000000"

text \<open>\<open>None\<close> is a failed assertion.\<close>

definition database_keys :: "database_size \<Rightarrow> nat option" where
  "database_keys self = (let val = keys_value self in if val mod SAMPLE_SIZE = 0 then Some val else None)"

lemma database_keys_eq: "database_keys d = Some (keys_value d)"
  by (cases d) (simp_all add: database_keys_def SAMPLE_SIZE_def)

section \<open>Printing numbers\<close>

definition digit_char :: "nat \<Rightarrow> char" where "digit_char d = char_of (48 + d)"

fun to_string :: "nat \<Rightarrow> string" where
  "to_string n = (if n < 10 then [digit_char n] else to_string (n div 10) @ [digit_char (n mod 10)])"

declare to_string.simps [simp del]

definition pretty_step :: "nat \<times> char \<Rightarrow> string \<Rightarrow> string" where
  "pretty_step iv print =
     (let print = (if fst iv \<noteq> 0 \<and> fst iv mod 3 = 0 then CHR '','' # print else print)
      in snd iv # print)"

definition pretty_print :: "nat \<Rightarrow> string" where
  "pretty_print v = fold pretty_step (enumerate 0 (rev (to_string v))) ''''"

lemma digit_char_not_comma: "d < 10 \<Longrightarrow> digit_char d \<noteq> CHR '',''"
proof
  assume "d < 10" "digit_char d = CHR '',''"
  then have "of_char (digit_char d) = (44 :: nat)"
    by simp
  then show False
    using \<open>d < 10\<close> by (simp add: digit_char_def take_bit_nat_eq_self)
qed

lemma to_string_no_comma: "CHR '','' \<notin> set (to_string n)"
proof (induction n rule: to_string.induct)
  case (1 n)
  then show ?case
    using digit_char_not_comma [of n] digit_char_not_comma [of "n mod 10"]
    by (subst to_string.simps) auto
qed

lemma pretty_fold:
  assumes "CHR '','' \<notin> set ds"
  shows "filter (\<lambda>c. c \<noteq> CHR '','') (fold pretty_step (enumerate i ds) acc) =
      rev ds @ filter (\<lambda>c. c \<noteq> CHR '','') acc
    \<and> length (fold pretty_step (enumerate (Suc i) ds) acc) =
      length acc + length ds + ((i + length ds) div 3 - i div 3)"
  using assms
proof (induction ds arbitrary: i acc)
  case (Cons d ds)
  have "Suc i div 3 = i div 3 + (if Suc i mod 3 = 0 then 1 else 0)"
    by (simp add: div_Suc)
  moreover have "Suc i div 3 \<le> (Suc i + length ds) div 3"
    by (intro div_le_mono) simp
  ultimately show ?case
    using Cons.prems Cons.IH [of "Suc i" "pretty_step (i, d) acc"] Cons.IH [of "Suc i" "pretty_step (Suc i, d) acc"]
    by (auto simp: pretty_step_def Let_def)
qed simp

text \<open>
  Printing a number with separators only adds commas: without them it is the decimal number, and there is
  one for every three digits after the first, so no group is longer than three and none is empty.
\<close>

theorem pretty_print_digits:
  "filter (\<lambda>c. c \<noteq> CHR '','') (pretty_print v) = to_string v
   \<and> length (pretty_print v) = length (to_string v) + (length (to_string v) - 1) div 3"
proof -
  obtain d ds where rev: "rev (to_string v) = d # ds"
    by (metis append_is_Nil_conv list.exhaust not_Cons_self2 rev_is_Nil_conv to_string.simps)
  then have nc: "CHR '','' \<notin> set (d # ds)"
    using to_string_no_comma [of v] by (metis set_rev)
  have "length (pretty_print v) = 1 + length ds + length ds div 3"
    using pretty_fold [of ds 0 "[d]"] nc by (simp add: pretty_print_def rev pretty_step_def)
  moreover have "length (to_string v) = 1 + length ds"
    using rev by (metis length_Cons length_rev plus_1_eq_Suc)
  moreover have "filter (\<lambda>c. c \<noteq> CHR '','') (pretty_print v) = rev (d # ds)"
    using pretty_fold [of "d # ds" 0 "''''"] nc by (simp add: pretty_print_def rev)
  ultimately show ?thesis
    using rev by (metis (no_types, lifting) add_diff_cancel_left' rev_rev_ident)
qed

section \<open>The pool of sizes\<close>

text \<open>A \<open>BTreeMap\<close>: its entries in the order of their keys.\<close>

fun btree_insert :: "'k::linorder \<Rightarrow> 'v \<Rightarrow> ('k \<times> 'v) list \<Rightarrow> ('k \<times> 'v) list" where
  "btree_insert k v [] = [(k, v)]"
| "btree_insert k v ((k', v') # m) =
     (if k < k' then (k, v) # (k', v') # m
      else if k = k' then (k, v) # m
      else (k', v') # btree_insert k v m)"

record size_pool =
  distribution :: "(u32 \<times> u32) list"
  pool_total :: u32

definition histogram_step ::
  "u32 \<times> u32 \<Rightarrow> (u32 \<times> u32) list \<times> u32 \<Rightarrow> (u32 \<times> u32) list \<times> u32" where
  "histogram_step sc dt =
     (let total = snd dt + snd sc in (btree_insert total (fst sc) (fst dt), total))"

definition from_histogram :: "(u32 \<times> u32) list \<Rightarrow> size_pool" where
  "from_histogram h =
     (case fold histogram_step h ([], 0) of (d, t) \<Rightarrow> \<lparr>distribution = d, pool_total = t\<rparr>)"

text \<open>
  The size that \<open>SizePool::value\<close> draws for a random number: the first entry whose key is at least the number modulo the
  total. \<open>None\<close> stands for a panic, of the remainder by zero or of the \<open>unwrap\<close>.
\<close>

definition draw_index :: "size_pool \<Rightarrow> u64 \<Rightarrow> u32" where
  "draw_index pool r = ucast (r mod ucast (pool_total pool))"

definition draw_size :: "size_pool \<Rightarrow> u64 \<Rightarrow> u32 option" where
  "draw_size pool r =
     (if pool_total pool = 0 then None
      else map_option snd (find (\<lambda>e. draw_index pool r \<le> fst e) (distribution pool)))"

record 'g rng =
  next_u64 :: "'g \<Rightarrow> u64 \<times> 'g"
  fill_bytes :: "nat \<Rightarrow> 'g \<Rightarrow> bytes \<times> 'g"

definition random_vec :: "'g rng \<Rightarrow> 'g \<Rightarrow> nat \<Rightarrow> bytes \<times> 'g" where
  "random_vec rng g len = fill_bytes rng len g"

definition pool_value :: "'g rng \<Rightarrow> size_pool \<Rightarrow> 'g \<Rightarrow> (bytes \<times> 'g) option" where
  "pool_value rng pool g =
     (case next_u64 rng g of (r, g) \<Rightarrow>
        (case draw_size pool r of
           None \<Rightarrow> None
         | Some sz \<Rightarrow> Some (random_vec rng g (unat sz))))"

definition pool_key :: "'g rng \<Rightarrow> size_pool \<Rightarrow> 'g \<Rightarrow> bytes \<times> 'g" where
  "pool_key rng pool g = random_vec rng g 32"

text \<open>The distribution of a histogram whose counts do not overflow: the running totals.\<close>

fun cumulate :: "u32 \<Rightarrow> (u32 \<times> u32) list \<Rightarrow> (u32 \<times> u32) list" where
  "cumulate t [] = []"
| "cumulate t ((sz, cnt) # h) = (t + cnt, sz) # cumulate (t + cnt) h"

definition counts :: "(u32 \<times> u32) list \<Rightarrow> nat" where
  "counts h = sum_list (map (unat \<circ> snd) h)"

lemma counts_simps [simp]:
  "counts [] = 0" "counts ((s, c) # h) = unat c + counts h" "counts (xs @ ys) = counts xs + counts ys"
  by (simp_all add: counts_def)

lemma btree_insert_last: "(\<And>e. e \<in> set m \<Longrightarrow> fst e < k) \<Longrightarrow> btree_insert k v m = m @ [(k, v)]"
proof (induction m)
  case (Cons e m)
  then have "fst e < k" by simp
  moreover have "btree_insert k v m = m @ [(k, v)]"
    using Cons by simp
  ultimately show ?case
    by (cases e) auto
qed simp

lemma unat_add_count: "unat t + unat c < 2 ^ 32 \<Longrightarrow> unat (t + c :: u32) = unat t + unat c"
  by (simp add: unat_word_ariths)

lemma fold_histogram:
  assumes "\<And>e. e \<in> set h \<Longrightarrow> 0 < snd e" "unat t + counts h < 2 ^ 32"
    and "\<And>e. e \<in> set d \<Longrightarrow> fst e \<le> t"
  shows "fold histogram_step h (d, t) = (d @ cumulate t h, word_of_nat (unat t + counts h))"
  using assms
proof (induction h arbitrary: d t)
  case (Cons sc h)
  obtain s c where sc: "sc = (s, c)" by (cases sc)
  have un: "unat (t + c) = unat t + unat c"
    using Cons.prems(2) sc by (intro unat_add_count) simp
  have "t < t + c"
    using un Cons.prems(1) [of sc] sc by (simp add: word_less_nat_alt)
  then have "btree_insert (t + c) s d = d @ [(t + c, s)]"
    using Cons.prems(3) by (intro btree_insert_last) (meson le_less_trans)
  then show ?case
    using Cons.IH [of "t + c" "d @ [(t + c, s)]"] Cons.prems un sc \<open>t < t + c\<close>
    by (force simp: histogram_step_def Let_def add.assoc intro: less_imp_le order_trans)
qed simp

lemma from_histogram_eq:
  assumes "\<And>e. e \<in> set h \<Longrightarrow> 0 < snd e" "counts h < 2 ^ 32"
  shows "from_histogram h = \<lparr>distribution = cumulate 0 h, pool_total = word_of_nat (counts h)\<rparr>"
  using fold_histogram [of h 0 "[]"] assms by (simp add: from_histogram_def)

end
