(* ===== verification/Bench_Setup.thy ===== *)
theory Bench_Setup
  imports State_Sizes
begin

text \<open>
  The weighted draw of sizes over the Kusama distribution, and the setup and the run of the trie benchmarks
  (\<open>bench/src/trie.rs\<close>).
\<close>

section \<open>Drawing a size\<close>

lemma unat_u32_of_nat: "n < 2 ^ 32 \<Longrightarrow> unat (word_of_nat n :: u32) = n"
  by (simp add: unat_of_nat)

lemma find_cumulate:
  assumes "unat t + counts (xs @ (s, c) # ys) < 2 ^ 32"
    and "xs = [] \<or> unat t + counts xs < unat sr" "unat sr \<le> unat t + counts xs + unat c"
  shows "\<exists>k. find (\<lambda>e. sr \<le> fst e) (cumulate t (xs @ (s, c) # ys)) = Some (k, s)"
  using assms
proof (induction xs arbitrary: t)
  case Nil
  then have "unat (t + c) = unat t + unat c"
    by (intro unat_add_count) simp
  then show ?case
    using Nil by (simp add: word_le_nat_alt)
next
  case (Cons x xs)
  obtain s' c' where x: "x = (s', c')" by (cases x)
  have un: "unat (t + c') = unat t + unat c'"
    using Cons.prems(1) x by (intro unat_add_count) simp
  then have "\<not> sr \<le> t + c'"
    using Cons.prems(2) x by (simp add: word_le_nat_alt)
  moreover have "\<exists>k. find (\<lambda>e. sr \<le> fst e) (cumulate (t + c') (xs @ (s, c) # ys)) = Some (k, s)"
    using Cons.prems x un by (intro Cons.IH) (auto simp: add.assoc)
  ultimately show ?case
    using x by simp
qed

lemma unat_draw_index:
  assumes "pool_total p \<noteq> 0"
  shows "unat (draw_index p r) = unat r mod unat (pool_total p)"
proof -
  have bound: "unat (pool_total p) < 2 ^ 32"
    using unsigned_less [of "pool_total p", where 'a = nat] by simp
  have "unat (ucast (pool_total p) :: u64) = unat (pool_total p)"
    using bound by (simp add: unsigned_ucast_eq take_bit_nat_eq_self)
  then have "unat (r mod ucast (pool_total p)) = unat r mod unat (pool_total p)"
    by (simp add: unat_mod_distrib)
  moreover have "unat r mod unat (pool_total p) < unat (pool_total p)"
    using assms by (simp add: unat_gt_0)
  ultimately show ?thesis
    using bound by (simp add: draw_index_def unsigned_ucast_eq [of "r mod ucast (pool_total p)"]
        take_bit_nat_eq_self del: unsigned_ucast_eq)
qed

text \<open>
  The size drawn is that of the entry whose running total first reaches the random number modulo the total:
  the numbers above the total of the entries before it, up to and including its own total. The first entry also gets the
  number zero, so it is drawn by one number more than its count.
\<close>

theorem draw_size_entry:
  assumes "\<And>e. e \<in> set (xs @ (s, c) # ys) \<Longrightarrow> 0 < snd e" "counts (xs @ (s, c) # ys) < 2 ^ 32"
    and "xs = [] \<or> counts xs < unat r mod counts (xs @ (s, c) # ys)"
    and "unat r mod counts (xs @ (s, c) # ys) \<le> counts xs + unat c"
  shows "draw_size (from_histogram (xs @ (s, c) # ys)) r = Some s"
proof -
  let ?h = "xs @ (s, c) # ys" and ?n = "counts (xs @ (s, c) # ys)"
  let ?p = "from_histogram ?h"
  have pool: "?p = \<lparr>distribution = cumulate 0 ?h, pool_total = word_of_nat ?n\<rparr>"
    by (rule from_histogram_eq [OF assms(1,2)])
  have "0 < unat c"
    using assms(1) [of "(s, c)"] by (simp add: word_less_nat_alt)
  then have pos: "0 < ?n" by simp
  have total: "unat (pool_total ?p) = ?n"
    using unat_u32_of_nat [OF assms(2)] by (simp only: pool size_pool.simps)
  then have "pool_total ?p \<noteq> 0"
    using pos by (metis less_numeral_extra(3) unsigned_0)
  then have index: "unat (draw_index ?p r) = unat r mod ?n"
    using unat_draw_index total by metis
  obtain k where "find (\<lambda>e. draw_index ?p r \<le> fst e) (cumulate 0 ?h) = Some (k, s)"
    using find_cumulate [of 0 xs s c ys "draw_index ?p r"] assms(2-4) index by auto
  moreover have "distribution ?p = cumulate 0 ?h"
    by (simp add: pool)
  ultimately show ?thesis
    using \<open>pool_total ?p \<noteq> 0\<close> by (simp add: draw_size_def)
qed

theorem draw_size_entry_witness:
  "draw_size (from_histogram [(32, 2), (33, 3)]) 7 = Some 32 \<and>
   draw_size (from_histogram [(32, 2), (33, 3)]) 8 = Some 33"
proof -
  have "draw_size (from_histogram ([] @ (32, 2) # [(33, 3)])) 7 = Some 32"
    by (rule draw_size_entry) auto
  moreover have "draw_size (from_histogram ([(32, 2)] @ (33, 3) # [])) 8 = Some 33"
    by (rule draw_size_entry) auto
  ultimately show ?thesis
    by simp
qed

lemma entry_for:
  assumes "h \<noteq> []" "n \<le> counts h"
  shows "\<exists>xs s c ys. h = xs @ (s, c) # ys \<and> (xs = [] \<or> counts xs < n) \<and> n \<le> counts xs + unat c"
  using assms
proof (induction h rule: rev_induct)
  case (snoc e h)
  obtain s c where e: "e = (s, c)" by (cases e)
  show ?case
  proof (cases "h = [] \<or> counts h < n")
    case True
    then show ?thesis
      using snoc.prems e by (intro exI [of _ h] exI [of _ s] exI [of _ c] exI [of _ "[]"]) auto
  next
    case False
    then obtain xs s' c' ys where "h = xs @ (s', c') # ys" "xs = [] \<or> counts xs < n" "n \<le> counts xs + unat c'"
      using snoc.IH by auto
    then show ?thesis
      by (intro exI [of _ xs] exI [of _ s'] exI [of _ c'] exI [of _ "ys @ [e]"]) simp
  qed
qed simp

lemma draw_size_some:
  assumes "h \<noteq> []" "\<And>e. e \<in> set h \<Longrightarrow> 0 < snd e" "counts h < 2 ^ 32"
  obtains xs s c ys where "h = xs @ (s, c) # ys" "draw_size (from_histogram h) r = Some s"
    "xs = [] \<or> counts xs < unat r mod counts h"
proof -
  obtain e where "e \<in> set h"
    using assms(1) by (meson list.set_sel(1))
  then have "0 < counts h"
    using assms(2) [of e] by (auto simp: counts_def word_less_nat_alt simp flip: neq0_conv)
  then obtain xs s c ys where h: "h = xs @ (s, c) # ys" "xs = [] \<or> counts xs < unat r mod counts h"
      "unat r mod counts h \<le> counts xs + unat c"
    using entry_for [OF assms(1), of "unat r mod counts h"] by (metis less_imp_le_nat mod_less_divisor)
  then show thesis
    using that draw_size_entry [of xs s c ys r] assms(2,3) by metis
qed

section \<open>The Kusama pool\<close>

definition kusama_pool :: size_pool where
  "kusama_pool = from_histogram KUSAMA_STATE_DISTRIBUTION"

lemma kusama_set:
  "set KUSAMA_STATE_DISTRIBUTION = insert (1605821, 1) (set (butlast KUSAMA_STATE_DISTRIBUTION))"
  by (subst kusama_split(1)) simp

lemma kusama_props:
  "KUSAMA_STATE_DISTRIBUTION \<noteq> []" "e \<in> set KUSAMA_STATE_DISTRIBUTION \<Longrightarrow> 0 < snd e"
  "counts KUSAMA_STATE_DISTRIBUTION = 46562841"
proof -
  show "KUSAMA_STATE_DISTRIBUTION \<noteq> []"
    using kusama_split(1) by (metis append_is_Nil_conv not_Cons_self2)
  show "e \<in> set KUSAMA_STATE_DISTRIBUTION \<Longrightarrow> 0 < snd e"
    using kusama_split(2) unfolding kusama_set by (auto simp: list_all_iff)
  show "counts KUSAMA_STATE_DISTRIBUTION = 46562841"
    by (subst kusama_split(1)) (simp add: kusama_split(3))
qed

lemma kusama_draw_below:
  "(case draw_size kusama_pool r of None \<Rightarrow> False
    | Some s \<Rightarrow> s < 1605821 \<and> s \<in> fst ` set KUSAMA_STATE_DISTRIBUTION)
   \<and> last KUSAMA_STATE_DISTRIBUTION = (1605821, 1)"
proof -
  have last: "last KUSAMA_STATE_DISTRIBUTION = (1605821, 1)"
    by (subst kusama_split(1)) simp
  let ?k = KUSAMA_STATE_DISTRIBUTION
  obtain xs s c ys where h: "?k = xs @ (s, c) # ys" "draw_size kusama_pool r = Some s"
      "xs = [] \<or> counts xs < unat r mod counts ?k"
    unfolding kusama_pool_def
    by (rule draw_size_some [OF kusama_props(1), where r = r]) (simp_all add: kusama_props)
  have "ys \<noteq> []"
  proof
    assume "ys = []"
    then have xs: "xs = butlast ?k"
      using h(1) by (metis butlast_snoc)
    then have "counts xs = 46562840"
      by (simp add: kusama_split(3))
    moreover have "unat r mod counts ?k < 46562841"
      by (simp add: kusama_props(3))
    ultimately show False
      using h(3) by auto
  qed
  then have "(s, c) \<in> set (butlast ?k)"
    unfolding h(1) by (simp add: butlast_append)
  then have "s < 1605821" "s \<in> fst ` set ?k"
    using kusama_split(2) unfolding kusama_set by (force simp: list_all_iff)+
  then show ?thesis
    using h(2) last by simp
qed

lemma kusama_total: "\<exists>s. draw_size kusama_pool r = Some s"
  using kusama_draw_below [of r] by (cases "draw_size kusama_pool r") simp_all

text \<open>
  C39: over the Kusama distribution a draw never panics, whatever the random number, and the drawn size is one of the
  table; but the largest size, 1605821, is never drawn, although the table counts one value of it.
\<close>

theorem kusama_draw:
  "(case draw_size kusama_pool r of None \<Rightarrow> False
    | Some s \<Rightarrow> s < 1605821 \<and> s \<in> fst ` set KUSAMA_STATE_DISTRIBUTION)
   \<and> last KUSAMA_STATE_DISTRIBUTION = (1605821, 1)"
  by (rule kusama_draw_below)

end
