(* ===== verification/Temp_Databases.thy ===== *)
theory Temp_Databases
  imports Bench_Trie "HOL-Library.Monad_Syntax"
begin

text \<open>
  The temporary directories of the benchmarks: the databases of the trie benchmarks (\<open>bench/src/tempdb.rs\<close>), the copy of
  a directory and the dropping of the system's caches (\<open>testing/src/bench.rs\<close>). The file system is an explicit store, a partial map
  from the temporary directories to their files; what the operating system and the third-party crates do to it are fields of
  \<open>file_system\<close> and the parameter \<open>backend\<close>. A panic is a \<open>None\<close>.
\<close>

section \<open>The file system\<close>

type_synonym 'f files = "string \<rightharpoonup> 'f"
type_synonym 'f disk = "nat \<rightharpoonup> 'f files"

datatype os = Windows | Linux | Macos | Other_os

text \<open>
  A new temporary directory, the paths of a directory's entries (each can fail to be read), the copy of a list of paths into a
  directory, the removal of a directory when its guard is dropped, its path, and a command that is run to its
  end: \<open>None\<close> when it cannot be started; its exit status is never looked at.
\<close>

record 'f file_system =
  fs_os :: os
  fs_tempdir :: "'f disk \<Rightarrow> (nat \<times> 'f disk) option"
  fs_read_dir :: "'f disk \<Rightarrow> nat \<Rightarrow> (nat \<times> string) option list option"
  fs_copy_items :: "'f disk \<Rightarrow> (nat \<times> string) list \<Rightarrow> nat \<Rightarrow> 'f disk option"
  fs_drop :: "'f disk \<Rightarrow> nat \<Rightarrow> 'f disk"
  fs_path :: "nat \<Rightarrow> string"
  fs_command :: "string \<Rightarrow> string list \<Rightarrow> 'f disk \<Rightarrow> 'f disk option"

text \<open>The copy of all entries of a seed directory to a new temporary directory.\<close>

definition clone_dir :: "'f file_system \<Rightarrow> nat \<Rightarrow> 'f disk \<Rightarrow> (nat \<times> 'f disk) option" where
  "clone_dir fs seed_dir d = do {
     (dir, d) \<leftarrow> fs_tempdir fs d;
     entries \<leftarrow> fs_read_dir fs d seed_dir;
     seed_db_files \<leftarrow> those entries;
     d \<leftarrow> fs_copy_items fs d seed_db_files dir;
     Some (dir, d)
   }"

definition drop_system_cache :: "'f file_system \<Rightarrow> 'f disk \<Rightarrow> 'f disk option" where
  "drop_system_cache fs d =
     (if fs_os fs = Windows then Some d
      else do {
        d \<leftarrow> fs_command fs ''sync'' [] d;
        d \<leftarrow> (if fs_os fs = Linux then do {
                d \<leftarrow> fs_command fs ''echo'' [''3'', ''>'', ''/proc/sys/vm/drop_caches'', ''2>'', ''/dev/null''] d;
                (temp, d) \<leftarrow> fs_tempdir fs d;
                let temp_file_path = ''of='' @ fs_path fs temp @ ''/buf'';
                d \<leftarrow> fs_command fs ''dd'' [''if=/dev/urandom'', temp_file_path, ''bs=64M'', ''count=32''] d;
                d \<leftarrow> fs_command fs ''rm'' [temp_file_path] d;
                d \<leftarrow> fs_command fs ''sync'' [] d;
                Some (fs_drop fs d temp)
              } else Some d);
        (if fs_os fs = Macos then fs_command fs ''purge'' [] d else Some d)
      })"

text \<open>
  What is relied on. A temporary directory is new and empty; a listing without errors is complete; a copy puts each listed
  file under its name into the target and touches nothing else; dropping the guard removes the directory. Of the commands run here
  only \<open>dd\<close> and \<open>rm\<close> change files, in the directory of the output and of the removed file; paths are absolute and no
  temporary directory lies in another.
\<close>

definition changes :: "'f file_system \<Rightarrow> string \<Rightarrow> string list \<Rightarrow> nat \<Rightarrow> bool" where
  "changes fs prog args i \<longleftrightarrow>
     prog = ''dd'' \<and> (\<exists>n. ''of='' @ fs_path fs i @ ''/'' @ n \<in> set args)
     \<or> prog = ''rm'' \<and> (\<exists>n. fs_path fs i @ ''/'' @ n \<in> set args)"

definition listing_complete :: "'f files \<Rightarrow> nat \<Rightarrow> (nat \<times> string) option list \<Rightarrow> bool" where
  "listing_complete files i entries \<longleftrightarrow>
     None \<notin> set entries \<longrightarrow> set entries = (\<lambda>n. Some (i, n)) ` dom files"

definition copied_files :: "'f disk \<Rightarrow> (nat \<times> string) list \<Rightarrow> 'f files \<Rightarrow> 'f files" where
  "copied_files d paths old n =
     (case find (\<lambda>p. snd p = n) paths of
        Some (i, m) \<Rightarrow> (case d i of Some files \<Rightarrow> files m | None \<Rightarrow> None)
      | None \<Rightarrow> old n)"

definition tempdir_law :: "'f file_system \<Rightarrow> bool" where
  "tempdir_law fs \<longleftrightarrow> (\<forall>d i d'. fs_tempdir fs d = Some (i, d') \<longrightarrow> d i = None \<and> d' = d(i \<mapsto> Map.empty))"

definition read_dir_law :: "'f file_system \<Rightarrow> bool" where
  "read_dir_law fs \<longleftrightarrow> (\<forall>d i entries. fs_read_dir fs d i = Some entries \<longrightarrow>
     (\<exists>files. d i = Some files \<and> listing_complete files i entries))"

definition copy_law :: "'f file_system \<Rightarrow> bool" where
  "copy_law fs \<longleftrightarrow> (\<forall>d paths i d'. fs_copy_items fs d paths i = Some d' \<longrightarrow>
     (\<exists>old. d i = Some old \<and> d' = d(i \<mapsto> copied_files d paths old)))"

definition drop_law :: "'f file_system \<Rightarrow> bool" where
  "drop_law fs \<longleftrightarrow> (\<forall>d i. fs_drop fs d i = d(i := None))"

definition command_law :: "'f file_system \<Rightarrow> bool" where
  "command_law fs \<longleftrightarrow> (\<forall>prog \<in> {''sync'', ''echo'', ''dd'', ''rm'', ''purge''}. \<forall>args d d' i.
     fs_command fs prog args d = Some d' \<and> d' i \<noteq> d i \<longrightarrow> changes fs prog args i)"

definition path_law :: "'f file_system \<Rightarrow> bool" where
  "path_law fs \<longleftrightarrow> (\<forall>i. \<exists>p. fs_path fs i = CHR ''/'' # p)
     \<and> (\<forall>i j m n. fs_path fs i @ ''/'' @ m = fs_path fs j @ ''/'' @ n \<longrightarrow> i = j)"

definition lawful :: "'f file_system \<Rightarrow> bool" where
  "lawful fs \<longleftrightarrow> tempdir_law fs \<and> read_dir_law fs \<and> copy_law fs \<and> drop_law fs \<and> command_law fs \<and> path_law fs"

lemma lawful_tempdir: "lawful fs \<Longrightarrow> fs_tempdir fs d = Some (i, d') \<Longrightarrow> d i = None \<and> d' = d(i \<mapsto> Map.empty)"
  unfolding lawful_def tempdir_law_def by metis

lemma lawful_read_dir:
  "lawful fs \<Longrightarrow> fs_read_dir fs d i = Some entries \<Longrightarrow> \<exists>files. d i = Some files \<and> listing_complete files i entries"
  unfolding lawful_def read_dir_law_def by metis

lemma lawful_copy_items:
  "lawful fs \<Longrightarrow> fs_copy_items fs d paths i = Some d' \<Longrightarrow> \<exists>old. d i = Some old \<and> d' = d(i \<mapsto> copied_files d paths old)"
  unfolding lawful_def copy_law_def by metis

lemma lawful_drop: "lawful fs \<Longrightarrow> fs_drop fs d i = d(i := None)"
  unfolding lawful_def drop_law_def by metis

lemma lawful_command:
  "lawful fs \<Longrightarrow> prog \<in> {''sync'', ''echo'', ''dd'', ''rm'', ''purge''} \<Longrightarrow>
     fs_command fs prog args d = Some d' \<Longrightarrow> \<not> changes fs prog args i \<Longrightarrow> d' i = d i"
  unfolding lawful_def command_law_def by metis

lemma lawful_command_same:
  assumes "lawful fs" "prog \<in> {''sync'', ''echo'', ''dd'', ''rm'', ''purge''}"
    and "fs_command fs prog args d = Some d'" "\<And>i. \<not> changes fs prog args i"
  shows "d' = d"
  by (rule ext) (rule lawful_command [OF assms])

lemma lawful_path_apart: "lawful fs \<Longrightarrow> fs_path fs i @ ''/'' @ m = fs_path fs j @ ''/'' @ n \<Longrightarrow> i = j"
  unfolding lawful_def path_law_def by metis

lemma lawful_path_absolute: "lawful fs \<Longrightarrow> \<exists>p. fs_path fs i = CHR ''/'' # p"
  unfolding lawful_def path_law_def by metis

text \<open>
  The cache is dropped without a trace: \<open>rm\<close> is given the argument of \<open>dd\<close>, which is no file, and removes
  nothing, but the directory with the buffer goes with its guard.
\<close>

lemma rm_of_output_changes_nothing:
  "lawful fs \<Longrightarrow> \<not> changes fs ''rm'' [''of='' @ fs_path fs i @ ''/buf''] j"
  using lawful_path_absolute [of fs j] by (auto simp: changes_def)

lemma dd_changes_output:
  assumes "lawful fs" "changes fs ''dd'' [''if=/dev/urandom'', ''of='' @ fs_path fs i @ ''/buf'', ''bs=64M'', ''count=32''] j"
  shows "j = i"
  using assms(2) lawful_path_apart [OF assms(1), of i "''buf''" j] by (auto simp: changes_def dest: sym)

lemma buffer_dropped:
  assumes fs: "lawful fs" and temp: "fs_tempdir fs d2 = Some (temp, d3)"
    and dd: "fs_command fs ''dd'' [''if=/dev/urandom'', ''of='' @ fs_path fs temp @ ''/buf'', ''bs=64M'', ''count=32''] d3 = Some d4"
    and rm: "fs_command fs ''rm'' [''of='' @ fs_path fs temp @ ''/buf''] d4 = Some d5"
  shows "d5 = d4 \<and> fs_drop fs d5 temp = d2"
proof -
  have "d4 i = d3 i" if "i \<noteq> temp" for i
    by (rule lawful_command [OF fs _ dd]) (use dd_changes_output [OF fs] that in auto)
  moreover have "d5 = d4"
    by (rule lawful_command_same [OF fs _ rm rm_of_output_changes_nothing [OF fs]]) simp
  ultimately show ?thesis
    using lawful_tempdir [OF fs temp] by (auto simp: lawful_drop [OF fs] fun_eq_iff)
qed

lemma harmless_command:
  "lawful fs \<Longrightarrow> prog \<in> {''sync'', ''echo'', ''purge''} \<Longrightarrow> fs_command fs prog args d = Some d' \<Longrightarrow> d' = d"
  by (rule lawful_command_same) (auto simp: changes_def)

lemma drop_system_cache_same:
  assumes fs: "lawful fs" and dropped: "drop_system_cache fs d = Some d'"
  shows "d' = d"
proof (cases "fs_os fs")
  case Linux
  then obtain d1 d2 temp d3 d4 d5 d6 where
    sync: "fs_command fs ''sync'' [] d = Some d1" and
    echo: "fs_command fs ''echo'' [''3'', ''>'', ''/proc/sys/vm/drop_caches'', ''2>'', ''/dev/null''] d1 = Some d2" and
    temp: "fs_tempdir fs d2 = Some (temp, d3)" and
    dd: "fs_command fs ''dd'' [''if=/dev/urandom'', ''of='' @ fs_path fs temp @ ''/buf'', ''bs=64M'', ''count=32''] d3 = Some d4" and
    rm: "fs_command fs ''rm'' [''of='' @ fs_path fs temp @ ''/buf''] d4 = Some d5" and
    sync': "fs_command fs ''sync'' [] d5 = Some d6" and d': "d' = fs_drop fs d6 temp"
    using dropped unfolding drop_system_cache_def Let_def
    by (auto simp: Option.bind_eq_Some_conv simp del: append.append_Cons)
  have "d1 = d" "d2 = d1" "d6 = d5"
    using harmless_command [OF fs _ sync] harmless_command [OF fs _ echo] harmless_command [OF fs _ sync'] by simp_all
  then show ?thesis
    using buffer_dropped [OF fs temp dd rm] d' by auto
qed (use dropped in \<open>auto simp: drop_system_cache_def Option.bind_eq_Some_conv dest!: harmless_command [OF fs, rotated]\<close>)

lemma those_Some: "those xs = Some ys \<longleftrightarrow> xs = map Some ys"
  by (induction xs arbitrary: ys) (auto split: option.splits)

lemma find_name:
  assumes "set entries = Pair i ` N"
  shows "find (\<lambda>p. snd p = n) entries = (if n \<in> N then Some (i, n) else None)"
proof (cases "find (\<lambda>p. snd p = n) entries")
  case None
  then have "(i, n) \<notin> set entries" by (auto simp: find_None_iff)
  then show ?thesis using None assms by auto
next
  case (Some p)
  then have "p \<in> set entries \<and> snd p = n"
    unfolding find_Some_iff by (metis nth_mem)
  then show ?thesis using Some assms by (cases p) auto
qed

text \<open>A copy has the files of its seed and is the only change.\<close>

lemma clone_dir_copy:
  assumes fs: "lawful fs" and "clone_dir fs seed_dir d = Some (dir, d')" "d seed_dir \<noteq> None"
  shows "d dir = None \<and> d' = d(dir \<mapsto> the (d seed_dir))"
proof -
  obtain d1 entries paths where d1: "fs_tempdir fs d = Some (dir, d1)"
    and entries: "fs_read_dir fs d1 seed_dir = Some entries" and paths: "those entries = Some paths"
    and copy: "fs_copy_items fs d1 paths dir = Some d'"
    using assms(2) by (auto simp: clone_dir_def Option.bind_eq_Some_conv)
  have new: "d dir = None" "d1 = d(dir \<mapsto> Map.empty)"
    using lawful_tempdir [OF fs d1] by simp_all
  then have other: "seed_dir \<noteq> dir" using assms(3) by auto
  then obtain files where files: "d seed_dir = Some files" "listing_complete files seed_dir entries"
    using lawful_read_dir [OF fs entries] by (auto simp: new)
  then have set: "set paths = Pair seed_dir ` dom files"
    using paths by (auto simp: those_Some listing_complete_def image_image [symmetric] inj_image_eq_iff)
  have "copied_files d1 paths Map.empty = files"
    using files(1) other by (auto simp: copied_files_def find_name [OF set] new dom_def fun_eq_iff)
  then show ?thesis
    using lawful_copy_items [OF fs copy] new files(1) by auto
qed

section \<open>Temporary trie databases\<close>

text \<open>
  The database of a trie benchmark is its directory; \<open>backend\<close> opens it with the settings of its type.
\<close>

datatype kvdb_settings =
    Rocksdb_settings nat
  | Paritydb_settings (columns: nat) (ref_counted: bool) (preimage: bool) (uniform: bool)

fun kvdb_settings_of :: "database_type \<Rightarrow> kvdb_settings" where
  "kvdb_settings_of RocksDb = Rocksdb_settings 1"
| "kvdb_settings_of ParityDb = Paritydb_settings 1 True True True"

definition temp_database_new :: "'f file_system \<Rightarrow> 'f disk \<Rightarrow> (nat \<times> 'f disk) option" where
  "temp_database_new fs d = fs_tempdir fs d"

definition temp_database_open ::
  "(kvdb_settings \<Rightarrow> nat \<Rightarrow> 'f disk \<Rightarrow> ('kv \<times> 'f disk) option) \<Rightarrow> nat \<Rightarrow> database_type \<Rightarrow> 'f disk \<Rightarrow>
   ('kv \<times> 'f disk) option" where
  "temp_database_open backend dir dtype d = backend (kvdb_settings_of dtype) dir d"

definition temp_database_clone :: "'f file_system \<Rightarrow> nat \<Rightarrow> 'f disk \<Rightarrow> (nat \<times> 'f disk) option" where
  "temp_database_clone fs dir d = clone_dir fs dir d"

text \<open>An opened database changes only its own directory.\<close>

definition opens_in_place :: "(kvdb_settings \<Rightarrow> nat \<Rightarrow> 'f disk \<Rightarrow> ('kv \<times> 'f disk) option) \<Rightarrow> bool" where
  "opens_in_place backend \<longleftrightarrow>
     (\<forall>settings dir d kv d'. backend settings dir d = Some (kv, d') \<longrightarrow> (\<forall>i. i \<noteq> dir \<longrightarrow> d' i = d i))"

text \<open>A copy whose directory alone has changed is gone when its guard is dropped.\<close>

lemma clone_dropped:
  assumes "lawful fs" "clone_dir fs seed d = Some (dir, d1)" "d seed \<noteq> None"
    and "\<And>i. i \<noteq> dir \<Longrightarrow> d2 i = d1 i"
  shows "fs_drop fs d2 dir = d"
  using clone_dir_copy [OF assms(1-3)] assms(4) by (auto simp: lawful_drop [OF assms(1)] fun_eq_iff)

end
