(* ===== verification/Bench_Runs.thy ===== *)
theory Bench_Runs
  imports Bench_Setup Temp_Databases
begin

text \<open>
  Setup and run of the trie benchmarks (\<open>bench/src/trie.rs\<close>). The trie library is third-party code and a parameter; a
  \<open>None\<close> is a panic: a failed assertion, an \<open>expect\<close> or an \<open>unwrap\<close>.
\<close>

section \<open>Setup\<close>

record 'g setup_state =
  key_values :: "(bytes \<times> bytes) list"
  warmup_keys :: "(bytes \<times> bytes) list"
  query_keys :: "(bytes \<times> bytes) list"
  rng_state :: 'g

text \<open>A key and a value, drawn in this order.\<close>

definition draw_kv :: "'g rng \<Rightarrow> size_pool \<Rightarrow> 'g \<Rightarrow> ((bytes \<times> bytes) \<times> 'g) option" where
  "draw_kv rng pool g =
     (case pool_key rng pool g of (k, g) \<Rightarrow>
        (case pool_value rng pool g of None \<Rightarrow> None | Some (v, g) \<Rightarrow> Some ((k, v), g)))"

definition actual_warmup_key :: "bytes \<Rightarrow> bytes \<Rightarrow> bytes" where
  "actual_warmup_key warmup_prefix key = take 16 warmup_prefix @ drop 16 key"

fun read_setup_loop ::
  "'g rng \<Rightarrow> size_pool \<Rightarrow> bytes \<Rightarrow> nat \<Rightarrow> nat list \<Rightarrow> 'g setup_state \<Rightarrow> 'g setup_state option" where
  "read_setup_loop rng pool warmup_prefix every_x_key [] st = Some st"
| "read_setup_loop rng pool warmup_prefix every_x_key (idx # idxs) st =
     (case draw_kv rng pool (rng_state st) of
        None \<Rightarrow> None
      | Some (kv, g) \<Rightarrow>
          let w = (actual_warmup_key warmup_prefix (fst kv), snd kv);
              st1 = (if idx mod every_x_key = 0 then
                       st\<lparr>warmup_keys := warmup_keys st @ [w], key_values := key_values st @ [w]\<rparr>
                     else if idx mod every_x_key = 1 then st\<lparr>query_keys := query_keys st @ [kv]\<rparr>
                     else st)
          in read_setup_loop rng pool warmup_prefix every_x_key idxs
               (st1\<lparr>key_values := key_values st1 @ [kv], rng_state := g\<rparr>))"

fun write_setup_loop ::
  "'g rng \<Rightarrow> size_pool \<Rightarrow> bytes \<Rightarrow> nat \<Rightarrow> nat list \<Rightarrow> 'g setup_state \<Rightarrow> 'g setup_state option" where
  "write_setup_loop rng pool warmup_prefix every_x_key [] st = Some st"
| "write_setup_loop rng pool warmup_prefix every_x_key (idx # idxs) st =
     (case draw_kv rng pool (rng_state st) of
        None \<Rightarrow> None
      | Some (kv, g) \<Rightarrow>
          let w = (actual_warmup_key warmup_prefix (fst kv), snd kv);
              st1 = (if idx mod every_x_key = 0 then
                       st\<lparr>warmup_keys := warmup_keys st @ [w], key_values := key_values st @ [w]\<rparr>
                     else st)
          in write_setup_loop rng pool warmup_prefix every_x_key idxs
               (st1\<lparr>key_values := key_values st1 @ [kv], rng_state := g\<rparr>))"

record ('r, 'd) trie_benchmark =
  bench_database :: 'd
  bench_root :: 'r
  bench_warmup :: "(bytes \<times> bytes) list"
  bench_query :: "(bytes \<times> bytes) list"
  bench_type :: database_type

text \<open>
  \<open>setup\<close>: a new temporary database, the draws and the assertions on them, and the trie generated into the opened database.
  An opened database is a handle together with the store it works on.
\<close>

definition read_setup ::
  "'f file_system \<Rightarrow> (kvdb_settings \<Rightarrow> nat \<Rightarrow> 'f disk \<Rightarrow> ('kv \<times> 'f disk) option) \<Rightarrow> ('kv \<times> 'f disk) kvdb \<Rightarrow>
   ('kv \<times> 'f disk, 'm, 'r) trie_lib \<Rightarrow> ((bytes \<rightharpoonup> bytes option) \<Rightarrow> (bytes \<times> bytes option) list) \<Rightarrow>
   'g rng \<Rightarrow> size_pool \<Rightarrow> database_size \<Rightarrow> database_type \<Rightarrow> 'g \<Rightarrow> 'f disk \<Rightarrow> (('r, nat) trie_benchmark \<times> 'f disk) option" where
  "read_setup fs backend kv lib entries rng pool dsize dtype g d = do {
     (dir, d) \<leftarrow> temp_database_new fs d;
     let (warmup_prefix, g) = pool_key rng pool g;
     n \<leftarrow> database_keys dsize;
     let every_x_key = n div SAMPLE_SIZE;
     st \<leftarrow> read_setup_loop rng pool warmup_prefix every_x_key [0 ..< n]
       \<lparr>key_values = [], warmup_keys = [], query_keys = [], rng_state = g\<rparr>;
     if length (warmup_keys st) \<noteq> SAMPLE_SIZE then None
     else if length (query_keys st) \<noteq> SAMPLE_SIZE then None
     else do {
       database \<leftarrow> temp_database_open backend dir dtype d;
       (root, database) \<leftarrow> generate_trie kv lib entries database (key_values st);
       Some (\<lparr>bench_database = dir, bench_root = root, bench_warmup = warmup_keys st,
              bench_query = query_keys st, bench_type = dtype\<rparr>, snd database)
     }
   }"

definition write_setup ::
  "'f file_system \<Rightarrow> (kvdb_settings \<Rightarrow> nat \<Rightarrow> 'f disk \<Rightarrow> ('kv \<times> 'f disk) option) \<Rightarrow> ('kv \<times> 'f disk) kvdb \<Rightarrow>
   ('kv \<times> 'f disk, 'm, 'r) trie_lib \<Rightarrow> ((bytes \<rightharpoonup> bytes option) \<Rightarrow> (bytes \<times> bytes option) list) \<Rightarrow>
   'g rng \<Rightarrow> size_pool \<Rightarrow> database_size \<Rightarrow> database_type \<Rightarrow> 'g \<Rightarrow> 'f disk \<Rightarrow> (('r, nat) trie_benchmark \<times> 'f disk) option" where
  "write_setup fs backend kv lib entries rng pool dsize dtype g d = do {
     (dir, d) \<leftarrow> temp_database_new fs d;
     let (warmup_prefix, g) = pool_key rng pool g;
     n \<leftarrow> database_keys dsize;
     let every_x_key = n div SAMPLE_SIZE;
     st \<leftarrow> write_setup_loop rng pool warmup_prefix every_x_key [0 ..< n]
       \<lparr>key_values = [], warmup_keys = [], query_keys = [], rng_state = g\<rparr>;
     if length (warmup_keys st) \<noteq> SAMPLE_SIZE then None
     else do {
       database \<leftarrow> temp_database_open backend dir dtype d;
       (root, database) \<leftarrow> generate_trie kv lib entries database (key_values st);
       Some (\<lparr>bench_database = dir, bench_root = root, bench_warmup = warmup_keys st,
              bench_query = [], bench_type = dtype\<rparr>, snd database)
     }
   }"

definition read_name :: "database_size \<Rightarrow> (database_type \<Rightarrow> string) \<Rightarrow> database_type \<Rightarrow> string" where
  "read_name dsize show_type dtype =
     ''Trie read benchmark('' @ database_size_display dsize @ '' database ('' @
     pretty_print (keys_value dsize) @ '' keys), db_type: '' @ show_type dtype @ '')''"

definition write_name :: "database_size \<Rightarrow> (database_type \<Rightarrow> string) \<Rightarrow> database_type \<Rightarrow> string" where
  "write_name dsize show_type dtype =
     ''Trie write benchmark('' @ database_size_display dsize @ '' database ('' @
     pretty_print (keys_value dsize) @ '' keys), db_type = '' @ show_type dtype @ '')''"

definition read_path :: "database_size \<Rightarrow> path" where
  "read_path dsize = path_push (database_size_display dsize) (path_new [''trie'', ''read''])"

definition write_path :: "database_size \<Rightarrow> path" where
  "write_path dsize = path_push (database_size_display dsize) (path_new [''trie'', ''write''])"

section \<open>Run\<close>

text \<open>\<open>lookup\<close> is a lookup in the trie of the benchmark's root, \<open>elapsed\<close> the measured time in nanoseconds.\<close>

definition read_run :: "(bytes \<Rightarrow> bytes option) \<Rightarrow> ('r, 'd) trie_benchmark \<Rightarrow> nat \<Rightarrow> nat option" where
  "read_run lookup b elapsed =
     (if \<forall>kv \<in> set (bench_warmup b). lookup (fst kv) = Some (snd kv)
      then Some (elapsed div SAMPLE_SIZE) else None)"

text \<open>
  The write benchmark works on a copy of its database, which is removed with the end of the run: it checks the warmup keys,
  inserts one random entry through a new overlay, and flushes that.
\<close>

definition write_run ::
  "'f file_system \<Rightarrow> (kvdb_settings \<Rightarrow> nat \<Rightarrow> 'f disk \<Rightarrow> ('kv \<times> 'f disk) option) \<Rightarrow> ('kv \<times> 'f disk) kvdb \<Rightarrow>
   ('kv \<times> 'f disk, 'm, 'r) trie_lib \<Rightarrow> ((bytes \<rightharpoonup> bytes option) \<Rightarrow> (bytes \<times> bytes option) list) \<Rightarrow>
   'g rng \<Rightarrow> ('r, nat) trie_benchmark \<Rightarrow> nat \<Rightarrow> 'g \<Rightarrow> 'f disk \<Rightarrow> (nat \<times> 'f disk) option" where
  "write_run fs backend kv lib entries rng b elapsed g d = do {
     (dir, d) \<leftarrow> temp_database_clone fs (bench_database b) d;
     database \<leftarrow> temp_database_open backend dir (bench_type b) d;
     trie_db \<leftarrow> tl_from_existing lib \<lparr>db = database, overlay = Map.empty\<rparr> (bench_root b);
     if \<forall>kv \<in> set (bench_warmup b). tl_get lib trie_db (fst kv) = Some (Some (snd kv)) then do {
       let (test_key, g) = random_vec rng g 32;
       let (test_val, g) = random_vec rng g TEST_WRITE_SIZE;
       trie_db \<leftarrow> tl_insert lib trie_db test_key test_val;
       (new_root, overlay) \<leftarrow> tl_commit lib trie_db;
       database \<leftarrow> kv_write kv database (flush_ops (entries overlay));
       if new_root = bench_root b then None else Some (elapsed, fs_drop fs (snd database) dir)
     } else None
   }"

section \<open>The samples\<close>

lemma draw_kv_kusama: "\<exists>kv g'. draw_kv rng kusama_pool g = Some (kv, g')"
proof -
  obtain k g1 r g2 where "pool_key rng kusama_pool g = (k, g1)" "next_u64 rng g1 = (r, g2)"
    by (metis surj_pair)
  moreover obtain s where "draw_size kusama_pool r = Some s"
    using kusama_total by blast
  ultimately show ?thesis
    by (cases "random_vec rng g2 (unat s)") (simp add: draw_kv_def pool_value_def)
qed

text \<open>The loops return, count the samples, and set aside only what is put into the trie.\<close>

lemma read_setup_loop_samples:
  "\<exists>st'. read_setup_loop rng kusama_pool p e idxs st = Some st'
     \<and> length (warmup_keys st') = length (warmup_keys st) + length (filter (\<lambda>i. i mod e = 0) idxs)
     \<and> length (query_keys st') =
         length (query_keys st) + length (filter (\<lambda>i. i mod e \<noteq> 0 \<and> i mod e = 1) idxs)
     \<and> set (key_values st) \<subseteq> set (key_values st')
     \<and> set (warmup_keys st') \<subseteq> set (warmup_keys st) \<union> set (key_values st')
     \<and> set (query_keys st') \<subseteq> set (query_keys st) \<union> set (key_values st')"
proof (induction idxs arbitrary: st)
  case (Cons idx idxs)
  obtain kv g where kv: "draw_kv rng kusama_pool (rng_state st) = Some (kv, g)"
    using draw_kv_kusama [of rng "rng_state st"] by auto
  let ?w = "(actual_warmup_key p (fst kv), snd kv)"
  let ?st1 = "if idx mod e = 0 then st\<lparr>warmup_keys := warmup_keys st @ [?w], key_values := key_values st @ [?w]\<rparr>
     else if idx mod e = 1 then st\<lparr>query_keys := query_keys st @ [kv]\<rparr> else st"
  show ?case
    using Cons.IH [of "?st1\<lparr>key_values := key_values ?st1 @ [kv], rng_state := g\<rparr>"]
    by (auto simp: kv Let_def split: if_splits)
qed simp

lemma write_setup_loop_samples:
  "\<exists>st'. write_setup_loop rng kusama_pool p e idxs st = Some st'
     \<and> length (warmup_keys st') = length (warmup_keys st) + length (filter (\<lambda>i. i mod e = 0) idxs)
     \<and> set (key_values st) \<subseteq> set (key_values st')
     \<and> set (warmup_keys st') \<subseteq> set (warmup_keys st) \<union> set (key_values st')"
proof (induction idxs arbitrary: st)
  case (Cons idx idxs)
  obtain kv g where kv: "draw_kv rng kusama_pool (rng_state st) = Some (kv, g)"
    using draw_kv_kusama [of rng "rng_state st"] by auto
  let ?w = "(actual_warmup_key p (fst kv), snd kv)"
  let ?st1 = "if idx mod e = 0 then st\<lparr>warmup_keys := warmup_keys st @ [?w], key_values := key_values st @ [?w]\<rparr>
     else st"
  show ?case
    using Cons.IH [of "?st1\<lparr>key_values := key_values ?st1 @ [kv], rng_state := g\<rparr>"]
    by (auto simp: kv Let_def split: if_splits)
qed simp

text \<open>In \<open>n\<close> blocks of \<open>e\<close> numbers, each remainder occurs \<open>n\<close> times.\<close>

lemma count_remainder:
  assumes "r < e"
  shows "length (filter (\<lambda>i. i mod e = r) [0 ..< n * e]) = n"
proof (induction n)
  case (Suc n)
  have "filter (\<lambda>i. i mod e = r) [n * e ..< n * e + e] = [n * e + r]"
  proof -
    have "filter (\<lambda>i. i mod e = r) (map (\<lambda>j. n * e + j) [0 ..< e]) = map (\<lambda>j. n * e + j) (filter (\<lambda>j. j = r) [0 ..< e])"
      by (simp add: filter_map o_def) (rule filter_cong, auto)
    moreover have "filter (\<lambda>j. j = r) [0 ..< e] = [r]"
      using assms by (induction e) auto
    moreover have "map (\<lambda>j. n * e + j) [0 ..< e] = [n * e ..< n * e + e]"
      by (simp add: map_add_upt [symmetric] add.commute cong: map_cong)
    ultimately show ?thesis by simp
  qed
  moreover have "[0 ..< Suc n * e] = [0 ..< n * e] @ [n * e ..< n * e + e]"
    by (metis add.commute mult_Suc upt_add_eq_append zero_le)
  ultimately show ?case
    using Suc by simp
qed simp

text \<open>
  C40: at every database size and for every source of randomness, no draw of the setups of the two trie benchmarks panics and
  their assertions hold: exactly a hundred keys are set aside to warm up, and for reading a hundred to query, all of them among the
  entries of the generated trie. What is left to fail, and is a panic, is making the temporary database, opening it and
  generating the trie into it; when these return, so does the setup.
\<close>

theorem setup_samples:
  "(\<exists>warmup query key_values. length warmup = 100 \<and> length query = 100 \<and> set warmup \<union> set query \<subseteq> set key_values
      \<and> read_setup fs backend kv lib entries rng kusama_pool dsize dtype g d = do {
          (dir, d) \<leftarrow> temp_database_new fs d;
          database \<leftarrow> temp_database_open backend dir dtype d;
          (root, database) \<leftarrow> generate_trie kv lib entries database key_values;
          Some (\<lparr>bench_database = dir, bench_root = root, bench_warmup = warmup, bench_query = query, bench_type = dtype\<rparr>,
                snd database)
        })
   \<and> (\<exists>warmup key_values. length warmup = 100 \<and> set warmup \<subseteq> set key_values
      \<and> write_setup fs backend kv lib entries rng kusama_pool dsize dtype g d = do {
          (dir, d) \<leftarrow> temp_database_new fs d;
          database \<leftarrow> temp_database_open backend dir dtype d;
          (root, database) \<leftarrow> generate_trie kv lib entries database key_values;
          Some (\<lparr>bench_database = dir, bench_root = root, bench_warmup = warmup, bench_query = [], bench_type = dtype\<rparr>,
                snd database)
        })"
proof -
  define e where "e = keys_value dsize div 100"
  have e: "keys_value dsize = 100 * e" "2 \<le> e"
    unfolding e_def by (cases dsize; simp)+
  have warm: "length (filter (\<lambda>i. i mod e = 0) [0 ..< 100 * e]) = 100"
    using count_remainder [of 0 e 100] e(2) by simp
  have "(\<lambda>i. i mod e \<noteq> 0 \<and> i mod e = 1) = (\<lambda>i. i mod e = 1)"
    by auto
  then have query: "length (filter (\<lambda>i. i mod e \<noteq> 0 \<and> i mod e = 1) [0 ..< 100 * e]) = 100"
    using count_remainder [of 1 e 100] e(2) by simp
  obtain p g' where p: "pool_key rng kusama_pool g = (p, g')"
    by (cases "pool_key rng kusama_pool g")
  let ?st = "\<lparr>key_values = [], warmup_keys = [], query_keys = [], rng_state = g'\<rparr>"
  obtain st1 where st1: "read_setup_loop rng kusama_pool p e [0 ..< 100 * e] ?st = Some st1"
      "length (warmup_keys st1) = 100" "length (query_keys st1) = 100"
      "set (warmup_keys st1) \<union> set (query_keys st1) \<subseteq> set (key_values st1)"
    using read_setup_loop_samples [of rng p e "[0 ..< 100 * e]" ?st] warm query by auto
  obtain st2 where st2: "write_setup_loop rng kusama_pool p e [0 ..< 100 * e] ?st = Some st2"
      "length (warmup_keys st2) = 100" "set (warmup_keys st2) \<subseteq> set (key_values st2)"
    using write_setup_loop_samples [of rng p e "[0 ..< 100 * e]" ?st] warm by auto
  show ?thesis
  proof (rule conjI, goal_cases)
    case 1
    show ?case
      using st1 by (intro exI [of _ "warmup_keys st1"] exI [of _ "query_keys st1"] exI [of _ "setup_state.key_values st1"])
        (simp add: read_setup_def p database_keys_eq e(1) SAMPLE_SIZE_def)
  next
    case 2
    show ?case
      using st2 by (intro exI [of _ "warmup_keys st2"] exI [of _ "setup_state.key_values st2"])
        (simp add: write_setup_def p database_keys_eq e(1) SAMPLE_SIZE_def)
  qed
qed

text \<open>A run of the write benchmark whose backend and database change only the directory they are opened on leaves no trace.\<close>

lemma write_run_same:
  assumes fs: "lawful fs" and "opens_in_place backend" "d (bench_database b) \<noteq> None"
    and stays: "\<And>dir database ops database' i. kv_write kv database ops = Some database' \<Longrightarrow>
      handle_dir (fst database) = dir \<Longrightarrow> i \<noteq> dir \<Longrightarrow> snd database' i = snd database i"
    and handle: "\<And>settings dir d h d'. backend settings dir d = Some (h, d') \<Longrightarrow> handle_dir h = dir"
    and "write_run fs backend kv lib entries rng b elapsed g d = Some (time, d')"
  shows "d' = d \<and> time = elapsed"
proof -
  obtain dir d1 h d2 ops database where copy: "clone_dir fs (bench_database b) d = Some (dir, d1)"
    and opened: "backend (kvdb_settings_of (bench_type b)) dir d1 = Some (h, d2)"
    and written: "kv_write kv (h, d2) ops = Some database" and d': "d' = fs_drop fs (snd database) dir" "time = elapsed"
    using assms(6)
    by (auto simp: write_run_def temp_database_clone_def temp_database_open_def Option.bind_eq_Some_conv Let_def
        split: if_splits prod.splits)
  have "snd database i = d1 i" if "i \<noteq> dir" for i
    using stays [OF written _ that] handle [OF opened] opened assms(2) that unfolding opens_in_place_def by (metis fst_conv snd_conv)
  then show ?thesis
    using clone_dropped [OF fs copy assms(3)] d' by blast
qed

end
