(* ===== verification/Bench_Main.thy ===== *)
theory Bench_Main
  imports Bench_Runs
begin

text \<open>
  The list of benchmarks and their selection (\<open>bench/src/main.rs\<close>), and the benchmarks of the client: import
  (\<open>bench/src/import.rs\<close>), block construction with its fixed pool of transactions (\<open>bench/src/construct.rs\<close>) and transaction
  pool (\<open>bench/src/txpool.rs\<close>). The client and the generation of blocks are parameters; a \<open>None\<close> is a panic.
\<close>

section \<open>Descriptions\<close>

datatype profile = Wasm | Native
datatype key_types = Sr25519 | Ed25519
datatype block_type = RandomTransfersKeepAlive | RandomTransfersReaping | Noop
datatype client_database = Client_RocksDb | Client_ParityDb

record client_benchmark =
  cb_profile :: profile
  cb_key_types :: key_types
  cb_block_type :: block_type
  cb_size :: size_type
  cb_database_type :: client_database

datatype description =
    Import_description client_benchmark
  | TrieRead_description database_size database_type
  | TrieWrite_description database_size database_type
  | Construction_description client_benchmark
  | Pool_description client_database

fun profile_path :: "profile \<Rightarrow> string" where
  "profile_path Wasm = ''wasm''" | "profile_path Native = ''native''"

fun key_types_path :: "key_types \<Rightarrow> string" where
  "key_types_path Sr25519 = ''sr25519''" | "key_types_path Ed25519 = ''ed25519''"

fun database_path :: "client_database \<Rightarrow> string" where
  "database_path Client_RocksDb = ''rocksdb''" | "database_path Client_ParityDb = ''paritydb''"

fun import_block_type_path :: "block_type \<Rightarrow> string" where
  "import_block_type_path RandomTransfersKeepAlive = ''transfer_keep_alive''"
| "import_block_type_path RandomTransfersReaping = ''transfer_reaping''"
| "import_block_type_path Noop = ''noop''"

fun construction_block_type_path :: "block_type \<Rightarrow> string" where
  "construction_block_type_path RandomTransfersKeepAlive = ''transfer''"
| "construction_block_type_path RandomTransfersReaping = ''transfer_reaping''"
| "construction_block_type_path Noop = ''noop''"

definition import_path :: "client_benchmark \<Rightarrow> path" where
  "import_path b =
     (let p = path_new [''node'', ''import''];
          p = path_push (profile_path (cb_profile b)) p;
          p = path_push (key_types_path (cb_key_types b)) p;
          p = path_push (import_block_type_path (cb_block_type b)) p;
          p = path_push (database_path (cb_database_type b)) p
      in path_push (size_type_display (cb_size b)) p)"

definition construction_path :: "client_benchmark \<Rightarrow> path" where
  "construction_path b =
     (let p = path_new [''node'', ''proposer''];
          p = path_push (profile_path (cb_profile b)) p;
          p = path_push (key_types_path (cb_key_types b)) p;
          p = path_push (construction_block_type_path (cb_block_type b)) p;
          p = path_push (database_path (cb_database_type b)) p
      in path_push (size_type_display (cb_size b)) p)"

definition pool_path :: path where "pool_path = path_new [''node'', ''txpool'']"

fun description_path :: "description \<Rightarrow> path" where
  "description_path (Import_description b) = import_path b"
| "description_path (TrieRead_description s d) = read_path s"
| "description_path (TrieWrite_description s d) = write_path s"
| "description_path (Construction_description b) = construction_path b"
| "description_path (Pool_description d) = pool_path"

section \<open>The list\<close>

text \<open>The four nested loops over the import benchmarks; \<open>n\<close> is the number of transactions of the custom size.\<close>

definition import_benchmarks :: "nat \<Rightarrow> (profile \<times> size_type \<times> block_type \<times> client_database) list" where
  "import_benchmarks n =
     concat (map (\<lambda>profile.
       concat (map (\<lambda>sz.
         concat (map (\<lambda>block_type.
           map (\<lambda>database_type. (profile, sz, block_type, database_type)) [Client_RocksDb, Client_ParityDb])
           [RandomTransfersKeepAlive, RandomTransfersReaping, Noop]))
         [Empty_size, Small_size, Medium_size, Large_size, Full_size, Custom_size n]))
       [Wasm, Native])"

definition database_matrix :: "(database_size \<times> database_type) list" where
  "database_matrix =
     concat (map (\<lambda>sz. map (\<lambda>db_type. (sz, db_type)) [RocksDb, ParityDb])
       [Empty_db, Smallest_db, Small_db, Medium_db, Large_db, Huge_db])"

definition benchmarks :: "nat option \<Rightarrow> description list" where
  "benchmarks opt_transactions =
     map (\<lambda>(p, sz, bt, db). Import_description \<lparr>cb_profile = p, cb_key_types = Sr25519, cb_block_type = bt,
            cb_size = sz, cb_database_type = db\<rparr>)
       (import_benchmarks (case opt_transactions of Some n \<Rightarrow> n | None \<Rightarrow> 0)) @
     map (\<lambda>(sz, db). TrieRead_description sz db) database_matrix @
     map (\<lambda>(sz, db). TrieWrite_description sz db) database_matrix @
     [Construction_description \<lparr>cb_profile = Wasm, cb_key_types = Sr25519,
        cb_block_type = RandomTransfersKeepAlive, cb_size = Medium_size, cb_database_type = Client_RocksDb\<rparr>,
      Construction_description \<lparr>cb_profile = Wasm, cb_key_types = Sr25519,
        cb_block_type = RandomTransfersKeepAlive, cb_size = Large_size, cb_database_type = Client_RocksDb\<rparr>,
      Pool_description Client_RocksDb]"

record opt =
  opt_list :: bool
  opt_json :: bool
  opt_filter :: "string option"
  opt_transactions :: "nat option"
  opt_mode :: mode

definition selected :: "opt \<Rightarrow> description \<Rightarrow> bool" where
  "selected opts b = (case opt_filter opts of Some f \<Rightarrow> path_has (description_path b) f | None \<Rightarrow> True)"

text \<open>
  What \<open>main\<close> does: list the selected benchmarks, or run them one after the other, log each result and print all of
  them as json when asked to, or exit with an error. Running one benchmark in a mode is the parameter \<open>run\<close>.
\<close>

datatype 'r main_result =
  Listed "(description \<times> string) list" | Finished "'r list" "'r list option" | Exit nat

definition bench_main :: "(description \<Rightarrow> mode \<Rightarrow> 'r) \<Rightarrow> opt \<Rightarrow> 'r main_result" where
  "bench_main run opts =
     (let bs = benchmarks (opt_transactions opts) in
      if opt_list opts
      then Listed (map (\<lambda>b. (b, path_full (description_path b))) (filter (selected opts) bs))
      else
        let results = fold (\<lambda>b rs. if selected opts b then rs @ [run b (opt_mode opts)] else rs) bs [] in
        if results = [] then Exit 1
        else Finished results (if opt_json opts then Some results else None))"

lemma fold_selected:
  "fold (\<lambda>b rs. if P b then rs @ [f b] else rs) bs acc = acc @ map f (filter P bs)"
  by (induction bs arbitrary: acc) simp_all

lemma profile_path_inject: "profile_path a = profile_path b \<longleftrightarrow> a = b"
  by (cases a; cases b) simp_all

lemma database_path_inject: "database_path a = database_path b \<longleftrightarrow> a = b"
  by (cases a; cases b) simp_all

lemma import_block_type_inject: "import_block_type_path a = import_block_type_path b \<longleftrightarrow> a = b"
  by (cases a; cases b) simp_all

lemma construction_block_type_inject:
  "construction_block_type_path a = construction_block_type_path b \<longleftrightarrow> a = b"
  by (cases a; cases b) simp_all

lemma key_types_inject: "key_types_path a = key_types_path b \<longleftrightarrow> a = b"
  by (cases a; cases b) simp_all

lemma database_size_inject: "database_size_display a = database_size_display b \<longleftrightarrow> a = b"
  by (cases a; cases b) simp_all

lemmas name_injective = profile_path_inject database_path_inject import_block_type_inject
  construction_block_type_inject key_types_inject database_size_inject

lemma paths_unfolded:
  "import_path b = [''node'', ''import'', profile_path (cb_profile b), key_types_path (cb_key_types b),
     import_block_type_path (cb_block_type b), database_path (cb_database_type b), size_type_display (cb_size b)]"
  "construction_path b = [''node'', ''proposer'', profile_path (cb_profile b), key_types_path (cb_key_types b),
     construction_block_type_path (cb_block_type b), database_path (cb_database_type b), size_type_display (cb_size b)]"
  "read_path s = [''trie'', ''read'', database_size_display s]"
  "write_path s = [''trie'', ''write'', database_size_display s]"
  "pool_path = [''node'', ''txpool'']"
  by (simp_all add: import_path_def construction_path_def read_path_def write_path_def pool_path_def
      path_new_def path_push_def)

text \<open>The sizes of the list: the custom size occurs with one number of transactions only.\<close>

definition listed_size :: "nat \<Rightarrow> size_type \<Rightarrow> bool" where
  "listed_size n s \<longleftrightarrow> (case s of Custom_size m \<Rightarrow> m = n | _ \<Rightarrow> True)"

lemma size_display_injective:
  "listed_size n s \<Longrightarrow> listed_size n s' \<Longrightarrow> size_type_display s = size_type_display s' \<longleftrightarrow> s = s'"
  by (cases s; cases s') (simp_all add: listed_size_def)

definition client_size :: "nat \<Rightarrow> description \<Rightarrow> bool" where
  "client_size n b \<longleftrightarrow> (case b of Import_description c \<Rightarrow> listed_size n (cb_size c)
     | Construction_description c \<Rightarrow> listed_size n (cb_size c)
     | Pool_description d \<Rightarrow> d = Client_RocksDb | _ \<Rightarrow> True)"

lemma benchmarks_sizes:
  "b \<in> set (benchmarks t) \<Longrightarrow> client_size (case t of Some n \<Rightarrow> n | None \<Rightarrow> 0) b"
  by (auto simp: benchmarks_def import_benchmarks_def client_size_def listed_size_def)

lemma path_determines:
  assumes "client_size n a" "client_size n b" "description_path a = description_path b"
  shows "a = b \<or> (\<exists>s d d'. a = TrieRead_description s d \<and> b = TrieRead_description s d')
     \<or> (\<exists>s d d'. a = TrieWrite_description s d \<and> b = TrieWrite_description s d')"
  using assms
  by (cases a; cases b)
    (auto simp: client_size_def paths_unfolded name_injective size_display_injective
      intro: client_benchmark.equality)

lemma benchmarks_length: "length (benchmarks t) = 99"
  by (simp add: benchmarks_def import_benchmarks_def database_matrix_def)

text \<open>
  Of the 99 benchmarks the program lists, and runs in the order of the list, those whose full path contains the
  filter, all of them without a filter; the json output holds the same results as the log, and the program exits with an error
  exactly when nothing is selected. Two benchmarks share a path, so that no filter tells them apart, only when they are the same
  trie benchmark on the two databases.
\<close>

theorem benchmark_selection:
  "let bs = benchmarks (opt_transactions opts); chosen = filter (selected opts) bs in
     length bs = 99
     \<and> (opt_filter opts = None \<longrightarrow> chosen = bs)
     \<and> bench_main run (opts\<lparr>opt_list := True\<rparr>) = Listed (map (\<lambda>b. (b, path_full (description_path b))) chosen)
     \<and> (let results = map (\<lambda>b. run b (opt_mode opts)) chosen in
        bench_main run (opts\<lparr>opt_list := False\<rparr>) =
          (if \<exists>b \<in> set bs. selected opts b
           then Finished results (if opt_json opts then Some results else None) else Exit 1))
     \<and> (\<forall>a \<in> set bs. \<forall>b \<in> set bs. description_path a = description_path b \<longrightarrow>
        a = b \<or> (\<exists>s d d'. a = TrieRead_description s d \<and> b = TrieRead_description s d')
        \<or> (\<exists>s d d'. a = TrieWrite_description s d \<and> b = TrieWrite_description s d'))"
proof -
  have same: "selected (opts\<lparr>opt_list := l\<rparr>) = selected opts" for l
    by (simp add: selected_def fun_eq_iff)
  have all: "filter (selected opts) bs = bs" if "opt_filter opts = None" for bs
    using that by (simp add: selected_def)
  have apart: "a = b \<or> (\<exists>s d d'. a = TrieRead_description s d \<and> b = TrieRead_description s d')
      \<or> (\<exists>s d d'. a = TrieWrite_description s d \<and> b = TrieWrite_description s d')"
    if "a \<in> set (benchmarks t)" "b \<in> set (benchmarks t)" "description_path a = description_path b" for a b t
    using path_determines [OF benchmarks_sizes [OF that(1)] benchmarks_sizes [OF that(2)] that(3)] .
  show ?thesis
    using apart all
    by (simp add: Let_def benchmarks_length bench_main_def same fold_selected filter_empty_conv)
qed

lemma small_read_listed:
  "TrieRead_description Small_db d \<in> set (benchmarks t)"
  by (cases d) (simp_all add: benchmarks_def database_matrix_def)

theorem benchmark_selection_witness:
  "length (benchmarks None) = 99
   \<and> filter (selected \<lparr>opt_list = False, opt_json = False, opt_filter = None, opt_transactions = None,
        opt_mode = Regular\<rparr>) (benchmarks None) = benchmarks None
   \<and> TrieRead_description Small_db RocksDb \<in> set (benchmarks None)
   \<and> TrieRead_description Small_db ParityDb \<in> set (benchmarks None)
   \<and> description_path (TrieRead_description Small_db RocksDb)
       = description_path (TrieRead_description Small_db ParityDb)"
proof -
  let ?o = "\<lparr>opt_list = False, opt_json = False, opt_filter = None, opt_transactions = None, opt_mode = Regular\<rparr>"
  have "length (benchmarks (opt_transactions ?o)) = 99 \<and> filter (selected ?o) (benchmarks (opt_transactions ?o))
      = benchmarks (opt_transactions ?o)"
    using benchmark_selection [of ?o "\<lambda>b m. b"] unfolding Let_def
    by (simp only: opt.simps simp_thms)
  then show ?thesis
    by (simp add: small_read_listed)
qed

text \<open>
  The listed path of a benchmark can select more than it: the path of the small read benchmark is a prefix of the
  path of the smallest.
\<close>

lemma small_selects_smallest:
  "path_has (read_path Smallest_db) (path_full (read_path Small_db))"
  by (simp add: path_has_def path_full_eq paths_unfolded)

section \<open>The client benchmarks\<close>

text \<open>
  The check after an import: the number of events of the block is 7 or 2 for each signed extrinsic and one for the unsigned
  one. A block without extrinsics panics, in the subtraction or in the comparison with its wrapped result.
\<close>

definition import_sanity :: "block_type \<Rightarrow> nat \<Rightarrow> nat \<Rightarrow> unit option" where
  "import_sanity bt extrinsics events =
     (case bt of
        RandomTransfersKeepAlive \<Rightarrow>
          if 1 \<le> extrinsics \<and> events = (extrinsics - 1) * 7 + 1 then Some () else None
      | Noop \<Rightarrow>
          if 1 \<le> extrinsics \<and> events = (extrinsics - 1) * 2 + 1 then Some () else None
      | RandomTransfersReaping \<Rightarrow> Some ())"

text \<open>
  One run of the import benchmark: the runtime version, the pause before a profile, the timed import and the check on
  the state of block 1, the pause after. The client answers \<open>version\<close>, the import leaves \<open>events\<close>, the
  number of events of block 1 unless the import panics or the state is missing; the result is the time with the
  pauses in seconds.
\<close>

definition import_run ::
  "'v option \<Rightarrow> nat option \<Rightarrow> block_type \<Rightarrow> nat \<Rightarrow> mode \<Rightarrow> nat \<Rightarrow> (nat \<times> nat list) option" where
  "import_run version events bt extrinsics mode elapsed =
     (case version of None \<Rightarrow> None
      | Some _ \<Rightarrow>
          let before = (if mode = mode.Profile then [3] else []) in
          (case events of None \<Rightarrow> None
           | Some n \<Rightarrow>
               (case import_sanity bt extrinsics n of None \<Rightarrow> None
                | Some _ \<Rightarrow> Some (elapsed, before @ (if mode = mode.Profile then [1] else [])))))"

definition pauses :: "mode \<Rightarrow> nat list" where
  "pauses m = (if m = mode.Profile then [3, 1] else [])"

lemma import_run_pauses: "import_run version events bt n m elapsed = Some (t, ps) \<Longrightarrow> t = elapsed \<and> ps = pauses m"
  by (auto simp: import_run_def pauses_def Let_def split: option.splits if_splits)

text \<open>The content of a generated block: its type and the number of transactions, none for a full block.\<close>

record block_content =
  bc_block_type :: block_type
  bc_size :: "nat option"

definition to_content :: "block_type \<Rightarrow> nat option \<Rightarrow> block_content" where
  "to_content bt sz = \<lparr>bc_block_type = bt, bc_size = sz\<rparr>"

record 'x pool_transaction =
  tx_data :: 'x
  tx_hash :: bytes

definition pool_transaction_from :: "'x \<Rightarrow> 'x pool_transaction" where
  "pool_transaction_from e = \<lparr>tx_data = e, tx_hash = replicate 32 0\<rparr>"

text \<open>
  The setup of the construction benchmark turns the generated transactions into those of the pool;
  \<open>generated\<close> is the generator over the prepared database.
\<close>

definition construction_setup :: "(block_content \<Rightarrow> 'x list) \<Rightarrow> client_benchmark \<Rightarrow> 'x pool_transaction list" where
  "construction_setup generated b =
     fold (\<lambda>transaction extrinsics. extrinsics @ [pool_transaction_from transaction])
       (generated (to_content (cb_block_type b) (transactions (cb_size b)))) []"

text \<open>
  The pool of the construction benchmark: the transactions of the setup are ready at every block, an invalid one is
  not removed, and every other operation panics.
\<close>

datatype pool_call = Submit_at | Submit_one | Submit_and_watch | Ready_at | Ready | Remove_invalid | Status
  | Import_notification_stream | On_broadcasted | Hash_of | Ready_transaction

definition pool_answer ::
  "'x pool_transaction list \<Rightarrow> pool_call \<Rightarrow> 'x pool_transaction list option" where
  "pool_answer txs c = (case c of Ready_at \<Rightarrow> Some txs | Remove_invalid \<Rightarrow> Some [] | _ \<Rightarrow> None)"

text \<open>
  One run of the construction benchmark: the runtime version and the header of block 0 (a database error or a
  missing header panics), the initialisation of the proposer, the inherents and the proposal; each can fail, and the timer runs over the
  last three. The proposer is asked for a block within 20 seconds.
\<close>

definition construction_run ::
  "'v option \<Rightarrow> 'h option \<Rightarrow> ('h \<Rightarrow> 'p option) \<Rightarrow> 'i option \<Rightarrow> ('p \<Rightarrow> 'i \<Rightarrow> nat \<Rightarrow> 'b option) \<Rightarrow> mode \<Rightarrow> nat \<Rightarrow>
   (nat \<times> nat list) option" where
  "construction_run version header init inherent_data propose m elapsed =
     (case version of None \<Rightarrow> None | Some _ \<Rightarrow>
       let before = (if m = mode.Profile then [3] else []) in
       (case header of None \<Rightarrow> None | Some h \<Rightarrow>
       (case init h of None \<Rightarrow> None | Some proposer \<Rightarrow>
       (case inherent_data of None \<Rightarrow> None | Some inherents \<Rightarrow>
       (case propose proposer inherents 20 of None \<Rightarrow> None | Some block \<Rightarrow>
         Some (elapsed, before @ (if m = mode.Profile then [1] else [])))))))"

text \<open>
  One run of the pool benchmark: a hundred generated transfers are submitted to a new pool at block 0; the results of
  the submissions are not looked at.
\<close>

definition pool_run ::
  "'v option \<Rightarrow> (block_content \<Rightarrow> 'x list) \<Rightarrow> ('p \<Rightarrow> 'x \<Rightarrow> 'e \<times> 'p) \<Rightarrow> 'p \<Rightarrow> mode \<Rightarrow> nat \<Rightarrow> ('p \<times> nat \<times> nat list) option" where
  "pool_run version generated submit_one txpool m elapsed =
     (case version of None \<Rightarrow> None | Some _ \<Rightarrow>
       let before = (if m = mode.Profile then [3] else []);
           generated_transactions = generated (to_content RandomTransfersKeepAlive (Some 100));
           txpool = fold (\<lambda>tx pool. snd (submit_one pool tx)) generated_transactions txpool
       in Some (txpool, elapsed, before @ (if m = mode.Profile then [1] else [])))"

lemma construction_setup_map:
  "construction_setup generated b =
     map pool_transaction_from (generated (to_content (cb_block_type b) (transactions (cb_size b))))"
  using fold_selected [of "\<lambda>_. True" pool_transaction_from _ "[]"]
  by (simp add: construction_setup_def)

text \<open>
  The proposer of the construction benchmark gets every generated transaction, in order and under the zero hash, at
  each block; a run of the import benchmark with transfers returns exactly when the events account for every extrinsic.
\<close>

lemma construction_ready:
  "map_option (map tx_data) (pool_answer (construction_setup generated b) Ready_at) =
     Some (generated (to_content (cb_block_type b) (transactions (cb_size b))))"
  by (simp add: pool_answer_def construction_setup_map pool_transaction_from_def comp_def)

lemma import_run_keep_alive:
  "import_run version events RandomTransfersKeepAlive extrinsics mode elapsed \<noteq> None \<longleftrightarrow>
     version \<noteq> None \<and> 1 \<le> extrinsics \<and> events = Some ((extrinsics - 1) * 7 + 1)"
  by (auto simp: import_run_def import_sanity_def Let_def split: option.splits)

section \<open>Names\<close>

text \<open>The names of the results; derived formatting of an enumeration prints its variant.\<close>

fun profile_debug :: "profile \<Rightarrow> string" where
  "profile_debug Native = ''Native''"
| "profile_debug Wasm = ''Wasm''"

fun block_type_debug :: "block_type \<Rightarrow> string" where
  "block_type_debug RandomTransfersKeepAlive = ''RandomTransfersKeepAlive''"
| "block_type_debug RandomTransfersReaping = ''RandomTransfersReaping''"
| "block_type_debug Noop = ''Noop''"

fun client_database_debug :: "client_database \<Rightarrow> string" where
  "client_database_debug Client_RocksDb = ''RocksDb''"
| "client_database_debug Client_ParityDb = ''ParityDb''"

fun database_type_display :: "database_type \<Rightarrow> string" where
  "database_type_display RocksDb = ''RocksDb''"
| "database_type_display ParityDb = ''ParityDb''"

definition backend_name :: "client_benchmark \<Rightarrow> string" where
  "backend_name b = block_type_debug (cb_block_type b) @ ''/'' @ size_type_display (cb_size b) @ '', '' @
     profile_debug (cb_profile b) @ '', '' @ client_database_debug (cb_database_type b) @ '' backend)''"

definition import_name :: "client_benchmark \<Rightarrow> string" where
  "import_name b = ''Block import ('' @ backend_name b"

definition construction_name :: "client_benchmark \<Rightarrow> string" where
  "construction_name b = ''Block construction ('' @ backend_name b"

definition pool_name :: string where
  "pool_name = ''Transaction pool benchmark''"

fun description_name :: "description \<Rightarrow> string" where
  "description_name (Import_description b) = import_name b"
| "description_name (TrieRead_description s dtype) = read_name s database_type_display dtype"
| "description_name (TrieWrite_description s dtype) = write_name s database_type_display dtype"
| "description_name (Construction_description b) = construction_name b"
| "description_name (Pool_description dtype) = pool_name"

lemma backend_name_determines:
  assumes "listed_size n (cb_size a)" "listed_size n (cb_size b)" "backend_name a = backend_name b"
  shows "cb_block_type a = cb_block_type b \<and> cb_size a = cb_size b \<and> cb_profile a = cb_profile b
    \<and> cb_database_type a = cb_database_type b"
proof -
  have bt: "cb_block_type a = cb_block_type b"
    using assms(3) by (cases "cb_block_type a"; cases "cb_block_type b") (simp_all add: backend_name_def)
  have sz: "cb_size a = cb_size b"
    using assms bt by (cases "cb_size a"; cases "cb_size b") (simp_all add: backend_name_def listed_size_def)
  have "cb_profile a = cb_profile b"
    using assms(3) bt sz by (cases "cb_profile a"; cases "cb_profile b") (simp_all add: backend_name_def)
  then show ?thesis
    using assms(3) bt sz
    by (cases "cb_database_type a"; cases "cb_database_type b") (simp_all add: backend_name_def)
qed

lemma trie_name_determines:
  "read_name s database_type_display dt = read_name s' database_type_display dt' \<longleftrightarrow> s = s' \<and> dt = dt'"
  "write_name s database_type_display dt = write_name s' database_type_display dt' \<longleftrightarrow> s = s' \<and> dt = dt'"
  by (cases s; cases s'; cases dt; cases dt'; simp add: read_name_def write_name_def)+

lemma names_of_a_kind:
  "import_name a = import_name b \<longleftrightarrow> backend_name a = backend_name b"
  "construction_name a = construction_name b \<longleftrightarrow> backend_name a = backend_name b"
  "import_name a \<noteq> construction_name b" "construction_name a \<noteq> import_name b"
  "import_name a \<noteq> read_name s f dt" "read_name s f dt \<noteq> import_name a"
  "import_name a \<noteq> write_name s f dt" "write_name s f dt \<noteq> import_name a"
  "construction_name a \<noteq> read_name s f dt" "read_name s f dt \<noteq> construction_name a"
  "construction_name a \<noteq> write_name s f dt" "write_name s f dt \<noteq> construction_name a"
  "read_name s f dt \<noteq> write_name s' f' dt'" "write_name s f dt \<noteq> read_name s' f' dt'"
  "import_name a \<noteq> pool_name" "pool_name \<noteq> import_name a" "construction_name a \<noteq> pool_name"
  "pool_name \<noteq> construction_name a" "read_name s f dt \<noteq> pool_name" "pool_name \<noteq> read_name s f dt"
  "write_name s f dt \<noteq> pool_name" "pool_name \<noteq> write_name s f dt"
  by (simp_all add: import_name_def construction_name_def read_name_def write_name_def pool_name_def)

definition sr25519_keys :: "description \<Rightarrow> bool" where
  "sr25519_keys b \<longleftrightarrow> (case b of Import_description c \<Rightarrow> cb_key_types c = Sr25519
     | Construction_description c \<Rightarrow> cb_key_types c = Sr25519 | _ \<Rightarrow> True)"

lemma benchmarks_key_types: "b \<in> set (benchmarks t) \<Longrightarrow> sr25519_keys b"
  by (auto simp: benchmarks_def sr25519_keys_def)

lemma name_determines:
  assumes "client_size n a" "client_size n b" "sr25519_keys a" "sr25519_keys b" "description_name a = description_name b"
  shows "a = b"
  using assms
  by (cases a; cases b)
    (auto simp: names_of_a_kind trie_name_determines client_size_def sr25519_keys_def
      intro!: client_benchmark.equality dest: backend_name_determines)

text \<open>The names tell all listed benchmarks apart, also those that share a path.\<close>

lemma names_identify:
  "a \<in> set (benchmarks t) \<Longrightarrow> b \<in> set (benchmarks t) \<Longrightarrow> description_name a = description_name b \<Longrightarrow> a = b"
  using name_determines benchmarks_sizes benchmarks_key_types by metis

end
