(* ===== verification/Node_Service.thy ===== *)
theory Node_Service
  imports Runtime_Transactions Runtime_Api
begin

text \<open>
  Building the node (\<open>cli/src/service.rs\<close>). The components of the client library are third-party code; what the
  functions here decide is which of them are built, which tasks are started, in which order, and what happens
  when a step fails. The model keeps the list of the actions done so far, and \<open>fails\<close> says at which
  fallible step the library returns an error.
\<close>

section \<open>Configuration and actions\<close>

datatype role = Full_role | Authority_role

record node_config =
  node_role :: role
  allow_non_globals_in_dht :: bool
  telemetry_endpoints :: "string list option"
  offchain_worker_enabled :: bool
  force_authoring :: bool
  disable_grandpa :: bool
  node_name :: string

text \<open>
  The steps that can fail, each a \<open>?\<close> of the code, but for \<open>Genesis_hash\<close>, where a missing genesis block
  is an \<open>expect\<close> and panics.
\<close>

datatype fallible_step =
    Telemetry_worker
  | New_full_parts
  | Grandpa_block_import
  | Babe_config
  | Babe_block_import
  | Babe_import_queue
  | Genesis_hash
  | Build_network
  | Spawn_tasks
  | Start_babe
  | Run_grandpa_voter

text \<open>
  The parameters of block production and of the finality gadget that do not come from the client library: durations in
  milliseconds, the portion of a slot as a ratio, and whether there is a keystore.
\<close>

record babe_params =
  bp_force_authoring :: bool
  bp_backoff_authoring_blocks :: bool
  bp_block_proposal_slot_portion :: "nat \<times> nat"
  bp_max_block_proposal_slot_portion :: "(nat \<times> nat) option"

record grandpa_config =
  gc_gossip_duration :: nat
  gc_justification_period :: nat
  gc_name :: "string option"
  gc_observer_enabled :: bool
  gc_keystore :: bool
  gc_local_role :: role

datatype discovery_role = Publish_and_discover

datatype action =
    Did fallible_step
  | Spawn string "string option"
  | Spawn_essential string "string option"
  | Add_peers_set
  | Build_offchain_workers
  | With_startup_data
  | Babe_params babe_params
  | New_discovery_worker bool discovery_role
  | Grandpa_config grandpa_config
  | Start_network

definition is_authority :: "role \<Rightarrow> bool" where
  "is_authority r \<longleftrightarrow> r = Authority_role"

type_synonym 'a build = "action list \<Rightarrow> (fallible_step, 'a) result \<times> action list"

definition attempt :: "(fallible_step \<Rightarrow> bool) \<Rightarrow> fallible_step \<Rightarrow> unit build" where
  "attempt fails step tr = (if fails step then (Inl step, tr) else (Inr (), tr @ [Did step]))"

definition emit :: "action \<Rightarrow> unit build" where
  "emit a tr = (Inr (), tr @ [a])"

definition only_if :: "bool \<Rightarrow> unit build \<Rightarrow> unit build" where
  "only_if c b tr = (if c then b tr else (Inr (), tr))"

text \<open>The telemetry endpoints that are used: none when there is no list or an empty one.\<close>

definition telemetry_of :: "node_config \<Rightarrow> string list option" where
  "telemetry_of config =
     (case telemetry_endpoints config of None \<Rightarrow> None | Some x \<Rightarrow> if x = [] then None else Some x)"

section \<open>Building\<close>

definition new_partial :: "(fallible_step \<Rightarrow> bool) \<Rightarrow> node_config \<Rightarrow> unit build" where
  "new_partial fails config tr =
     (let telemetry = telemetry_of config \<noteq> None in
      and_then (only_if telemetry (attempt fails Telemetry_worker) tr) (\<lambda>_ tr.
      and_then (attempt fails New_full_parts tr) (\<lambda>_ tr.
      and_then (only_if telemetry (emit (Spawn ''telemetry'' None)) tr) (\<lambda>_ tr.
      and_then (attempt fails Grandpa_block_import tr) (\<lambda>_ tr.
      and_then (attempt fails Babe_config tr) (\<lambda>_ tr.
      and_then (attempt fails Babe_block_import tr) (\<lambda>_ tr.
      attempt fails Babe_import_queue tr)))))))"

definition babe_params_of :: "bool \<Rightarrow> babe_params" where
  "babe_params_of force = \<lparr>bp_force_authoring = force, bp_backoff_authoring_blocks = True,
     bp_block_proposal_slot_portion = (1, 2), bp_max_block_proposal_slot_portion = None\<rparr>"

definition start_authoring :: "(fallible_step \<Rightarrow> bool) \<Rightarrow> bool \<Rightarrow> unit build" where
  "start_authoring fails force tr =
     and_then (emit (Babe_params (babe_params_of force)) tr) (\<lambda>_ tr.
     and_then (attempt fails Start_babe tr) (\<lambda>_ tr.
     emit (Spawn_essential ''babe-proposer'' (Some ''block-authoring'')) tr))"

definition start_discovery :: "bool \<Rightarrow> unit build" where
  "start_discovery publish_non_global_ips tr =
     and_then (emit (New_discovery_worker publish_non_global_ips Publish_and_discover) tr) (\<lambda>_ tr.
     emit (Spawn ''authority-discovery-worker'' (Some ''networking'')) tr)"

definition grandpa_config_of :: "role \<Rightarrow> string \<Rightarrow> grandpa_config" where
  "grandpa_config_of role name =
     (let keystore = is_authority role
      in \<lparr>gc_gossip_duration = 333, gc_justification_period = 512, gc_name = Some name,
          gc_observer_enabled = False, gc_keystore = keystore, gc_local_role = role\<rparr>)"

definition start_grandpa :: "(fallible_step \<Rightarrow> bool) \<Rightarrow> unit build" where
  "start_grandpa fails tr =
     and_then (attempt fails Run_grandpa_voter tr) (\<lambda>_ tr.
     emit (Spawn_essential ''grandpa-voter'' None) tr)"

definition new_full_base :: "(fallible_step \<Rightarrow> bool) \<Rightarrow> node_config \<Rightarrow> unit build" where
  "new_full_base fails config tr =
     and_then (new_partial fails config tr) (\<lambda>_ tr.
     let auth_disc_publish_non_global_ips = allow_non_globals_in_dht config in
     and_then (attempt fails Genesis_hash tr) (\<lambda>_ tr.
     and_then (emit Add_peers_set tr) (\<lambda>_ tr.
     and_then (attempt fails Build_network tr) (\<lambda>_ tr.
     and_then (only_if (offchain_worker_enabled config) (emit Build_offchain_workers) tr) (\<lambda>_ tr.
     let role = node_role config;
         force = force_authoring config;
         name = node_name config;
         enable_grandpa = \<not> disable_grandpa config
     in
     and_then (attempt fails Spawn_tasks tr) (\<lambda>_ tr.
     and_then (emit With_startup_data tr) (\<lambda>_ tr.
     and_then (only_if (role = Authority_role) (start_authoring fails force) tr) (\<lambda>_ tr.
     and_then (only_if (is_authority role) (start_discovery auth_disc_publish_non_global_ips) tr) (\<lambda>_ tr.
     and_then (emit (Grandpa_config (grandpa_config_of role name)) tr) (\<lambda>_ tr.
     and_then (only_if enable_grandpa (start_grandpa fails) tr) (\<lambda>_ tr.
     emit Start_network tr)))))))))))"

definition new_full :: "(fallible_step \<Rightarrow> bool) \<Rightarrow> node_config \<Rightarrow> unit build" where
  "new_full fails config tr = new_full_base fails config tr"

lemmas build_defs =
  new_full_base_def new_partial_def start_authoring_def start_discovery_def start_grandpa_def attempt_def emit_def
  only_if_def and_then_def Let_def is_authority_def

text \<open>
  The inherent data of imported and of proposed blocks: both take the slot of the timestamp. The uncles and the storage proof of a
  proposed block can fail; \<open>slot_of\<close> is the slot of a time.
\<close>

definition import_inherents :: "(u64 \<Rightarrow> 'd \<Rightarrow> 'slot) \<Rightarrow> 'd \<Rightarrow> u64 \<Rightarrow> 'u \<Rightarrow> u64 \<times> 'slot \<times> 'u" where
  "import_inherents slot_of duration timestamp check_inherents =
     (let slot = slot_of timestamp duration in (timestamp, slot, check_inherents))"

definition propose_inherents ::
  "(u64 \<Rightarrow> 'd \<Rightarrow> 'slot) \<Rightarrow> 'd \<Rightarrow> u64 \<Rightarrow> ('e, 'u) result \<Rightarrow> ('e, 'p) result \<Rightarrow> ('e, u64 \<times> 'slot \<times> 'u \<times> 'p) result" where
  "propose_inherents slot_of duration timestamp new_uncles new_storage_proof =
     (case new_uncles of Inl e \<Rightarrow> Inl e
      | Inr uncles \<Rightarrow>
          (let slot = slot_of timestamp duration in
           case new_storage_proof of Inl e \<Rightarrow> Inl e
           | Inr storage_proof \<Rightarrow> Inr (timestamp, slot, uncles, storage_proof)))"

text \<open>The worker of the authority discovery sees the events of the distributed hash table alone, in their order.\<close>

datatype 'd network_event = Dht 'd | Other_event

definition dht_event_stream :: "'d network_event list \<Rightarrow> 'd list" where
  "dht_event_stream stream = List.map_filter (\<lambda>e. case e of Dht e \<Rightarrow> Some e | _ \<Rightarrow> None) stream"

lemma dht_event_stream_simps [simp]:
  "dht_event_stream [] = []" "dht_event_stream (Dht e # es) = e # dht_event_stream es"
  "dht_event_stream (Other_event # es) = dht_event_stream es"
  by (simp_all add: dht_event_stream_def map_filter_simps)

lemma map_Dht_stream: "map Dht (dht_event_stream es) = filter (\<lambda>e. e \<noteq> Other_event) es"
proof (induction es)
  case (Cons e es)
  then show ?case by (cases e) simp_all
qed simp

lemma same_slot:
  "propose_inherents slot_of dur now uncles proof = Inr (t, slot, u, p) \<Longrightarrow>
     import_inherents slot_of dur t u = (t, slot, u)"
  by (auto simp: propose_inherents_def import_inherents_def Let_def split: sum.splits)

text \<open>The actions of a complete start, in order.\<close>

definition partial_actions :: "node_config \<Rightarrow> action list" where
  "partial_actions config =
     (if telemetry_of config \<noteq> None then [Did Telemetry_worker] else []) @ [Did New_full_parts] @
     (if telemetry_of config \<noteq> None then [Spawn ''telemetry'' None] else []) @
     [Did Grandpa_block_import, Did Babe_config, Did Babe_block_import, Did Babe_import_queue]"

definition base_actions :: "node_config \<Rightarrow> action list" where
  "base_actions config =
     [Did Genesis_hash, Add_peers_set, Did Build_network] @
     (if offchain_worker_enabled config then [Build_offchain_workers] else []) @
     [Did Spawn_tasks, With_startup_data] @
     (if is_authority (node_role config)
      then [Babe_params (babe_params_of (force_authoring config)), Did Start_babe,
            Spawn_essential ''babe-proposer'' (Some ''block-authoring''),
            New_discovery_worker (allow_non_globals_in_dht config) Publish_and_discover,
            Spawn ''authority-discovery-worker'' (Some ''networking'')] else []) @
     [Grandpa_config (grandpa_config_of (node_role config) (node_name config))] @
     (if disable_grandpa config then []
      else [Did Run_grandpa_voter, Spawn_essential ''grandpa-voter'' None]) @
     [Start_network]"

lemma new_partial_ok:
  "new_partial fails config tr = (Inr (), tr') \<Longrightarrow>
   tr' = tr @ partial_actions config \<and> (\<forall>step. Did step \<in> set (partial_actions config) \<longrightarrow> \<not> fails step)"
  by (auto simp: new_partial_def attempt_def emit_def only_if_def and_then_def Let_def partial_actions_def
      split: if_splits)

lemma new_partial_fail:
  "new_partial fails config tr = (Inl err, tr') \<Longrightarrow>
   fails err \<and> (\<exists>prev rest. tr' = tr @ prev \<and> partial_actions config = prev @ Did err # rest
     \<and> (\<forall>step. Did step \<in> set prev \<longrightarrow> \<not> fails step))"
  by (auto simp: new_partial_def attempt_def emit_def only_if_def and_then_def Let_def partial_actions_def
      split: if_splits)

text \<open>A start does its actions in order up to the first step that fails, and then returns that step.\<close>

lemma new_full_base_ok:
  assumes "new_full_base fails config tr = (Inr (), tr')"
  shows "tr' = tr @ partial_actions config @ base_actions config"
    and "\<forall>step. Did step \<in> set (partial_actions config @ base_actions config) \<longrightarrow> \<not> fails step"
proof -
  obtain r tr1 where p: "new_partial fails config tr = (r, tr1)"
    by (cases "new_partial fails config tr")
  with assms obtain u where "r = Inr u"
    by (cases r) (simp_all add: new_full_base_def)
  with p have "tr1 = tr @ partial_actions config \<and> (\<forall>step. Did step \<in> set (partial_actions config) \<longrightarrow> \<not> fails step)"
    by (intro new_partial_ok) simp
  moreover have "tr' = tr1 @ base_actions config \<and> (\<forall>step. Did step \<in> set (base_actions config) \<longrightarrow> \<not> fails step)"
    using assms p \<open>r = Inr u\<close>
    by (auto simp: new_full_base_def attempt_def emit_def only_if_def start_authoring_def start_discovery_def
        start_grandpa_def Let_def base_actions_def is_authority_def split: if_splits)
  ultimately show "tr' = tr @ partial_actions config @ base_actions config"
    and "\<forall>step. Did step \<in> set (partial_actions config @ base_actions config) \<longrightarrow> \<not> fails step"
    by auto
qed

lemma new_full_base_fail:
  assumes "new_full_base fails config tr = (Inl err, tr')"
  shows "fails err \<and> (\<exists>prev rest. tr' = tr @ prev \<and>
    partial_actions config @ base_actions config = prev @ Did err # rest \<and>
    (\<forall>step. Did step \<in> set prev \<longrightarrow> \<not> fails step))"
proof (cases "new_partial fails config tr")
  case (Pair r tr1)
  show ?thesis
  proof (cases r)
    case (Inl e)
    then have e: "e = err" "tr1 = tr'"
      using assms Pair by (simp_all add: new_full_base_def)
    obtain prev rest where "fails err" "tr' = tr @ prev" "partial_actions config = prev @ Did err # rest"
        "\<forall>step. Did step \<in> set prev \<longrightarrow> \<not> fails step"
      using new_partial_fail [of fails config tr err tr'] Pair Inl e by blast
    then show ?thesis by auto
  next
    case (Inr u)
    then have tr1: "tr1 = tr @ partial_actions config \<and>
        (\<forall>step. Did step \<in> set (partial_actions config) \<longrightarrow> \<not> fails step)"
      using new_partial_ok [of fails config tr tr1] Pair by simp
    have "fails err \<and> (\<exists>prev rest. tr' = tr1 @ prev \<and> base_actions config = prev @ Did err # rest
        \<and> (\<forall>step. Did step \<in> set prev \<longrightarrow> \<not> fails step))"
      using assms Pair Inr
      by (auto simp: new_full_base_def attempt_def emit_def only_if_def start_authoring_def start_discovery_def
          start_grandpa_def Let_def base_actions_def is_authority_def split: if_splits)
    then obtain prev rest where "fails err" "tr' = tr1 @ prev" "base_actions config = prev @ Did err # rest"
        "\<forall>step. Did step \<in> set prev \<longrightarrow> \<not> fails step"
      by blast
    then show ?thesis
      using tr1 by (intro conjI exI [of _ "partial_actions config @ prev"] exI [of _ rest]) auto
  qed
qed

text \<open>
  C34: a node that starts authors blocks and runs authority discovery exactly when its role is authority, votes in
  the finality gadget exactly when that is not disabled, there with a keystore exactly as an authority; it forces
  authoring and publishes addresses of private networks exactly when configured to; and the network is
  started last, after everything else, exactly once.
\<close>

theorem full_node_tasks:
  assumes "new_full_base fails config [] = (Inr (), tr)"
  shows "(Spawn_essential ''babe-proposer'' (Some ''block-authoring'') \<in> set tr \<longleftrightarrow> node_role config = Authority_role)
    \<and> (Spawn ''authority-discovery-worker'' (Some ''networking'') \<in> set tr \<longleftrightarrow> node_role config = Authority_role)
    \<and> (Spawn_essential ''grandpa-voter'' None \<in> set tr \<longleftrightarrow> \<not> disable_grandpa config)
    \<and> (Build_offchain_workers \<in> set tr \<longleftrightarrow> offchain_worker_enabled config)
    \<and> (Spawn ''telemetry'' None \<in> set tr \<longleftrightarrow> (\<exists>e es. telemetry_endpoints config = Some (e # es)))
    \<and> (\<forall>params. Babe_params params \<in> set tr \<longleftrightarrow>
         node_role config = Authority_role \<and> params = babe_params_of (force_authoring config))
    \<and> (\<forall>publish role. New_discovery_worker publish role \<in> set tr \<longleftrightarrow>
         node_role config = Authority_role \<and> publish = allow_non_globals_in_dht config)
    \<and> (\<forall>gc. Grandpa_config gc \<in> set tr \<longleftrightarrow>
         gc = grandpa_config_of (node_role config) (node_name config))
    \<and> gc_keystore (grandpa_config_of (node_role config) (node_name config)) = (node_role config = Authority_role)
    \<and> last tr = Start_network \<and> Start_network \<notin> set (butlast tr)"
proof -
  have tr: "tr = partial_actions config @ base_actions config"
    using new_full_base_ok(1) [OF assms] by simp
  have "telemetry_of config \<noteq> None \<longleftrightarrow> (\<exists>e es. telemetry_endpoints config = Some (e # es))"
    by (auto simp: telemetry_of_def neq_Nil_conv split: option.splits)
  then show ?thesis
    unfolding tr
    by (auto simp: partial_actions_def base_actions_def is_authority_def grandpa_config_of_def discovery_role.nchotomy)
qed

definition demo_node :: node_config where
  "demo_node = \<lparr>node_role = Authority_role, allow_non_globals_in_dht = False, telemetry_endpoints = None, offchain_worker_enabled = True,
     force_authoring = False, disable_grandpa = False, node_name = ''alice''\<rparr>"

theorem full_node_tasks_witness:
  "Spawn_essential ''babe-proposer'' (Some ''block-authoring'') \<in> set (snd (new_full_base (\<lambda>_. False) demo_node []))"
proof -
  have "new_full_base (\<lambda>_. False) demo_node [] = (Inr (), snd (new_full_base (\<lambda>_. False) demo_node []))"
    by (simp add: build_defs demo_node_def telemetry_of_def)
  from full_node_tasks [OF this] show ?thesis
    by (simp add: demo_node_def)
qed

text \<open>
  C35: when a step fails, the node does not start: the error is that step, it is the first one to fail, everything
  done is what a complete start does before it, and the network was never started.
\<close>

theorem failed_start:
  assumes "new_full_base fails config [] = (Inl err, tr)"
  shows "fails err \<and> (\<forall>step. Did step \<in> set tr \<longrightarrow> \<not> fails step) \<and> Start_network \<notin> set tr
    \<and> prefix (tr @ [Did err]) (partial_actions config @ base_actions config)"
proof -
  obtain prev rest where d: "fails err" "tr = prev"
      "partial_actions config @ base_actions config = prev @ Did err # rest"
      "\<forall>step. Did step \<in> set prev \<longrightarrow> \<not> fails step"
    using new_full_base_fail [OF assms] by auto
  have all: "distinct (partial_actions config @ base_actions config)"
    "last (partial_actions config @ base_actions config) = Start_network"
    by (auto simp: partial_actions_def base_actions_def)
  have "Start_network \<in> set (Did err # rest)"
    using all(2) d(3) by (metis last_appendR last_in_set list.distinct(1))
  then have "Start_network \<notin> set prev"
    using all(1) d(3) by (metis IntI distinct_append empty_iff)
  then show ?thesis
    using d by (auto simp: prefix_def)
qed

theorem failed_start_witness:
  "Start_network \<notin> set (snd (new_full_base (\<lambda>step. step = Start_babe) demo_node []))"
proof -
  have "new_full_base (\<lambda>step. step = Start_babe) demo_node [] =
      (Inl Start_babe, snd (new_full_base (\<lambda>step. step = Start_babe) demo_node []))"
    by (simp add: build_defs demo_node_def telemetry_of_def)
  from failed_start [OF this] show ?thesis
    by simp
qed

end
