(* ===== verification/Node_Inspect.thy ===== *)
theory Node_Inspect
  imports Bench_Core
begin

text \<open>
  The block inspector (\<open>inspect/src/lib.rs\<close>, \<open>inspect/src/command.rs\<close>, \<open>inspect/src/cli.rs\<close>): addresses of
  blocks and extrinsics and their parsing, the lookup of a block, and the two subcommands. The parsers of hashes, block
  numbers and hexadecimal bytes, the decoders and the chain database are parameters; splitting a string and parsing an
  index are the standard library's and are modelled.
\<close>

section \<open>Addresses\<close>

datatype ('h, 'n) block_address =
    Hash_address 'h
  | Number_address 'n
  | Bytes_address "u8 list"

datatype ('h, 'n) extrinsic_address =
    Block_extrinsic "('h, 'n) block_address" nat
  | Bytes_extrinsic "u8 list"

record ('h, 'n) parsers =
  parse_hash :: "string \<Rightarrow> 'h option"
  parse_number :: "string \<Rightarrow> 'n option"
  from_hex :: "string \<Rightarrow> (string, u8 list) result"

definition block_address_from_str ::
  "('h, 'n) parsers \<Rightarrow> string \<Rightarrow> (string, ('h, 'n) block_address) result" where
  "block_address_from_str ps s =
     (case parse_hash ps s of
        Some hash \<Rightarrow> Inr (Hash_address hash)
      | None \<Rightarrow>
          (case parse_number ps s of
             Some number \<Rightarrow> Inr (Number_address number)
           | None \<Rightarrow>
               (case from_hex ps s of
                  Inr bytes \<Rightarrow> Inr (Bytes_address bytes)
                | Inl e \<Rightarrow> Inl (''Given string does not look like hash or number. '' @
                    ''It could not be parsed as bytes either: '' @ e))))"

text \<open>\<open>str::split\<close> with a predicate: the pieces between separators, at least one.\<close>

fun split_pred :: "(char \<Rightarrow> bool) \<Rightarrow> string \<Rightarrow> string list" where
  "split_pred p [] = [[]]"
| "split_pred p (c # cs) =
     (if p c then [] # split_pred p cs
      else (case split_pred p cs of [] \<Rightarrow> [[c]] | w # ws \<Rightarrow> (c # w) # ws))"

text \<open>\<open>usize::from_str\<close>: decimal digits, with an optional plus sign, below \<open>2^64\<close>.\<close>

definition digit_value :: "char \<Rightarrow> nat option" where
  "digit_value c = (let n = of_char c :: nat in if 48 \<le> n \<and> n \<le> 57 then Some (n - 48) else None)"

fun parse_digits :: "nat \<Rightarrow> string \<Rightarrow> (string, nat) result" where
  "parse_digits acc [] = Inr acc"
| "parse_digits acc (c # cs) =
     (case digit_value c of
        None \<Rightarrow> Inl ''invalid digit found in string''
      | Some d \<Rightarrow>
          if acc * 10 + d < 2 ^ 64 then parse_digits (acc * 10 + d) cs
          else Inl ''number too large to fit in target type'')"

definition usize_from_str :: "string \<Rightarrow> (string, nat) result" where
  "usize_from_str s =
     (if s = '''' then Inl ''cannot parse integer from empty string''
      else if s = ''+'' then Inl ''invalid digit found in string''
      else parse_digits 0 (if hd s = CHR ''+'' then tl s else s))"

definition is_separator :: "char \<Rightarrow> bool" where
  "is_separator c \<longleftrightarrow> c = CHR ''.'' \<or> c = CHR '':'' \<or> c = CHR '' ''"

definition extrinsic_address_from_str ::
  "('h, 'n) parsers \<Rightarrow> string \<Rightarrow> (string, ('h, 'n) extrinsic_address) result" where
  "extrinsic_address_from_str ps s =
     (case from_hex ps s of
        Inr bytes \<Rightarrow> Inr (Bytes_extrinsic bytes)
      | Inl _ \<Rightarrow>
          (let it = split_pred is_separator s in
           case block_address_from_str ps (hd it) of
             Inl e \<Rightarrow> Inl e
           | Inr block \<Rightarrow>
               (case tl it of
                  [] \<Rightarrow> Inl ''Extrinsic index missing: example \"5:0\"''
                | w # _ \<Rightarrow>
                    (case usize_from_str w of
                       Inl e \<Rightarrow> Inl (''Invalid index format: '' @ e)
                     | Inr index \<Rightarrow> Inr (Block_extrinsic block index)))))"

lemma split_pred_nonempty: "split_pred p s \<noteq> []"
  by (cases s) (auto split: list.split)

lemma split_pred_none: "\<forall>c \<in> set w. \<not> p c \<Longrightarrow> split_pred p w = [w]"
  by (induction w) auto

lemma split_pred_append:
  "\<forall>c \<in> set w. \<not> p c \<Longrightarrow> p c \<Longrightarrow> split_pred p (w @ c # s) = w # split_pred p s"
  by (induction w) auto

text \<open>Decimal numbers parse back.\<close>

fun decimal :: "nat \<Rightarrow> string" where
  "decimal n = (if n < 10 then [char_of (48 + n)] else decimal (n div 10) @ [char_of (48 + n mod 10)])"

declare decimal.simps [simp del]

lemma digit_value_char: "d < 10 \<Longrightarrow> digit_value (char_of (48 + d :: nat)) = Some d"
  by (simp add: digit_value_def Let_def take_bit_nat_eq_self)

lemma parse_digits_append:
  "parse_digits acc (xs @ ys) =
     (case parse_digits acc xs of Inl e \<Rightarrow> Inl e | Inr acc' \<Rightarrow> parse_digits acc' ys)"
  by (induction xs arbitrary: acc) (auto split: option.split)

lemma parse_decimal: "n < 2 ^ 64 \<Longrightarrow> parse_digits 0 (decimal n) = Inr n"
proof (induction n rule: decimal.induct)
  case (1 n)
  show ?case
  proof (cases "n < 10")
    case True
    then show ?thesis
      using digit_value_char [of n] by (subst decimal.simps) simp
  next
    case False
    have "n div 10 < 2 ^ 64"
      using "1.prems" by (meson div_le_dividend le_less_trans)
    then have "parse_digits 0 (decimal (n div 10)) = Inr (n div 10)"
      using "1.IH" False by blast
    moreover have "n div 10 * 10 + n mod 10 = n"
      by simp
    ultimately show ?thesis
      using False "1.prems" digit_value_char [of "n mod 10"]
      by (subst decimal.simps) (simp add: parse_digits_append)
  qed
qed

lemma decimal_digits: "\<forall>c \<in> set (decimal n). digit_value c \<noteq> None"
proof (induction n rule: decimal.induct)
  case (1 n)
  then show ?case
    using digit_value_char [of n] digit_value_char [of "n mod 10"] by (subst decimal.simps) auto
qed

lemma digit_not_special: "digit_value c \<noteq> None \<Longrightarrow> \<not> is_separator c \<and> c \<noteq> CHR ''+''"
  by (auto simp: digit_value_def Let_def is_separator_def split: if_splits)

lemma decimal_nonempty: "decimal n \<noteq> []"
  by (subst decimal.simps) simp

lemma usize_from_decimal:
  assumes "n < 2 ^ 64"
  shows "usize_from_str (decimal n) = Inr n"
proof -
  have "hd (decimal n) \<noteq> CHR ''+''" "decimal n \<noteq> ''+''"
    using decimal_digits [of n] decimal_nonempty [of n] digit_not_special by (metis hd_in_set list.sel(1))+
  then show ?thesis
    using parse_decimal [OF assms] decimal_nonempty [of n] by (simp add: usize_from_str_def)
qed

text \<open>The pieces of an address.\<close>

lemma split_address:
  assumes "\<forall>c \<in> set b. \<not> p c" "p sep" "\<forall>c \<in> set w. \<not> p c" "rest = [] \<or> p (hd rest)"
  obtains ws where "split_pred p (b @ sep # w @ rest) = b # w # ws"
proof (cases rest)
  case Nil
  then show ?thesis
    using that split_pred_append [OF assms(1,2), of w] split_pred_none [OF assms(3)] by simp
next
  case (Cons c cs)
  then show ?thesis
    using that split_pred_append [OF assms(1,2), of "w @ rest"] split_pred_append [OF assms(3), of c cs] assms(4) by simp
qed

text \<open>
  C37: an extrinsic address that is not raw bytes and is written as a block, a separator and an index, with any of the three
  separators and whatever follows a second separator: with a decimal index it parses back to that block and index. A block that does
  not parse is reported first, whatever the index is; then an index that does not parse. A block alone lacks the index, and is
  also reported first when it does not parse.
\<close>

theorem extrinsic_address_round_trip:
  assumes "\<forall>c \<in> set b. \<not> is_separator c" "is_separator sep" "\<forall>c \<in> set w. \<not> is_separator c"
    and "rest = [] \<or> is_separator (hd rest)" "from_hex ps (b @ sep # w @ rest) = Inl err"
  defines "parsed \<equiv> extrinsic_address_from_str ps (b @ sep # w @ rest)"
  shows "(\<forall>block n. block_address_from_str ps b = Inr block \<and> w = decimal n \<and> n < 2 ^ 64 \<longrightarrow>
        parsed = Inr (Block_extrinsic block n))
    \<and> (\<forall>e. block_address_from_str ps b = Inl e \<longrightarrow> parsed = Inl e)
    \<and> (\<forall>block e. block_address_from_str ps b = Inr block \<and> usize_from_str w = Inl e \<longrightarrow>
        parsed = Inl (''Invalid index format: '' @ e))
    \<and> (\<forall>block e. from_hex ps b = Inl e \<and> block_address_from_str ps b = Inr block \<longrightarrow>
        extrinsic_address_from_str ps b = Inl ''Extrinsic index missing: example \"5:0\"'')
    \<and> (\<forall>e e'. from_hex ps b = Inl e \<and> block_address_from_str ps b = Inl e' \<longrightarrow>
        extrinsic_address_from_str ps b = Inl e')"
proof -
  obtain ws where ws: "split_pred is_separator (b @ sep # w @ rest) = b # w # ws"
    by (rule split_address [OF assms(1-4)])
  have alone: "split_pred is_separator b = [b]"
    by (rule split_pred_none [OF assms(1)])
  show ?thesis
    unfolding parsed_def extrinsic_address_from_str_def assms(5) ws alone Let_def
    by (auto simp: usize_from_decimal)
qed

definition demo_parsers :: "(nat, nat) parsers" where
  "demo_parsers = \<lparr>parse_hash = (\<lambda>_. None),
     parse_number = (\<lambda>s. case usize_from_str s of Inr n \<Rightarrow> Some n | Inl _ \<Rightarrow> None),
     from_hex = (\<lambda>s. if take 2 s = ''0x'' then Inr [] else Inl ''no prefix'')\<rparr>"

theorem extrinsic_address_round_trip_witness:
  "extrinsic_address_from_str demo_parsers ''1234:7:x'' = Inr (Block_extrinsic (Number_address 1234) 7)
   \<and> (\<exists>e. block_address_from_str demo_parsers ''z'' = Inl e \<and> extrinsic_address_from_str demo_parsers ''z.y'' = Inl e)
   \<and> extrinsic_address_from_str demo_parsers ''1234 y'' = Inl ''Invalid index format: invalid digit found in string''
   \<and> extrinsic_address_from_str demo_parsers ''1234'' = Inl ''Extrinsic index missing: example \"5:0\"''"
proof -
  have dec: "decimal 7 = ''7''"
    by code_simp
  have good: "block_address_from_str demo_parsers ''1234'' = Inr (Number_address 1234)"
    and bad: "block_address_from_str demo_parsers ''z'' = Inl (''Given string does not look like hash or number. '' @
      ''It could not be parsed as bytes either: no prefix'')"
    and index: "usize_from_str ''y'' = Inl ''invalid digit found in string''"
    by (simp_all add: block_address_from_str_def demo_parsers_def usize_from_str_def digit_value_def Let_def)
  have hex: "from_hex demo_parsers s = Inl ''no prefix''" if "take 2 s \<noteq> ''0x''" for s
    using that by (simp add: demo_parsers_def)
  have full: "extrinsic_address_from_str demo_parsers (''1234'' @ CHR '':'' # decimal 7 @ '':x'') = Inr (Block_extrinsic (Number_address 1234) 7)"
    by (rule conjunct1 [OF extrinsic_address_round_trip, rule_format])
      (auto simp: dec is_separator_def hex good)
  show ?thesis
    using extrinsic_address_round_trip [of "''z''" "CHR ''.''" "''y''" "[]" demo_parsers "''no prefix''"]
      extrinsic_address_round_trip [of "''1234''" "CHR '' ''" "''y''" "[]" demo_parsers "''no prefix''"] full good bad index
    by (simp add: dec is_separator_def hex)
qed

end
