(* ===== verification/Node_Inspector.thy ===== *)
theory Node_Inspector
  imports Node_Inspect Primitives
begin

text \<open>
  The lookups of the inspector, its default printer and its two subcommands (\<open>inspect/src/lib.rs\<close>,
  \<open>inspect/src/command.rs\<close>, \<open>inspect/src/cli.rs\<close>). The database of the chain, the decoders of the framework and the
  formatters of the values are parameters.
\<close>

section \<open>Lookups\<close>

datatype ('c, 'b) inspect_error = Codec 'c | Blockchain 'b | NotFound string

record ('hash, 'n, 'hdr, 'x, 'blk, 'c, 'b) chain =
  block_body :: "('hash, 'n) block_id \<Rightarrow> ('b, 'x list option) result"
  chain_header :: "('hash, 'n) block_id \<Rightarrow> ('b, 'hdr option) result"
  block_new :: "'hdr \<Rightarrow> 'x list \<Rightarrow> 'blk"
  block_extrinsics :: "'blk \<Rightarrow> 'x list"
  decode_block :: "u8 list \<Rightarrow> ('c, 'blk) result"
  decode_extrinsic :: "u8 list \<Rightarrow> ('c, 'x) result"
  show_id :: "('hash, 'n) block_id \<Rightarrow> string"
  show_block :: "'blk \<Rightarrow> string"
  show_index :: "nat \<Rightarrow> string"

text \<open>The lookup of a block by its identifier, which \<open>get_block\<close> does alike for numbers and hashes.\<close>

definition block_at ::
  "('hash, 'n, 'hdr, 'x, 'blk, 'c, 'b) chain \<Rightarrow> ('hash, 'n) block_id \<Rightarrow> (('c, 'b) inspect_error, 'blk) result" where
  "block_at ch bid =
     (let not_found = ''Could not find block '' @ show_id ch bid in
      case block_body ch bid of
        Inl e \<Rightarrow> Inl (Blockchain e)
      | Inr None \<Rightarrow> Inl (NotFound not_found)
      | Inr (Some body) \<Rightarrow>
          (case chain_header ch bid of
             Inl e \<Rightarrow> Inl (Blockchain e)
           | Inr None \<Rightarrow> Inl (NotFound not_found)
           | Inr (Some header) \<Rightarrow> Inr (block_new ch header body)))"

definition get_block ::
  "('hash, 'n, 'hdr, 'x, 'blk, 'c, 'b) chain \<Rightarrow> ('hash, 'n) block_address \<Rightarrow> (('c, 'b) inspect_error, 'blk) result" where
  "get_block ch input =
     (case input of
        Bytes_address bytes \<Rightarrow>
          (case decode_block ch bytes of Inl e \<Rightarrow> Inl (Codec e) | Inr block \<Rightarrow> Inr block)
      | Number_address number \<Rightarrow> block_at ch (Id_number number)
      | Hash_address hash \<Rightarrow> block_at ch (Id_hash hash))"

definition inspect_block ::
  "('hash, 'n, 'hdr, 'x, 'blk, 'c, 'b) chain \<Rightarrow> ('blk \<Rightarrow> string) \<Rightarrow> ('hash, 'n) block_address \<Rightarrow>
   (('c, 'b) inspect_error, string) result" where
  "inspect_block ch fmt_block input =
     (case get_block ch input of Inl e \<Rightarrow> Inl e | Inr block \<Rightarrow> Inr (fmt_block block))"

definition inspect_extrinsic ::
  "('hash, 'n, 'hdr, 'x, 'blk, 'c, 'b) chain \<Rightarrow> ('x \<Rightarrow> string) \<Rightarrow> ('hash, 'n) extrinsic_address \<Rightarrow>
   (('c, 'b) inspect_error, string) result" where
  "inspect_extrinsic ch fmt_extrinsic input =
     (let ext =
        (case input of
           Block_extrinsic block index \<Rightarrow>
             (case get_block ch block of
                Inl e \<Rightarrow> Inl e
              | Inr block \<Rightarrow>
                  if index < length (block_extrinsics ch block) then Inr (block_extrinsics ch block ! index)
                  else Inl (NotFound (''Could not find extrinsic '' @ show_index ch index @ '' in block '' @
                         show_block ch block)))
         | Bytes_extrinsic bytes \<Rightarrow>
             (case decode_extrinsic ch bytes of Inl e \<Rightarrow> Inl (Codec e) | Inr x \<Rightarrow> Inr x))
      in case ext of Inl e \<Rightarrow> Inl e | Inr x \<Rightarrow> Inr (fmt_extrinsic x))"

section \<open>The default printer\<close>

record ('blk, 'hdr, 'x) debug_fmt =
  block_header :: "'blk \<Rightarrow> 'hdr"
  header_debug :: "'hdr \<Rightarrow> string"
  block_hex :: "'blk \<Rightarrow> string"
  extrinsic_debug :: "'x \<Rightarrow> string"
  extrinsic_hex :: "'x \<Rightarrow> string"
  nat_display :: "nat \<Rightarrow> string"

definition writeln :: "string \<Rightarrow> string" where "writeln s = s @ [CHR 0x0A]"

definition debug_fmt_extrinsic :: "('blk, 'hdr, 'x) debug_fmt \<Rightarrow> 'x \<Rightarrow> string" where
  "debug_fmt_extrinsic f x =
     writeln ('' '' @ extrinsic_debug f x) @ writeln ('' Bytes: '' @ extrinsic_hex f x)"

definition debug_fmt_block :: "('blk, 'hdr, 'x) debug_fmt \<Rightarrow> ('blk \<Rightarrow> 'x list) \<Rightarrow> 'blk \<Rightarrow> string" where
  "debug_fmt_block f extrinsics block =
     writeln ''Header:'' @ writeln (header_debug f (block_header f block)) @
     writeln (''Block bytes: '' @ block_hex f block) @
     writeln (''Extrinsics ('' @ nat_display f (length (extrinsics block)) @ '')'') @
     concat (map (\<lambda>(idx, x). writeln (''- '' @ nat_display f idx @ '':'') @ debug_fmt_extrinsic f x)
       (enumerate 0 (extrinsics block)))"

section \<open>The command\<close>

datatype inspect_subcmd = Block_cmd string | Extrinsic_cmd string

text \<open>\<open>show_error\<close> formats an error of the inspector; the result is the printed text.\<close>

definition inspect_run ::
  "('hash, 'n) parsers \<Rightarrow> ('err, ('hash, 'n, 'hdr, 'x, 'blk, 'c, 'b) chain) result \<Rightarrow> ('err \<Rightarrow> string) \<Rightarrow>
   (('c, 'b) inspect_error \<Rightarrow> string) \<Rightarrow> ('blk \<Rightarrow> string) \<Rightarrow> ('x \<Rightarrow> string) \<Rightarrow> inspect_subcmd \<Rightarrow>
   (string, string) result" where
  "inspect_run ps client client_error show_error fmt_block fmt_extrinsic command =
     (case client of
        Inl e \<Rightarrow> Inl (client_error e)
      | Inr ch \<Rightarrow>
          (case command of
             Block_cmd input \<Rightarrow>
               (case block_address_from_str ps input of
                  Inl e \<Rightarrow> Inl e
                | Inr a \<Rightarrow>
                    (case inspect_block ch fmt_block a of Inl e \<Rightarrow> Inl (show_error e) | Inr res \<Rightarrow> Inr res))
           | Extrinsic_cmd input \<Rightarrow>
               (case extrinsic_address_from_str ps input of
                  Inl e \<Rightarrow> Inl e
                | Inr a \<Rightarrow>
                    (case inspect_extrinsic ch fmt_extrinsic a of Inl e \<Rightarrow> Inl (show_error e) | Inr res \<Rightarrow> Inr res))))"

lemma block_at_ok_iff:
  "block_at ch bid = Inr blk \<longleftrightarrow>
   (\<exists>header body. block_body ch bid = Inr (Some body) \<and> chain_header ch bid = Inr (Some header) \<and>
      blk = block_new ch header body)"
  by (auto simp: block_at_def Let_def split: sum.splits option.splits)

text \<open>
  Inspecting an extrinsic of a stored block prints exactly the extrinsic at the index, when the database has the body and the
  header of the block and the body has that many extrinsics; when one of the two is missing, or the index is past
  the end, the error is \<open>NotFound\<close>, and a failure of the database is passed on, that of the body before that of the header.
\<close>

theorem inspect_extrinsic_stored:
  assumes "\<And>header body. block_extrinsics ch (block_new ch header body) = body"
  shows "(inspect_extrinsic ch fmt_extrinsic (Block_extrinsic (Number_address n) i) = Inr out \<longleftrightarrow>
      (\<exists>header body. block_body ch (Id_number n) = Inr (Some body) \<and> chain_header ch (Id_number n) = Inr (Some header)
         \<and> i < length body \<and> out = fmt_extrinsic (body ! i)))
    \<and> ((\<exists>msg. inspect_extrinsic ch fmt_extrinsic (Block_extrinsic (Number_address n) i) = Inl (NotFound msg)) \<longleftrightarrow>
      (case block_body ch (Id_number n) of
         Inl _ \<Rightarrow> False
       | Inr None \<Rightarrow> True
       | Inr (Some body) \<Rightarrow>
           (case chain_header ch (Id_number n) of
              Inl _ \<Rightarrow> False | Inr None \<Rightarrow> True | Inr (Some header) \<Rightarrow> length body \<le> i)))"
  using assms
  by (auto simp: inspect_extrinsic_def get_block_def block_at_def Let_def split: sum.splits option.splits)

definition demo_chain :: "(nat, nat, string, string, string \<times> string list, string, string) chain" where
  "demo_chain = \<lparr>
     block_body = (\<lambda>bid. if bid = Id_number 1 then Inr (Some [''set'', ''vote'']) else Inr None),
     chain_header = (\<lambda>bid. Inr (Some ''header'')), block_new = Pair, block_extrinsics = snd,
     decode_block = (\<lambda>_. Inl ''codec''), decode_extrinsic = (\<lambda>_. Inl ''codec''),
     show_id = (\<lambda>_. ''id''), show_block = (\<lambda>_. ''block''), show_index = (\<lambda>_. ''i'')\<rparr>"

theorem inspect_extrinsic_stored_witness:
  "inspect_extrinsic demo_chain id (Block_extrinsic (Number_address 1) 1) = Inr ''vote''
   \<and> (\<exists>msg. inspect_extrinsic demo_chain id (Block_extrinsic (Number_address 1) 2) = Inl (NotFound msg))"
proof -
  have *: "block_extrinsics demo_chain (block_new demo_chain header body) = body" for header body
    by (simp add: demo_chain_def)
  show ?thesis
    using inspect_extrinsic_stored [OF *, of id 1 1 "''vote''"] inspect_extrinsic_stored [OF *, of id 1 2]
    by (simp add: demo_chain_def)
qed

end
