(* ===== verification/Node_Cli.thy ===== *)
theory Node_Cli
  imports Node_Service Node_Inspector
begin

text \<open>
  Signed transactions of the service (\<open>cli/src/service.rs\<close>), the command line (\<open>cli/src/cli.rs\<close>,
  \<open>cli/src/command.rs\<close>) and the RPC extensions (\<open>rpc/src/lib.rs\<close>). The client, the commands of the client library
  and the chain specifications are parameters.
\<close>

section \<open>Signed transactions\<close>

record ('call, 'era, 'asset, 'payload, 'bytes, 'sig, 'pair, 'public, 'hash, 'xt) xt_env =
  block_hash :: "u32 \<Rightarrow> 'hash option"
  best_hash :: 'hash
  best_number :: BlockNumber
  account_nonce :: "'hash \<Rightarrow> 'public \<Rightarrow> u32"
  pair_public :: "'pair \<Rightarrow> 'public"
  xt_era_mortal :: "u64 \<Rightarrow> u64 \<Rightarrow> 'era"
  payload_from_raw ::
    "'call \<Rightarrow> ('era, 'asset) signed_extension list \<Rightarrow> u32 \<times> u32 \<times> 'hash \<times> 'hash \<Rightarrow> 'payload"
  payload_encoded :: "'payload \<Rightarrow> 'bytes"
  pair_sign :: "'pair \<Rightarrow> 'bytes \<Rightarrow> 'sig"
  new_signed :: "'call \<Rightarrow> 'public \<Rightarrow> 'sig \<Rightarrow> ('era, 'asset) signed_extension list \<Rightarrow> 'xt"

definition fetch_nonce ::
  "('call, 'era, 'asset, 'payload, 'bytes, 'sig, 'pair, 'public, 'hash, 'xt) xt_env \<Rightarrow> 'pair \<Rightarrow> u32" where
  "fetch_nonce env account = account_nonce env (best_hash env) (pair_public env account)"

text \<open>
  \<open>create_extrinsic\<close>; \<open>None\<close> is the panic without a genesis block. Of the additional signed data only the versions
  and the two hashes are not empty.
\<close>

definition create_extrinsic ::
  "('call, 'era, 'asset, 'payload, 'bytes, 'sig, 'pair, 'public, 'hash, 'xt) xt_env \<Rightarrow> 'pair \<Rightarrow> 'call \<Rightarrow>
   u32 option \<Rightarrow> 'xt option" where
  "create_extrinsic env sender function nonce =
     (case block_hash env 0 of
        None \<Rightarrow> None
      | Some genesis_hash \<Rightarrow>
          (let best = best_hash env;
               best_block = best_number env;
               nonce = (case nonce of Some n \<Rightarrow> n | None \<Rightarrow> fetch_nonce env sender);
               period = mortal_period BlockHashCount;
               tip = 0;
               extra = signed_extra (xt_era_mortal env period (ucast best_block)) nonce tip None;
               raw_payload = payload_from_raw env function extra
                 (spec_version VERSION, transaction_version VERSION, genesis_hash, best);
               signature = pair_sign env sender (payload_encoded env raw_payload)
           in Some (new_signed env function (pair_public env sender) signature extra)))"

text \<open>
  The transaction of \<open>create_extrinsic\<close> is signed over the call, the extensions it carries, the
  runtime's two versions, the genesis hash and the best hash; its era starts at the best block and lasts 2048
  blocks, and a missing nonce is that of the sender's account at the best block.
\<close>

theorem create_extrinsic_signs:
  assumes "block_hash env 0 = Some genesis"
  defines "extra n \<equiv> signed_extra (xt_era_mortal env 2048 (ucast (best_number env))) n 0 None"
  shows "create_extrinsic env sender call nonce =
    (let n = (case nonce of Some n \<Rightarrow> n | None \<Rightarrow> account_nonce env (best_hash env) (pair_public env sender)) in
     Some (new_signed env call (pair_public env sender)
       (pair_sign env sender (payload_encoded env
          (payload_from_raw env call (extra n) (268, 2, genesis, best_hash env)))) (extra n)))"
proof -
  have "mortal_period BlockHashCount = 2048"
    by (rule runtime_mortal_period)
  then show ?thesis
    using assms(1)
    by (cases nonce) (simp_all add: create_extrinsic_def fetch_nonce_def extra_def VERSION_def Let_def)
qed

definition demo_xt_env ::
  "(string, u64 \<times> u64, unit, string \<times> u32 \<times> u32 \<times> nat \<times> nat, string \<times> u32 \<times> u32 \<times> nat \<times> nat,
    string \<times> u32 \<times> u32 \<times> nat \<times> nat, nat, nat, nat, u32 list) xt_env" where
  "demo_xt_env = \<lparr>block_hash = (\<lambda>n. if n = 0 then Some 77 else None), best_hash = 99, best_number = 5,
     account_nonce = (\<lambda>h p. 3), pair_public = (\<lambda>p. p), xt_era_mortal = Pair,
     payload_from_raw = (\<lambda>call extra (a, b, g, h). (call, a, b, g, h)), payload_encoded = (\<lambda>p. p),
     pair_sign = (\<lambda>k p. p),
     new_signed = (\<lambda>call who sig extra. List.map_filter (\<lambda>x. case x of CheckNonce n \<Rightarrow> Some n | _ \<Rightarrow> None) extra)\<rparr>"

theorem create_extrinsic_signs_witness:
  "create_extrinsic demo_xt_env 1 ''vote'' None = Some [3]"
  using create_extrinsic_signs [of demo_xt_env 77 1 "''vote''" None]
  by (simp add: demo_xt_env_def signed_extra_def map_filter_simps)

section \<open>The command line\<close>

text \<open>The subcommands; each carries what its own code does (the client library's commands) as \<open>'cmd\<close>.\<close>

datatype 'cmd subcommand =
    Inspect 'cmd
  | Benchmark 'cmd
  | TryRuntime
  | Key 'cmd
  | Verify_cmd 'cmd
  | Vanity 'cmd
  | Sign 'cmd
  | BuildSpec 'cmd
  | CheckBlock 'cmd
  | ExportBlocks 'cmd
  | ExportState 'cmd
  | ImportBlocks 'cmd
  | PurgeChain 'cmd
  | Revert 'cmd

datatype component = Client | Import_queue | Backend | Database | Chain_spec | Network

text \<open>
  What \<open>run\<close> decides for a command: run it on its own, run it synchronously with parts of a configuration, build a
  partial node and run it with some of its components, start a full node, or refuse.
\<close>

datatype 'cmd outcome =
    Run_directly 'cmd
  | Sync_run 'cmd "component list"
  | Async_run 'cmd "component list"
  | Run_node
  | Refuse string

definition run ::
  "bool \<Rightarrow> ('cmd option \<Rightarrow> (string, unit) result) \<Rightarrow> 'cmd subcommand option \<Rightarrow> (string, 'cmd outcome) result" where
  "run runtime_benchmarks create_runner subcommand =
     (let with_runner = (\<lambda>cmd out. case create_runner cmd of Inl e \<Rightarrow> Inl e | Inr _ \<Rightarrow> Inr out) in
      case subcommand of
        None \<Rightarrow> with_runner None Run_node
      | Some (Inspect cmd) \<Rightarrow> with_runner (Some cmd) (Sync_run cmd [])
      | Some (Benchmark cmd) \<Rightarrow>
          if runtime_benchmarks then with_runner (Some cmd) (Sync_run cmd [])
          else Inr (Refuse (''Benchmarking wasn't enabled when building the node. '' @
                 ''You can enable it with `--features runtime-benchmarks`.''))
      | Some (Key cmd) \<Rightarrow> Inr (Run_directly cmd)
      | Some (Sign cmd) \<Rightarrow> Inr (Run_directly cmd)
      | Some (Verify_cmd cmd) \<Rightarrow> Inr (Run_directly cmd)
      | Some (Vanity cmd) \<Rightarrow> Inr (Run_directly cmd)
      | Some (BuildSpec cmd) \<Rightarrow> with_runner (Some cmd) (Sync_run cmd [Chain_spec, Network])
      | Some (CheckBlock cmd) \<Rightarrow> with_runner (Some cmd) (Async_run cmd [Client, Import_queue])
      | Some (ExportBlocks cmd) \<Rightarrow> with_runner (Some cmd) (Async_run cmd [Client, Database])
      | Some (ExportState cmd) \<Rightarrow> with_runner (Some cmd) (Async_run cmd [Client, Chain_spec])
      | Some (ImportBlocks cmd) \<Rightarrow> with_runner (Some cmd) (Async_run cmd [Client, Import_queue])
      | Some (PurgeChain cmd) \<Rightarrow> with_runner (Some cmd) (Sync_run cmd [Database])
      | Some (Revert cmd) \<Rightarrow> with_runner (Some cmd) (Async_run cmd [Client, Backend])
      | Some TryRuntime \<Rightarrow>
          Inr (Refuse (''TryRuntime wasn't enabled when building the node. '' @
            ''You can enable it with `--features try-runtime`.'')))"

record 'spec specs =
  development_config :: 'spec
  local_testnet_config :: 'spec
  flaming_fir_config :: "(string, 'spec) result"
  staging_testnet_config :: 'spec
  from_json_file :: "string \<Rightarrow> (string, 'spec) result"

definition load_spec :: "'spec specs \<Rightarrow> string \<Rightarrow> (string, 'spec) result" where
  "load_spec ss chain =
     (if chain = '''' then Inl ''Please specify which chain you want to run, e.g. --dev or --chain=local''
      else if chain = ''dev'' then Inr (development_config ss)
      else if chain = ''local'' then Inr (local_testnet_config ss)
      else if chain = ''fir'' \<or> chain = ''flaming-fir'' then flaming_fir_config ss
      else if chain = ''staging'' then Inr (staging_testnet_config ss)
      else from_json_file ss chain)"

lemma load_spec_names:
  "load_spec ss ''dev'' = Inr (development_config ss)" "load_spec ss ''fir'' = load_spec ss ''flaming-fir''"
  "load_spec ss '''' = Inl e \<longleftrightarrow> e = ''Please specify which chain you want to run, e.g. --dev or --chain=local''"
  by (auto simp: load_spec_def)

section \<open>RPC extensions\<close>

text \<open>
  The shared parts that the RPC extensions are given, as \<open>'v\<close>: of the client, of BABE and of GRANDPA.
\<close>

record 'v babe_deps =
  bd_babe_config :: 'v
  bd_shared_epoch_changes :: 'v
  bd_keystore :: 'v

record 'v grandpa_deps =
  gd_shared_voter_state :: 'v
  gd_shared_authority_set :: 'v
  gd_justification_stream :: 'v
  gd_subscription_executor :: 'v
  gd_finality_provider :: 'v

record 'v full_deps =
  fd_client :: 'v
  fd_pool :: 'v
  fd_select_chain :: 'v
  fd_chain_spec :: 'v
  fd_deny_unsafe :: 'v
  fd_babe :: "'v babe_deps"
  fd_grandpa :: "'v grandpa_deps"

datatype rpc_extension = System_api | Contracts_api | Mmr_api | TransactionPayment_api | Babe_api | Grandpa_api
  | SyncState_api

text \<open>
  \<open>create_full\<close> registers the extensions in order, each with what its handler is made of; only the handler of the sync
  state can fail to be built.
\<close>

definition create_full ::
  "('v list \<Rightarrow> (string, unit) result) \<Rightarrow> 'v full_deps \<Rightarrow> (string, (rpc_extension \<times> 'v list) list) result" where
  "create_full sync_state_handler deps =
     (let client = fd_client deps; deny_unsafe = fd_deny_unsafe deps;
          babe = fd_babe deps; grandpa = fd_grandpa deps;
          io = [];
          io = io @ [(System_api, [client, fd_pool deps, deny_unsafe])];
          io = io @ [(Contracts_api, [client])];
          io = io @ [(Mmr_api, [client])];
          io = io @ [(TransactionPayment_api, [client])];
          io = io @ [(Babe_api, [client, bd_shared_epoch_changes babe, bd_keystore babe, bd_babe_config babe,
                 fd_select_chain deps, deny_unsafe])];
          io = io @ [(Grandpa_api, [gd_shared_authority_set grandpa, gd_shared_voter_state grandpa,
                 gd_justification_stream grandpa, gd_subscription_executor grandpa, gd_finality_provider grandpa])];
          sync_state = [fd_chain_spec deps, client, gd_shared_authority_set grandpa, bd_shared_epoch_changes babe, deny_unsafe]
      in case sync_state_handler sync_state of
           Inl e \<Rightarrow> Inl e
         | Inr _ \<Rightarrow> Inr (io @ [(SyncState_api, sync_state)]))"

text \<open>
  The service's builder of the extensions keeps the shared parts of the partial node and adds, for each connection, the policy for
  unsafe methods and the executor of its subscriptions.
\<close>

record 'v rpc_parts =
  rp_client :: 'v
  rp_pool :: 'v
  rp_select_chain :: 'v
  rp_chain_spec :: 'v
  rp_babe_config :: 'v
  rp_shared_epoch_changes :: 'v
  rp_keystore :: 'v
  rp_shared_voter_state :: 'v
  rp_shared_authority_set :: 'v
  rp_justification_stream :: 'v
  rp_finality_proof_provider :: 'v

definition rpc_extensions_builder ::
  "('v list \<Rightarrow> (string, unit) result) \<Rightarrow> 'v rpc_parts \<Rightarrow> 'v \<Rightarrow> 'v \<Rightarrow> (string, (rpc_extension \<times> 'v list) list) result" where
  "rpc_extensions_builder sync_state_handler parts deny_unsafe subscription_executor =
     (let deps = \<lparr>fd_client = rp_client parts, fd_pool = rp_pool parts, fd_select_chain = rp_select_chain parts,
            fd_chain_spec = rp_chain_spec parts, fd_deny_unsafe = deny_unsafe,
            fd_babe = \<lparr>bd_babe_config = rp_babe_config parts,
              bd_shared_epoch_changes = rp_shared_epoch_changes parts, bd_keystore = rp_keystore parts\<rparr>,
            fd_grandpa = \<lparr>gd_shared_voter_state = rp_shared_voter_state parts,
              gd_shared_authority_set = rp_shared_authority_set parts,
              gd_justification_stream = rp_justification_stream parts,
              gd_subscription_executor = subscription_executor,
              gd_finality_provider = rp_finality_proof_provider parts\<rparr>\<rparr>
      in create_full sync_state_handler deps)"

lemma rpc_extension_UNIV:
  "(UNIV :: rpc_extension set) = {System_api, Contracts_api, Mmr_api, TransactionPayment_api, Babe_api, Grandpa_api,
     SyncState_api}"
  using rpc_extension.exhaust by auto

lemma create_full_complete:
  "create_full h deps = Inr io \<Longrightarrow> fst ` set io = UNIV \<and> distinct (map fst io)"
  unfolding rpc_extension_UNIV by (auto simp: create_full_def Let_def split: sum.splits)

text \<open>
  With a policy of its own, the policy for unsafe methods guards exactly the system, BABE and sync state extensions, and the
  node's keystore is in the hands of BABE's alone.
\<close>

lemma rpc_guarded:
  assumes "rpc_extensions_builder h parts deny_unsafe executor = Inr io"
    and "deny_unsafe \<notin> {rp_client parts, rp_pool parts, rp_select_chain parts, rp_chain_spec parts, rp_babe_config parts,
      rp_shared_epoch_changes parts, rp_keystore parts, rp_shared_voter_state parts, rp_shared_authority_set parts,
      rp_justification_stream parts, rp_finality_proof_provider parts, executor}"
  shows "{api. \<exists>args. (api, args) \<in> set io \<and> deny_unsafe \<in> set args} = {System_api, Babe_api, SyncState_api}"
  using assms by (auto simp: rpc_extensions_builder_def create_full_def Let_def split: sum.splits)

lemma rpc_keystore:
  assumes "rpc_extensions_builder h parts deny_unsafe executor = Inr io"
    and "rp_keystore parts \<notin> {rp_client parts, rp_pool parts, rp_select_chain parts, rp_chain_spec parts, rp_babe_config parts,
      rp_shared_epoch_changes parts, rp_shared_voter_state parts, rp_shared_authority_set parts,
      rp_justification_stream parts, rp_finality_proof_provider parts, deny_unsafe, executor}"
  shows "{api. \<exists>args. (api, args) \<in> set io \<and> rp_keystore parts \<in> set args} = {Babe_api}"
  using assms by (auto simp: rpc_extensions_builder_def create_full_def Let_def split: sum.splits)

text \<open>
  A command gets a partial node exactly when it works on the blocks or the state of a chain, a full node exactly when there is no
  subcommand, and without the build features the two that need them are refused before any configuration is read.
\<close>

theorem run_outcomes:
  "(run benchmarks create_runner sub = Inr Run_node \<longleftrightarrow> sub = None \<and> create_runner None = Inr ())
   \<and> ((\<exists>parts. run benchmarks create_runner sub = Inr (Async_run cmd parts) \<and> Client \<in> set parts) \<longleftrightarrow>
        sub \<in> Some ` {CheckBlock cmd, ExportBlocks cmd, ExportState cmd, ImportBlocks cmd, Revert cmd}
        \<and> create_runner (Some cmd) = Inr ())
   \<and> ((\<exists>msg. run benchmarks create_runner sub = Inr (Refuse msg)) \<longleftrightarrow>
        sub = Some TryRuntime \<or> \<not> benchmarks \<and> (\<exists>cmd. sub = Some (Benchmark cmd)))"
proof (cases sub)
  case None
  then show ?thesis
    by (cases "create_runner None") (simp_all add: run_def)
next
  case (Some sc)
  then show ?thesis
    by (cases sc; cases "create_runner (Some cmd)") (auto simp: run_def split: sum.splits)
qed

end
