(* ===== verification/Runtime_Ratios.thy ===== *)
theory Runtime_Ratios
  imports Runtime_Delegation
begin

text \<open>
  The rest of \<open>runtime/src/lib.rs\<close>: parameters that are ratios or computed by the framework, the configurations of the
  benchmarks of other pallets, the assertions that are checked when the runtime is compiled, the session keys, and the
  remaining methods of the runtime APIs. The ratio types and the block limits are the framework's and
  parameters; a ratio is the number of its parts.
\<close>

section \<open>Ratios\<close>

text \<open>
  Beside the \<open>Perbill\<close> of \<open>weight_env\<close>: a \<open>Permill\<close> and a \<open>Percent\<close> from percents, a \<open>Perbill\<close> from a quotient, its product with a
  \<open>u32\<close>, and the maximal length of the blocks for normal extrinsics, from the maximal length and the normal ratio.
\<close>

record ratio_env = weight_env +
  permill_percent :: "u32 \<Rightarrow> u32"
  percent_percent :: "u8 \<Rightarrow> u8"
  perbill_rational :: "u32 \<Rightarrow> u32 \<Rightarrow> u32"
  perbill_times :: "u32 \<Rightarrow> u32 \<Rightarrow> u32"
  normal_block_length :: "u32 \<Rightarrow> u32 \<Rightarrow> u32"

definition RuntimeBlockLength_normal :: "ratio_env \<Rightarrow> u32" where
  "RuntimeBlockLength_normal env =
     normal_block_length env (5 * 1024 * 1024) (NORMAL_DISPATCH_RATIO (weight_env.truncate env))"

definition OffendingValidatorsThreshold :: "ratio_env \<Rightarrow> u32" where
  "OffendingValidatorsThreshold env = from_percent env 17"

definition SolutionImprovementThreshold :: "ratio_env \<Rightarrow> u32" where
  "SolutionImprovementThreshold env = perbill_rational env 1 10000"

definition MinerMaxLength :: "ratio_env \<Rightarrow> u32" where
  "MinerMaxLength env = perbill_times env (perbill_rational env 9 10) (RuntimeBlockLength_normal env)"

definition ProposalBond :: "ratio_env \<Rightarrow> u32" where "ProposalBond env = permill_percent env 5"
definition Burn :: "ratio_env \<Rightarrow> u32" where "Burn env = permill_percent env 50"
definition TipFindersFee :: "ratio_env \<Rightarrow> u8" where "TipFindersFee env = percent_percent env 20"
definition BountyCuratorDeposit :: "ratio_env \<Rightarrow> u32" where "BountyCuratorDeposit env = permill_percent env 50"
definition ChildBountyCuratorDepositBase :: "ratio_env \<Rightarrow> u32" where
  "ChildBountyCuratorDepositBase env = permill_percent env 10"

text \<open>The issuance that the gilt pallet ignores is the pot of the treasury.\<close>

definition IgnoredIssuance :: "Balance \<Rightarrow> Balance" where "IgnoredIssuance treasury_pot = treasury_pot"

text \<open>The votes of a nominator are limited by the type of the solutions.\<close>

definition NposSolution16_LIMIT :: nat where "NposSolution16_LIMIT = 16"

definition MaxNominations :: u32 where "MaxNominations = word_of_nat NposSolution16_LIMIT"

section \<open>Configurations of benchmarks\<close>

record staking_benchmarking =
  sb_MaxNominators :: u32
  sb_MaxValidators :: u32

definition StakingBenchmarkingConfig :: staking_benchmarking where
  "StakingBenchmarkingConfig = \<lparr>sb_MaxNominators = 1000, sb_MaxValidators = 1000\<rparr>"

record election_benchmarking =
  VOTERS :: "u32 \<times> u32"
  TARGETS :: "u32 \<times> u32"
  ACTIVE_VOTERS :: "u32 \<times> u32"
  DESIRED_TARGETS :: "u32 \<times> u32"
  SNAPSHOT_MAXIMUM_VOTERS :: u32
  MINER_MAXIMUM_VOTERS :: u32
  MAXIMUM_TARGETS :: u32

definition ElectionProviderBenchmarkConfig :: election_benchmarking where
  "ElectionProviderBenchmarkConfig = \<lparr>VOTERS = (1000, 2000), TARGETS = (500, 1000), ACTIVE_VOTERS = (500, 800),
     DESIRED_TARGETS = (200, 400), SNAPSHOT_MAXIMUM_VOTERS = 1000, MINER_MAXIMUM_VOTERS = 1000, MAXIMUM_TARGETS = 300\<rparr>"

section \<open>Assertions at compile time\<close>

definition normal_ratio_asserted :: "weight_env \<Rightarrow> bool" where
  "normal_ratio_asserted env \<longleftrightarrow> NORMAL_DISPATCH_RATIO env \<ge> AVERAGE_ON_INITIALIZE_RATIO env"

definition members_asserted :: bool where
  "members_asserted \<longleftrightarrow> DesiredMembers \<le> CouncilMaxMembers"

text \<open>
  The test of the accuracy on chain: the sum of as many whole ratios as there are nominations, added one after another
  with a check for overflow in the upper type of the ratio, \<open>u64\<close>.
\<close>

definition checked_add_u64 :: "u64 \<Rightarrow> u64 \<Rightarrow> u64 option" where
  "checked_add_u64 a b = (if unat a + unat b < 2 ^ 64 then Some (a + b) else None)"

definition perbill_as_onchain_accuracy :: "u32 \<Rightarrow> u64 option" where
  "perbill_as_onchain_accuracy one =
     (let maximum_chain_accuracy = map (\<lambda>_. ucast one :: u64) [0 ..< unat MaxNominations]
      in fold (\<lambda>x acc. case acc of None \<Rightarrow> None | Some a \<Rightarrow> checked_add_u64 a x) maximum_chain_accuracy (Some 0))"

section \<open>Session keys\<close>

text \<open>The fields of the session keys, each with the pallet whose key it is.\<close>

definition SessionKeys :: "(string \<times> pallet) list" where
  "SessionKeys = [(''grandpa'', Grandpa), (''babe'', Babe), (''im_online'', ImOnline),
     (''authority_discovery'', AuthorityDiscovery)]"

section \<open>Runtime and APIs\<close>

definition wasm_binary_unwrap :: "u8 list option \<Rightarrow> u8 list option" where
  "wasm_binary_unwrap wasm_binary = (case wasm_binary of None \<Rightarrow> None | Some code \<Rightarrow> Some code)"

definition native_version :: "'s \<Rightarrow> runtime_version \<times> 's" where
  "native_version default_can_author_with = (VERSION, default_can_author_with)"

definition babe_generate_key_ownership_proof ::
  "('t \<times> 'id \<Rightarrow> 'p option) \<Rightarrow> ('p \<Rightarrow> u8 list) \<Rightarrow> 't \<Rightarrow> 'slot \<Rightarrow> 'id \<Rightarrow> u8 list option" where
  "babe_generate_key_ownership_proof prove encode key_type slot authority_id =
     map_option encode (prove (key_type, authority_id))"

definition babe_submit_report_equivocation ::
  "('k \<Rightarrow> 'p option) \<Rightarrow> ('e \<Rightarrow> 'p \<Rightarrow> unit option) \<Rightarrow> 'e \<Rightarrow> 'k \<Rightarrow> unit option" where
  "babe_submit_report_equivocation decode submit equivocation_proof key_owner_proof =
     (case decode key_owner_proof of None \<Rightarrow> None | Some proof \<Rightarrow> submit equivocation_proof proof)"

text \<open>\<open>data\<close> makes a node of the data of a leaf.\<close>

definition mmr_verify_proof_stateless ::
  "('leaf \<Rightarrow> 'opaque) \<Rightarrow> ('opaque \<Rightarrow> 'node) \<Rightarrow> ('root \<Rightarrow> 'node \<Rightarrow> 'proof \<Rightarrow> ('e, unit) result) \<Rightarrow>
   'root \<Rightarrow> 'leaf \<Rightarrow> 'proof \<Rightarrow> ('e, unit) result" where
  "mmr_verify_proof_stateless into_opaque_leaf data verify_leaf_proof mmr_root leaf proof =
     (let node = data (into_opaque_leaf leaf) in verify_leaf_proof mmr_root node proof)"

text \<open>The hooks of try-runtime; a failing migration check panics.\<close>

definition on_runtime_upgrade :: "u64 option \<Rightarrow> u64 \<Rightarrow> (u64 \<times> u64) option" where
  "on_runtime_upgrade try_runtime_upgrade max_block =
     (case try_runtime_upgrade of None \<Rightarrow> None | Some weight \<Rightarrow> Some (weight, max_block))"

text \<open>
  The list of the benchmarks with the storage of the pallets, and the batches of a benchmark that is asked for; what a pallet
  lists or adds is the framework's.
\<close>

definition benchmark_metadata ::
  "(bool \<Rightarrow> pallet option \<Rightarrow> 'b list) \<Rightarrow> 's list \<Rightarrow> bool \<Rightarrow> 'b list \<times> 's list" where
  "benchmark_metadata list_benchmark storage_info extra =
     (fold (\<lambda>p listed. listed @ list_benchmark extra p) define_benchmarks [], storage_info)"

fun add_benchmarks ::
  "(string list \<Rightarrow> pallet option \<Rightarrow> (string, 'b list) result) \<Rightarrow> pallet option list \<Rightarrow> 'b list \<Rightarrow> (string, 'b list) result" where
  "add_benchmarks add_benchmark [] batches = Inr batches"
| "add_benchmarks add_benchmark (p # ps) batches =
     (case add_benchmark benchmark_whitelist p of
        Inl e \<Rightarrow> Inl e
      | Inr new \<Rightarrow> add_benchmarks add_benchmark ps (batches @ new))"

definition dispatch_benchmark ::
  "(string list \<Rightarrow> pallet option \<Rightarrow> (string, 'b list) result) \<Rightarrow> (string, 'b list) result" where
  "dispatch_benchmark add_benchmark = add_benchmarks add_benchmark define_benchmarks []"

section \<open>Lemmas\<close>

text \<open>The documented meaning of the ratio types.\<close>

definition lawful_ratios :: "ratio_env \<Rightarrow> bool" where
  "lawful_ratios env \<longleftrightarrow>
     (\<forall>p. unat p \<le> 100 \<longrightarrow> unat (from_percent env p) = unat p * 10 ^ 7)
     \<and> (\<forall>p. unat p \<le> 100 \<longrightarrow> unat (permill_percent env p) = unat p * 10 ^ 4)
     \<and> (\<forall>p. unat p \<le> 100 \<longrightarrow> percent_percent env p = p)
     \<and> (\<forall>p q. 0 < q \<and> p \<le> q \<longrightarrow> unat (perbill_rational env p q) = unat p * 10 ^ 9 div unat q)
     \<and> (\<forall>r n. unat r \<le> 10 ^ 9 \<longrightarrow> perbill_times env r n \<le> n)
     \<and> (\<forall>m r. unat r \<le> 10 ^ 9 \<longrightarrow> normal_block_length env m r \<le> m)"

lemma lawful_ratios_percent:
  assumes "lawful_ratios env"
  shows "unat p \<le> 100 \<Longrightarrow> unat (from_percent env p) = unat p * 10 ^ 7"
    and "unat p \<le> 100 \<Longrightarrow> unat (permill_percent env p) = unat p * 10 ^ 4"
    and "unat q \<le> 100 \<Longrightarrow> percent_percent env q = q"
    and "0 < b \<Longrightarrow> a \<le> b \<Longrightarrow> unat (perbill_rational env a b) = unat a * 10 ^ 9 div unat b"
    and "unat r \<le> 10 ^ 9 \<Longrightarrow> perbill_times env r n \<le> n"
    and "unat r \<le> 10 ^ 9 \<Longrightarrow> normal_block_length env m r \<le> m"
  using assms unfolding lawful_ratios_def by blast+

lemma benchmark_metadata_concat:
  "fst (benchmark_metadata list_benchmark info extra) = concat (map (list_benchmark extra) define_benchmarks)"
proof -
  have "fold (\<lambda>p listed. listed @ list_benchmark extra p) ps acc = acc @ concat (map (list_benchmark extra) ps)" for ps acc
    by (induction ps arbitrary: acc) simp_all
  then show ?thesis by (simp add: benchmark_metadata_def)
qed

lemma add_benchmarks_Inr:
  "add_benchmarks f ps acc = Inr batches \<longleftrightarrow>
     (\<forall>p \<in> set ps. \<exists>new. f benchmark_whitelist p = Inr new)
     \<and> batches = acc @ concat (map (\<lambda>p. case f benchmark_whitelist p of Inr new \<Rightarrow> new | Inl _ \<Rightarrow> []) ps)"
  by (induction ps arbitrary: acc) (auto split: sum.splits)

text \<open>The benchmarks of the voting pallet are among those listed, and a batch fails only when one of its pallets does.\<close>

lemma voting_benchmarked: "Some Votechain \<in> set define_benchmarks"
  by (simp add: define_benchmarks_def)

lemma dispatch_benchmark_Inr:
  "dispatch_benchmark f = Inr batches \<longleftrightarrow>
     (\<forall>p \<in> set define_benchmarks. \<exists>new. f benchmark_whitelist p = Inr new)
     \<and> batches = concat (map (\<lambda>p. case f benchmark_whitelist p of Inr new \<Rightarrow> new | Inl _ \<Rightarrow> []) define_benchmarks)"
  by (simp add: dispatch_benchmark_def add_benchmarks_Inr)

lemma session_keys_owned:
  "distinct (map snd SessionKeys)" "set (map snd SessionKeys) \<subseteq> set construct_runtime"
  by (simp_all add: SessionKeys_def construct_runtime_def)

lemma members_asserted: members_asserted
  by (simp add: members_asserted_def DesiredMembers_def CouncilMaxMembers_def)

lemma checked_sum:
  "n * unat x < 2 ^ 64 \<Longrightarrow>
     fold (\<lambda>x acc. case acc of None \<Rightarrow> None | Some a \<Rightarrow> checked_add_u64 a x) (replicate n x) (Some 0) = Some (of_nat n * x)"
proof (induction n)
  case (Suc n)
  have "unat (of_nat n * x) = n * unat x"
    using Suc.prems by (simp add: unat_word_ariths unat_of_nat mod_mult_left_eq)
  then show ?case
    using Suc by (simp add: replicate_append_same [symmetric] checked_add_u64_def algebra_simps del: replicate_Suc) 
qed simp

text \<open>
  The ratios of the runtime are consistent: the assertions checked at compile time hold, the sum over the most
  nominations of a nominator of whole ratios does not overflow, solutions of the miner fit a block of normal extrinsics and so the
  five megabytes of a block, and every share of the treasury and the bounties is at most one half.
\<close>

theorem runtime_ratios:
  assumes "lawful_ratios env"
  shows "normal_ratio_asserted (weight_env.truncate env) \<and> members_asserted
    \<and> (unat one \<le> 10 ^ 9 \<longrightarrow> perbill_as_onchain_accuracy one \<noteq> None)
    \<and> MinerMaxLength env \<le> RuntimeBlockLength_normal env \<and> RuntimeBlockLength_normal env \<le> 5242880
    \<and> (\<forall>ratio \<in> {ProposalBond env, Burn env, BountyCuratorDeposit env, ChildBountyCuratorDepositBase env}.
        2 * unat ratio \<le> 10 ^ 6)
    \<and> TipFindersFee env \<le> 50 \<and> 0 < SolutionImprovementThreshold env"
proof -
  note law = lawful_ratios_percent [OF assms]
  have trunc: "from_percent (weight_env.truncate env) = from_percent env"
    by (simp add: weight_env.truncate_def)
  have "normal_ratio_asserted (weight_env.truncate env)"
    using law(1) [of 75] law(1) [of 10]
    by (simp add: normal_ratio_asserted_def NORMAL_DISPATCH_RATIO_def AVERAGE_ON_INITIALIZE_RATIO_def trunc word_le_nat_alt)
  moreover have "perbill_as_onchain_accuracy one \<noteq> None" if "unat one \<le> 10 ^ 9"
  proof -
    have "unat (ucast one :: u64) = unat one"
      by (simp add: unsigned_ucast_eq take_bit_nat_eq_self order_less_le_trans [OF unsigned_less])
    then have "16 * unat (ucast one :: u64) < 2 ^ 64"
      using that by simp
    moreover have "map (\<lambda>_. ucast one :: u64) [0 ..< unat MaxNominations] = replicate 16 (ucast one)"
      by (simp add: map_replicate_const MaxNominations_def NposSolution16_LIMIT_def)
    ultimately show ?thesis
      using checked_sum [of 16 "ucast one"] by (simp add: perbill_as_onchain_accuracy_def Let_def)
  qed
  moreover have "MinerMaxLength env \<le> RuntimeBlockLength_normal env"
    using law(4) [of 10 9] law(5) by (simp add: MinerMaxLength_def)
  moreover have "RuntimeBlockLength_normal env \<le> 5242880"
    using law(1) [of 75] law(6) [of "from_percent env 75" 5242880]
    by (simp add: RuntimeBlockLength_normal_def NORMAL_DISPATCH_RATIO_def trunc)
  moreover have "2 * unat (permill_percent env p) \<le> 10 ^ 6" if "p \<in> {5, 50, 10}" for p
    using law(2) [of p] that by auto
  moreover have "TipFindersFee env \<le> 50"
    using law(3) [of 20] by (simp add: TipFindersFee_def)
  moreover have "0 < SolutionImprovementThreshold env"
    using law(4) [of 10000 1] by (simp add: SolutionImprovementThreshold_def word_gt_0 flip: unat_eq_zero)
  ultimately show ?thesis
    using members_asserted
    by (simp add: ProposalBond_def Burn_def BountyCuratorDeposit_def ChildBountyCuratorDepositBase_def)
qed

definition demo_ratios :: ratio_env where
  "demo_ratios = \<lparr>from_percent = (\<lambda>p. p * 10000000), ratio_times = (\<lambda>p w. w), WEIGHT_PER_SECOND = 1000000000000,
     permill_percent = (\<lambda>p. p * 10000), percent_percent = id,
     perbill_rational = (\<lambda>p q. word_of_nat (unat p * 10 ^ 9 div unat q)),
     perbill_times = (\<lambda>r n. word_of_nat (unat n * unat r div 10 ^ 9)),
     normal_block_length = (\<lambda>m r. word_of_nat (unat m * unat r div 10 ^ 9))\<rparr>"

lemma share_le: "unat r \<le> 10 ^ 9 \<Longrightarrow> word_of_nat (unat n * unat r div 10 ^ 9) \<le> (n :: u32)"
proof -
  assume "unat r \<le> 10 ^ 9"
  then have "unat n * unat r div 10 ^ 9 \<le> unat n * 10 ^ 9 div 10 ^ 9"
    by (intro div_le_mono mult_le_mono) simp_all
  then have "word_of_nat (unat n * unat r div 10 ^ 9) \<le> (word_of_nat (unat n) :: u32)"
    using unsigned_less [of n, where 'a = nat] by (subst word_of_nat_less_eq_iff) (simp add: take_bit_nat_eq_self)
  then show ?thesis by simp
qed

lemma demo_ratios_lawful: "lawful_ratios demo_ratios"
proof -
  have "unat (word_of_nat (unat p * 10 ^ 9 div unat q) :: u32) = unat p * 10 ^ 9 div unat q"
    if "0 < q" "p \<le> q" for p q :: u32
  proof -
    have "unat p * 10 ^ 9 div unat q \<le> unat q * 10 ^ 9 div unat q"
      using that by (intro div_le_mono mult_le_mono) (simp_all add: word_le_nat_alt)
    also have "\<dots> = 10 ^ 9"
      using that by (simp add: word_gt_0 unat_gt_0)
    finally have "unat p * 10 ^ 9 div unat q \<le> 10 ^ 9" .
    then show ?thesis by (simp add: unat_of_nat)
  qed
  then show ?thesis
    by (simp add: lawful_ratios_def demo_ratios_def unat_word_ariths share_le [simplified])
qed

theorem runtime_ratios_witness:
  "MinerMaxLength demo_ratios \<le> RuntimeBlockLength_normal demo_ratios
   \<and> perbill_as_onchain_accuracy 1000000000 \<noteq> None"
  using runtime_ratios [OF demo_ratios_lawful, of 1000000000] by simp

end
