(* ===== verification/Node_Genesis.thy ===== *)
theory Node_Genesis
  imports Node_Cli Runtime_Ratios "HOL-Library.Multiset"
begin

text \<open>
  The genesis configurations of the node (\<open>cli/src/chain_spec.rs\<close>) and of the test support
  (\<open>testing/src/genesis.rs\<close>). Account ids and public keys are type parameters, their derivation from seeds and the random
  choices are parameters; a \<open>None\<close> is a panic. Only the parts of a genesis that the code fills are fields: all
  others have their defaults. \<open>wasm_binary\<close> is the runtime that the build may have embedded, the code of a genesis.
\<close>

section \<open>The genesis\<close>

record 'k session_keys =
  sk_grandpa :: 'k
  sk_babe :: 'k
  sk_im_online :: 'k
  sk_authority_discovery :: 'k

definition session_keys :: "'k \<Rightarrow> 'k \<Rightarrow> 'k \<Rightarrow> 'k \<Rightarrow> 'k session_keys" where
  "session_keys grandpa babe im_online authority_discovery =
     \<lparr>sk_grandpa = grandpa, sk_babe = babe, sk_im_online = im_online,
      sk_authority_discovery = authority_discovery\<rparr>"

text \<open>An initial authority: stash, controller and the four session keys.\<close>

record ('a, 'k) authority =
  stash :: 'a
  controller :: 'a
  grandpa_id :: 'k
  babe_id :: 'k
  im_online_id :: 'k
  authority_discovery_id :: 'k

datatype 'a staker_status = Validator | Nominator "'a list"

record ('a, 'k) genesis =
  g_code :: "u8 list"
  g_balances :: "('a \<times> Balance) list"
  g_session_keys :: "('a \<times> 'a \<times> 'k session_keys) list"
  g_validator_count :: u32
  g_minimum_validator_count :: u32
  g_invulnerables :: "'a list"
  g_slash_reward_percent :: u32
  g_stakers :: "('a \<times> 'a \<times> Balance \<times> 'a staker_status) list"
  g_elections_members :: "('a \<times> Balance) list"
  g_technical_members :: "'a list"
  g_sudo_key :: "'a option"
  g_babe_epoch_config :: "((u64 \<times> u64) \<times> allowed_slots) option"
  g_society_members :: "'a list"
  g_society_pot :: Balance
  g_society_max_members :: u32

definition ENDOWMENT :: Balance where "ENDOWMENT = 10000000 * DOLLARS"

definition STASH :: Balance where "STASH = ENDOWMENT div 1000"

section \<open>Accounts from seeds\<close>

text \<open>\<open>Pair::from_string\<close> with the account and the public keys it gives; its failure is a panic of the code.\<close>

record ('a, 'k) seeds =
  sr25519_account :: "string \<Rightarrow> 'a option"
  grandpa_public :: "string \<Rightarrow> 'k option"
  babe_public :: "string \<Rightarrow> 'k option"
  im_online_public :: "string \<Rightarrow> 'k option"
  authority_discovery_public :: "string \<Rightarrow> 'k option"

definition get_from_seed :: "(string \<Rightarrow> 'k option) \<Rightarrow> string \<Rightarrow> 'k option" where
  "get_from_seed from_string seed = from_string (''//'' @ seed)"

definition get_account_id_from_seed :: "('a, 'k) seeds \<Rightarrow> string \<Rightarrow> 'a option" where
  "get_account_id_from_seed env seed = get_from_seed (sr25519_account env) seed"

definition authority_keys_from_seed :: "('a, 'k) seeds \<Rightarrow> string \<Rightarrow> ('a, 'k) authority option" where
  "authority_keys_from_seed env seed =
     (case get_account_id_from_seed env (seed @ ''//stash'') of None \<Rightarrow> None | Some st \<Rightarrow>
      (case get_account_id_from_seed env seed of None \<Rightarrow> None | Some co \<Rightarrow>
      (case get_from_seed (grandpa_public env) seed of None \<Rightarrow> None | Some gr \<Rightarrow>
      (case get_from_seed (babe_public env) seed of None \<Rightarrow> None | Some ba \<Rightarrow>
      (case get_from_seed (im_online_public env) seed of None \<Rightarrow> None | Some im \<Rightarrow>
      (case get_from_seed (authority_discovery_public env) seed of None \<Rightarrow> None | Some ad \<Rightarrow>
        Some \<lparr>stash = st, controller = co, grandpa_id = gr, babe_id = ba, im_online_id = im,
              authority_discovery_id = ad\<rparr>))))))"

text \<open>All results of a list of computations that can panic, in order.\<close>

fun all_some :: "'a option list \<Rightarrow> 'a list option" where
  "all_some [] = Some []"
| "all_some (x # xs) =
     (case x of None \<Rightarrow> None
      | Some y \<Rightarrow> (case all_some xs of None \<Rightarrow> None | Some ys \<Rightarrow> Some (y # ys)))"

definition default_seeds :: "string list" where
  "default_seeds =
     [''Alice'', ''Bob'', ''Charlie'', ''Dave'', ''Eve'', ''Ferdie'',
      ''Alice//stash'', ''Bob//stash'', ''Charlie//stash'', ''Dave//stash'', ''Eve//stash'', ''Ferdie//stash'']"

section \<open>The genesis of a test network\<close>

text \<open>Authorities and nominators that are not endowed yet are added at the end.\<close>

definition endow_all :: "'a list \<Rightarrow> 'a list \<Rightarrow> 'a list" where
  "endow_all xs endowed = fold (\<lambda>x acc. if x \<notin> set acc then acc @ [x] else acc) xs endowed"

text \<open>
  The random generator: a number of type usize, and \<open>choose_multiple\<close> from a list; both return the generator's next
  state.
\<close>

record ('r, 'c) rng =
  gen_usize :: "'r \<Rightarrow> u64 \<times> 'r"
  choose_multiple :: "'c list \<Rightarrow> u64 \<Rightarrow> 'r \<Rightarrow> 'c list \<times> 'r"

text \<open>One nominator; the remainder by a limit of zero panics.\<close>

definition nominator_staker ::
  "('r, ('a, 'k) authority) rng \<Rightarrow> u32 \<Rightarrow> ('a, 'k) authority list \<Rightarrow> 'a \<Rightarrow> 'r \<Rightarrow>
   (('a \<times> 'a \<times> Balance \<times> 'a staker_status) \<times> 'r) option" where
  "nominator_staker env max_nominations initial_authorities x r =
     (let limit = min (ucast max_nominations) (word_of_nat (length initial_authorities)) in
      if limit = 0 then None
      else
        let (n, r) = gen_usize env r;
            count = n mod limit;
            (choice, r) = choose_multiple env initial_authorities count r
        in Some ((x, x, STASH, Nominator (map stash choice)), r))"

fun nominator_stakers ::
  "('r, ('a, 'k) authority) rng \<Rightarrow> u32 \<Rightarrow> ('a, 'k) authority list \<Rightarrow> 'a list \<Rightarrow> 'r \<Rightarrow>
   (('a \<times> 'a \<times> Balance \<times> 'a staker_status) list) option" where
  "nominator_stakers env max_nominations initial_authorities [] r = Some []"
| "nominator_stakers env max_nominations initial_authorities (x # xs) r =
     (case nominator_staker env max_nominations initial_authorities x r of None \<Rightarrow> None
      | Some (s, r) \<Rightarrow>
          (case nominator_stakers env max_nominations initial_authorities xs r of None \<Rightarrow> None
           | Some ss \<Rightarrow> Some (s # ss)))"

definition testnet_genesis ::
  "u8 list option \<Rightarrow> ('a, 'k) seeds \<Rightarrow> ('r, ('a, 'k) authority) rng \<Rightarrow> u32 \<Rightarrow> 'r \<Rightarrow> ('a, 'k) authority list \<Rightarrow> 'a list \<Rightarrow> 'a \<Rightarrow>
   'a list option \<Rightarrow> ('a, 'k) genesis option" where
  "testnet_genesis wasm_binary env rng max_nominations r initial_authorities initial_nominators root_key endowed_accounts =
     (case (case endowed_accounts of Some e \<Rightarrow> Some e
            | None \<Rightarrow> all_some (map (get_account_id_from_seed env) default_seeds)) of
        None \<Rightarrow> None
      | Some endowed_accounts \<Rightarrow>
          (let endowed_accounts = endow_all (map stash initial_authorities @ initial_nominators) endowed_accounts in
           case nominator_stakers rng max_nominations initial_authorities initial_nominators r of
             None \<Rightarrow> None
           | Some nominators \<Rightarrow>
           case wasm_binary_unwrap wasm_binary of
             None \<Rightarrow> None
           | Some code \<Rightarrow>
               (let stakers = map (\<lambda>x. (stash x, controller x, STASH, Validator)) initial_authorities @ nominators;
                    num_endowed_accounts = length endowed_accounts;
                    first_half = take ((num_endowed_accounts + 1) div 2) endowed_accounts
                in Some \<lparr>
                  g_code = code,
                  g_balances = map (\<lambda>x. (x, ENDOWMENT)) endowed_accounts,
                  g_session_keys = map (\<lambda>x. (stash x, stash x,
                    session_keys (grandpa_id x) (babe_id x) (im_online_id x) (authority_discovery_id x)))
                    initial_authorities,
                  g_validator_count = word_of_nat (length initial_authorities),
                  g_minimum_validator_count = word_of_nat (length initial_authorities),
                  g_invulnerables = map stash initial_authorities,
                  g_slash_reward_percent = 10,
                  g_stakers = stakers,
                  g_elections_members = map (\<lambda>member. (member, STASH)) first_half,
                  g_technical_members = first_half,
                  g_sudo_key = Some root_key,
                  g_babe_epoch_config = Some BABE_GENESIS_EPOCH_CONFIG,
                  g_society_members = first_half,
                  g_society_pot = 0,
                  g_society_max_members = 999\<rparr>)))"

section \<open>The named networks\<close>

definition development_config_genesis ::
  "u8 list option \<Rightarrow> ('a, 'k) seeds \<Rightarrow> ('r, ('a, 'k) authority) rng \<Rightarrow> u32 \<Rightarrow> 'r \<Rightarrow> ('a, 'k) genesis option" where
  "development_config_genesis wasm_binary env rng max_nominations r =
     (case authority_keys_from_seed env ''Alice'' of None \<Rightarrow> None | Some alice \<Rightarrow>
      (case get_account_id_from_seed env ''Alice'' of None \<Rightarrow> None | Some root_key \<Rightarrow>
        testnet_genesis wasm_binary env rng max_nominations r [alice] [] root_key None))"

definition local_testnet_genesis ::
  "u8 list option \<Rightarrow> ('a, 'k) seeds \<Rightarrow> ('r, ('a, 'k) authority) rng \<Rightarrow> u32 \<Rightarrow> 'r \<Rightarrow> ('a, 'k) genesis option" where
  "local_testnet_genesis wasm_binary env rng max_nominations r =
     (case authority_keys_from_seed env ''Alice'' of None \<Rightarrow> None | Some alice \<Rightarrow>
      (case authority_keys_from_seed env ''Bob'' of None \<Rightarrow> None | Some bob \<Rightarrow>
      (case get_account_id_from_seed env ''Alice'' of None \<Rightarrow> None | Some root_key \<Rightarrow>
        testnet_genesis wasm_binary env rng max_nominations r [alice, bob] [] root_key None)))"

text \<open>The staging network gives accounts and keys as 32 bytes, here the number they are in hexadecimal.\<close>

type_synonym hex32 = nat

definition staging_authorities :: "(hex32, hex32) authority list" where
  "staging_authorities =
     [\<lparr>stash = 0x9c7a2ee14e565db0c69f78c7b4cd839fbf52b607d867e9e9c5a79042898a0d12,
       controller = 0x781ead1e2fa9ccb74b44c19d29cb2a7a4b5be3972927ae98cd3877523976a276,
       grandpa_id = 0x9becad03e6dcac03cee07edebca5475314861492cdfc96a2144a67bbe9699332,
       babe_id = 0x6e7e4eb42cbd2e0ab4cae8708ce5509580b8c04d11f6758dbf686d50fe9f9106,
       im_online_id = 0x6e7e4eb42cbd2e0ab4cae8708ce5509580b8c04d11f6758dbf686d50fe9f9106,
       authority_discovery_id = 0x6e7e4eb42cbd2e0ab4cae8708ce5509580b8c04d11f6758dbf686d50fe9f9106\<rparr>,
      \<lparr>stash = 0x68655684472b743e456907b398d3a44c113f189e56d1bbfd55e889e295dfde78,
       controller = 0xc8dc79e36b29395413399edaec3e20fcca7205fb19776ed8ddb25d6f427ec40e,
       grandpa_id = 0x7932cff431e748892fa48e10c63c17d30f80ca42e4de3921e641249cd7fa3c2f,
       babe_id = 0x482dbd7297a39fa145c570552249c2ca9dd47e281f0c500c971b59c9dcdcd82e,
       im_online_id = 0x482dbd7297a39fa145c570552249c2ca9dd47e281f0c500c971b59c9dcdcd82e,
       authority_discovery_id = 0x482dbd7297a39fa145c570552249c2ca9dd47e281f0c500c971b59c9dcdcd82e\<rparr>,
      \<lparr>stash = 0x547ff0ab649283a7ae01dbc2eb73932eba2fb09075e9485ff369082a2ff38d65,
       controller = 0x9e42241d7cd91d001773b0b616d523dd80e13c6c2cab860b1234ef1b9ffc1526,
       grandpa_id = 0x5633b70b80a6c8bb16270f82cca6d56b27ed7b76c8fd5af2986a25a4788ce440,
       babe_id = 0x482a3389a6cf42d8ed83888cfd920fec738ea30f97e44699ada7323f08c3380a,
       im_online_id = 0x482a3389a6cf42d8ed83888cfd920fec738ea30f97e44699ada7323f08c3380a,
       authority_discovery_id = 0x482a3389a6cf42d8ed83888cfd920fec738ea30f97e44699ada7323f08c3380a\<rparr>,
      \<lparr>stash = 0xf26cdb14b5aec7b2789fd5ca80f979cef3761897ae1f37ffb3e154cbcc1c2663,
       controller = 0x66bc1e5d275da50b72b15de072a2468a5ad414919ca9054d2695767cf650012f,
       grandpa_id = 0x3919132b851ef0fd2dae42a7e734fe547af5a6b809006100f48944d7fae8e8ef,
       babe_id = 0x00299981a2b92f878baaf5dbeba5c18d4e70f2a1fcd9c61b32ea18daf38f4378,
       im_online_id = 0x00299981a2b92f878baaf5dbeba5c18d4e70f2a1fcd9c61b32ea18daf38f4378,
       authority_discovery_id = 0x00299981a2b92f878baaf5dbeba5c18d4e70f2a1fcd9c61b32ea18daf38f4378\<rparr>]"

definition staging_root_key :: hex32 where
  "staging_root_key = 0x9ee5e5bdc0ec239eb164f865ecc345ce4c88e76ee002e0f7e318097347471809"

definition staging_testnet_config_genesis ::
  "u8 list option \<Rightarrow> (hex32, hex32) seeds \<Rightarrow> ('r, (hex32, hex32) authority) rng \<Rightarrow> u32 \<Rightarrow> 'r \<Rightarrow> (hex32, hex32) genesis option" where
  "staging_testnet_config_genesis wasm_binary env rng max_nominations r =
     (let endowed_accounts = [staging_root_key] in
      testnet_genesis wasm_binary env rng max_nominations r staging_authorities [] staging_root_key (Some endowed_accounts))"

section \<open>Chain specifications\<close>

text \<open>
  What the code gives \<open>ChainSpec::from_genesis\<close>, apart from the empty boot nodes, protocol, properties and
  extensions. Building the telemetry endpoints can fail, which panics.
\<close>

datatype chain_type = Development | Local | Live

record ('g, 't) chain_spec =
  cs_name :: string
  cs_id :: string
  cs_type :: chain_type
  cs_genesis :: 'g
  cs_telemetry :: "'t option"

definition staging_testnet_config_spec ::
  "((string \<times> u8) list \<Rightarrow> 't option) \<Rightarrow> 'g \<Rightarrow> ('g, 't) chain_spec option" where
  "staging_testnet_config_spec new_endpoints genesis =
     (case new_endpoints [(''wss://telemetry.polkadot.io/submit/'', 0)] of None \<Rightarrow> None
      | Some t \<Rightarrow>
          Some \<lparr>cs_name = ''Staging Testnet'', cs_id = ''staging_testnet'', cs_type = Live,
                cs_genesis = genesis, cs_telemetry = Some t\<rparr>)"

definition development_config_spec :: "'g \<Rightarrow> ('g, 't) chain_spec" where
  "development_config_spec genesis =
     \<lparr>cs_name = ''Development'', cs_id = ''dev'', cs_type = Development, cs_genesis = genesis,
      cs_telemetry = None\<rparr>"

definition local_testnet_config_spec :: "'g \<Rightarrow> ('g, 't) chain_spec" where
  "local_testnet_config_spec genesis =
     \<lparr>cs_name = ''Local Testnet'', cs_id = ''local_testnet'', cs_type = Local, cs_genesis = genesis,
      cs_telemetry = None\<rparr>"

section \<open>The genesis of the test support\<close>

datatype keyring = Alice | Bob | Charlie | Dave | Eve | Ferdie

definition to_session_keys :: "(keyring \<Rightarrow> 'k) \<Rightarrow> (keyring \<Rightarrow> 'k) \<Rightarrow> keyring \<Rightarrow> keyring \<Rightarrow> 'k session_keys" where
  "to_session_keys ed25519 sr25519 ed25519_keyring sr25519_keyring =
     \<lparr>sk_grandpa = ed25519 ed25519_keyring, sk_babe = sr25519 sr25519_keyring,
      sk_im_online = sr25519 sr25519_keyring, sk_authority_discovery = sr25519 sr25519_keyring\<rparr>"

definition config_endowed ::
  "u8 list option \<Rightarrow> u8 list option \<Rightarrow> (keyring \<Rightarrow> 'a) \<Rightarrow> (keyring \<Rightarrow> 'k) \<Rightarrow> (keyring \<Rightarrow> 'k) \<Rightarrow> 'a list \<Rightarrow>
   ('a, 'k) genesis option" where
  "config_endowed wasm_binary code acc ed25519 sr25519 extra_endowed =
     (let endowed =
        [(acc Alice, 111 * DOLLARS), (acc Bob, 100 * DOLLARS), (acc Charlie, 100000000 * DOLLARS),
         (acc Dave, 111 * DOLLARS), (acc Eve, 101 * DOLLARS), (acc Ferdie, 100 * DOLLARS)];
        endowed = endowed @ map (\<lambda>endowed. (endowed, 100 * DOLLARS)) extra_endowed
      in case (case code of Some x \<Rightarrow> Some x | None \<Rightarrow> wasm_binary_unwrap wasm_binary) of
        None \<Rightarrow> None
      | Some code \<Rightarrow> Some \<lparr>
        g_code = code,
        g_balances = endowed,
        g_session_keys =
          [(acc Alice, acc Dave, to_session_keys ed25519 sr25519 Alice Alice),
           (acc Bob, acc Eve, to_session_keys ed25519 sr25519 Bob Bob),
           (acc Charlie, acc Ferdie, to_session_keys ed25519 sr25519 Charlie Charlie)],
        g_validator_count = 3,
        g_minimum_validator_count = 0,
        g_invulnerables = [acc Alice, acc Bob, acc Charlie],
        g_slash_reward_percent = 10,
        g_stakers =
          [(acc Dave, acc Alice, 111 * DOLLARS, Validator),
           (acc Eve, acc Bob, 100 * DOLLARS, Validator),
           (acc Ferdie, acc Charlie, 100 * DOLLARS, Validator)],
        g_elections_members = [],
        g_technical_members = [],
        g_sudo_key = None,
        g_babe_epoch_config = Some BABE_GENESIS_EPOCH_CONFIG,
        g_society_members = [acc Alice, acc Bob],
        g_society_pot = 0,
        g_society_max_members = 999\<rparr>)"

definition config ::
  "u8 list option \<Rightarrow> u8 list option \<Rightarrow> (keyring \<Rightarrow> 'a) \<Rightarrow> (keyring \<Rightarrow> 'k) \<Rightarrow> (keyring \<Rightarrow> 'k) \<Rightarrow> ('a, 'k) genesis option" where
  "config wasm_binary code acc ed25519 sr25519 = config_endowed wasm_binary code acc ed25519 sr25519 []"

section \<open>Lemmas\<close>

lemma endow_all_Nil [simp]: "endow_all [] e = e"
  by (simp add: endow_all_def)

lemma endow_all_Cons [simp]: "endow_all (x # xs) e = endow_all xs (if x \<in> set e then e else e @ [x])"
  by (simp add: endow_all_def)

lemma set_endow_all [simp]: "set (endow_all xs e) = set e \<union> set xs"
  by (induction xs arbitrary: e) auto

lemma distinct_endow_all: "distinct e \<Longrightarrow> distinct (endow_all xs e)"
  by (induction xs arbitrary: e) auto

lemma endow_all_known: "set xs \<subseteq> set e \<Longrightarrow> endow_all xs e = e"
  by (induction xs arbitrary: e) auto

lemma endow_all_new: "distinct (e @ xs) \<Longrightarrow> endow_all xs e = e @ xs"
  by (induction xs arbitrary: e) auto

lemma length_endow_all: "length (endow_all xs e) \<le> length e + length xs"
proof (induction xs arbitrary: e)
  case (Cons x xs)
  show ?case
    using Cons [of "e @ [x]"] Cons [of e] by (simp add: le_SucI)
qed simp

lemma all_some_None: "all_some xs = None \<longleftrightarrow> None \<in> set xs"
  by (induction xs) (auto split: option.splits)

lemma all_some_map [simp]: "all_some (map (\<lambda>x. Some (f x)) xs) = Some (map f xs)"
  by (induction xs) simp_all

lemma nominator_stakers_None:
  "nominator_stakers env m as xs r = None \<longleftrightarrow>
     xs \<noteq> [] \<and> min (ucast m) (word_of_nat (length as)) = (0 :: u64)"
  by (induction xs arbitrary: r)
    (auto simp: nominator_staker_def Let_def split: option.splits prod.splits)

text \<open>What is relied on of \<open>choose_multiple\<close>: it takes that many different positions of the list.\<close>

definition chooses :: "('r, 'c) rng \<Rightarrow> bool" where
  "chooses env \<longleftrightarrow> (\<forall>cs n r. length (fst (choose_multiple env cs n r)) = min (unat n) (length cs)
     \<and> mset (fst (choose_multiple env cs n r)) \<subseteq># mset cs)"

lemma nominator_stakers_accounts:
  "nominator_stakers env m as xs r = Some ss \<Longrightarrow> (st, c, v, s) \<in> set ss \<Longrightarrow>
     st \<in> set xs \<and> c = st \<and> v = STASH"
proof (induction xs arbitrary: r ss)
  case (Cons x xs)
  then obtain n r' ss' where
    "nominator_stakers env m as xs r' = Some ss'" "ss = (x, x, STASH, Nominator n) # ss'"
    by (auto simp: nominator_staker_def Let_def split: option.splits prod.splits if_splits)
  then show ?case
    using Cons.IH [of r' ss'] Cons.prems(2) by auto
qed simp

lemma all_some_Some: "all_some xs = Some ys \<Longrightarrow> xs = map Some ys"
  by (induction xs arbitrary: ys) (auto split: option.splits)

text \<open>The fields of a genesis in terms of the accounts it endows.\<close>

lemma genesis_fields:
  assumes "testnet_genesis wasm_binary env rng m r as ns root_key given = Some g"
  obtains initial endowed nominators where
    "(case given of Some e \<Rightarrow> Some e | None \<Rightarrow> all_some (map (get_account_id_from_seed env) default_seeds))
       = Some initial"
    "endowed = endow_all (map stash as @ ns) initial"
    "nominator_stakers rng m as ns r = Some nominators"
    "g_balances g = map (\<lambda>x. (x, ENDOWMENT)) endowed"
    "g_stakers g = map (\<lambda>x. (stash x, controller x, STASH, Validator)) as @ nominators"
    "g_elections_members g = map (\<lambda>x. (x, STASH)) (take ((length endowed + 1) div 2) endowed)"
    "g_technical_members g = take ((length endowed + 1) div 2) endowed"
    "g_society_members g = take ((length endowed + 1) div 2) endowed"
    "g_session_keys g = map (\<lambda>x. (stash x, stash x, session_keys (grandpa_id x) (babe_id x)
       (im_online_id x) (authority_discovery_id x))) as"
    "g_invulnerables g = map stash as" "g_validator_count g = word_of_nat (length as)"
    "g_sudo_key g = Some root_key" "wasm_binary = Some (g_code g)"
  using assms by (auto simp: testnet_genesis_def wasm_binary_unwrap_def Let_def split: option.splits)

lemma STASH_le: "STASH \<le> ENDOWMENT" and unat_ENDOWMENT: "unat ENDOWMENT = 10 ^ 21"
  by (simp_all add: STASH_def ENDOWMENT_def DOLLARS_def CENTS_def MILLICENTS_def)

lemma distinct_subseteq_mset: "mset xs \<subseteq># mset ys \<Longrightarrow> distinct ys \<Longrightarrow> distinct xs"
proof -
  assume sub: "mset xs \<subseteq># mset ys" and ys: "distinct ys"
  obtain zs where "mset zs = mset ys - mset xs"
    using ex_mset by blast
  then have "mset ys = mset (xs @ zs)"
    using sub by simp
  then have "distinct (xs @ zs)"
    using ys mset_eq_imp_distinct_iff by blast
  then show ?thesis by simp
qed

text \<open>What a nominator gets from a generator that chooses: fewer targets than the limit, all of them stashes.\<close>

lemma nominator_stakers_choice:
  "chooses env \<Longrightarrow> length as < 2 ^ 64 \<Longrightarrow> nominator_stakers env m as xs r = Some ss \<Longrightarrow>
     (st, c, v, s) \<in> set ss \<Longrightarrow>
     \<exists>choice. s = Nominator (map stash choice) \<and> mset choice \<subseteq># mset as \<and>
       length choice < min (unat m) (length as)"
proof (induction xs arbitrary: r ss)
  case (Cons x xs)
  let ?limit = "min (ucast m) (word_of_nat (length as)) :: u64"
  obtain n r1 choice r2 ss' where limit: "?limit \<noteq> 0"
    and n: "gen_usize env r = (n, r1)" and choice: "choose_multiple env as (n mod ?limit) r1 = (choice, r2)"
    and ss: "nominator_stakers env m as xs r2 = Some ss'" "ss = (x, x, STASH, Nominator (map stash choice)) # ss'"
    using Cons.prems(3)
    by (auto simp: nominator_staker_def Let_def split: option.splits prod.splits if_splits)
  have "unat m < 2 ^ 64"
    by (rule order_less_le_trans [OF unsigned_less]) simp
  then have "unat (ucast m :: u64) = unat m"
    by (simp add: unsigned_ucast_eq take_bit_nat_eq_self)
  then have bound: "unat ?limit = min (unat m) (length as)"
    using Cons.prems(2) by (simp add: min_def word_le_nat_alt unat_of_nat)
  have "unat (n mod ?limit) < unat ?limit"
    using limit by (simp add: unat_mod_distrib unat_gt_0)
  moreover have "length choice = min (unat (n mod ?limit)) (length as)" "mset choice \<subseteq># mset as"
    using Cons.prems(1) choice by (auto simp: chooses_def dest!: spec [of _ as] spec [of _ "n mod ?limit"] spec [of _ r1])
  ultimately have "length choice < min (unat m) (length as)" "mset choice \<subseteq># mset as"
    by (simp_all add: bound)
  then show ?case
    using Cons.IH [OF Cons.prems(1,2) ss(1)] Cons.prems(4) by (auto simp: ss(2))
qed simp

section \<open>Properties\<close>

text \<open>
  The genesis of a test network exists unless a seed of the default accounts gives no key or there are nominators
  but no authority, or no nomination allowed, to draw from, when the code divides by zero, or no runtime has been built.
\<close>

theorem genesis_returns:
  assumes "length as < 2 ^ 64"
  shows "testnet_genesis wasm_binary env rng m r as ns root_key given = None \<longleftrightarrow>
    (given = None \<and> (\<exists>seed \<in> set default_seeds. get_account_id_from_seed env seed = None))
    \<or> (ns \<noteq> [] \<and> (as = [] \<or> m = 0)) \<or> wasm_binary = None"
proof -
  have "unat m < 2 ^ 64"
    by (rule order_less_le_trans [OF unsigned_less]) simp
  then have "unat (ucast m :: u64) = unat m"
    by (simp add: unsigned_ucast_eq take_bit_nat_eq_self)
  then have "(ucast m = (0 :: u64)) \<longleftrightarrow> m = 0"
    by (metis unat_eq_zero)
  moreover have "unat (word_of_nat (length as) :: u64) = length as"
    using assms by (simp add: unat_of_nat)
  then have "(word_of_nat (length as) = (0 :: u64)) \<longleftrightarrow> as = []"
    by (metis unat_eq_zero length_0_conv)
  ultimately have "min (ucast m) (word_of_nat (length as)) = (0 :: u64) \<longleftrightarrow> as = [] \<or> m = 0"
    using word_zero_le by (metis min_def order_antisym)
  then have noms: "nominator_stakers rng m as ns r = None \<longleftrightarrow> ns \<noteq> [] \<and> (as = [] \<or> m = 0)"
    by (simp add: nominator_stakers_None)
  have init: "(case given of Some e \<Rightarrow> Some e
      | None \<Rightarrow> all_some (map (get_account_id_from_seed env) default_seeds)) = None \<longleftrightarrow>
      given = None \<and> (\<exists>seed \<in> set default_seeds. get_account_id_from_seed env seed = None)"
    by (cases given) (simp_all add: all_some_None image_iff eq_commute [of None])
  show ?thesis
    unfolding noms [symmetric] init [symmetric]
    by (auto simp: testnet_genesis_def wasm_binary_unwrap_def Let_def split: option.split)
qed

lemma initial_distinct:
  assumes "(case given of Some e \<Rightarrow> Some e | None \<Rightarrow> all_some (map (get_account_id_from_seed env) default_seeds)) = Some initial"
    and "case given of Some e \<Rightarrow> distinct e
      | None \<Rightarrow> distinct (map (get_account_id_from_seed env) default_seeds)"
  shows "distinct initial"
proof (cases given)
  case None
  then have "map (get_account_id_from_seed env) default_seeds = map Some initial"
    using assms(1) by (simp add: all_some_Some)
  then show ?thesis
    using assms(2) None by (simp only: option.case distinct_map)
next
  case (Some e)
  then show ?thesis
    using assms by simp
qed

text \<open>
  C19: whoever stakes or sits in a council of a test network's genesis is endowed with at least what is
  locked; no account is endowed twice when none of the given ones is, the councils are the first half of the endowed accounts,
  rounded up, the session keys belong to the validators' stashes, which are the invulnerable ones, and the total issuance fits
  u128.
\<close>

theorem genesis_endows:
  assumes "testnet_genesis wasm_binary env rng m r as ns root_key given = Some g"
    and "case given of Some e \<Rightarrow> distinct e
      | None \<Rightarrow> distinct (map (get_account_id_from_seed env) default_seeds)"
    and "length (g_balances g) \<le> 10 ^ 17"
  shows "distinct (map fst (g_balances g))
    \<and> (\<forall>(st, c, v, s) \<in> set (g_stakers g). (st, ENDOWMENT) \<in> set (g_balances g) \<and> v \<le> ENDOWMENT)
    \<and> (\<forall>(member, v) \<in> set (g_elections_members g). (member, ENDOWMENT) \<in> set (g_balances g) \<and> v \<le> ENDOWMENT)
    \<and> map fst (g_elections_members g) = take ((length (g_balances g) + 1) div 2) (map fst (g_balances g))
    \<and> g_technical_members g = map fst (g_elections_members g)
    \<and> g_society_members g = map fst (g_elections_members g)
    \<and> map (\<lambda>(account, validator, k). validator) (g_session_keys g) = g_invulnerables g
    \<and> (\<Sum>(account, amount) \<leftarrow> g_balances g. unat amount) = length (g_balances g) * 10 ^ 21
    \<and> (\<Sum>(account, amount) \<leftarrow> g_balances g. unat amount) < 2 ^ 128"
proof -
  obtain initial endowed nominators where
    init: "(case given of Some e \<Rightarrow> Some e | None \<Rightarrow> all_some (map (get_account_id_from_seed env) default_seeds))
       = Some initial"
    and endowed: "endowed = endow_all (map stash as @ ns) initial"
    and noms: "nominator_stakers rng m as ns r = Some nominators"
    and fields: "g_balances g = map (\<lambda>x. (x, ENDOWMENT)) endowed"
      "g_stakers g = map (\<lambda>x. (stash x, controller x, STASH, Validator)) as @ nominators"
      "g_elections_members g = map (\<lambda>x. (x, STASH)) (take ((length endowed + 1) div 2) endowed)"
      "g_technical_members g = take ((length endowed + 1) div 2) endowed"
      "g_society_members g = take ((length endowed + 1) div 2) endowed"
      "g_session_keys g = map (\<lambda>x. (stash x, stash x, session_keys (grandpa_id x) (babe_id x)
         (im_online_id x) (authority_discovery_id x))) as"
      "g_invulnerables g = map stash as"
    using assms(1) by (rule genesis_fields)
  have distinct: "distinct endowed"
    using initial_distinct [OF init assms(2)] by (simp add: endowed distinct_endow_all)
  have stakers: "st \<in> set endowed \<and> v = STASH" if "(st, c, v, s) \<in> set (g_stakers g)" for st c v s
    using that nominator_stakers_accounts [OF noms] by (auto simp: fields endowed)
  have sum: "(\<Sum>(account, amount) \<leftarrow> g_balances g. unat amount) = length endowed * 10 ^ 21"
    by (simp add: fields comp_def unat_ENDOWMENT sum_list_triv)
  then have small: "(\<Sum>(account, amount) \<leftarrow> g_balances g. unat amount) < 2 ^ 128"
    using assms(3) by (simp add: fields)
  have "(member, ENDOWMENT) \<in> set (g_balances g) \<and> v \<le> ENDOWMENT"
    if "(member, v) \<in> set (g_elections_members g)" for member v
    using that by (auto simp: fields STASH_le dest: in_set_takeD)
  moreover have "(st, ENDOWMENT) \<in> set (g_balances g) \<and> v \<le> ENDOWMENT"
    if "(st, c, v, s) \<in> set (g_stakers g)" for st c v s
    using stakers [OF that] by (simp add: fields image_iff STASH_le)
  moreover have "map fst (g_balances g) = endowed" "length (g_balances g) = length endowed"
    "map fst (g_elections_members g) = take ((length endowed + 1) div 2) endowed"
    by (simp_all add: fields comp_def)
  moreover have "map (\<lambda>(account, validator, k). validator) (g_session_keys g) = g_invulnerables g"
    by (simp add: fields comp_def)
  ultimately show ?thesis
    using distinct sum small STASH_le by (auto simp: fields(4,5) simp del: sum_list.Cons)
qed

text \<open>
  C20: a nominator of a test network's genesis nominates different validators, always fewer than the runtime
  allows and fewer than there are; with a single authority it nominates nobody.
\<close>

theorem genesis_nominations:
  assumes "testnet_genesis wasm_binary env rng m r as ns root_key given = Some g"
    and "chooses rng" "length as < 2 ^ 64" "distinct (map stash as)"
    and "(account, c, v, Nominator targets) \<in> set (g_stakers g)"
  shows "account \<in> set ns \<and> distinct targets \<and> set targets \<subseteq> stash ` set as
    \<and> length targets < min (unat m) (length as) \<and> (length as = 1 \<longrightarrow> targets = [])"
proof -
  obtain nominators where noms: "nominator_stakers rng m as ns r = Some nominators"
    and "g_stakers g = map (\<lambda>x. (stash x, controller x, STASH, Validator)) as @ nominators"
    using assms(1) by (rule genesis_fields)
  then have mem: "(account, c, v, Nominator targets) \<in> set nominators"
    using assms(5) by auto
  obtain choice where targets: "targets = map stash choice" and sub: "mset choice \<subseteq># mset as"
    and len: "length choice < min (unat m) (length as)"
    using nominator_stakers_choice [OF assms(2,3) noms mem] by auto
  have "image_mset stash (mset choice) \<subseteq># image_mset stash (mset as)"
    using sub by (rule image_mset_subseteq_mono)
  then have "mset (map stash choice) \<subseteq># mset (map stash as)"
    by simp
  then have "distinct targets"
    unfolding targets using assms(4) by (rule distinct_subseteq_mset)
  moreover have "set targets \<subseteq> stash ` set as"
    using set_mset_mono [OF sub] by (auto simp: targets)
  ultimately show ?thesis
    using len nominator_stakers_accounts [OF noms mem] by (auto simp: targets)
qed

section \<open>The named networks\<close>

definition demo_seeds :: "(string, string) seeds" where
  "demo_seeds = \<lparr>sr25519_account = Some, grandpa_public = Some, babe_public = Some,
     im_online_public = Some, authority_discovery_public = Some\<rparr>"

definition demo_rng :: "(nat, 'c) rng" where
  "demo_rng = \<lparr>gen_usize = (\<lambda>r. (word_of_nat r, Suc r)),
     choose_multiple = (\<lambda>cs n r. (take (unat n) cs, Suc r))\<rparr>"

definition demo_authority :: "string \<Rightarrow> (string, string) authority" where
  "demo_authority x = \<lparr>stash = x, controller = x, grandpa_id = x, babe_id = x, im_online_id = x,
     authority_discovery_id = x\<rparr>"

lemma demo_rng_chooses: "chooses demo_rng"
  by (simp add: chooses_def demo_rng_def min.commute)
    (metis append_take_drop_id mset_append mset_subset_eq_add_left)

theorem genesis_returns_witness:
  "testnet_genesis (Some []) demo_seeds demo_rng 16 0 [] [''nominator''] ''root'' (Some []) = None
   \<and> testnet_genesis (Some []) demo_seeds demo_rng 16 0 [demo_authority ''v''] [''nominator''] ''root'' (Some []) \<noteq> None"
  using genesis_returns [of "[]" "Some []" demo_seeds demo_rng 16 0 "[''nominator'']" "''root''" "Some []"]
    genesis_returns [of "[demo_authority ''v'']" "Some []" demo_seeds demo_rng 16 0 "[''nominator'']" "''root''" "Some []"]
  by simp

definition demo_genesis :: "(string, string) genesis" where
  "demo_genesis = the (testnet_genesis (Some []) demo_seeds demo_rng 16 1
     [demo_authority ''v'', demo_authority ''w''] [''n''] ''root'' (Some [''root'']))"

lemma demo_genesis_Some:
  "testnet_genesis (Some []) demo_seeds demo_rng 16 1 [demo_authority ''v'', demo_authority ''w''] [''n''] ''root''
     (Some [''root'']) = Some demo_genesis"
  by (simp add: demo_genesis_def testnet_genesis_def nominator_staker_def demo_rng_def wasm_binary_unwrap_def Let_def)

lemma demo_genesis_fields:
  "g_balances demo_genesis = map (\<lambda>x. (x, ENDOWMENT)) [''root'', ''v'', ''w'', ''n'']"
  "g_stakers demo_genesis = [(''v'', ''v'', STASH, Validator), (''w'', ''w'', STASH, Validator),
     (''n'', ''n'', STASH, Nominator [''v''])]"
  by (simp_all add: demo_genesis_def testnet_genesis_def nominator_staker_def demo_rng_def demo_authority_def wasm_binary_unwrap_def Let_def)

theorem genesis_endows_witness:
  "distinct (map fst (g_balances demo_genesis))
   \<and> (\<Sum>(account, amount) \<leftarrow> g_balances demo_genesis. unat amount) = 4 * 10 ^ 21"
  using genesis_endows [OF demo_genesis_Some] by (simp add: demo_genesis_fields)

theorem genesis_nominations_witness:
  "set [''v''] \<subseteq> stash ` set [demo_authority ''v'', demo_authority ''w'']
   \<and> length [''v''] < min (unat (16 :: u32)) 2"
  using genesis_nominations [OF demo_genesis_Some demo_rng_chooses, of "''n''" "''n''" STASH "[''v'']"]
  by (simp add: demo_genesis_fields demo_authority_def)

lemma default_endowed:
  assumes "\<And>s. get_account_id_from_seed env s = Some (acc s)"
  shows "all_some (map (get_account_id_from_seed env) default_seeds) = Some (map acc default_seeds)"
  using assms by (simp add: default_seeds_def)

text \<open>
  When a runtime has been built and every seed gives its keys and different default accounts, the development network has the one
  validator Alice and the local one Alice and Bob, both known by their stashes; either endows the twelve default accounts only,
  has the six named accounts in its councils and Alice as the sudo key.
\<close>

theorem named_networks:
  assumes "\<And>s. get_account_id_from_seed env s = Some (acc s)" "inj_on acc (set default_seeds)"
    and "\<And>s. authority_keys_from_seed env s = Some (keys s)" "\<And>s. stash (keys s) = acc (s @ ''//stash'')"
    and "\<And>s. controller (keys s) = acc s"
  shows "\<exists>dev local.
    development_config_genesis (Some code) env rng m r = Some dev \<and> local_testnet_genesis (Some code) env rng m r = Some local
    \<and> (\<forall>g \<in> {dev, local}. map fst (g_balances g) = map acc default_seeds
        \<and> g_technical_members g = map acc [''Alice'', ''Bob'', ''Charlie'', ''Dave'', ''Eve'', ''Ferdie'']
        \<and> g_sudo_key g = Some (acc ''Alice'') \<and> distinct (map fst (g_balances g)))
    \<and> g_stakers dev = [(acc ''Alice//stash'', acc ''Alice'', STASH, Validator)] \<and> g_validator_count dev = 1
    \<and> g_stakers local = [(acc ''Alice//stash'', acc ''Alice'', STASH, Validator),
        (acc ''Bob//stash'', acc ''Bob'', STASH, Validator)] \<and> g_validator_count local = 2"
proof -
  have distinct: "distinct (map acc default_seeds)"
    using assms(2) by (simp add: distinct_map default_seeds_def)
  have known: "acc ''Alice//stash'' \<in> set (map acc default_seeds)" "acc ''Bob//stash'' \<in> set (map acc default_seeds)"
    by (simp_all add: default_seeds_def)
  have half: "take 6 (map acc default_seeds) = map acc [''Alice'', ''Bob'', ''Charlie'', ''Dave'', ''Eve'', ''Ferdie'']"
    "length default_seeds = 12"
    by (simp_all add: default_seeds_def)
  show ?thesis
    using distinct known half
    by (simp add: development_config_genesis_def local_testnet_genesis_def assms(1,3,4,5) testnet_genesis_def wasm_binary_unwrap_def
        default_endowed [of env acc, OF assms(1)] Let_def comp_def del: set_map)
qed

theorem named_networks_witness:
  "\<exists>dev. development_config_genesis (Some []) demo_seeds demo_rng 16 0 = Some dev \<and> g_validator_count dev = 1"
proof -
  have "inj_on (\<lambda>s. ''//'' @ s) (set default_seeds)"
    by (rule inj_onI) simp
  then show ?thesis
    using named_networks [of demo_seeds "\<lambda>s. ''//'' @ s"
        "\<lambda>s. the (authority_keys_from_seed demo_seeds s)" "[]" demo_rng 16 0]
    by (auto simp: demo_seeds_def get_account_id_from_seed_def get_from_seed_def authority_keys_from_seed_def)
qed

lemma staging_accounts:
  "map stash staging_authorities =
     [0x9c7a2ee14e565db0c69f78c7b4cd839fbf52b607d867e9e9c5a79042898a0d12,
      0x68655684472b743e456907b398d3a44c113f189e56d1bbfd55e889e295dfde78,
      0x547ff0ab649283a7ae01dbc2eb73932eba2fb09075e9485ff369082a2ff38d65,
      0xf26cdb14b5aec7b2789fd5ca80f979cef3761897ae1f37ffb3e154cbcc1c2663]"
  by (simp only: staging_authorities_def list.map authority.simps)

lemma staging_distinct: "distinct (staging_root_key # map stash staging_authorities)"
  by (simp add: staging_accounts staging_root_key_def)

lemma staging_length: "length staging_authorities = 4"
  by (simp add: staging_authorities_def)

lemma staging_controllers:
  "\<forall>a \<in> set staging_authorities. controller a \<notin> set (staging_root_key # map stash staging_authorities)"
  unfolding staging_accounts
  by (simp only: staging_authorities_def staging_root_key_def list.set ball_simps insert_iff authority.simps) simp

lemma staging_keys:
  "\<forall>a \<in> set staging_authorities. babe_id a = im_online_id a \<and> im_online_id a = authority_discovery_id a
     \<and> grandpa_id a \<noteq> babe_id a"
  by (simp only: staging_authorities_def list.set ball_simps insert_iff authority.simps) simp

text \<open>
  The staging network endows its root key and the four stashes, of which the root key and the first two
  stashes sit in the councils; it needs all four validators and endows none of their controllers, so that these cannot pay a fee
  before somebody funds them.
\<close>

theorem staging_network:
  "\<exists>g. staging_testnet_config_genesis (Some code) env rng m r = Some g
     \<and> map fst (g_balances g) = staging_root_key # map stash staging_authorities
     \<and> distinct (map fst (g_balances g))
     \<and> g_technical_members g = staging_root_key # map stash (take 2 staging_authorities)
     \<and> g_validator_count g = 4 \<and> g_minimum_validator_count g = 4
     \<and> (\<forall>a \<in> set staging_authorities. controller a \<notin> fst ` set (g_balances g))
     \<and> (\<forall>a \<in> set staging_authorities. babe_id a = im_online_id a \<and> im_online_id a = authority_discovery_id a
          \<and> grandpa_id a \<noteq> babe_id a)"
proof -
  have "endow_all (map stash staging_authorities) [staging_root_key]
      = staging_root_key # map stash staging_authorities"
    using endow_all_new [of "[staging_root_key]"] staging_distinct by simp
  then show ?thesis
    using staging_distinct staging_length staging_controllers staging_keys
    by (auto simp: staging_testnet_config_genesis_def testnet_genesis_def wasm_binary_unwrap_def Let_def comp_def take_map image_image)
qed

text \<open>The specifications the command line loads by name.\<close>

lemma named_specs:
  "load_spec ss ''dev'' = Inr (development_config ss)" "cs_id (development_config_spec g) = ''dev''"
  "cs_type (development_config_spec g) = Development" "cs_type (local_testnet_config_spec g) = Local"
  by (simp_all add: load_spec_def development_config_spec_def local_testnet_config_spec_def)

section \<open>The genesis of the tests\<close>

text \<open>
  In the genesis of the tests every validator's stash owns what it stakes, the session keys are those of the
  stashes under their controllers, and the endowed accounts are different when the additional ones are new and different.
  Unlike in the test networks, the accounts that are never slashed are the controllers, none of which is a stash.
\<close>

theorem fixture_genesis:
  assumes "inj acc" "distinct extra" "set extra \<inter> range acc = {}"
    and g_def: "config_endowed wasm_binary code acc ed25519 sr25519 extra = Some g"
  shows "distinct (map fst (g_balances g))
    \<and> (\<forall>(st, c, v, s) \<in> set (g_stakers g). \<exists>b. (st, b) \<in> set (g_balances g) \<and> v \<le> b)
    \<and> map (\<lambda>(account, validator, k). (validator, account)) (g_session_keys g)
        = map (\<lambda>(st, c, v, s). (st, c)) (g_stakers g)
    \<and> (\<forall>a \<in> set extra. (a, 100 * DOLLARS) \<in> set (g_balances g))
    \<and> g_invulnerables g = map (\<lambda>(st, c, v, s). c) (g_stakers g)
    \<and> set (g_invulnerables g) \<inter> set (map fst (g_stakers g)) = {}"
proof -
  have "acc a = acc b \<longleftrightarrow> a = b" for a b
    using assms(1) by (simp add: inj_eq)
  moreover have "acc a \<notin> set extra" for a
    using assms(3) by blast
  moreover have "100 * DOLLARS \<le> 101 * DOLLARS"
    by (simp add: DOLLARS_def CENTS_def MILLICENTS_def)
  ultimately show ?thesis
    using assms(2) g_def
    by (auto simp: config_endowed_def Let_def distinct_map inj_on_def split: option.splits)
qed

theorem fixture_genesis_witness:
  "\<exists>g. config_endowed None (Some []) id (id :: keyring \<Rightarrow> keyring) id [] = Some g
     \<and> length (g_balances g) = 6 \<and> distinct (map fst (g_balances g))"
proof -
  obtain g where g: "config_endowed None (Some []) id (id :: keyring \<Rightarrow> keyring) id [] = Some g" "length (g_balances g) = 6"
    by (simp add: config_endowed_def)
  have "distinct (map fst (g_balances g))"
    using fixture_genesis [OF inj_on_id distinct.simps(1) [THEN iffD2, OF TrueI] _ g(1)] by simp
  then show ?thesis
    using g by blast
qed

end
