(* ===== verification/Testing_Bench.thy ===== *)
theory Testing_Bench
  imports Bench_Main Node_Genesis "HOL-Library.Mapping"
begin

text \<open>
  The test support (\<open>testing/src/keyring.rs\<close>, \<open>testing/src/bench.rs\<close>): the keyring of the benchmarks, the
  signing of extrinsics, the transactions of a generated block and the loop that fills it. Keys, hashes,
  codecs and the block builder of the client are parameters; a \<open>None\<close> is a panic.
\<close>

section \<open>Keyring\<close>

datatype ('sr, 'ed) bench_pair = Sr25519_pair 'sr | Ed25519_pair 'ed

record ('a, 'sr, 'ed, 'sig) crypto =
  sr25519_from_string :: "string \<Rightarrow> 'sr option"
  sr25519_id :: "'sr \<Rightarrow> 'a"
  sr25519_sign :: "'sr \<Rightarrow> bytes \<Rightarrow> 'sig"
  ed25519_from_seed :: "bytes \<Rightarrow> 'ed"
  ed25519_id :: "'ed \<Rightarrow> 'a"
  ed25519_sign :: "'ed \<Rightarrow> bytes \<Rightarrow> 'sig"
  blake2_256 :: "bytes \<Rightarrow> bytes"

definition bench_pair_sign :: "('a, 'sr, 'ed, 'sig) crypto \<Rightarrow> ('sr, 'ed) bench_pair \<Rightarrow> bytes \<Rightarrow> 'sig" where
  "bench_pair_sign env key payload =
     (case key of Sr25519_pair pair \<Rightarrow> sr25519_sign env pair payload
      | Ed25519_pair pair \<Rightarrow> ed25519_sign env pair payload)"

type_synonym ('a, 'sr, 'ed) bench_keyring = "('a, ('sr, 'ed) bench_pair) mapping"

definition as_bytes :: "string \<Rightarrow> bytes" where "as_bytes s = map of_char s"

text \<open>The account and the pair of the \<open>n\<close>-th seed.\<close>

definition endowed_user ::
  "('a, 'sr, 'ed, 'sig) crypto \<Rightarrow> key_types \<Rightarrow> nat \<Rightarrow> ('a \<times> ('sr, 'ed) bench_pair) option" where
  "endowed_user env kt n =
     (let seed = ''//endowed-user/'' @ decimal n in
      case kt of
        Sr25519 \<Rightarrow>
          (case sr25519_from_string env seed of None \<Rightarrow> None
           | Some pair \<Rightarrow> Some (sr25519_id env pair, Sr25519_pair pair))
      | Ed25519 \<Rightarrow>
          (let pair = ed25519_from_seed env (blake2_256 env (as_bytes seed))
           in Some (ed25519_id env pair, Ed25519_pair pair)))"

definition bench_keyring_new ::
  "('a, 'sr, 'ed, 'sig) crypto \<Rightarrow> nat \<Rightarrow> key_types \<Rightarrow> ('a, 'sr, 'ed) bench_keyring option" where
  "bench_keyring_new env len kt =
     fold (\<lambda>n accounts. case accounts of None \<Rightarrow> None
        | Some m \<Rightarrow> (case endowed_user env kt n of None \<Rightarrow> None
                    | Some (account_id, pair) \<Rightarrow> Some (Mapping.update account_id pair m)))
       [0..<len] (Some Mapping.empty)"

definition collect_account_ids :: "('a :: linorder, 'sr, 'ed) bench_keyring \<Rightarrow> 'a list" where
  "collect_account_ids m = Mapping.ordered_keys m"

definition keyring_at :: "('a :: linorder, 'sr, 'ed) bench_keyring \<Rightarrow> nat \<Rightarrow> 'a option" where
  "keyring_at m index =
     (let ks = Mapping.ordered_keys m in if index < length ks then Some (ks ! index) else None)"

section \<open>Signing\<close>

record ('a, 'call, 'extra) checked_extrinsic =
  cx_signed :: "('a \<times> 'extra) option"
  cx_function :: 'call

record ('a, 'call, 'extra, 'sig) unchecked_extrinsic =
  ux_signature :: "('a \<times> 'sig \<times> 'extra) option"
  ux_function :: 'call

type_synonym ('call, 'extra, 'hash) payload = "'call \<times> 'extra \<times> u32 \<times> u32 \<times> 'hash \<times> 'hash"

text \<open>What is signed: the encoded payload, or its hash when it is longer than 256 bytes.\<close>

definition signed_bytes :: "(bytes \<Rightarrow> bytes) \<Rightarrow> bytes \<Rightarrow> bytes" where
  "signed_bytes hash b = (if length b > 256 then hash b else b)"

definition keyring_sign ::
  "('a, 'sr, 'ed, 'sig) crypto \<Rightarrow> (('call, 'extra, 'hash) payload \<Rightarrow> bytes) \<Rightarrow> ('a, 'sr, 'ed) bench_keyring \<Rightarrow>
   ('a, 'call, 'extra) checked_extrinsic \<Rightarrow> u32 \<Rightarrow> u32 \<Rightarrow> 'hash \<Rightarrow>
   ('a, 'call, 'extra, 'sig) unchecked_extrinsic option" where
  "keyring_sign env encode m xt spec tx genesis_hash =
     (case cx_signed xt of
        Some (signer, extra) \<Rightarrow>
          (let payload = (cx_function xt, extra, spec, tx, genesis_hash, genesis_hash) in
           case Mapping.lookup m signer of
             None \<Rightarrow> None
           | Some key \<Rightarrow>
               (let signature = bench_pair_sign env key (signed_bytes (blake2_256 env) (encode payload))
                in Some \<lparr>ux_signature = Some (signer, signature, extra), ux_function = fst payload\<rparr>))
      | None \<Rightarrow> Some \<lparr>ux_signature = None, ux_function = cx_function xt\<rparr>)"

text \<open>The extensions and the signing of the tests, with the framework's keyring of named accounts.\<close>

definition test_signed_extra :: "(u64 \<Rightarrow> u64 \<Rightarrow> 'era) \<Rightarrow> Index \<Rightarrow> Balance \<Rightarrow> ('era, 'asset) signed_extension list" where
  "test_signed_extra mortal nonce extra_fee = signed_extra (mortal 256 0) nonce extra_fee None"

definition test_sign ::
  "('a \<Rightarrow> 'key option) \<Rightarrow> ('key \<Rightarrow> bytes \<Rightarrow> 'sig) \<Rightarrow> (bytes \<Rightarrow> bytes) \<Rightarrow>
   (('call, 'extra, 'hash) payload \<Rightarrow> bytes) \<Rightarrow> ('a, 'call, 'extra) checked_extrinsic \<Rightarrow> u32 \<Rightarrow> u32 \<Rightarrow> 'hash \<Rightarrow>
   ('a, 'call, 'extra, 'sig) unchecked_extrinsic option" where
  "test_sign from_account_id key_sign hash encode xt spec tx genesis_hash =
     (case cx_signed xt of
        Some (signer, extra) \<Rightarrow>
          (let payload = (cx_function xt, extra, spec, tx, genesis_hash, genesis_hash) in
           case from_account_id signer of
             None \<Rightarrow> None
           | Some key \<Rightarrow>
               (let signature = key_sign key (signed_bytes hash (encode payload))
                in Some \<lparr>ux_signature = Some (signer, signature, extra), ux_function = fst payload\<rparr>))
      | None \<Rightarrow> Some \<lparr>ux_signature = None, ux_function = cx_function xt\<rparr>)"

section \<open>The content of a block\<close>

datatype 'a bench_call =
    Transfer_keep_alive 'a Balance
  | Transfer_call 'a Balance
  | Remark bytes

text \<open>
  The runtime at block 0 and the genesis hash that the iterator reads when it is made, the accounts of the receivers and
  the encoding of an extrinsic as an opaque one.
\<close>

record ('a, 'sr, 'ed, 'sig, 'era, 'asset, 'hash, 'x) content_env =
  ce_crypto :: "('a, 'sr, 'ed, 'sig) crypto"
  ce_encode :: "('a bench_call, ('era, 'asset) signed_extension list, 'hash) payload \<Rightarrow> bytes"
  ce_era_mortal :: "u64 \<Rightarrow> u64 \<Rightarrow> 'era"
  ce_spec_version :: u32
  ce_transaction_version :: u32
  ce_genesis_hash :: 'hash
  ce_opaque :: "('a, 'a bench_call, ('era, 'asset) signed_extension list, 'sig) unchecked_extrinsic \<Rightarrow> 'x option"

definition keep_alive_value :: Balance where "keep_alive_value = ExistentialDeposit + 1"

definition reaping_value :: Balance where "reaping_value = 100 * DOLLARS - (ExistentialDeposit - 1)"

definition content_tip :: Balance where "content_tip = ExistentialDeposit + 1"

definition content_call :: "block_type \<Rightarrow> 'a \<Rightarrow> 'a bench_call" where
  "content_call bt receiver =
     (case bt of
        RandomTransfersKeepAlive \<Rightarrow> Transfer_keep_alive receiver keep_alive_value
      | RandomTransfersReaping \<Rightarrow> Transfer_call receiver reaping_value
      | Noop \<Rightarrow> Remark [])"

text \<open>One step of the iterator: a panic, the end, or the transaction of this iteration.\<close>

datatype 'x content_step = Panics | Ends | Yields 'x

definition content_next ::
  "('a :: linorder, 'sr, 'ed, 'sig, 'era, 'asset, 'hash, 'x) content_env \<Rightarrow> ('a, 'sr, 'ed) bench_keyring \<Rightarrow>
   block_content \<Rightarrow> nat \<Rightarrow> 'x content_step" where
  "content_next env m content iteration =
     (if (case bc_size content of Some s \<Rightarrow> s \<le> iteration | None \<Rightarrow> False) then Ends
      else
        (case keyring_at m iteration of None \<Rightarrow> Panics
         | Some sender \<Rightarrow>
        (case sr25519_from_string (ce_crypto env) (''//random-user//'' @ decimal iteration) of None \<Rightarrow> Panics
         | Some pair \<Rightarrow>
        (case keyring_sign (ce_crypto env) (ce_encode env) m
            \<lparr>cx_signed = Some (sender, test_signed_extra (ce_era_mortal env) 0 content_tip),
             cx_function = content_call (bc_block_type content) (sr25519_id (ce_crypto env) pair)\<rparr>
            (ce_spec_version env) (ce_transaction_version env) (ce_genesis_hash env) of None \<Rightarrow> Panics
         | Some xt \<Rightarrow>
        (case ce_opaque env xt of None \<Rightarrow> Panics | Some x \<Rightarrow> Yields x)))))"

section \<open>Filling a block\<close>

text \<open>
  The client's block builder: pushing an extrinsic succeeds, exhausts the resources of the block, or fails. Pushing
  the inherents and every other failure panics.
\<close>

datatype push_result = Pushed | Exhausted_resources | Push_failed

lemma content_next_yields: "content_next env m content i = Yields x \<Longrightarrow> i < length (Mapping.ordered_keys m)"
  by (auto simp: content_next_def keyring_at_def Let_def split: if_splits option.splits)

function fill_block ::
  "('a :: linorder, 'sr, 'ed, 'sig, 'era, 'asset, 'hash, 'x) content_env \<Rightarrow> ('b \<Rightarrow> 'x \<Rightarrow> push_result \<times> 'b) \<Rightarrow>
   ('a, 'sr, 'ed) bench_keyring \<Rightarrow> block_content \<Rightarrow> nat \<Rightarrow> 'b \<Rightarrow> 'b option" where
  "fill_block env push m content iteration block =
     (case content_next env m content iteration of
        Panics \<Rightarrow> None
      | Ends \<Rightarrow> Some block
      | Yields opaque \<Rightarrow>
          (case push block opaque of
             (Exhausted_resources, block) \<Rightarrow> Some block
           | (Push_failed, block) \<Rightarrow> None
           | (Pushed, block) \<Rightarrow> fill_block env push m content (iteration + 1) block))"
  by pat_completeness auto

termination
  by (relation "measure (\<lambda>(env, push, m, content, iteration, block). length (Mapping.ordered_keys m) - iteration)")
    (auto dest!: content_next_yields)

declare fill_block.simps [simp del]

fun push_inherents :: "('b \<Rightarrow> 'x \<Rightarrow> push_result \<times> 'b) \<Rightarrow> 'x list \<Rightarrow> 'b \<Rightarrow> 'b option" where
  "push_inherents push [] block = Some block"
| "push_inherents push (x # xs) block =
     (case push block x of (Pushed, block) \<Rightarrow> push_inherents push xs block | _ \<Rightarrow> None)"

definition generate_block ::
  "('a :: linorder, 'sr, 'ed, 'sig, 'era, 'asset, 'hash, 'x) content_env \<Rightarrow> ('b \<Rightarrow> 'x \<Rightarrow> push_result \<times> 'b) \<Rightarrow>
   ('b \<Rightarrow> 'c option) \<Rightarrow> ('a, 'sr, 'ed) bench_keyring \<Rightarrow> 'b option \<Rightarrow> 'x list \<Rightarrow> block_content \<Rightarrow> 'c option" where
  "generate_block env push build m new_block inherents content =
     (case new_block of None \<Rightarrow> None
      | Some block \<Rightarrow>
          (case push_inherents push inherents block of None \<Rightarrow> None
           | Some block \<Rightarrow>
               (case fill_block env push m content 0 block of None \<Rightarrow> None
                | Some block \<Rightarrow> build block)))"

text \<open>The genesis of the benchmarks has the embedded runtime, whose absence panics.\<close>

definition generate_genesis ::
  "u8 list option \<Rightarrow> (keyring \<Rightarrow> 'a) \<Rightarrow> (keyring \<Rightarrow> 'k) \<Rightarrow> (keyring \<Rightarrow> 'k) \<Rightarrow> ('a :: linorder, 'sr, 'ed) bench_keyring \<Rightarrow>
   ('a, 'k) genesis option" where
  "generate_genesis wasm_binary acc ed25519 sr25519 m =
     (case wasm_binary_unwrap wasm_binary of
        None \<Rightarrow> None
      | Some code \<Rightarrow> config_endowed wasm_binary (Some code) acc ed25519 sr25519 (collect_account_ids m))"

text \<open>
  Importing the generated block: the chain is at its genesis before, the import reports a new best block without open
  justifications, and the chain is at block 1 after.
\<close>

record imported_aux =
  header_only :: bool
  clear_justification_requests :: bool
  needs_justification :: bool
  bad_justification :: bool
  is_new_best :: bool

datatype import_result = Imported imported_aux | Not_imported

definition import_block :: "('s \<Rightarrow> u32) \<Rightarrow> ('s \<Rightarrow> import_result option \<times> 's) \<Rightarrow> 's \<Rightarrow> 's option" where
  "import_block best import client =
     (if best client \<noteq> 0 then None
      else
        (case import client of (result, client) \<Rightarrow>
          if result = Some (Imported \<lparr>header_only = False, clear_justification_requests = False,
                needs_justification = False, bad_justification = False, is_new_best = True\<rparr>)
             \<and> best client = 1
          then Some client else None))"

section \<open>Lemmas on the keyring\<close>

definition pair_account :: "('a, 'sr, 'ed, 'sig) crypto \<Rightarrow> ('sr, 'ed) bench_pair \<Rightarrow> 'a" where
  "pair_account env key =
     (case key of Sr25519_pair pair \<Rightarrow> sr25519_id env pair | Ed25519_pair pair \<Rightarrow> ed25519_id env pair)"

lemma endowed_user_account: "endowed_user env kt n = Some (a, key) \<Longrightarrow> pair_account env key = a"
  by (auto simp: endowed_user_def pair_account_def Let_def split: key_types.splits option.splits)

lemma bench_keyring_new_Suc:
  "bench_keyring_new env (Suc n) kt =
     (case bench_keyring_new env n kt of None \<Rightarrow> None
      | Some m \<Rightarrow> (case endowed_user env kt n of None \<Rightarrow> None
                  | Some (account_id, pair) \<Rightarrow> Some (Mapping.update account_id pair m)))"
  by (simp add: bench_keyring_new_def)

lemma bench_keyring_new_0: "bench_keyring_new env 0 kt = Some Mapping.empty"
  by (simp add: bench_keyring_new_def)

text \<open>The keys of a keyring are the accounts of its seeds, and every account has a pair of its own.\<close>

lemma bench_keyring_new_keys:
  "bench_keyring_new env n kt = Some m \<Longrightarrow>
     finite (Mapping.keys m)
     \<and> Mapping.keys m = (\<lambda>i. fst (the (endowed_user env kt i))) ` {0..<n}
     \<and> (\<forall>i < n. endowed_user env kt i \<noteq> None)
     \<and> (\<forall>a key. Mapping.lookup m a = Some key \<longrightarrow> pair_account env key = a)"
proof (induction n arbitrary: m)
  case 0
  then show ?case by (simp add: bench_keyring_new_0)
next
  case (Suc n)
  then obtain m' a key where m': "bench_keyring_new env n kt = Some m'"
    and user: "endowed_user env kt n = Some (a, key)" and m: "m = Mapping.update a key m'"
    by (auto simp: bench_keyring_new_Suc split: option.splits)
  have "Mapping.lookup m b = Some k \<Longrightarrow> pair_account env k = b" for b k
    using Suc.IH [OF m'] endowed_user_account [OF user] by (auto simp: m lookup_update' split: if_splits)
  then show ?case
    using Suc.IH [OF m'] user by (auto simp: m less_Suc_eq atLeast0_lessThan_Suc)
qed

lemma keyring_at_Some: "keyring_at m i = Some a \<longleftrightarrow> i < length (collect_account_ids m) \<and> a = collect_account_ids m ! i"
  by (auto simp: keyring_at_def collect_account_ids_def Let_def)

lemma keyring_sign_listed:
  assumes "finite (Mapping.keys m)" "a \<in> set (collect_account_ids m)"
  shows "\<exists>key. Mapping.lookup m a = Some key
    \<and> keyring_sign env encode m \<lparr>cx_signed = Some (a, extra), cx_function = f\<rparr> spec tx g =
      Some \<lparr>ux_signature = Some (a, bench_pair_sign env key
              (signed_bytes (blake2_256 env) (encode (f, extra, spec, tx, g, g))), extra), ux_function = f\<rparr>"
proof -
  obtain key where "Mapping.lookup m a = Some key"
    using assms by (auto simp: collect_account_ids_def keys_dom_lookup)
  then show ?thesis
    by (simp add: keyring_sign_def Let_def)
qed

lemma keyring_sign_Some:
  "finite (Mapping.keys m) \<Longrightarrow> a \<in> set (collect_account_ids m) \<Longrightarrow>
     keyring_sign env encode m \<lparr>cx_signed = Some (a, extra), cx_function = f\<rparr> spec tx g \<noteq> None"
  using keyring_sign_listed [of m a env encode extra f spec tx g] by auto

section \<open>Properties\<close>

text \<open>
  C29: the keyring lists its accounts in the order of the account ids and without repetition, at most one for
  each seed and exactly one when the seeds give different accounts; whatever a listed account signs verifies under that account when
  the signatures of the two key types do, and signing for any other account panics.
\<close>

theorem keyring_accounts:
  assumes "bench_keyring_new env len kt = Some m"
    and "\<And>p b. verify (sr25519_id env p) b (sr25519_sign env p b)"
    and "\<And>p b. verify (ed25519_id env p) b (ed25519_sign env p b)"
  shows "sorted (collect_account_ids m) \<and> distinct (collect_account_ids m)
    \<and> length (collect_account_ids m) \<le> len
    \<and> (inj_on (\<lambda>i. fst (the (endowed_user env kt i))) {0..<len} \<longrightarrow> length (collect_account_ids m) = len)
    \<and> (a \<in> set (collect_account_ids m) \<longrightarrow>
        (\<exists>sig. keyring_sign env encode m \<lparr>cx_signed = Some (a, extra), cx_function = f\<rparr> spec tx g
            = Some \<lparr>ux_signature = Some (a, sig, extra), ux_function = f\<rparr>
          \<and> verify a (signed_bytes (blake2_256 env) (encode (f, extra, spec, tx, g, g))) sig))
    \<and> (a \<notin> set (collect_account_ids m) \<longrightarrow>
        keyring_sign env encode m \<lparr>cx_signed = Some (a, extra), cx_function = f\<rparr> spec tx g = None)"
proof -
  note keys = bench_keyring_new_keys [OF assms(1)]
  have set: "set (collect_account_ids m) = (\<lambda>i. fst (the (endowed_user env kt i))) ` {0..<len}"
    using keys by (simp add: collect_account_ids_def)
  have len: "length (collect_account_ids m) = card ((\<lambda>i. fst (the (endowed_user env kt i))) ` {0..<len})"
    unfolding set [symmetric] by (simp add: collect_account_ids_def distinct_card)
  have "length (collect_account_ids m) \<le> len"
    unfolding len using card_image_le [of "{0..<len}"] by fastforce
  moreover have "length (collect_account_ids m) = len"
    if "inj_on (\<lambda>i. fst (the (endowed_user env kt i))) {0..<len}"
    unfolding len using card_image [OF that] by simp
  moreover have "\<exists>sig. keyring_sign env encode m \<lparr>cx_signed = Some (a, extra), cx_function = f\<rparr> spec tx g
            = Some \<lparr>ux_signature = Some (a, sig, extra), ux_function = f\<rparr>
          \<and> verify a (signed_bytes (blake2_256 env) (encode (f, extra, spec, tx, g, g))) sig"
    if listed: "a \<in> set (collect_account_ids m)"
  proof -
    obtain key where key: "Mapping.lookup m a = Some key"
      and sign: "keyring_sign env encode m \<lparr>cx_signed = Some (a, extra), cx_function = f\<rparr> spec tx g =
        Some \<lparr>ux_signature = Some (a, bench_pair_sign env key
          (signed_bytes (blake2_256 env) (encode (f, extra, spec, tx, g, g))), extra), ux_function = f\<rparr>"
      using keyring_sign_listed [OF conjunct1 [OF keys] listed, of env encode extra f spec tx g] by blast
    have "verify (pair_account env key) b (bench_pair_sign env key b)" for b
      using assms(2,3) by (cases key) (simp_all add: pair_account_def bench_pair_sign_def)
    moreover have "pair_account env key = a"
      using keys key by blast
    ultimately show ?thesis
      using sign by auto
  qed
  moreover have "keyring_sign env encode m \<lparr>cx_signed = Some (a, extra), cx_function = f\<rparr> spec tx g = None"
    if "a \<notin> set (collect_account_ids m)"
  proof -
    have "Mapping.lookup m a = None"
      using that keys by (auto simp: collect_account_ids_def keys_dom_lookup domIff)
    then show ?thesis
      by (simp add: keyring_sign_def Let_def)
  qed
  ultimately show ?thesis
    by (simp add: collect_account_ids_def)
qed

section \<open>Properties of the filling\<close>

lemma content_next_item:
  assumes "content_next env m content i = Yields x"
  shows "\<exists>receiver sig. ce_opaque env \<lparr>ux_signature = Some (collect_account_ids m ! i, sig,
        test_signed_extra (ce_era_mortal env) 0 content_tip),
      ux_function = content_call (bc_block_type content) receiver\<rparr> = Some x"
  using assms
  by (auto simp: content_next_def keyring_at_Some keyring_sign_def Let_def split: if_splits option.splits)

lemma content_next_ends:
  "content_next env m content i = Ends \<longleftrightarrow> (\<exists>s. bc_size content = Some s \<and> s \<le> i)"
  by (auto simp: content_next_def split: option.splits)

text \<open>The blocks reached by pushing a list of extrinsics, all of them accepted.\<close>

fun all_pushed :: "('b \<Rightarrow> 'x \<Rightarrow> push_result \<times> 'b) \<Rightarrow> 'x list \<Rightarrow> 'b \<Rightarrow> 'b option" where
  "all_pushed push [] block = Some block"
| "all_pushed push (x # xs) block =
     (case push block x of (Pushed, block) \<Rightarrow> all_pushed push xs block | _ \<Rightarrow> None)"

lemma all_pushed_append:
  "all_pushed push (ys @ zs) b =
     (case all_pushed push ys b of None \<Rightarrow> None | Some b \<Rightarrow> all_pushed push zs b)"
  by (induction ys arbitrary: b) (simp_all split: prod.split push_result.split)

lemma push_inherents_all: "push_inherents push xs block = all_pushed push xs block"
  by (induction xs arbitrary: block) (simp_all split: prod.split push_result.split)

text \<open>
  The transactions \<open>xs\<close> from iteration \<open>i\<close> on are accepted one after the other, which takes the block to \<open>mid\<close>;
  the loop goes on from there.
\<close>

definition accepted ::
  "('a :: linorder, 'sr, 'ed, 'sig, 'era, 'asset, 'hash, 'x) content_env \<Rightarrow> ('b \<Rightarrow> 'x \<Rightarrow> push_result \<times> 'b) \<Rightarrow>
   ('a, 'sr, 'ed) bench_keyring \<Rightarrow> block_content \<Rightarrow> nat \<Rightarrow> 'x list \<Rightarrow> 'b \<Rightarrow> 'b \<Rightarrow> bool" where
  "accepted env push m content i xs block mid \<longleftrightarrow>
     (\<forall>j < length xs. content_next env m content (i + j) = Yields (xs ! j)) \<and> all_pushed push xs block = Some mid"

lemma accepted_Nil: "accepted env push m content i [] block mid \<longleftrightarrow> mid = block"
  by (auto simp: accepted_def)

lemma accepted_Cons:
  "accepted env push m content i (x # xs) block mid \<longleftrightarrow>
     content_next env m content i = Yields x
     \<and> (\<exists>block'. push block x = (Pushed, block') \<and> accepted env push m content (i + 1) xs block' mid)"
  by (auto simp: accepted_def All_less_Suc2 split: prod.splits push_result.splits)

lemma fill_block_Pushed:
  "content_next env m content i = Yields x \<Longrightarrow> push block x = (Pushed, block') \<Longrightarrow>
     fill_block env push m content i block = fill_block env push m content (i + 1) block'"
  by (simp add: fill_block.simps [of env push m content i block])

lemma fill_block_accepted:
  "accepted env push m content i xs block mid \<Longrightarrow>
     fill_block env push m content i block = fill_block env push m content (i + length xs) mid"
  by (induction xs arbitrary: i block) (auto simp: accepted_Nil accepted_Cons fill_block_Pushed)

lemma fill_block_stops:
  "\<exists>xs mid. accepted env push m content i xs block mid
     \<and> (\<forall>x. content_next env m content (i + length xs) = Yields x \<longrightarrow> fst (push mid x) \<noteq> Pushed)"
proof (induction env push m content i block rule: fill_block.induct)
  case (1 env push m content i block)
  show ?case
  proof (cases "\<exists>x block'. content_next env m content i = Yields x \<and> push block x = (Pushed, block')")
    case True
    then obtain x block' where x: "content_next env m content i = Yields x" "push block x = (Pushed, block')"
      by blast
    then obtain xs mid where "accepted env push m content (i + 1) xs block' mid"
      "\<forall>y. content_next env m content (i + 1 + length xs) = Yields y \<longrightarrow> fst (push mid y) \<noteq> Pushed"
      using 1 [OF x(1) x(2) [symmetric] refl] by blast
    then show ?thesis
      using x by (intro exI [of _ "x # xs"] exI [of _ mid]) (auto simp: accepted_Cons)
  next
    case False
    then show ?thesis
      by (intro exI [of _ "[]"] exI [of _ block]) (auto simp: accepted_Nil, metis prod.collapse)
  qed
qed

text \<open>What the loop does where it stops, and when it returns.\<close>

lemma fill_block_here:
  "fill_block env push m content i block = Some result \<longleftrightarrow>
     result = block \<and> content_next env m content i = Ends
     \<or> (\<exists>x. content_next env m content i = Yields x
        \<and> (push block x = (Exhausted_resources, result)
          \<or> fst (push block x) = Pushed
            \<and> fill_block env push m content (i + 1) (snd (push block x)) = Some result))"
  by (auto simp: fill_block.simps [of env push m content i block]
      split: content_step.splits prod.splits push_result.splits)

lemma fill_block_ok:
  assumes "fill_block env push m content i block = Some result"
  shows "\<exists>xs mid. accepted env push m content i xs block mid
     \<and> (result = mid \<and> content_next env m content (i + length xs) = Ends
        \<or> (\<exists>x. content_next env m content (i + length xs) = Yields x
              \<and> push mid x = (Exhausted_resources, result)))"
proof -
  obtain xs mid where xs: "accepted env push m content i xs block mid"
    and stop: "\<forall>x. content_next env m content (i + length xs) = Yields x \<longrightarrow> fst (push mid x) \<noteq> Pushed"
    using fill_block_stops [of env push m content i block] by blast
  have "fill_block env push m content (i + length xs) mid = Some result"
    using fill_block_accepted [OF xs] assms by simp
  then show ?thesis
    using xs stop fill_block_here [of env push m content "i + length xs" mid result] by blast
qed

lemma fill_block_None:
  "fill_block env push m content i block = None \<longleftrightarrow>
     (\<exists>xs mid. accepted env push m content i xs block mid
       \<and> (content_next env m content (i + length xs) = Panics
          \<or> (\<exists>x. content_next env m content (i + length xs) = Yields x \<and> fst (push mid x) = Push_failed)))"
    (is "?none \<longleftrightarrow> ?stuck")
proof
  assume none: ?none
  obtain xs mid where xs: "accepted env push m content i xs block mid"
    and stop: "\<forall>x. content_next env m content (i + length xs) = Yields x \<longrightarrow> fst (push mid x) \<noteq> Pushed"
    using fill_block_stops [of env push m content i block] by blast
  have "fill_block env push m content (i + length xs) mid = None"
    using fill_block_accepted [OF xs] none by simp
  then have "content_next env m content (i + length xs) = Panics
      \<or> (\<exists>x. content_next env m content (i + length xs) = Yields x \<and> fst (push mid x) = Push_failed)"
    using stop
    by (auto simp: fill_block.simps [of env push m content "i + length xs" mid]
        split: content_step.splits prod.splits push_result.splits)
  then show ?stuck
    using xs by blast
next
  assume ?stuck
  then show ?none
    by (auto simp: fill_block_accepted fill_block.simps [of env push m content "i + length _" _]
        split: prod.splits)
qed

lemma content_stop:
  assumes "\<forall>j < n. content_next env m content j = Yields (f j)" "content_next env m content n = Ends"
  shows "bc_size content = Some n"
proof -
  obtain s where s: "bc_size content = Some s" "s \<le> n"
    using content_next_ends assms(2) by blast
  have "\<not> s < n"
    using assms(1) content_next_ends [of env m content s] s(1) by force
  then show ?thesis
    using s by simp
qed

text \<open>
  C21: a generated block holds the inherents and then transactions of the first accounts of the keyring, each
  account at most once and with nonce 0, up to the asked number, or up to the first one that does not fit.
\<close>

theorem generated_block:
  assumes "generate_block env push build m new_block inherents content = Some c"
  shows "\<exists>block xs mid last.
    new_block = Some block \<and> all_pushed push (inherents @ xs) block = Some mid \<and> build last = Some c
    \<and> length xs \<le> length (collect_account_ids m)
    \<and> (\<forall>j < length xs. \<exists>receiver sig.
        ce_opaque env \<lparr>ux_signature = Some (collect_account_ids m ! j, sig,
            test_signed_extra (ce_era_mortal env) 0 content_tip),
          ux_function = content_call (bc_block_type content) receiver\<rparr> = Some (xs ! j))
    \<and> distinct (take (length xs) (collect_account_ids m))
    \<and> (last = mid \<and> bc_size content = Some (length xs)
       \<or> (\<exists>x. push mid x = (Exhausted_resources, last) \<and> (\<forall>s. bc_size content = Some s \<longrightarrow> length xs < s)))"
proof -
  obtain block b1 last where new: "new_block = Some block" and b1: "all_pushed push inherents block = Some b1"
    and fill: "fill_block env push m content 0 b1 = Some last" and "build last = Some c"
    using assms by (auto simp: generate_block_def push_inherents_all split: option.splits)
  obtain xs mid where xs: "\<forall>j < length xs. content_next env m content j = Yields (xs ! j)"
    and mid: "all_pushed push xs b1 = Some mid"
    and stop: "last = mid \<and> content_next env m content (length xs) = Ends
        \<or> (\<exists>x. content_next env m content (length xs) = Yields x \<and> push mid x = (Exhausted_resources, last))"
    using fill_block_ok [OF fill] by (auto simp: accepted_def)
  have pushed: "all_pushed push (inherents @ xs) block = Some mid"
    by (simp add: all_pushed_append b1 mid)
  have items: "\<exists>receiver sig. ce_opaque env \<lparr>ux_signature = Some (collect_account_ids m ! j, sig,
            test_signed_extra (ce_era_mortal env) 0 content_tip),
          ux_function = content_call (bc_block_type content) receiver\<rparr> = Some (xs ! j)" if "j < length xs" for j
    using content_next_item [OF xs [rule_format, OF that]] .
  have len: "length xs \<le> length (collect_account_ids m)"
  proof (cases "xs = []")
    case False
    then have "content_next env m content (length xs - 1) = Yields (xs ! (length xs - 1))"
      using xs by simp
    then show ?thesis
      using content_next_yields by (fastforce simp: collect_account_ids_def)
  qed simp
  have "last = mid \<and> bc_size content = Some (length xs)
       \<or> (\<exists>x. push mid x = (Exhausted_resources, last) \<and> (\<forall>s. bc_size content = Some s \<longrightarrow> length xs < s))"
    using stop content_stop [OF xs] content_next_ends [of env m content "length xs"] by force
  then show ?thesis
    using new pushed \<open>build last = Some c\<close> len items
    by (intro exI [of _ block] exI [of _ xs] exI [of _ mid] exI [of _ last]) (simp add: collect_account_ids_def)
qed

lemma content_next_no_panic:
  assumes "finite (Mapping.keys m)" "i < length (collect_account_ids m)"
    and "sr25519_from_string (ce_crypto env) (''//random-user//'' @ decimal i) \<noteq> None" "\<And>xt. ce_opaque env xt \<noteq> None"
  shows "content_next env m content i \<noteq> Panics"
proof -
  have "keyring_at m i = Some (collect_account_ids m ! i)" "collect_account_ids m ! i \<in> set (collect_account_ids m)"
    using assms(2) by (simp_all add: keyring_at_Some)
  moreover obtain pair where
    "sr25519_from_string (ce_crypto env) (''//random-user//'' @ decimal i) = Some pair"
    using assms(3) by blast
  moreover have "keyring_sign (ce_crypto env) (ce_encode env) m
      \<lparr>cx_signed = Some (collect_account_ids m ! i, test_signed_extra (ce_era_mortal env) 0 content_tip),
       cx_function = content_call (bc_block_type content) (sr25519_id (ce_crypto env) pair)\<rparr>
      (ce_spec_version env) (ce_transaction_version env) (ce_genesis_hash env) \<noteq> None"
    by (rule keyring_sign_Some [OF assms(1) calculation(2)])
  then obtain xt where "keyring_sign (ce_crypto env) (ce_encode env) m
      \<lparr>cx_signed = Some (collect_account_ids m ! i, test_signed_extra (ce_era_mortal env) 0 content_tip),
       cx_function = content_call (bc_block_type content) (sr25519_id (ce_crypto env) pair)\<rparr>
      (ce_spec_version env) (ce_transaction_version env) (ce_genesis_hash env) = Some xt"
    by blast
  moreover from assms(4) [of xt] obtain x where "ce_opaque env xt = Some x"
    by blast
  ultimately show ?thesis
    by (simp add: content_next_def)
qed

lemma content_next_beyond:
  "length (collect_account_ids m) \<le> i \<Longrightarrow> content_next env m content i = Ends \<or> content_next env m content i = Panics"
  by (auto simp: content_next_def keyring_at_def collect_account_ids_def Let_def)

text \<open>The seeds of the receivers that the iterator asks for are accepted.\<close>

definition receiver_seeds_ok :: "('a, 'sr, 'ed, 'sig) crypto \<Rightarrow> nat \<Rightarrow> bool" where
  "receiver_seeds_ok env n \<longleftrightarrow> (\<forall>i < n. sr25519_from_string env (''//random-user//'' @ decimal i) \<noteq> None)"

lemma accepted_length: "accepted env push m content 0 xs block mid \<Longrightarrow> length xs \<le> length (collect_account_ids m)"
  using content_next_yields [of env m content "length xs - 1" "xs ! (length xs - 1)"]
  by (cases xs) (fastforce simp: accepted_def collect_account_ids_def)+

lemma content_next_Panics:
  assumes "finite (Mapping.keys m)" "receiver_seeds_ok (ce_crypto env) (length (collect_account_ids m))"
    and "\<And>xt. ce_opaque env xt \<noteq> None"
  shows "content_next env m content i = Panics \<longleftrightarrow>
    length (collect_account_ids m) \<le> i \<and> (\<forall>s. bc_size content = Some s \<longrightarrow> i < s)"
proof (cases "i < length (collect_account_ids m)")
  case True
  then show ?thesis
    using content_next_no_panic [OF assms(1) True _ assms(3)] assms(2) by (auto simp: receiver_seeds_ok_def)
next
  case False
  then show ?thesis
    using content_next_beyond [of m i env content] content_next_ends [of env m content i] by (auto simp: not_less)
qed

lemma fill_block_panics:
  assumes "finite (Mapping.keys m)" "receiver_seeds_ok (ce_crypto env) (length (collect_account_ids m))"
    and "\<And>xt. ce_opaque env xt \<noteq> None"
  shows "fill_block env push m content 0 block = None \<longleftrightarrow>
    (\<exists>xs mid. accepted env push m content 0 xs block mid
      \<and> (length xs = length (collect_account_ids m)
            \<and> (\<forall>s. bc_size content = Some s \<longrightarrow> length (collect_account_ids m) < s)
         \<or> (\<exists>x. content_next env m content (length xs) = Yields x \<and> fst (push mid x) = Push_failed)))"
  unfolding fill_block_None content_next_Panics [OF assms]
  using accepted_length [of env push m content _ block] by (metis add_0 le_antisym order_refl)

text \<open>
  C22: the loop that fills a block always comes to an end. With a keyring of the code, when the seeds
  \<open>//random-user//0\<close>, \<open>//random-user//1\<close> and so on of the receivers are accepted for as many numbers as there are accounts, and an
  encoded extrinsic decodes as an opaque one, it panics in exactly two cases: the block accepts one transaction for every account
  although none or a larger number was asked for, so that the accounts run out; or after some accepted transactions
  pushing the next one fails for another reason than the block's resources. In every other case it returns.
\<close>

theorem block_filling_returns:
  assumes "bench_keyring_new (ce_crypto env) len kt = Some m"
    and "receiver_seeds_ok (ce_crypto env) (length (collect_account_ids m))"
    and "\<And>xt. ce_opaque env xt \<noteq> None"
  shows "fill_block env push m content 0 block = None \<longleftrightarrow>
    (\<exists>xs mid. (\<forall>j < length xs. content_next env m content j = Yields (xs ! j)) \<and> all_pushed push xs block = Some mid
      \<and> (length xs = length (collect_account_ids m)
            \<and> (\<forall>s. bc_size content = Some s \<longrightarrow> length (collect_account_ids m) < s)
         \<or> (\<exists>x. content_next env m content (length xs) = Yields x \<and> fst (push mid x) = Push_failed)))"
  using fill_block_panics [OF conjunct1 [OF bench_keyring_new_keys [OF assms(1)]] assms(2,3)]
  by (simp add: accepted_def)

text \<open>
  C25: in the genesis of the benchmarks, which exists when a runtime has been built, every account of the keyring owns 100 dollars. The reaping transfers, meant
  to leave the sender just below the existential deposit, cannot be paid: their value and tip alone exceed the balance by 2
  units; the other transfers leave the sender 97 dollars less 2 units for the fee above the existential deposit.
\<close>

theorem reaping_transfer_unpayable:
  "(\<exists>g. generate_genesis (Some code) acc ed sr m = Some g \<and> g_code g = code
      \<and> (\<forall>a \<in> set (collect_account_ids m). (a, 100 * DOLLARS) \<in> set (g_balances g)))
   \<and> (\<forall>receiver v. content_call RandomTransfersReaping receiver = Transfer_call receiver v \<longrightarrow>
        unat v + unat content_tip = unat (100 * DOLLARS) + 2)
   \<and> (\<forall>receiver v. content_call RandomTransfersKeepAlive receiver = Transfer_keep_alive receiver v \<longrightarrow>
        unat v + unat content_tip + unat ExistentialDeposit + unat (97 * DOLLARS) = unat (100 * DOLLARS) + 2)"
proof -
  have "\<exists>g. generate_genesis (Some code) acc ed sr m = Some g \<and> g_code g = code
      \<and> (\<forall>a \<in> set (collect_account_ids m). (a, 100 * DOLLARS) \<in> set (g_balances g))"
    by (simp add: generate_genesis_def wasm_binary_unwrap_def config_endowed_def image_iff Let_def)
  then show ?thesis
    by (simp add: content_call_def reaping_value_def keep_alive_value_def content_tip_def ExistentialDeposit_def
        DOLLARS_def CENTS_def MILLICENTS_def)
qed

section \<open>Witnesses\<close>

definition demo_crypto :: "(nat, string, bytes, bytes) crypto" where
  "demo_crypto = \<lparr>sr25519_from_string = Some, sr25519_id = (\<lambda>p. of_char (last p)), sr25519_sign = (\<lambda>p b. b),
     ed25519_from_seed = (\<lambda>s. s), ed25519_id = length, ed25519_sign = (\<lambda>p b. b), blake2_256 = (\<lambda>b. [])\<rparr>"

definition demo_content_env :: "(nat, string, bytes, bytes, u64 \<times> u64, unit, nat, nat) content_env" where
  "demo_content_env = \<lparr>ce_crypto = demo_crypto, ce_encode = (\<lambda>p. []), ce_era_mortal = Pair, ce_spec_version = 268,
     ce_transaction_version = 2, ce_genesis_hash = 7, ce_opaque = (\<lambda>xt. Some (case ux_signature xt of Some (a, _) \<Rightarrow> a | None \<Rightarrow> 0))\<rparr>"

definition demo_keyring :: "(nat, string, bytes) bench_keyring" where
  "demo_keyring = Mapping.update 49 (Sr25519_pair (''//endowed-user/'' @ decimal 1))
     (Mapping.update 48 (Sr25519_pair (''//endowed-user/'' @ decimal 0)) Mapping.empty)"

definition demo_push :: "nat list \<Rightarrow> nat \<Rightarrow> push_result \<times> nat list" where
  "demo_push b x = (if length b < 3 then (Pushed, b @ [x]) else (Exhausted_resources, b))"

lemma demo_keyring_new: "bench_keyring_new demo_crypto 2 Sr25519 = Some demo_keyring"
  by (simp add: bench_keyring_new_def endowed_user_def demo_crypto_def demo_keyring_def decimal.simps upt_conv_Cons)

lemma demo_accounts: "collect_account_ids demo_keyring = [48, 49]"
  by (simp add: demo_keyring_def collect_account_ids_def)

theorem keyring_accounts_witness:
  "sorted (collect_account_ids demo_keyring) \<and> length (collect_account_ids demo_keyring) \<le> 2"
proof -
  have "(\<lambda>a b s. s = b) (sr25519_id demo_crypto p) b (sr25519_sign demo_crypto p b)"
    and "(\<lambda>a b s. s = b) (ed25519_id demo_crypto q) b (ed25519_sign demo_crypto q b)" for p q b
    by (simp_all add: demo_crypto_def)
  then show ?thesis
    using keyring_accounts [where verify = "\<lambda>a b s. s = b" and a = 0 and encode = "\<lambda>_. []" and extra = "()"
        and f = "()" and spec = 0 and tx = 0 and g = "()", OF demo_keyring_new] by metis
qed

definition demo_content :: block_content where
  "demo_content = to_content Noop (Some 2)"

lemma demo_keyring_facts:
  "keyring_at demo_keyring 0 = Some 48" "keyring_at demo_keyring (Suc 0) = Some 49"
  "Mapping.lookup demo_keyring 48 = Some (Sr25519_pair (''//endowed-user/'' @ decimal 0))"
  "Mapping.lookup demo_keyring 49 = Some (Sr25519_pair (''//endowed-user/'' @ decimal 1))"
  by (simp_all add: keyring_at_Some demo_accounts) (simp_all add: demo_keyring_def lookup_update')

lemma demo_next:
  "content_next demo_content_env demo_keyring demo_content 0 = Yields 48"
  "content_next demo_content_env demo_keyring demo_content (Suc 0) = Yields 49"
  "content_next demo_content_env demo_keyring demo_content (Suc (Suc 0)) = Ends"
  by (simp_all add: content_next_def demo_content_def to_content_def demo_keyring_facts
      keyring_sign_def demo_content_env_def demo_crypto_def Let_def)

lemma demo_block:
  "generate_block demo_content_env demo_push Some demo_keyring (Some []) [5] demo_content = Some [5, 48, 49]"
  by (simp add: generate_block_def demo_push_def fill_block.simps demo_next)

theorem generated_block_witness:
  "\<exists>xs. all_pushed demo_push ([5] @ xs) [] \<noteq> None \<and> length xs \<le> 2"
  using generated_block [OF demo_block] by (auto simp: demo_accounts)

lemma demo_seeds: "receiver_seeds_ok demo_crypto n"
  by (simp add: receiver_seeds_ok_def demo_crypto_def)

theorem block_filling_returns_witness:
  "fill_block demo_content_env demo_push demo_keyring demo_content 0 [] \<noteq> None
   \<and> fill_block demo_content_env (\<lambda>b x. (Pushed, b @ [x])) demo_keyring (to_content Noop None) 0 [] = None"
proof -
  have env: "ce_crypto demo_content_env = demo_crypto" "ce_opaque demo_content_env xt \<noteq> None" for xt
    by (simp_all add: demo_content_env_def)
  then have m: "bench_keyring_new (ce_crypto demo_content_env) 2 Sr25519 = Some demo_keyring"
    and seeds: "receiver_seeds_ok (ce_crypto demo_content_env) (length (collect_account_ids demo_keyring))"
    by (simp_all add: demo_keyring_new demo_seeds)
  have "fst (demo_push b x) \<noteq> Push_failed" for b x
    by (simp add: demo_push_def)
  moreover have "content_next demo_content_env demo_keyring (to_content Noop None) j = Yields ([48, 49] ! j)"
    if "j < 2" for j
    using that by (auto simp: less_2_cases_iff content_next_def to_content_def demo_keyring_facts
      keyring_sign_def demo_content_env_def demo_crypto_def Let_def)
  moreover have "all_pushed (\<lambda>b x. (Pushed, b @ [x])) [48, 49] [] = Some [48, 49 :: nat]"
    by simp
  ultimately show ?thesis
    using block_filling_returns [OF m seeds env(2), of demo_push demo_content "[]"]
      block_filling_returns [OF m seeds env(2), of "\<lambda>b x. (Pushed, b @ [x])" "to_content Noop None" "[]"]
    by (auto simp: demo_accounts demo_content_def to_content_def intro!: exI [of _ "[48, 49]"] exI [of _ "[48, 49 :: nat]"])
qed

theorem reaping_transfer_unpayable_witness:
  "unat reaping_value + unat content_tip = unat (100 * DOLLARS) + 2"
  using reaping_transfer_unpayable [of "[]" "\<lambda>_. 0" id id demo_keyring] by (simp add: content_call_def)

end
