(* ===== verification/Bench_Databases.thy ===== *)
theory Bench_Databases
  imports Testing_Bench Bench_Runs "HOL-Library.Monad_Syntax" "HOL-Library.List_Lexorder" "HOL-Library.Char_ord"
begin

text \<open>
  The life of a benchmark over its databases (\<open>testing/src/bench.rs\<close>, \<open>bench/src/trie.rs\<close>, \<open>bench/src/import.rs\<close> and the others): the
  seed database of the setup, the copy each run works on, and the removal of that copy, over the store of \<open>Temp_Databases\<close>. What
  the client components do are fields of \<open>client_env\<close>. A panic is a \<open>None\<close>.
\<close>

section \<open>The trie benchmarks over their databases\<close>

text \<open>
  The read benchmark with its database: a copy for each run, which is removed with the end of the run. The trie library
  looks keys up in the opened copy.
\<close>

definition trie_read_run ::
  "'f file_system \<Rightarrow> (kvdb_settings \<Rightarrow> nat \<Rightarrow> 'f disk \<Rightarrow> ('kv \<times> 'f disk) option) \<Rightarrow>
   ('kv \<Rightarrow> 'f disk \<Rightarrow> 'r \<Rightarrow> bytes \<Rightarrow> bytes option) \<Rightarrow> ('r, nat) trie_benchmark \<Rightarrow> nat \<Rightarrow> 'f disk \<Rightarrow> (nat \<times> 'f disk) option" where
  "trie_read_run fs backend lookup b elapsed d = do {
     (dir, d) \<leftarrow> temp_database_clone fs (bench_database b) d;
     (kv, d) \<leftarrow> temp_database_open backend dir (bench_type b) d;
     time \<leftarrow> read_run (lookup kv d (bench_root b)) b elapsed;
     Some (time, fs_drop fs d dir)
   }"

lemma trie_read_run_same:
  assumes fs: "lawful fs" and "opens_in_place backend" "d (bench_database b) \<noteq> None"
    and "trie_read_run fs backend lookup b elapsed d = Some (time, d')"
  shows "d' = d \<and> time = elapsed div SAMPLE_SIZE"
proof -
  obtain dir d1 kv d2 where copy: "clone_dir fs (bench_database b) d = Some (dir, d1)"
    and opened: "backend (kvdb_settings_of (bench_type b)) dir d1 = Some (kv, d2)"
    and run: "read_run (lookup kv d2 (bench_root b)) b elapsed = Some time" and d': "d' = fs_drop fs d2 dir"
    using assms(4)
    by (auto simp: trie_read_run_def temp_database_clone_def temp_database_open_def Option.bind_eq_Some_conv)
  have "d2 i = d1 i" if "i \<noteq> dir" for i
    using opened assms(2) that unfolding opens_in_place_def by metis
  then show ?thesis
    using clone_dropped [OF fs copy assms(3)] run d' by (auto simp: read_run_def split: if_splits)
qed

section \<open>Client databases\<close>

datatype database_source =
    Source_RocksDb nat nat
  | Source_ParityDb nat

fun into_settings :: "client_database \<Rightarrow> nat \<Rightarrow> database_source" where
  "into_settings Client_RocksDb dir = Source_RocksDb dir 512"
| "into_settings Client_ParityDb dir = Source_ParityDb dir"

fun source_dir :: "database_source \<Rightarrow> nat" where
  "source_dir (Source_RocksDb dir cache_size) = dir"
| "source_dir (Source_ParityDb dir) = dir"

datatype execution_strategy = Always_wasm | Native_else_wasm

record execution_strategies =
  es_syncing :: execution_strategy
  es_importing :: execution_strategy
  es_block_construction :: execution_strategy
  es_offchain_worker :: execution_strategy
  es_other :: execution_strategy

fun into_execution_strategies :: "profile \<Rightarrow> execution_strategies" where
  "into_execution_strategies Wasm = \<lparr>es_syncing = Always_wasm, es_importing = Always_wasm, es_block_construction = Always_wasm,
     es_offchain_worker = Always_wasm, es_other = Always_wasm\<rparr>"
| "into_execution_strategies Native = \<lparr>es_syncing = Native_else_wasm, es_importing = Native_else_wasm,
     es_block_construction = Native_else_wasm, es_offchain_worker = Native_else_wasm, es_other = Native_else_wasm\<rparr>"

datatype pruning_mode = Archive_all
datatype keep_blocks = Keep_all
datatype transaction_storage = Block_body

record database_settings =
  ds_state_cache_size :: nat
  ds_state_cache_child_ratio :: "(nat \<times> nat) option"
  ds_state_pruning :: pruning_mode
  ds_source :: database_source
  ds_keep_blocks :: keep_blocks
  ds_transaction_storage :: transaction_storage

text \<open>The executor of the bench client: the execution method, default heap pages, maximum of instances and cache size.\<close>

datatype wasm_method = Compiled

definition bench_executor :: "wasm_method \<times> nat option \<times> nat \<times> nat" where
  "bench_executor = (Compiled, None, 8, 2)"

text \<open>
  The client components and the queries of a client that the benchmarks make; all of them can fail. A client is opened on the
  directory of its source, and reads and writes there.
\<close>

record ('a, 'k, 'f, 'b, 'c, 't, 'hash, 'x, 'bl, 'blk) client_env =
  nv_wasm_binary :: "u8 list option"
  nv_account :: "keyring \<Rightarrow> 'a"
  nv_ed25519 :: "keyring \<Rightarrow> 'k"
  nv_sr25519 :: "keyring \<Rightarrow> 'k"
  nv_thread_pool :: "'t option"
  nv_new_db_backend :: "database_settings \<Rightarrow> 'f disk \<Rightarrow> ('b \<times> 'f disk) option"
  nv_new_client :: "'b \<Rightarrow> wasm_method \<times> nat option \<times> nat \<times> nat \<Rightarrow> ('a, 'k) genesis \<Rightarrow> execution_strategies \<Rightarrow> 't \<Rightarrow>
    'f disk \<Rightarrow> ('c \<times> 'f disk) option"
  nv_runtime_version :: "'c \<Rightarrow> 'f disk \<Rightarrow> (u32 \<times> u32) option"
  nv_genesis_hash :: "'c \<Rightarrow> 'f disk \<Rightarrow> 'hash option"
  nv_inherents :: "'c \<Rightarrow> 'f disk \<Rightarrow> Moment \<Rightarrow> 'x list option"
  nv_new_block :: "'c \<Rightarrow> 'f disk \<Rightarrow> 'bl option"
  nv_push :: "'bl \<Rightarrow> 'x \<Rightarrow> push_result \<times> 'bl"
  nv_build :: "'bl \<Rightarrow> 'blk option"
  nv_extrinsics :: "'blk \<Rightarrow> 'x list"
  nv_best_number :: "'c \<Rightarrow> 'f disk \<Rightarrow> u32"
  nv_import :: "'c \<Rightarrow> 'blk \<Rightarrow> 'f disk \<Rightarrow> import_result option \<times> 'f disk"
  nv_events_at_1 :: "'c \<Rightarrow> 'f disk \<Rightarrow> nat option"

record ('a, 'sr, 'ed) bench_db =
  bd_keyring :: "('a, 'sr, 'ed) bench_keyring"
  bd_directory :: nat
  bd_type :: client_database

record ('b, 'c, 't) bench_context =
  cx_client :: 'c
  cx_backend :: 'b
  cx_spawn_handle :: 't
  cx_guard :: nat

definition bench_client ::
  "('a :: linorder, 'k, 'f, 'b, 'c, 't, 'hash, 'x, 'bl, 'blk) client_env \<Rightarrow> client_database \<Rightarrow> nat \<Rightarrow> profile \<Rightarrow>
   ('a, 'sr, 'ed) bench_keyring \<Rightarrow> 'f disk \<Rightarrow> (('c \<times> 'b \<times> 't) \<times> 'f disk) option" where
  "bench_client nv dtype dir profile m d = do {
     let db_config = \<lparr>ds_state_cache_size = 16 * 1024 * 1024, ds_state_cache_child_ratio = Some (0, 100),
       ds_state_pruning = Archive_all, ds_source = into_settings dtype dir, ds_keep_blocks = Keep_all,
       ds_transaction_storage = Block_body\<rparr>;
     task_executor \<leftarrow> nv_thread_pool nv;
     (backend, d) \<leftarrow> nv_new_db_backend nv db_config d;
     genesis \<leftarrow> generate_genesis (nv_wasm_binary nv) (nv_account nv) (nv_ed25519 nv) (nv_sr25519 nv) m;
     (client, d) \<leftarrow> nv_new_client nv backend bench_executor genesis
       (into_execution_strategies profile) task_executor d;
     Some ((client, backend, task_executor), d)
   }"

text \<open>The seed database of a benchmark: its keyring, and a new directory with the genesis written by a native client.\<close>

definition with_key_types ::
  "'f file_system \<Rightarrow> ('a :: linorder, 'k, 'f, 'b, 'c, 't, 'hash, 'x, 'bl, 'blk) client_env \<Rightarrow>
   ('a, 'sr, 'ed, 'sig) crypto \<Rightarrow> client_database \<Rightarrow> nat \<Rightarrow> key_types \<Rightarrow> 'f disk \<Rightarrow>
   (('a, 'sr, 'ed) bench_db \<times> 'f disk) option" where
  "with_key_types fs nv crypto dtype keyring_length kt d = do {
     m \<leftarrow> bench_keyring_new crypto keyring_length kt;
     (dir, d) \<leftarrow> fs_tempdir fs d;
     (_, d) \<leftarrow> bench_client nv dtype dir Native m d;
     Some (\<lparr>bd_keyring = m, bd_directory = dir, bd_type = dtype\<rparr>, d)
   }"

definition bench_db_new ::
  "'f file_system \<Rightarrow> ('a :: linorder, 'k, 'f, 'b, 'c, 't, 'hash, 'x, 'bl, 'blk) client_env \<Rightarrow>
   ('a, 'sr, 'ed, 'sig) crypto \<Rightarrow> client_database \<Rightarrow> nat \<Rightarrow> 'f disk \<Rightarrow> (('a, 'sr, 'ed) bench_db \<times> 'f disk) option" where
  "bench_db_new fs nv crypto dtype keyring_length d = with_key_types fs nv crypto dtype keyring_length Sr25519 d"

definition bench_db_clone ::
  "'f file_system \<Rightarrow> ('a, 'sr, 'ed) bench_db \<Rightarrow> 'f disk \<Rightarrow> (('a, 'sr, 'ed) bench_db \<times> 'f disk) option" where
  "bench_db_clone fs seed_db d = do {
     (dir, d) \<leftarrow> clone_dir fs (bd_directory seed_db) d;
     d \<leftarrow> drop_system_cache fs d;
     Some (\<lparr>bd_keyring = bd_keyring seed_db, bd_directory = dir, bd_type = bd_type seed_db\<rparr>, d)
   }"

definition bench_db_client ::
  "('a :: linorder, 'k, 'f, 'b, 'c, 't, 'hash, 'x, 'bl, 'blk) client_env \<Rightarrow> ('a, 'sr, 'ed) bench_db \<Rightarrow> 'f disk \<Rightarrow>
   ('c \<times> 'f disk) option" where
  "bench_db_client nv seed_db d = do {
     ((client, backend, task_executor), d) \<leftarrow> bench_client nv (bd_type seed_db) (bd_directory seed_db) Wasm (bd_keyring seed_db) d;
     Some (client, d)
   }"

definition generate_inherents ::
  "('a, 'k, 'f, 'b, 'c, 't, 'hash, 'x, 'bl, 'blk) client_env \<Rightarrow> 'c \<Rightarrow> 'f disk \<Rightarrow> 'x list option" where
  "generate_inherents nv client d = (let timestamp = 1 * MinimumPeriod in nv_inherents nv client d timestamp)"

text \<open>A new iterator reads the runtime version at block 0 and the hash of the genesis from the client.\<close>

definition block_content_iterator ::
  "('a, 'k, 'f, 'b, 'c, 't, 'hash, 'x, 'bl, 'blk) client_env \<Rightarrow> 'c \<Rightarrow> 'f disk \<Rightarrow>
   ('a, 'sr, 'ed, 'sig, 'era, 'asset, 'hash, 'x) content_env \<Rightarrow>
   ('a, 'sr, 'ed, 'sig, 'era, 'asset, 'hash, 'x) content_env option" where
  "block_content_iterator nv client d env = do {
     (spec_version, transaction_version) \<leftarrow> nv_runtime_version nv client d;
     genesis_hash \<leftarrow> nv_genesis_hash nv client d;
     Some (env\<lparr>ce_spec_version := spec_version, ce_transaction_version := transaction_version,
       ce_genesis_hash := genesis_hash\<rparr>)
   }"

definition bench_db_generate_block ::
  "('a :: linorder, 'k, 'f, 'b, 'c, 't, 'hash, 'x, 'bl, 'blk) client_env \<Rightarrow>
   ('a, 'sr, 'ed, 'sig, 'era, 'asset, 'hash, 'x) content_env \<Rightarrow> ('a, 'sr, 'ed) bench_db \<Rightarrow> block_content \<Rightarrow> 'f disk \<Rightarrow>
   ('blk \<times> 'f disk) option" where
  "bench_db_generate_block nv env seed_db content d = do {
     (client, d) \<leftarrow> bench_db_client nv seed_db d;
     inherents \<leftarrow> generate_inherents nv client d;
     env \<leftarrow> block_content_iterator nv client d env;
     block \<leftarrow> generate_block env (nv_push nv) (nv_build nv) (bd_keyring seed_db) (nv_new_block nv client d) inherents content;
     Some (block, d)
   }"

text \<open>A context is a client on a copy of the seed database.\<close>

definition create_context ::
  "'f file_system \<Rightarrow> ('a :: linorder, 'k, 'f, 'b, 'c, 't, 'hash, 'x, 'bl, 'blk) client_env \<Rightarrow> ('a, 'sr, 'ed) bench_db \<Rightarrow>
   profile \<Rightarrow> 'f disk \<Rightarrow> (('b, 'c, 't) bench_context \<times> 'f disk) option" where
  "create_context fs nv seed_db profile d = do {
     (copy, d) \<leftarrow> bench_db_clone fs seed_db d;
     ((client, backend, task_executor), d) \<leftarrow>
       bench_client nv (bd_type copy) (bd_directory copy) profile (bd_keyring copy) d;
     Some (\<lparr>cx_client = client, cx_backend = backend, cx_spawn_handle = task_executor, cx_guard = bd_directory copy\<rparr>, d)
   }"

section \<open>The client benchmarks over their databases\<close>

text \<open>All transactions of an iterator.\<close>

function collect_content ::
  "('a :: linorder, 'sr, 'ed, 'sig, 'era, 'asset, 'hash, 'x) content_env \<Rightarrow> ('a, 'sr, 'ed) bench_keyring \<Rightarrow>
   block_content \<Rightarrow> nat \<Rightarrow> 'x list option" where
  "collect_content env m content iteration =
     (case content_next env m content iteration of
        Panics \<Rightarrow> None
      | Ends \<Rightarrow> Some []
      | Yields opaque \<Rightarrow> map_option ((#) opaque) (collect_content env m content (iteration + 1)))"
  by pat_completeness auto

termination
  by (relation "measure (\<lambda>(env, m, content, iteration). length (Mapping.ordered_keys m) - iteration)")
    (auto dest!: content_next_yields)

declare collect_content.simps [simp del]

record ('a, 'sr, 'ed, 'blk) import_benchmark =
  ib_profile :: profile
  ib_database :: "('a, 'sr, 'ed) bench_db"
  ib_block :: 'blk
  ib_block_type :: block_type

definition import_setup ::
  "'f file_system \<Rightarrow> ('a :: linorder, 'k, 'f, 'b, 'c, 't, 'hash, 'x, 'bl, 'blk) client_env \<Rightarrow>
   ('a, 'sr, 'ed, 'sig, 'era, 'asset, 'hash, 'x) content_env \<Rightarrow> client_benchmark \<Rightarrow> 'f disk \<Rightarrow>
   (('a, 'sr, 'ed, 'blk) import_benchmark \<times> 'f disk) option" where
  "import_setup fs nv env b d = do {
     (seed_db, d) \<leftarrow> with_key_types fs nv (ce_crypto env) (cb_database_type b) 50000 (cb_key_types b) d;
     (block, d) \<leftarrow> bench_db_generate_block nv env seed_db (to_content (cb_block_type b) (transactions (cb_size b))) d;
     Some (\<lparr>ib_profile = cb_profile b, ib_database = seed_db, ib_block = block, ib_block_type = cb_block_type b\<rparr>, d)
   }"

text \<open>The context lives to the end of the run, where its directory is removed; \<open>elapsed\<close> is the measured time.\<close>

definition import_benchmark_run ::
  "'f file_system \<Rightarrow> ('a :: linorder, 'k, 'f, 'b, 'c, 't, 'hash, 'x, 'bl, 'blk) client_env \<Rightarrow>
   ('a, 'sr, 'ed, 'blk) import_benchmark \<Rightarrow> mode \<Rightarrow> nat \<Rightarrow> 'f disk \<Rightarrow> ((nat \<times> nat list) \<times> 'f disk) option" where
  "import_benchmark_run fs nv b m elapsed d = do {
     (context, d) \<leftarrow> create_context fs nv (ib_database b) (ib_profile b) d;
     let client = cx_client context;
     version \<leftarrow> nv_runtime_version nv client d;
     d \<leftarrow> import_block (nv_best_number nv client) (nv_import nv client (ib_block b)) d;
     time \<leftarrow> import_run (Some version) (nv_events_at_1 nv client d) (ib_block_type b)
       (length (nv_extrinsics nv (ib_block b))) m elapsed;
     Some (time, fs_drop fs d (cx_guard context))
   }"

record ('a, 'sr, 'ed, 'x) construction_benchmark =
  kb_profile :: profile
  kb_database :: "('a, 'sr, 'ed) bench_db"
  kb_transactions :: "'x pool_transaction list"

definition construction_benchmark_setup ::
  "'f file_system \<Rightarrow> ('a :: linorder, 'k, 'f, 'b, 'c, 't, 'hash, 'x, 'bl, 'blk) client_env \<Rightarrow>
   ('a, 'sr, 'ed, 'sig, 'era, 'asset, 'hash, 'x) content_env \<Rightarrow> client_benchmark \<Rightarrow> 'f disk \<Rightarrow>
   (('a, 'sr, 'ed, 'x) construction_benchmark \<times> 'f disk) option" where
  "construction_benchmark_setup fs nv env b d = do {
     (seed_db, d) \<leftarrow> with_key_types fs nv (ce_crypto env) (cb_database_type b) 50000 (cb_key_types b) d;
     (client, d) \<leftarrow> bench_db_client nv seed_db d;
     env \<leftarrow> block_content_iterator nv client d env;
     content \<leftarrow> collect_content env (bd_keyring seed_db) (to_content (cb_block_type b) (transactions (cb_size b))) 0;
     Some (\<lparr>kb_profile = cb_profile b, kb_database = seed_db,
       kb_transactions = construction_setup (\<lambda>_. content) b\<rparr>, d)
   }"

text \<open>
  The proposer is made of the context and the transactions; \<open>header\<close> is the header of block 0, \<open>inherent_data\<close> the data of the
  timestamp and \<open>propose\<close> the proposal, which builds a block without importing it.
\<close>

definition construction_benchmark_run ::
  "'f file_system \<Rightarrow> ('a :: linorder, 'k, 'f, 'b, 'c, 't, 'hash, 'x, 'bl, 'blk) client_env \<Rightarrow>
   ('c \<Rightarrow> 'f disk \<Rightarrow> 'h option) \<Rightarrow> (('b, 'c, 't) bench_context \<Rightarrow> 'x pool_transaction list \<Rightarrow> 'h \<Rightarrow> 'p option) \<Rightarrow>
   'i option \<Rightarrow> ('p \<Rightarrow> 'i \<Rightarrow> nat \<Rightarrow> 'blk option) \<Rightarrow>
   ('a, 'sr, 'ed, 'x) construction_benchmark \<Rightarrow> mode \<Rightarrow> nat \<Rightarrow> 'f disk \<Rightarrow> ((nat \<times> nat list) \<times> 'f disk) option" where
  "construction_benchmark_run fs nv header init inherent_data propose b m elapsed d = do {
     (context, d) \<leftarrow> create_context fs nv (kb_database b) (kb_profile b) d;
     time \<leftarrow> construction_run (nv_runtime_version nv (cx_client context) d) (header (cx_client context) d)
       (init context (kb_transactions b)) inherent_data propose m elapsed;
     Some (time, fs_drop fs d (cx_guard context))
   }"

definition pool_setup ::
  "'f file_system \<Rightarrow> ('a :: linorder, 'k, 'f, 'b, 'c, 't, 'hash, 'x, 'bl, 'blk) client_env \<Rightarrow>
   ('a, 'sr, 'ed, 'sig) crypto \<Rightarrow> client_database \<Rightarrow> 'f disk \<Rightarrow> (('a, 'sr, 'ed) bench_db \<times> 'f disk) option" where
  "pool_setup fs nv crypto dtype d = with_key_types fs nv crypto dtype 50000 Sr25519 d"

definition pool_benchmark_run ::
  "'f file_system \<Rightarrow> ('a :: linorder, 'k, 'f, 'b, 'c, 't, 'hash, 'x, 'bl, 'blk) client_env \<Rightarrow>
   ('a, 'sr, 'ed, 'sig, 'era, 'asset, 'hash, 'x) content_env \<Rightarrow> ('c \<Rightarrow> 'p) \<Rightarrow> ('p \<Rightarrow> 'x \<Rightarrow> 'e \<times> 'p) \<Rightarrow>
   ('a, 'sr, 'ed) bench_db \<Rightarrow> mode \<Rightarrow> nat \<Rightarrow> 'f disk \<Rightarrow> ((nat \<times> nat list) \<times> 'f disk) option" where
  "pool_benchmark_run fs nv env make_pool submit_one seed_db m elapsed d = do {
     (context, d) \<leftarrow> create_context fs nv seed_db Wasm d;
     let client = cx_client context;
     version \<leftarrow> nv_runtime_version nv client d;
     env \<leftarrow> block_content_iterator nv client d env;
     content \<leftarrow> collect_content env (bd_keyring seed_db) (to_content RandomTransfersKeepAlive (Some 100)) 0;
     (txpool, time) \<leftarrow> pool_run (Some version) (\<lambda>_. content) submit_one (make_pool client) m elapsed;
     Some (time, fs_drop fs d (cx_guard context))
   }"

section \<open>Where the benchmarks write\<close>

text \<open>
  A step that changes only directory \<open>i\<close>, and keeps it. What is relied on of the client components: the backend opens the
  directory of its source, the client that of its backend, and both change only that; so does an import.
\<close>

definition only :: "nat \<Rightarrow> 'f disk \<Rightarrow> 'f disk \<Rightarrow> bool" where
  "only i d d' \<longleftrightarrow> (d i \<noteq> None \<longrightarrow> d' i \<noteq> None) \<and> (\<forall>j. j \<noteq> i \<longrightarrow> d' j = d j)"

lemma only_refl: "only i d d"
  by (simp add: only_def)

lemma only_trans: "only i d d' \<Longrightarrow> only i d' d'' \<Longrightarrow> only i d d''"
  by (simp add: only_def)

definition confined ::
  "('a, 'k, 'f, 'b, 'c, 't, 'hash, 'x, 'bl, 'blk) client_env \<Rightarrow> ('b \<Rightarrow> nat) \<Rightarrow> ('c \<Rightarrow> nat) \<Rightarrow> bool" where
  "confined nv backend_dir client_dir \<longleftrightarrow>
     (\<forall>settings d backend d'. nv_new_db_backend nv settings d = Some (backend, d') \<longrightarrow>
        backend_dir backend = source_dir (ds_source settings) \<and> only (backend_dir backend) d d')
     \<and> (\<forall>backend executor genesis strategies executor' d client d'.
        nv_new_client nv backend executor genesis strategies executor' d = Some (client, d') \<longrightarrow>
        client_dir client = backend_dir backend \<and> only (backend_dir backend) d d')
     \<and> (\<forall>client block d. only (client_dir client) d (snd (nv_import nv client block d)))"

lemma confined_backend:
  "confined nv bdir cdir \<Longrightarrow> nv_new_db_backend nv settings d = Some (backend, d') \<Longrightarrow>
     bdir backend = source_dir (ds_source settings) \<and> only (bdir backend) d d'"
  unfolding confined_def by metis

lemma confined_client:
  "confined nv bdir cdir \<Longrightarrow> nv_new_client nv backend executor genesis strategies t d = Some (client, d') \<Longrightarrow>
     cdir client = bdir backend \<and> only (bdir backend) d d'"
  unfolding confined_def by metis

lemma confined_import: "confined nv bdir cdir \<Longrightarrow> only (cdir client) d (snd (nv_import nv client block d))"
  unfolding confined_def by metis

lemma source_dir_into_settings [simp]: "source_dir (into_settings dtype dir) = dir"
  by (cases dtype) simp_all

lemma bench_client_only:
  assumes nv: "confined nv bdir cdir" and "bench_client nv dtype dir profile m d = Some ((client, backend, t), d')"
  shows "only dir d d' \<and> cdir client = dir"
proof -
  let ?settings = "\<lparr>ds_state_cache_size = 16 * 1024 * 1024, ds_state_cache_child_ratio = Some (0, 100),
    ds_state_pruning = Archive_all, ds_source = into_settings dtype dir, ds_keep_blocks = Keep_all,
    ds_transaction_storage = Block_body\<rparr>"
  obtain d1 genesis strategies where opened: "nv_new_db_backend nv ?settings d = Some (backend, d1)"
    and new: "nv_new_client nv backend bench_executor genesis strategies t d1 = Some (client, d')"
    using assms(2) by (auto simp: bench_client_def Let_def Option.bind_eq_Some_conv)
  show ?thesis
    using confined_backend [OF nv opened] confined_client [OF nv new] by (auto intro: only_trans)
qed

text \<open>A clone differs from its original in the directory alone, which is new and has the files of the original.\<close>

lemma bench_db_clone_copy:
  assumes fs: "lawful fs" and "bench_db_clone fs seed_db d = Some (copy, d')" "d (bd_directory seed_db) \<noteq> None"
  shows "copy = seed_db\<lparr>bd_directory := bd_directory copy\<rparr> \<and> d (bd_directory copy) = None
    \<and> d' = d(bd_directory copy \<mapsto> the (d (bd_directory seed_db)))"
proof -
  obtain dir d1 where copy: "clone_dir fs (bd_directory seed_db) d = Some (dir, d1)"
    and cache: "drop_system_cache fs d1 = Some d'"
    and "copy = \<lparr>bd_keyring = bd_keyring seed_db, bd_directory = dir, bd_type = bd_type seed_db\<rparr>"
    using assms(2) by (auto simp: bench_db_clone_def Option.bind_eq_Some_conv)
  then show ?thesis
    using clone_dir_copy [OF fs copy assms(3)] drop_system_cache_same [OF fs cache] by simp
qed

lemma create_context_copy:
  assumes fs: "lawful fs" and nv: "confined nv bdir cdir"
    and "create_context fs nv seed_db profile d = Some (context, d')" and seed: "d (bd_directory seed_db) \<noteq> None"
  shows "d (cx_guard context) = None \<and> cdir (cx_client context) = cx_guard context
    \<and> only (cx_guard context) (d(cx_guard context \<mapsto> the (d (bd_directory seed_db)))) d'"
proof -
  obtain copy d1 where copy: "bench_db_clone fs seed_db d = Some (copy, d1)"
    and cl: "bench_client nv (bd_type copy) (bd_directory copy) profile (bd_keyring copy) d1
      = Some ((cx_client context, cx_backend context, cx_spawn_handle context), d')"
    and guard: "cx_guard context = bd_directory copy"
    using assms(3) by (auto simp: create_context_def Option.bind_eq_Some_conv)
  then show ?thesis
    using bench_db_clone_copy [OF fs copy seed] bench_client_only [OF nv cl] by simp
qed

text \<open>Whatever a context does to its own directory is gone with its guard.\<close>

lemma context_dropped:
  assumes "lawful fs" "confined nv bdir cdir"
    and "create_context fs nv seed_db profile d = Some (context, d')" "d (bd_directory seed_db) \<noteq> None"
    and "only (cx_guard context) d' d''"
  shows "fs_drop fs d'' (cx_guard context) = d"
  using create_context_copy [OF assms(1-4)] assms(5)
  by (auto simp: lawful_drop [OF assms(1)] only_def fun_eq_iff)

lemma import_run_same:
  assumes fs: "lawful fs" and nv: "confined nv bdir cdir" and seed: "d (bd_directory (ib_database b)) \<noteq> None"
    and run: "import_benchmark_run fs nv b m elapsed d = Some (r, d')"
  shows "d' = d \<and> r = (elapsed, pauses m)"
proof -
  obtain cx d1 d2 and v :: "u32 \<times> u32" where cx: "create_context fs nv (ib_database b) (ib_profile b) d = Some (cx, d1)"
    and imp: "import_block (nv_best_number nv (cx_client cx)) (nv_import nv (cx_client cx) (ib_block b)) d1 = Some d2"
    and time: "import_run (Some v) (nv_events_at_1 nv (cx_client cx) d2) (ib_block_type b)
       (length (nv_extrinsics nv (ib_block b))) m elapsed = Some r"
    and d': "d' = fs_drop fs d2 (cx_guard cx)"
    using run by (auto simp: import_benchmark_run_def Let_def Option.bind_eq_Some_conv)
  have "d2 = snd (nv_import nv (cx_client cx) (ib_block b) d1)"
    using imp by (auto simp: import_block_def split: if_splits prod.splits)
  then have "only (cx_guard cx) d1 d2"
    using confined_import [OF nv, of "cx_client cx"] create_context_copy [OF fs nv cx seed] by metis
  then show ?thesis
    using context_dropped [OF fs nv cx seed] d' import_run_pauses time by (cases r) blast
qed

lemma construction_run_same:
  assumes fs: "lawful fs" and nv: "confined nv bdir cdir" and seed: "d (bd_directory (kb_database b)) \<noteq> None"
    and run: "construction_benchmark_run fs nv header init inherent_data propose b m elapsed d = Some (r, d')"
  shows "d' = d \<and> r = (elapsed, pauses m)"
proof -
  obtain cx d1 where cx: "create_context fs nv (kb_database b) (kb_profile b) d = Some (cx, d1)"
    and time: "construction_run (nv_runtime_version nv (cx_client cx) d1) (header (cx_client cx) d1)
       (init cx (kb_transactions b)) inherent_data propose m elapsed = Some r"
    and d': "d' = fs_drop fs d1 (cx_guard cx)"
    using run by (auto simp: construction_benchmark_run_def Option.bind_eq_Some_conv)
  show ?thesis
    using context_dropped [OF fs nv cx seed only_refl] d' time
    by (auto simp: construction_run_def pauses_def Let_def split: option.splits if_splits)
qed

lemma pool_run_same:
  assumes fs: "lawful fs" and nv: "confined nv bdir cdir" and seed: "d (bd_directory seed_db) \<noteq> None"
    and run: "pool_benchmark_run fs nv env make_pool submit_one seed_db m elapsed d = Some (r, d')"
  shows "d' = d \<and> r = (elapsed, pauses m)"
proof -
  obtain cx d1 content pool and v :: "u32 \<times> u32" where cx: "create_context fs nv seed_db Wasm d = Some (cx, d1)"
    and time: "pool_run (Some v) (\<lambda>_. content) submit_one (make_pool (cx_client cx)) m elapsed = Some (pool, r)"
    and d': "d' = fs_drop fs d1 (cx_guard cx)"
    using run by (auto simp: pool_benchmark_run_def Let_def Option.bind_eq_Some_conv)
  show ?thesis
    using context_dropped [OF fs nv cx seed only_refl] d' time
    by (auto simp: pool_run_def pauses_def Let_def)
qed

section \<open>Properties\<close>

text \<open>
  C26: a benchmark leaves no trace: whatever a run of an import, construction, pool or trie read benchmark does, if
  it returns, every directory is as before it, the seed database included, and nothing is left of the copy it
  worked on, so that each of the fifty runs starts from the same database.
\<close>

theorem runs_leave_no_trace:
  assumes "lawful fs" "confined nv bdir cdir" "opens_in_place backend"
  shows "(d (bd_directory (ib_database ib)) \<noteq> None \<and>
      import_benchmark_run fs nv ib m elapsed d = Some (timei, di) \<longrightarrow> di = d)
    \<and> (d (bd_directory (kb_database kb)) \<noteq> None \<and>
      construction_benchmark_run fs nv header init inherent_data propose kb m elapsed d = Some (timec, dc) \<longrightarrow> dc = d)
    \<and> (d (bd_directory seed_db) \<noteq> None \<and>
      pool_benchmark_run fs nv env make_pool submit_one seed_db m elapsed d = Some (timep, dp) \<longrightarrow> dp = d)
    \<and> (d (bench_database tb) \<noteq> None \<and>
      trie_read_run fs backend lookup tb elapsed d = Some (timet, dt) \<longrightarrow> dt = d)"
  using import_run_same [OF assms(1,2)] construction_run_same [OF assms(1,2)] pool_run_same [OF assms(1,2)]
    trie_read_run_same [OF assms(1,3)]
  by metis

text \<open>
  A context is a client on a fresh copy of the seed database: its directory is new, holds the seed's files before the
  client opens it, and is the only directory that creating the context changes, the buffer of the cache included.
\<close>

theorem context_on_a_copy:
  assumes "lawful fs" "confined nv bdir cdir"
    and "create_context fs nv seed_db profile d = Some (context, d')" "d (bd_directory seed_db) \<noteq> None"
  shows "d (cx_guard context) = None \<and> cdir (cx_client context) = cx_guard context
    \<and> (\<exists>d1. clone_dir fs (bd_directory seed_db) d = Some (cx_guard context, d1)
        \<and> d1 (cx_guard context) = d (bd_directory seed_db) \<and> only (cx_guard context) d1 d')
    \<and> (\<forall>i. i \<noteq> cx_guard context \<longrightarrow> d' i = d i)"
proof -
  obtain copy d1 where "bench_db_clone fs seed_db d = Some (copy, d1)" "cx_guard context = bd_directory copy"
    using assms(3) by (auto simp: create_context_def Option.bind_eq_Some_conv)
  then obtain d2 where copy: "clone_dir fs (bd_directory seed_db) d = Some (cx_guard context, d2)"
    by (auto simp: bench_db_clone_def Option.bind_eq_Some_conv)
  note seed = clone_dir_copy [OF assms(1) copy assms(4)]
  note create_context_copy [OF assms]
  then show ?thesis
    using copy seed assms(4) by (intro conjI exI [of _ d2]) (auto simp: only_def)
qed

section \<open>Setups that return\<close>

lemma fill_block_collects:
  "fill_block env (\<lambda>b x. (Pushed, b @ [x])) m content i b = map_option ((@) b) (collect_content env m content i)"
proof (induction env m content i arbitrary: b rule: collect_content.induct)
  case (1 env m content i)
  show ?case
  proof (cases "content_next env m content i")
    case (Yields x)
    then show ?thesis
      using "1.IH" [OF Yields, of "b @ [x]"]
      by (cases "collect_content env m content (i + 1)")
        (simp_all add: fill_block.simps [of env _ m content i b] collect_content.simps [of env m content i])
  qed (simp_all add: fill_block.simps [of env _ m content i b] collect_content.simps [of env m content i])
qed

lemma collect_content_length:
  "collect_content env m content i = Some xs \<Longrightarrow> \<exists>s. bc_size content = Some s \<and> length xs = s - i"
proof (induction env m content i arbitrary: xs rule: collect_content.induct)
  case (1 env m content i)
  note unfold = collect_content.simps [of env m content i]
  show ?case
  proof (cases "content_next env m content i")
    case Panics
    then show ?thesis using "1.prems" by (simp add: unfold)
  next
    case Ends
    then show ?thesis
      using "1.prems" content_next_ends [of env m content i] by (auto simp: unfold)
  next
    case (Yields x)
    then obtain ys where ys: "collect_content env m content (i + 1) = Some ys" and xs: "xs = x # ys"
      using "1.prems" by (auto simp: unfold)
    obtain s where s: "bc_size content = Some s" "length ys = s - (i + 1)"
      using "1.IH" [OF Yields ys] by auto
    moreover have "\<not> s \<le> i"
      using Yields content_next_ends [of env m content i] s(1) by auto
    ultimately show ?thesis
      by (simp add: xs)
  qed
qed

lemma fill_block_runs_out:
  assumes "\<And>s. bc_size content = Some s \<Longrightarrow> length (collect_account_ids m) < s" "\<And>b x. fst (push b x) = Pushed"
  shows "fill_block env push m content 0 block = None"
proof (rule ccontr)
  assume "\<not> ?thesis"
  then obtain result xs mid where xs: "accepted env push m content 0 xs block mid"
    and stop: "content_next env m content (length xs) = Ends \<or> (\<exists>x. push mid x = (Exhausted_resources, result))"
    using fill_block_ok [of env push m content 0 block] by fastforce
  have "push mid x \<noteq> (Exhausted_resources, result)" for x
    using assms(2) [of mid x] by auto
  then obtain s where "bc_size content = Some s" "s \<le> length xs"
    using stop content_next_ends by blast
  then show False
    using accepted_length [OF xs] assms(1) by fastforce
qed

text \<open>
  C28: the transactions of a construction benchmark over the 50000 accounts of the code. When the 50000 seeds of the
  endowed users give different accounts, the seeds \<open>//random-user//0\<close> to \<open>//random-user//49999\<close> of the receivers are accepted and an encoded
  extrinsic decodes as an opaque one, they can be collected exactly when a number of at most 50000 is asked for, and are
  then that many: so for every listed benchmark, but never for a full block, where the iterator runs off the keyring and panics.
\<close>

theorem construction_contents:
  assumes "bench_keyring_new (ce_crypto env) 50000 kt = Some m"
    and "receiver_seeds_ok (ce_crypto env) 50000"
    and "\<And>xt. ce_opaque env xt \<noteq> None"
    and "inj_on (\<lambda>i. fst (the (endowed_user (ce_crypto env) kt i))) {0..<50000}"
  shows "(case bc_size content of
      Some s \<Rightarrow> if s \<le> 50000 then \<exists>xs. collect_content env m content 0 = Some xs \<and> length xs = s
        else collect_content env m content 0 = None
    | None \<Rightarrow> collect_content env m content 0 = None)
    \<and> (\<forall>c. Construction_description c \<in> set (benchmarks t) \<longrightarrow>
      (\<exists>xs. collect_content env m (to_content (cb_block_type c) (transactions (cb_size c))) 0 = Some xs))"
proof -
  note keys = bench_keyring_new_keys [OF assms(1)]
  have len: "length (collect_account_ids m) = 50000"
    using keys card_image [OF assms(4)] by (simp add: collect_account_ids_def flip: distinct_card)
  have returns: "collect_content env m c 0 \<noteq> None" if "bc_size c = Some s" "s \<le> 50000" for c s
    using fill_block_panics [OF conjunct1 [OF keys], of env "\<lambda>b x. (Pushed, b @ [x])" c "[]"] that len assms(2,3)
    by (simp add: fill_block_collects)
  have panics: "collect_content env m c 0 = None" if "\<And>s. bc_size c = Some s \<Longrightarrow> 50000 < s" for c
    using fill_block_runs_out [of c m "\<lambda>b x. (Pushed, b @ [x])" env "[]"] that len
    by (simp add: fill_block_collects)
  have "\<exists>xs. collect_content env m c 0 = Some xs \<and> length xs = s" if "bc_size c = Some s" "s \<le> 50000" for c s
    using returns [OF that] collect_content_length [of env m c 0] that(1) by fastforce
  moreover have "\<exists>xs. collect_content env m (to_content (cb_block_type c) (transactions (cb_size c))) 0 = Some xs"
    if "Construction_description c \<in> set (benchmarks t)" for c
  proof -
    obtain s where "transactions (cb_size c) = Some s" "s \<le> 50000"
      using \<open>Construction_description c \<in> set (benchmarks t)\<close> by (auto simp: benchmarks_def)
    then show ?thesis
      using returns [of "to_content (cb_block_type c) (transactions (cb_size c))" s] by (auto simp: to_content_def)
  qed
  ultimately show ?thesis
    using panics [of content] by (auto split: option.splits)
qed

text \<open>Nothing fails on a finite store.\<close>

definition finite_disk :: "'f disk \<Rightarrow> bool" where
  "finite_disk d \<longleftrightarrow> finite (dom d) \<and> (\<forall>files \<in> ran d. finite (dom files))"

definition healthy :: "'f file_system \<Rightarrow> bool" where
  "healthy fs \<longleftrightarrow>
     (\<forall>d. finite_disk d \<longrightarrow> fs_tempdir fs d \<noteq> None)
     \<and> (\<forall>d i. finite_disk d \<and> d i \<noteq> None \<longrightarrow> (\<exists>paths. fs_read_dir fs d i = Some (map Some paths)))
     \<and> (\<forall>d paths i. d i \<noteq> None \<longrightarrow> fs_copy_items fs d paths i \<noteq> None)
     \<and> (\<forall>prog args d. fs_command fs prog args d \<noteq> None)"

lemma finite_disk_new: "finite_disk d \<Longrightarrow> finite (dom files) \<Longrightarrow> finite_disk (d(i \<mapsto> files))"
  by (auto simp: finite_disk_def ran_def)

lemma those_map_Some: "those (map Some xs) = Some xs"
  by (simp add: those_Some)

lemma clone_dir_returns:
  assumes "lawful fs" "healthy fs" "finite_disk d" "d seed \<noteq> None"
  shows "clone_dir fs seed d \<noteq> None"
proof -
  obtain i d1 where temp: "fs_tempdir fs d = Some (i, d1)"
    using assms(2,3) unfolding healthy_def by (metis option.exhaust surj_pair)
  note new = lawful_tempdir [OF assms(1) temp]
  then have "finite_disk d1 \<and> d1 seed \<noteq> None \<and> d1 i \<noteq> None"
    using finite_disk_new [OF assms(3)] assms(4) by auto
  then obtain paths d2 where "fs_read_dir fs d1 seed = Some (map Some paths)" "fs_copy_items fs d1 paths i = Some d2"
    using assms(2) unfolding healthy_def by (metis option.exhaust)
  then show ?thesis
    by (simp add: clone_dir_def temp those_map_Some)
qed

lemma drop_system_cache_returns:
  assumes "lawful fs" "healthy fs" "finite_disk d"
  shows "drop_system_cache fs d \<noteq> None"
proof -
  have runs: "\<exists>e'. fs_command fs prog args e = Some e'" for prog args e
    using assms(2) unfolding healthy_def by (metis option.exhaust)
  have same: "fs_command fs prog args e = Some e" if "prog \<in> {''sync'', ''echo'', ''purge''}" for prog args e
    using runs [of prog args e] harmless_command [OF assms(1) that] by auto
  obtain temp d1 where temp: "fs_tempdir fs d = Some (temp, d1)"
    using assms(2,3) unfolding healthy_def by (metis option.exhaust surj_pair)
  obtain d2 where dd: "fs_command fs ''dd'' [''if=/dev/urandom'', ''of='' @ fs_path fs temp @ ''/buf'', ''bs=64M'', ''count=32''] d1 = Some d2"
    using runs by blast
  obtain d3 where rm: "fs_command fs ''rm'' [''of='' @ fs_path fs temp @ ''/buf''] d2 = Some d3"
    using runs by blast
  show ?thesis
    using dd rm by (simp add: drop_system_cache_def same temp Let_def)
qed

text \<open>
  C27: cloning a seed database returns whenever no operation of the file system fails, on every platform; the clone
  keeps keyring and type, its directory is new with exactly the seed's files, and every other directory is unchanged: the copy of one
  clone is not the copy of another.
\<close>

theorem clone_returns_a_copy:
  assumes "lawful fs" "healthy fs" "finite_disk d" "d (bd_directory seed_db) \<noteq> None"
  shows "\<exists>dir. bench_db_clone fs seed_db d = Some (seed_db\<lparr>bd_directory := dir\<rparr>, d(dir \<mapsto> the (d (bd_directory seed_db))))
    \<and> d dir = None"
proof -
  obtain dir d1 where copy: "clone_dir fs (bd_directory seed_db) d = Some (dir, d1)"
    using clone_dir_returns [OF assms] by auto
  note new = clone_dir_copy [OF assms(1) copy assms(4)]
  have "finite_disk d1"
    using new assms(3,4) finite_disk_new [OF assms(3)] by (auto simp: finite_disk_def ran_def)
  then obtain d2 where cache: "drop_system_cache fs d1 = Some d2"
    using drop_system_cache_returns [OF assms(1,2)] by blast
  then have "d2 = d1"
    by (rule drop_system_cache_same [OF assms(1)])
  then show ?thesis
    using cache new copy by (intro exI [of _ dir]) (simp add: bench_db_clone_def)
qed

section \<open>Witnesses\<close>

text \<open>A file system whose directories are numbered, and a client that keeps one file for its database.\<close>

definition demo_fs :: "nat file_system" where
  "demo_fs = \<lparr>fs_os = Linux,
     fs_tempdir = (\<lambda>d. if finite (dom d) then let i = Max (insert 0 (dom d)) + 1 in Some (i, d(i \<mapsto> Map.empty)) else None),
     fs_read_dir = (\<lambda>d i. case d i of None \<Rightarrow> None
       | Some files \<Rightarrow> if finite (dom files) then Some (map (\<lambda>n. Some (i, n)) (sorted_list_of_set (dom files))) else None),
     fs_copy_items = (\<lambda>d paths i. case d i of None \<Rightarrow> None | Some old \<Rightarrow> Some (d(i \<mapsto> copied_files d paths old))),
     fs_drop = (\<lambda>d i. d(i := None)),
     fs_path = (\<lambda>i. ''/tmp/'' @ replicate i CHR ''x''),
     fs_command = (\<lambda>prog args d. Some d)\<rparr>"

lemma replicate_apart:
  "replicate i x @ y # m = replicate j x @ y # n \<Longrightarrow> x \<noteq> y \<Longrightarrow> i = j"
proof (induction i arbitrary: j)
  case 0
  then show ?case by (cases j) auto
next
  case (Suc i)
  then show ?case by (cases j) auto
qed

lemma demo_fs_lawful: "lawful demo_fs"
proof -
  have "Max (insert 0 N) + 1 \<notin> N" if "finite N" for N :: "nat set"
    using that Max_ge [of "insert 0 N"] by fastforce
  then have "tempdir_law demo_fs"
    by (auto simp: tempdir_law_def demo_fs_def Let_def domIff split: if_splits)
  moreover have "path_law demo_fs"
    by (auto simp: path_law_def demo_fs_def dest: replicate_apart)
  moreover have "read_dir_law demo_fs"
    by (auto simp: read_dir_law_def demo_fs_def listing_complete_def split: option.splits if_splits)
  moreover have "copy_law demo_fs"
    by (auto simp: copy_law_def demo_fs_def split: option.splits)
  ultimately show ?thesis
    by (simp add: lawful_def drop_law_def command_law_def demo_fs_def)
qed

lemma demo_fs_healthy: "healthy demo_fs"
proof -
  have "\<exists>paths. map (\<lambda>n. Some (i, n)) xs = map Some paths" for i :: nat and xs :: "string list"
    by (rule exI [of _ "map (Pair i) xs"]) simp
  then show ?thesis
    by (auto simp: healthy_def demo_fs_def finite_disk_def Let_def ran_def split: option.splits)
qed

definition demo_disk :: "nat disk" where
  "demo_disk = [1 \<mapsto> [''db'' \<mapsto> 7]]"

lemma demo_disk_finite: "finite_disk demo_disk"
  by (simp add: finite_disk_def demo_disk_def)

definition demo_client_env :: "(nat, unit, nat, nat, nat, unit, nat, nat, nat list, nat list) client_env" where
  "demo_client_env = \<lparr>nv_wasm_binary = Some [], nv_account = (\<lambda>k. 0), nv_ed25519 = (\<lambda>k. ()), nv_sr25519 = (\<lambda>k. ()), nv_thread_pool = Some (),
     nv_new_db_backend = (\<lambda>settings d. Some (source_dir (ds_source settings), d)),
     nv_new_client = (\<lambda>backend e g st t d. Some (backend, d)),
     nv_runtime_version = (\<lambda>c d. Some (268, 2)), nv_genesis_hash = (\<lambda>c d. Some 7), nv_inherents = (\<lambda>c d t. Some [5]),
     nv_new_block = (\<lambda>c d. Some []), nv_push = demo_push, nv_build = Some, nv_extrinsics = id,
     nv_best_number = (\<lambda>c d. case d c of Some files \<Rightarrow> if files ''block'' = None then 0 else 1 | None \<Rightarrow> 0),
     nv_import = (\<lambda>c block d. (Some (Imported \<lparr>header_only = False, clear_justification_requests = False,
         needs_justification = False, bad_justification = False, is_new_best = True\<rparr>),
       case d c of Some files \<Rightarrow> d(c \<mapsto> files(''block'' \<mapsto> length block)) | None \<Rightarrow> d)),
     nv_events_at_1 = (\<lambda>c d. Some 1)\<rparr>"

lemma demo_confined: "confined demo_client_env id id"
  by (simp add: confined_def demo_client_env_def only_def split: option.split)

definition demo_bench_db :: "(nat, string, bytes) bench_db" where
  "demo_bench_db = \<lparr>bd_keyring = demo_keyring, bd_directory = 1, bd_type = Client_RocksDb\<rparr>"

definition demo_import :: "(nat, string, bytes, nat list) import_benchmark" where
  "demo_import = \<lparr>ib_profile = Native, ib_database = demo_bench_db, ib_block = [5], ib_block_type = Noop\<rparr>"

lemma demo_clone: "bench_db_clone demo_fs demo_bench_db demo_disk =
    Some (demo_bench_db\<lparr>bd_directory := 2\<rparr>, demo_disk(2 \<mapsto> [''db'' \<mapsto> 7]))"
  by (simp add: bench_db_clone_def clone_dir_def drop_system_cache_def demo_fs_def demo_bench_db_def demo_disk_def
      copied_files_def Let_def fun_eq_iff those_map_Some)

lemma demo_context: "create_context demo_fs demo_client_env demo_bench_db Native demo_disk =
    Some (\<lparr>cx_client = 2, cx_backend = 2, cx_spawn_handle = (), cx_guard = 2\<rparr>, demo_disk(2 \<mapsto> [''db'' \<mapsto> 7]))"
  by (simp add: create_context_def demo_clone bench_client_def demo_client_env_def generate_genesis_def
      wasm_binary_unwrap_def config_endowed_def Let_def)

lemma demo_import_run:
  "\<exists>d'. import_benchmark_run demo_fs demo_client_env demo_import Regular 10 demo_disk = Some ((10, []), d')"
proof -
  have "ib_database demo_import = demo_bench_db" "ib_profile demo_import = Native"
    by (simp_all add: demo_import_def)
  then show ?thesis
    by (simp add: import_benchmark_run_def demo_context Let_def import_block_def)
      (simp add: demo_client_env_def demo_disk_def import_run_def import_sanity_def demo_import_def)
qed

definition demo_open :: "kvdb_settings \<Rightarrow> nat \<Rightarrow> nat disk \<Rightarrow> (nat \<times> nat disk) option" where
  "demo_open settings dir d = Some (dir, d(dir := map_option (\<lambda>files. files(''lock'' \<mapsto> 1)) (d dir)))"

theorem runs_leave_no_trace_witness:
  "import_benchmark_run demo_fs demo_client_env demo_import Regular 10 demo_disk = Some ((10, []), demo_disk)"
proof -
  obtain d' where run: "import_benchmark_run demo_fs demo_client_env demo_import Regular 10 demo_disk = Some ((10, []), d')"
    using demo_import_run by blast
  have "opens_in_place demo_open"
    by (simp add: opens_in_place_def demo_open_def)
  note conjunct1 [OF runs_leave_no_trace [where d = demo_disk and ib = demo_import and m = Regular and elapsed = 10
      and di = d', OF demo_fs_lawful demo_confined this]]
  then show ?thesis
    using run by (simp add: demo_import_def demo_bench_db_def demo_disk_def)
qed

theorem context_on_a_copy_witness:
  "demo_disk 2 = None
   \<and> (\<forall>i. i \<noteq> 2 \<longrightarrow> (demo_disk(2 \<mapsto> [''db'' \<mapsto> 7])) i = demo_disk i)"
  using context_on_a_copy [OF demo_fs_lawful demo_confined demo_context]
  by (simp add: demo_bench_db_def demo_disk_def)

theorem clone_returns_a_copy_witness:
  "\<exists>dir. dir \<noteq> 1 \<and> bench_db_clone demo_fs demo_bench_db demo_disk
     = Some (demo_bench_db\<lparr>bd_directory := dir\<rparr>, demo_disk(dir \<mapsto> [''db'' \<mapsto> 7]))"
  using clone_returns_a_copy [OF demo_fs_lawful demo_fs_healthy demo_disk_finite, of demo_bench_db]
  by (auto simp: demo_bench_db_def demo_disk_def)

definition string_crypto :: "(string, string, bytes, bytes) crypto" where
  "string_crypto = \<lparr>sr25519_from_string = Some, sr25519_id = id, sr25519_sign = (\<lambda>p b. b),
     ed25519_from_seed = id, ed25519_id = (\<lambda>b. []), ed25519_sign = (\<lambda>p b. b), blake2_256 = id\<rparr>"

definition string_content_env :: "(string, string, bytes, bytes, unit, unit, nat, string) content_env" where
  "string_content_env = \<lparr>ce_crypto = string_crypto, ce_encode = (\<lambda>p. []), ce_era_mortal = (\<lambda>p c. ()),
     ce_spec_version = 268, ce_transaction_version = 2, ce_genesis_hash = 7,
     ce_opaque = (\<lambda>xt. Some (case ux_signature xt of Some (a, _) \<Rightarrow> a | None \<Rightarrow> []))\<rparr>"

lemma bench_keyring_new_returns:
  "(\<And>i. endowed_user env kt i \<noteq> None) \<Longrightarrow> bench_keyring_new env n kt \<noteq> None"
proof (induction n)
  case (Suc n)
  then obtain m a key where "bench_keyring_new env n kt = Some m" "endowed_user env kt n = Some (a, key)"
    by (metis option.exhaust surj_pair)
  then show ?case by (simp add: bench_keyring_new_Suc)
qed (simp add: bench_keyring_new_0)

lemma string_user: "endowed_user string_crypto Sr25519 i =
    Some (''//endowed-user/'' @ decimal i, Sr25519_pair (''//endowed-user/'' @ decimal i))"
  by (simp add: endowed_user_def string_crypto_def Let_def)

lemma decimal_injective: "i < 2 ^ 64 \<Longrightarrow> j < 2 ^ 64 \<Longrightarrow> decimal i = decimal j \<Longrightarrow> i = j"
  by (metis parse_decimal sum.inject(2))

theorem construction_contents_witness:
  "\<exists>m. bench_keyring_new string_crypto 50000 Sr25519 = Some m
     \<and> (\<exists>xs. collect_content string_content_env m (to_content Noop (Some 500)) 0 = Some xs \<and> length xs = 500)
     \<and> collect_content string_content_env m (to_content Noop None) 0 = None"
proof -
  obtain m where m: "bench_keyring_new (ce_crypto string_content_env) 50000 Sr25519 = Some m"
    using bench_keyring_new_returns [of string_crypto Sr25519 50000] by (auto simp: string_user string_content_env_def)
  have inj: "inj_on (\<lambda>i. fst (the (endowed_user (ce_crypto string_content_env) Sr25519 i))) {0..<50000}"
    using decimal_injective by (auto simp: inj_on_def string_content_env_def string_user)
  have ok: "receiver_seeds_ok (ce_crypto string_content_env) 50000" "ce_opaque string_content_env xt \<noteq> None" for xt
    by (simp_all add: receiver_seeds_ok_def string_content_env_def string_crypto_def)
  show ?thesis
    using construction_contents [OF m ok inj, of "to_content Noop (Some 500)"]
      construction_contents [OF m ok inj, of "to_content Noop None"] m
    by (simp add: to_content_def string_content_env_def)
qed

end
