(* ===== verification/Bench_Interfaces.thy ===== *)
theory Bench_Interfaces
  imports Bench_Databases
begin

text \<open>
  What the benchmarks give to the framework: the storage under the trie of the read benchmark (\<open>bench/src/trie.rs\<close>), the
  parity database as a key/value database (\<open>bench/src/tempdb.rs\<close>) and the transactions of the construction benchmark as those of
  a pool (\<open>bench/src/construct.rs\<close>); and the macro that lists the benchmarks (\<open>bench/src/core.rs\<close>). The databases, the prefixed
  keys and the trie over a storage are parameters.
\<close>

section \<open>Storage of the trie\<close>

text \<open>Column 0 of the database is read; an error of the database is shown.\<close>

definition trie_storage_get ::
  "('hash \<Rightarrow> 'prefix \<Rightarrow> bytes) \<Rightarrow> ('err \<Rightarrow> string) \<Rightarrow> (nat \<Rightarrow> bytes \<Rightarrow> ('err, bytes option) result) \<Rightarrow> 'hash \<Rightarrow> 'prefix \<Rightarrow>
   (string, bytes option) result" where
  "trie_storage_get prefixed_key show_error kv key pre =
     (let key = prefixed_key key pre in
      case kv 0 key of Inl e \<Rightarrow> Inl (''Database backend error: '' @ show_error e) | Inr v \<Rightarrow> Inr v)"

text \<open>The backend of a run: a trie over that storage with the root of the benchmark.\<close>

definition trie_backend ::
  "(('hash \<Rightarrow> 'prefix \<Rightarrow> (string, bytes option) result) \<Rightarrow> 'r \<Rightarrow> bytes \<Rightarrow> bytes option) \<Rightarrow> ('hash \<Rightarrow> 'prefix \<Rightarrow> bytes) \<Rightarrow>
   ('err \<Rightarrow> string) \<Rightarrow> ('kv \<Rightarrow> 'f disk \<Rightarrow> nat \<Rightarrow> bytes \<Rightarrow> ('err, bytes option) result) \<Rightarrow> 'kv \<Rightarrow> 'f disk \<Rightarrow> 'r \<Rightarrow> bytes \<Rightarrow>
   bytes option" where
  "trie_backend trie prefixed_key show_error kv_lookup kv d trie_root =
     trie (trie_storage_get prefixed_key show_error (kv_lookup kv d)) trie_root"

section \<open>The parity database\<close>

text \<open>
  The methods of a key/value database over an open parity database: \<open>get\<close> and \<open>commit\<close> are its own, for a column of eight bits;
  a \<open>None\<close> of theirs is an error, which panics, as do a key of fewer than 32 bytes and the methods that are not implemented.
\<close>

datatype kvdb_call =
    Kv_get u32 bytes
  | Kv_get_by_prefix u32 bytes
  | Kv_write "db_op list"
  | Kv_iter u32
  | Kv_iter_with_prefix u32 bytes
  | Kv_restore string

datatype kvdb_answer = Kv_value "bytes option" | Kv_written

definition parity_kvdb ::
  "('p \<Rightarrow> u8 \<Rightarrow> bytes \<Rightarrow> bytes option option) \<Rightarrow> ('p \<Rightarrow> (u8 \<times> bytes \<times> bytes option) list \<Rightarrow> 'p option) \<Rightarrow> 'p \<Rightarrow> kvdb_call \<Rightarrow>
   (kvdb_answer \<times> 'p) option" where
  "parity_kvdb get commit pdb c =
     (case c of
        Kv_get col key \<Rightarrow>
          map_option (\<lambda>v. (Kv_value v, pdb)) (kv_get (parity_db_wrapper get commit) pdb col key)
      | Kv_write ops \<Rightarrow>
          map_option (\<lambda>pdb. (Kv_written, pdb)) (kv_write (parity_db_wrapper get commit) pdb ops)
      | _ \<Rightarrow> None)"

text \<open>
  When a lookup gives the value of a row, an insertion of a key that is new or has this value is read back under every key with the
  same last 32 bytes, whatever the column numbers share in their last eight bits.
\<close>

lemma parity_insert_get:
  assumes "reference_law commit rows" "\<And>pdb col k. get pdb col k = Some (map_option fst (rows pdb col k))"
    and "drop (length key' - 32) key' = drop (length key - 32) key" "32 \<le> length key'" "ucast col' = (ucast col :: u8)"
    and "\<And>w. get pdb (ucast col) (drop (length key - 32) key) = Some (Some w) \<Longrightarrow> w = val"
    and "parity_kvdb get commit pdb (Kv_write [Insert_op col key val]) = Some (Kv_written, pdb')"
  shows "parity_kvdb get commit pdb' (Kv_get col' key') = Some (Kv_value (Some val), pdb')"
proof -
  let ?k = "drop (length key - 32) key"
  have "32 \<le> length key" and commit: "commit pdb [(ucast col, ?k, Some val)] = Some pdb'"
    using assms(7) by (auto simp: parity_kvdb_def parity_db_wrapper_def parity_key_def split: if_splits)
  have "rows pdb' (ucast col) = count_reference ?k (Some val) (rows pdb (ucast col))"
    using assms(1) commit unfolding reference_law_def by fastforce
  then have "map_option fst (rows pdb' (ucast col) ?k) = Some val"
    using assms(6) by (auto simp: assms(2) split: option.splits)
  then show ?thesis
    using assms(3-5) by (simp add: parity_kvdb_def parity_db_wrapper_def parity_get_def parity_key_def assms(2))
qed

section \<open>The list of benchmarks\<close>

text \<open>The rules of \<open>matrix!\<close>: a description for each element of a list, or a single one, and then the rest.\<close>

datatype 'd matrix_rule = In_over "'d list" | Single 'd

fun matrix :: "'d matrix_rule list \<Rightarrow> 'd list" where
  "matrix (In_over ds # rest) = ds @ matrix rest"
| "matrix (Single d # rest) = [d] @ matrix rest"
| "matrix [] = []"

definition main_matrix :: "nat option \<Rightarrow> description matrix_rule list" where
  "main_matrix limit =
     [In_over (map (\<lambda>(p, sz, bt, db). Import_description \<lparr>cb_profile = p, cb_key_types = Sr25519, cb_block_type = bt,
        cb_size = sz, cb_database_type = db\<rparr>) (import_benchmarks (case limit of Some n \<Rightarrow> n | None \<Rightarrow> 0))),
      In_over (map (\<lambda>(sz, db). TrieRead_description sz db) database_matrix),
      In_over (map (\<lambda>(sz, db). TrieWrite_description sz db) database_matrix),
      Single (Construction_description \<lparr>cb_profile = Wasm, cb_key_types = Sr25519,
        cb_block_type = RandomTransfersKeepAlive, cb_size = Medium_size, cb_database_type = Client_RocksDb\<rparr>),
      Single (Construction_description \<lparr>cb_profile = Wasm, cb_key_types = Sr25519,
        cb_block_type = RandomTransfersKeepAlive, cb_size = Large_size, cb_database_type = Client_RocksDb\<rparr>),
      Single (Pool_description Client_RocksDb)]"

lemma benchmarks_matrix: "benchmarks limit = matrix (main_matrix limit)"
  by (simp add: benchmarks_def main_matrix_def)

section \<open>Transactions of the pool\<close>

text \<open>The methods of a transaction in a pool; all but two are not implemented and panic.\<close>

datatype in_pool_call = Get_data | Get_hash | Priority | Longevity | Requires | Provides | Is_propagable

datatype 'x in_pool_answer = Its_data 'x | Its_hash bytes

definition in_pool_transaction :: "'x pool_transaction \<Rightarrow> in_pool_call \<Rightarrow> 'x in_pool_answer option" where
  "in_pool_transaction tx c =
     (case c of
        Get_data \<Rightarrow> Some (Its_data (tx_data tx))
      | Get_hash \<Rightarrow> Some (Its_hash (tx_hash tx))
      | _ \<Rightarrow> None)"

text \<open>
  A proposer that asks the pool of the construction benchmark for the data and the hash of the ready transactions gets those of every
  generated transaction; any other question panics.
\<close>

lemma ready_transactions_answer:
  assumes "pool_answer (construction_setup generated b) Ready_at = Some txs"
  shows "map (\<lambda>tx. in_pool_transaction tx Get_data) txs =
      map (Some \<circ> Its_data) (generated (to_content (cb_block_type b) (transactions (cb_size b))))"
    and "\<forall>tx \<in> set txs. in_pool_transaction tx Get_hash = Some (Its_hash (replicate 32 0))"
    and "\<forall>tx \<in> set txs. in_pool_transaction tx c \<noteq> None \<longleftrightarrow> c = Get_data \<or> c = Get_hash"
  using assms
  by (auto simp: pool_answer_def construction_setup_map pool_transaction_from_def in_pool_transaction_def
      split: in_pool_call.splits)

text \<open>A run of the read benchmark over that backend leaves the disk as it was.\<close>

lemma trie_backend_run:
  assumes "lawful fs" "opens_in_place backend" "d (bench_database b) \<noteq> None"
    and "trie_read_run fs backend (trie_backend trie prefixed_key show_error kv_lookup) b elapsed d = Some (time, d')"
  shows "d' = d"
  using trie_read_run_same [OF assms] by simp

end
