(* ===== verification/Cli_Benches.thy ===== *)
theory Cli_Benches
  imports Testing_Bench Bench_Runs "HOL-Library.Monad_Syntax"
begin

text \<open>
  The criterion benches: transaction pool (\<open>cli/benches/transaction_pool.rs\<close>), block production
  (\<open>cli/benches/block_production.rs\<close>) and execution of a block (\<open>executor/benches/bench.rs\<close>). What they prepare and the loops that they
  measure are modelled; the harness, the client, its block builder, the pool and the executor are parameters. A \<open>None\<close> is a
  panic; the loop that fills a block may also run forever, which is the outer \<open>None\<close> of its result.
\<close>

section \<open>The nodes of the benches\<close>

record pool_limit =
  pl_count :: nat
  pl_total_bytes :: nat

record pool_options =
  po_ready :: pool_limit
  po_future :: pool_limit
  po_reject_future_transactions :: bool

datatype wasm_execution_method = Interpreted | Compiled_wasm

datatype node_execution_strategy = Enforce_wasm | Prefer_native

record node_execution_strategies =
  ns_syncing :: node_execution_strategy
  ns_importing :: node_execution_strategy
  ns_block_construction :: node_execution_strategy
  ns_offchain_worker :: node_execution_strategy
  ns_other :: node_execution_strategy

datatype database_location = Rocks_db string nat

datatype blocks_kept = Archive_all | Keep_some nat

datatype body_storage = Block_body | Storage_chain

text \<open>
  The configuration of a bench node: beside what the service looks at, the settings that are not left at \<open>None\<close> or at a
  default. A pool of \<open>None\<close> has the default options; a database is given by its directory under the base path and its
  cache in megabytes. Whether private addresses are published is left to the default of the network configuration.
\<close>

record bench_configuration = node_config +
  impl_name :: string
  impl_version :: string
  network_client_version :: string
  transaction_pool :: "pool_options option"
  database :: database_location
  state_cache_size :: nat
  state_pruning :: blocks_kept
  keep_blocks :: blocks_kept
  transaction_storage :: body_storage
  spec_id :: string
  wasm_method :: wasm_execution_method
  node_strategies :: node_execution_strategies
  indexing_enabled :: bool
  dev_key_seed :: "string option"
  max_runtime_instances :: nat
  runtime_cache_size :: nat
  announce_block :: bool

definition same_strategy :: "node_execution_strategy \<Rightarrow> node_execution_strategies" where
  "same_strategy s = \<lparr>ns_syncing = s, ns_importing = s, ns_block_construction = s, ns_offchain_worker = s, ns_other = s\<rparr>"

definition bench_pool_options :: pool_options where
  "bench_pool_options = \<lparr>po_ready = \<lparr>pl_count = 100000, pl_total_bytes = 100 * 1024 * 1024\<rparr>,
     po_future = \<lparr>pl_count = 100000, pl_total_bytes = 100 * 1024 * 1024\<rparr>, po_reject_future_transactions = False\<rparr>"

definition transaction_pool_node :: "bool \<Rightarrow> bench_configuration" where
  "transaction_pool_node non_globals =
     \<lparr>node_role = Authority_role, allow_non_globals_in_dht = non_globals, telemetry_endpoints = None,
      offchain_worker_enabled = True, force_authoring = False, disable_grandpa = False, node_name = ''//Alice'',
      impl_name = ''BenchmarkImpl'', impl_version = ''1.0'', network_client_version = ''network/test/0.1'',
      transaction_pool = Some bench_pool_options, database = Rocks_db ''db'' 128, state_cache_size = 67108864,
      state_pruning = Archive_all, keep_blocks = Archive_all, transaction_storage = Block_body, spec_id = ''dev'',
      wasm_method = Interpreted, node_strategies = same_strategy Prefer_native, indexing_enabled = False,
      dev_key_seed = Some ''//Alice'', max_runtime_instances = 8, runtime_cache_size = 2, announce_block = True\<rparr>"

definition block_production_node :: "bool \<Rightarrow> bench_configuration" where
  "block_production_node non_globals =
     (let execution_strategy = Enforce_wasm in
      \<lparr>node_role = Full_role, allow_non_globals_in_dht = non_globals, telemetry_endpoints = None,
       offchain_worker_enabled = True, force_authoring = False, disable_grandpa = False, node_name = ''//Alice'',
       impl_name = ''BenchmarkImpl'', impl_version = ''1.0'', network_client_version = ''network/test/0.1'',
       transaction_pool = None, database = Rocks_db ''db'' 128, state_cache_size = 67108864,
       state_pruning = Archive_all, keep_blocks = Archive_all, transaction_storage = Block_body, spec_id = ''dev'',
       wasm_method = Compiled_wasm, node_strategies = same_strategy execution_strategy, indexing_enabled = False,
       dev_key_seed = Some ''//Alice'', max_runtime_instances = 8, runtime_cache_size = 2, announce_block = True\<rparr>)"

text \<open>Building the node fails with a panic when a step of the service does.\<close>

definition new_node :: "(fallible_step \<Rightarrow> bool) \<Rightarrow> bench_configuration \<Rightarrow> action list option" where
  "new_node fails bench_config =
     (case new_full_base fails (node_config.truncate bench_config) [] of (Inl _, _) \<Rightarrow> None | (Inr _, tr) \<Rightarrow> Some tr)"

section \<open>Transaction pool\<close>

datatype 'a cli_call =
    Sudo_set_balance 'a Balance Balance
  | Balances_transfer 'a Balance

definition create_accounts :: "(string \<Rightarrow> 'pair option) \<Rightarrow> nat \<Rightarrow> 'pair list option" where
  "create_accounts from_string num = those (map (\<lambda>i. from_string (''//Alice'' @ ''/'' @ decimal i)) [0..<num])"

text \<open>
  Alice's account is reset and endowed by two sudo calls for each account. The nonce is computed in \<open>u32\<close>, where
  it wraps in a release build. \<open>account\<close> is the account of a public key.
\<close>

definition create_account_extrinsics ::
  "('a cli_call, 'era, 'asset, 'payload, 'bytes, 'sig, 'pair, 'public, 'hash, 'xt) xt_env \<Rightarrow> ('public \<Rightarrow> 'a) \<Rightarrow>
   'pair \<Rightarrow> 'pair list \<Rightarrow> 'xt list option" where
  "create_account_extrinsics env account alice accounts = do {
     let start_nonce = fetch_nonce env alice;
     xss \<leftarrow> those (map (\<lambda>(i, a). those [
         create_extrinsic env alice (Sudo_set_balance (account (pair_public env a)) 0 0)
           (Some (start_nonce + word_of_nat i * 2)),
         create_extrinsic env alice (Sudo_set_balance (account (pair_public env a)) (1000000 * DOLLARS) 0)
           (Some (start_nonce + word_of_nat i * 2 + 1))]) (enumerate 0 accounts));
     Some (concat xss)
   }"

definition create_benchmark_extrinsics ::
  "('a cli_call, 'era, 'asset, 'payload, 'bytes, 'sig, 'pair, 'public, 'hash, 'xt) xt_env \<Rightarrow> 'a \<Rightarrow>
   'pair list \<Rightarrow> nat \<Rightarrow> 'xt list option" where
  "create_benchmark_extrinsics env bob accounts extrinsics_per_account = do {
     xss \<leftarrow> those (map (\<lambda>account. those (map (\<lambda>nonce.
         create_extrinsic env account (Balances_transfer bob (1 * DOLLARS)) (Some (word_of_nat nonce)))
       [0..<extrinsics_per_account])) accounts);
     Some (concat xss)
   }"

text \<open>
  The wait for inclusion reads the statuses of a watched transaction. When they end before the awaited one, as they do for a
  dropped or invalid transaction, the fused stream panics on the next read.
\<close>

datatype transaction_status = Finalized | In_block | Other_status

fun wait_for_inclusion :: "bool \<Rightarrow> transaction_status list \<Rightarrow> unit option" where
  "wait_for_inclusion wait_for_finalized [] = None"
| "wait_for_inclusion wait_for_finalized (status # watch) =
     (if status = Finalized then Some ()
      else if status = In_block \<and> \<not> wait_for_finalized then Some ()
      else wait_for_inclusion wait_for_finalized watch)"

text \<open>All extrinsics are submitted, in order, and then all are awaited; an extrinsic the pool rejects panics.\<close>

fun submit_all :: "('pool \<Rightarrow> 'xt \<Rightarrow> (transaction_status list \<times> 'pool) option) \<Rightarrow> 'xt list \<Rightarrow> 'pool \<Rightarrow>
    (transaction_status list list \<times> 'pool) option" where
  "submit_all submit [] pool = Some ([], pool)"
| "submit_all submit (tx # txs) pool = do {
     (watch, pool) \<leftarrow> submit pool tx;
     (watches, pool) \<leftarrow> submit_all submit txs pool;
     Some (watch # watches, pool)
   }"

definition submit_and_wait :: "('pool \<Rightarrow> 'xt \<Rightarrow> (transaction_status list \<times> 'pool) option) \<Rightarrow> bool \<Rightarrow> 'xt list \<Rightarrow> 'pool \<Rightarrow>
    'pool option" where
  "submit_and_wait submit wait_for_finalized txs pool = do {
     (watches, pool) \<leftarrow> submit_all submit txs pool;
     _ \<leftarrow> those (map (wait_for_inclusion wait_for_finalized) watches);
     Some pool
   }"

definition account_num :: nat where "account_num = 10"
definition extrinsics_per_account :: nat where "extrinsics_per_account = 2000"

text \<open>One iteration: the accounts are prepared, with their calls finalized, and the transfers are submitted until they are in blocks.\<close>

definition pool_bench_iteration ::
  "('a cli_call, 'era, 'asset, 'payload, 'bytes, 'sig, 'pair, 'public, 'hash, 'xt) xt_env \<Rightarrow> ('public \<Rightarrow> 'a) \<Rightarrow>
   'pair \<Rightarrow> 'a \<Rightarrow> ('pool \<Rightarrow> 'xt \<Rightarrow> (transaction_status list \<times> 'pool) option) \<Rightarrow> 'pair list \<Rightarrow> 'pool \<Rightarrow> 'pool option" where
  "pool_bench_iteration env account alice bob submit accounts pool = do {
     prepare_extrinsics \<leftarrow> create_account_extrinsics env account alice accounts;
     pool \<leftarrow> submit_and_wait submit True prepare_extrinsics pool;
     extrinsics \<leftarrow> create_benchmark_extrinsics env bob accounts extrinsics_per_account;
     submit_and_wait submit False extrinsics pool
   }"

section \<open>Block production\<close>

definition MINIMUM_PERIOD_FOR_BLOCKS :: u64 where "MINIMUM_PERIOD_FOR_BLOCKS = 1500"

text \<open>
  The loop adds transfers with the nonces from 0 until one does not fit; \<open>create nonce\<close> is the transfer with that nonce.
\<close>

partial_function (option) fill_with_transfers ::
  "(u32 \<Rightarrow> 'x option) \<Rightarrow> ('b \<Rightarrow> 'x \<Rightarrow> push_result \<times> 'b) \<Rightarrow> u32 \<Rightarrow> nat \<Rightarrow> 'b \<Rightarrow> 'x list \<Rightarrow> (nat \<times> 'x list) option option" where
  "fill_with_transfers create push nonce max_transfer_count block_builder extrinsics =
     (case create nonce of
        None \<Rightarrow> Some None
      | Some extrinsic \<Rightarrow>
          (case push block_builder extrinsic of
             (Exhausted_resources, _) \<Rightarrow> Some (Some (max_transfer_count, extrinsics))
           | (Push_failed, _) \<Rightarrow> Some None
           | (Pushed, block_builder) \<Rightarrow>
               fill_with_transfers create push (nonce + 1) (max_transfer_count + 1) block_builder (extrinsics @ [extrinsic])))"

definition prepare_benchmark ::
  "(u64 \<Rightarrow> 'x) \<Rightarrow> (u32 \<Rightarrow> 'x option) \<Rightarrow> ('b \<Rightarrow> 'x \<Rightarrow> push_result \<times> 'b) \<Rightarrow> 'b option \<Rightarrow> (nat \<times> 'x list) option option" where
  "prepare_benchmark extrinsic_set_time create push new_block =
     (case new_block of
        None \<Rightarrow> Some None
      | Some block_builder \<Rightarrow>
          (let set_time = extrinsic_set_time (1 + MINIMUM_PERIOD_FOR_BLOCKS) in
           case push block_builder set_time of
             (Pushed, block_builder) \<Rightarrow> fill_with_transfers create push 0 0 block_builder [set_time]
           | _ \<Rightarrow> Some None))"

text \<open>The measured part: a new block, all extrinsics, the built block.\<close>

definition produce_block :: "('b \<Rightarrow> 'x \<Rightarrow> push_result \<times> 'b) \<Rightarrow> ('b \<Rightarrow> 'c option) \<Rightarrow> 'b option \<Rightarrow> 'x list \<Rightarrow> 'c option" where
  "produce_block push build new_block extrinsics = do {
     block_builder \<leftarrow> new_block;
     block_builder \<leftarrow> push_inherents push extrinsics block_builder;
     build block_builder
   }"

section \<open>Execution of a block\<close>

text \<open>
  The codecs and hashes, and a call of the runtime through an executor with the given wasm method, natively if possible or not, on
  externalities; its result is unwrapped.
\<close>

record ('e, 'x, 'h) exec_env =
  ex_call :: "wasm_execution_method \<Rightarrow> 'e \<Rightarrow> string \<Rightarrow> bytes \<Rightarrow> bool \<Rightarrow> (bytes \<times> 'e) option"
  ex_runtime_version :: "wasm_execution_method \<Rightarrow> 'e \<Rightarrow> 'e option"
  ex_encode_extrinsic :: "'x \<Rightarrow> bytes"
  ex_ordered_trie_root :: "bytes list \<Rightarrow> 'h"
  ex_default_hash :: 'h
  ex_encode_header :: "('h, bytes) Header \<Rightarrow> bytes"
  ex_decode_header :: "bytes \<Rightarrow> ('h, bytes) Header option"
  ex_encode_block :: "('h, bytes) Header \<Rightarrow> 'x list \<Rightarrow> bytes"
  ex_blake2_256 :: "('h, bytes) Header \<Rightarrow> 'h"

fun apply_extrinsics :: "('e, 'x, 'h) exec_env \<Rightarrow> wasm_execution_method \<Rightarrow> 'x list \<Rightarrow> 'e \<Rightarrow> 'e option" where
  "apply_extrinsics env executor [] ext = Some ext"
| "apply_extrinsics env executor (i # is) ext = do {
     (_, ext) \<leftarrow> ex_call env executor ext ''BlockBuilder_apply_extrinsic'' (ex_encode_extrinsic env i) True;
     apply_extrinsics env executor is ext
   }"

definition construct_block ::
  "('e, 'x, 'h) exec_env \<Rightarrow> ('cx \<Rightarrow> 'x option) \<Rightarrow> wasm_execution_method \<Rightarrow> 'e \<Rightarrow> u32 \<Rightarrow> 'h \<Rightarrow> 'cx list \<Rightarrow>
   ((bytes \<times> 'h) \<times> 'e) option" where
  "construct_block env sign_xt executor ext number parent_hash extrinsics = do {
     extrinsics \<leftarrow> those (map sign_xt extrinsics);
     let extrinsics_root = ex_ordered_trie_root env (map (ex_encode_extrinsic env) extrinsics);
     let header = \<lparr>hd_parent_hash = parent_hash, hd_number = number, hd_state_root = ex_default_hash env,
       hd_extrinsics_root = extrinsics_root, hd_digest = []\<rparr>;
     (_, ext) \<leftarrow> ex_call env executor ext ''Core_initialize_block'' (ex_encode_header env header) True;
     ext \<leftarrow> apply_extrinsics env executor extrinsics ext;
     (h, ext) \<leftarrow> ex_call env executor ext ''BlockBuilder_finalize_block'' [] True;
     header \<leftarrow> ex_decode_header env h;
     Some ((ex_encode_block env header extrinsics, ex_blake2_256 env header), ext)
   }"

datatype 'a exec_call = Timestamp_set Moment | Balances_transfer_to 'a Balance

definition block1_extrinsics ::
  "(u64 \<Rightarrow> u64 \<Rightarrow> 'era) \<Rightarrow> 'a \<Rightarrow> 'a \<Rightarrow> ('a, 'a exec_call, ('era, 'asset) signed_extension list) checked_extrinsic list" where
  "block1_extrinsics mortal alice bob =
     [\<lparr>cx_signed = None, cx_function = Timestamp_set 0\<rparr>] @
     map (\<lambda>i. \<lparr>cx_signed = Some (alice, test_signed_extra mortal (word_of_nat i) 0),
                cx_function = Balances_transfer_to bob (1 * DOLLARS)\<rparr>) [0..<20]"

definition GENESIS_HASH :: bytes where "GENESIS_HASH = replicate 32 69"

text \<open>The blocks are made on fresh externalities; \<open>into\<close> makes a hash of 32 bytes.\<close>

definition test_blocks ::
  "('e, 'x, 'h) exec_env \<Rightarrow> (('a, 'a exec_call, ('era, 'asset) signed_extension list) checked_extrinsic \<Rightarrow> 'x option) \<Rightarrow>
   (u64 \<Rightarrow> u64 \<Rightarrow> 'era) \<Rightarrow> 'a \<Rightarrow> 'a \<Rightarrow> (bytes \<Rightarrow> 'h) \<Rightarrow> 'e option \<Rightarrow> wasm_execution_method \<Rightarrow> (bytes \<times> 'h) list option" where
  "test_blocks env sign_xt mortal alice bob into new_test_ext executor = do {
     test_ext \<leftarrow> new_test_ext;
     (block1, test_ext) \<leftarrow> construct_block env sign_xt executor test_ext 1 (into GENESIS_HASH) (block1_extrinsics mortal alice bob);
     Some [block1]
   }"

datatype execution_method = Native_execution | Wasm_execution wasm_execution_method

text \<open>Whether the native runtime is used, and the method of the executor.\<close>

fun execution_of :: "execution_method \<Rightarrow> bool \<times> wasm_execution_method" where
  "execution_of Native_execution = (True, Interpreted)"
| "execution_of (Wasm_execution wasm) = (False, wasm)"

text \<open>The measured part: the blocks are executed one after another on fresh externalities.\<close>

fun execute_blocks ::
  "('e, 'x, 'h) exec_env \<Rightarrow> wasm_execution_method \<Rightarrow> bool \<Rightarrow> (bytes \<times> 'h) list \<Rightarrow> 'e \<Rightarrow> 'e option" where
  "execute_blocks env executor use_native [] ext = Some ext"
| "execute_blocks env executor use_native (block # blocks) ext = do {
     (_, ext) \<leftarrow> ex_call env executor ext ''Core_execute_block'' (fst block) use_native;
     execute_blocks env executor use_native blocks ext
   }"

text \<open>The compiled method exists with the feature \<open>wasmtime\<close> alone.\<close>

definition execution_methods :: "bool \<Rightarrow> execution_method list" where
  "execution_methods wasmtime =
     [Native_execution, Wasm_execution Interpreted] @ (if wasmtime then [Wasm_execution Compiled_wasm] else [])"

text \<open>
  One measured run of a strategy: the version is read on externalities of its own, then the blocks are made, then they are
  executed on new ones.
\<close>

definition bench_execute_strategy ::
  "('e, 'x, 'h) exec_env \<Rightarrow> (('a, 'a exec_call, ('era, 'asset) signed_extension list) checked_extrinsic \<Rightarrow> 'x option) \<Rightarrow>
   (u64 \<Rightarrow> u64 \<Rightarrow> 'era) \<Rightarrow> 'a \<Rightarrow> 'a \<Rightarrow> (bytes \<Rightarrow> 'h) \<Rightarrow> 'e option \<Rightarrow> execution_method \<Rightarrow> 'e option" where
  "bench_execute_strategy env sign_xt mortal alice bob into new_test_ext strategy = do {
     let (use_native, executor) = execution_of strategy;
     test_ext \<leftarrow> new_test_ext;
     _ \<leftarrow> ex_runtime_version env executor test_ext;
     blocks \<leftarrow> test_blocks env sign_xt mortal alice bob into new_test_ext executor;
     test_ext \<leftarrow> new_test_ext;
     execute_blocks env executor use_native blocks test_ext
   }"

definition bench_execute_block ::
  "bool \<Rightarrow> ('e, 'x, 'h) exec_env \<Rightarrow> (('a, 'a exec_call, ('era, 'asset) signed_extension list) checked_extrinsic \<Rightarrow> 'x option) \<Rightarrow>
   (u64 \<Rightarrow> u64 \<Rightarrow> 'era) \<Rightarrow> 'a \<Rightarrow> 'a \<Rightarrow> (bytes \<Rightarrow> 'h) \<Rightarrow> 'e option \<Rightarrow> 'e list option" where
  "bench_execute_block wasmtime env sign_xt mortal alice bob into new_test_ext =
     those (map (bench_execute_strategy env sign_xt mortal alice bob into new_test_ext) (execution_methods wasmtime))"

section \<open>Lemmas\<close>

lemma those_map_total: "(\<And>x. x \<in> set xs \<Longrightarrow> f x = Some (g x)) \<Longrightarrow> those (map f xs) = Some (map g xs)"
  by (induction xs) simp_all

lemma concat_map_nth:
  assumes "\<And>x. length (f x) = n" "k < length xs" "j < n"
  shows "concat (map f xs) ! (k * n + j) = f (xs ! k) ! j"
  using assms(2)
proof (induction xs arbitrary: k)
  case (Cons x xs)
  then show ?case
    using assms(1,3) by (cases k) (simp_all add: nth_append algebra_simps)
qed simp

lemma concat_map_length: "(\<And>x. length (f x) = n) \<Longrightarrow> length (concat (map f xs)) = length xs * n"
  by (induction xs) simp_all

lemma create_extrinsic_total:
  assumes "block_hash env 0 \<noteq> None"
  obtains xt where "create_extrinsic env = (\<lambda>sender call nonce. Some (xt sender call nonce))"
proof
  show "create_extrinsic env = (\<lambda>sender call nonce. Some (the (create_extrinsic env sender call nonce)))"
    using assms by (auto simp: create_extrinsic_def Let_def fun_eq_iff)
qed

section \<open>Properties\<close>

text \<open>
  Over a chain with a genesis block the extrinsics of the transaction pool bench are complete and in order:
  for each account Alice first empties and then endows it, with consecutive nonces from her current one on, and each account's transfers
  carry the nonces from 0 on, so that the pool has no gap to wait for; they fit the pool and the endowment pays for them.
\<close>

theorem pool_bench_extrinsics:
  assumes "block_hash env 0 \<noteq> None"
  shows "\<exists>prep xs. create_account_extrinsics env account alice accounts = Some prep
    \<and> create_benchmark_extrinsics env bob accounts n = Some xs
    \<and> length prep = length accounts * 2 \<and> length xs = length accounts * n
    \<and> (\<forall>k < length accounts.
        create_extrinsic env alice (Sudo_set_balance (account (pair_public env (accounts ! k))) 0 0)
          (Some (fetch_nonce env alice + word_of_nat (k * 2))) = Some (prep ! (k * 2))
      \<and> create_extrinsic env alice (Sudo_set_balance (account (pair_public env (accounts ! k))) (1000000 * DOLLARS) 0)
          (Some (fetch_nonce env alice + word_of_nat (k * 2 + 1))) = Some (prep ! (k * 2 + 1))
      \<and> (\<forall>j < n. create_extrinsic env (accounts ! k) (Balances_transfer bob (1 * DOLLARS)) (Some (word_of_nat j))
          = Some (xs ! (k * n + j))))
    \<and> account_num * extrinsics_per_account \<le> pl_count (po_ready bench_pool_options)
    \<and> extrinsics_per_account * unat (1 * DOLLARS) \<le> unat (1000000 * DOLLARS)"
proof -
  obtain xt where xt: "create_extrinsic env = (\<lambda>sender call nonce. Some (xt sender call nonce))"
    using create_extrinsic_total [OF assms] by blast
  let ?pre = "\<lambda>(i, a). [xt alice (Sudo_set_balance (account (pair_public env a)) 0 0)
        (Some (fetch_nonce env alice + word_of_nat i * 2)),
      xt alice (Sudo_set_balance (account (pair_public env a)) (1000000 * DOLLARS) 0)
        (Some (fetch_nonce env alice + word_of_nat i * 2 + 1))]"
  let ?tx = "\<lambda>a. map (\<lambda>nonce. xt a (Balances_transfer bob (1 * DOLLARS)) (Some (word_of_nat nonce))) [0..<n]"
  have prep: "create_account_extrinsics env account alice accounts = Some (concat (map ?pre (enumerate 0 accounts)))"
    by (simp add: create_account_extrinsics_def xt Let_def those_map_total [where g = ?pre] split: prod.split)
  have xs: "create_benchmark_extrinsics env bob accounts n = Some (concat (map ?tx accounts))"
    by (simp add: create_benchmark_extrinsics_def xt those_map_total)
  have two: "length (?pre p) = 2" for p
    by (simp split: prod.split)
  have pre: "concat (map ?pre (enumerate 0 accounts)) ! (k * 2 + j) = ?pre (k, accounts ! k) ! j"
    if "k < length accounts" "j < 2" for k j
    using that concat_map_nth [of ?pre 2 k "enumerate 0 accounts" j, OF two] by (simp add: nth_enumerate_eq)
  have txs: "concat (map ?tx accounts) ! (k * n + i) = xt (accounts ! k) (Balances_transfer bob (1 * DOLLARS)) (Some (word_of_nat i))"
    if "k < length accounts" "i < n" for k i
    using that concat_map_nth [of ?tx n k accounts i] by simp
  have len: "length (concat (map ?pre (enumerate 0 accounts))) = length accounts * 2"
    "length (concat (map ?tx accounts)) = length accounts * n"
    using concat_map_length [of ?pre 2 "enumerate 0 accounts", OF two] concat_map_length [of ?tx n accounts] by simp_all
  have funds: "account_num * extrinsics_per_account \<le> pl_count (po_ready bench_pool_options)"
    "extrinsics_per_account * unat (1 * DOLLARS) \<le> unat (1000000 * DOLLARS)"
    by (simp_all add: account_num_def extrinsics_per_account_def bench_pool_options_def DOLLARS_def CENTS_def MILLICENTS_def)
  show ?thesis
    by (intro exI conjI, rule prep, rule xs, rule len, rule len)
      (use pre [where j = 0] pre [where j = 1] txs funds in \<open>simp_all add: xt ac_simps\<close>)
qed

text \<open>The statuses of a transaction that gets included, waited for or not until it is finalized.\<close>

lemma wait_for_inclusion_iff:
  "wait_for_inclusion wait_for_finalized watch \<noteq> None \<longleftrightarrow>
     Finalized \<in> set watch \<or> \<not> wait_for_finalized \<and> In_block \<in> set watch"
  by (induction watch) auto

lemma fill_with_transfers_fills:
  assumes "\<And>i. create (word_of_nat i) = Some (xs i)"
  shows "all_pushed push (map xs [k..<k + n]) b = Some b' \<Longrightarrow> fst (push b' (xs (k + n))) = Exhausted_resources \<Longrightarrow>
    fill_with_transfers create push (word_of_nat k) m b acc = Some (Some (m + n, acc @ map xs [k..<k + n]))"
proof (induction n arbitrary: k m b acc)
  case 0
  then show ?case
    by (subst fill_with_transfers.simps) (cases "push b' (xs k)", simp add: assms)
next
  case (Suc n)
  have upt: "[k..<k + Suc n] = k # [Suc k..<Suc k + n]"
    by (simp add: upt_conv_Cons)
  obtain b1 where push: "push b (xs k) = (Pushed, b1)"
    and rest: "all_pushed push (map xs [Suc k..<Suc k + n]) b1 = Some b'"
    using Suc.prems(1) unfolding upt by (auto simp del: upt_Suc split: prod.splits push_result.splits)
  have "fill_with_transfers create push (word_of_nat k) m b acc =
      fill_with_transfers create push (word_of_nat (Suc k)) (m + 1) b1 (acc @ [xs k])"
    by (subst fill_with_transfers.simps) (simp add: assms push add.commute)
  then show ?case
    using Suc.IH [OF rest, of "m + 1" "acc @ [xs k]"] Suc.prems(2)
    unfolding upt by (simp only: list.map append_assoc append_Cons append_Nil add_Suc add_Suc_right add_0_right One_nat_def)
qed

text \<open>
  C23: the block production bench prepares its block in finitely many steps whenever the block gets full: if the timestamp and
  the transfers with the nonces below \<open>n\<close> fit on a new block and the next one does not, the loop returns exactly them with
  their number, and the measured part, started on an equal block, pushes all of them and panics in nothing but the build.
\<close>

theorem prepared_block:
  assumes "\<And>i. create (word_of_nat i) = Some (xs i)"
    and "all_pushed push (set_time (1 + MINIMUM_PERIOD_FOR_BLOCKS) # map xs [0..<n]) b = Some b'"
    and "fst (push b' (xs n)) = Exhausted_resources"
  shows "\<exists>extrinsics. prepare_benchmark set_time create push (Some b) = Some (Some (n, extrinsics))
    \<and> extrinsics = set_time 1501 # map xs [0..<n]
    \<and> produce_block push build (Some b) extrinsics = build b'"
proof -
  let ?st = "set_time (1 + MINIMUM_PERIOD_FOR_BLOCKS)"
  obtain b1 where push: "push b ?st = (Pushed, b1)" and rest: "all_pushed push (map xs [0..<n]) b1 = Some b'"
    using assms(2) by (auto split: prod.splits push_result.splits)
  have "fill_with_transfers create push 0 0 b1 [?st] = Some (Some (n, ?st # map xs [0..<n]))"
    using fill_with_transfers_fills [where create = create and xs = xs and k = 0 and m = 0 and n = n and b = b1
        and b' = b' and push = push and acc = "[?st]"] assms(1,3) rest by simp
  moreover have "?st = set_time 1501"
    by (simp add: MINIMUM_PERIOD_FOR_BLOCKS_def)
  ultimately show ?thesis
    using push rest
    by (simp add: prepare_benchmark_def produce_block_def push_inherents_all Let_def)
qed

text \<open>
  The node of the block production bench authors no blocks in the background, that of the pool bench does; both vote for
  finality, for which the pool bench waits.
\<close>

lemma bench_nodes:
  "new_node fails (block_production_node ng) = Some tr \<Longrightarrow>
     Spawn_essential ''babe-proposer'' (Some ''block-authoring'') \<notin> set tr"
  "new_node fails (transaction_pool_node ng) = Some tr \<Longrightarrow>
     Spawn_essential ''babe-proposer'' (Some ''block-authoring'') \<in> set tr
     \<and> Spawn_essential ''grandpa-voter'' None \<in> set tr"
  by (auto simp: new_node_def split: prod.splits sum.splits dest!: new_full_base_ok(1))
    (simp_all add: partial_actions_def base_actions_def block_production_node_def
      transaction_pool_node_def is_authority_def node_config.truncate_def Let_def)

text \<open>The block that is executed: the timestamp and twenty transfers of one dollar, with Alice's nonces from 0 on.\<close>

lemma block1_extrinsics_transfers:
  "length (block1_extrinsics mortal alice bob) = 21"
  "i < 20 \<Longrightarrow> block1_extrinsics mortal alice bob ! Suc i =
     \<lparr>cx_signed = Some (alice, test_signed_extra mortal (word_of_nat i) 0), cx_function = Balances_transfer_to bob DOLLARS\<rparr>"
  by (simp_all add: block1_extrinsics_def)

lemma apply_extrinsics_order:
  "apply_extrinsics env executor (xs @ ys) ext =
     do { ext \<leftarrow> apply_extrinsics env executor xs ext; apply_extrinsics env executor ys ext }"
  by (induction xs arbitrary: ext) (auto split: bind_splits)

section \<open>Witnesses\<close>

definition bench_xt_env ::
  "(nat cli_call, u64 \<times> u64, unit, nat cli_call, nat cli_call, nat cli_call, nat, nat, nat, nat cli_call \<times> nat \<times> u32 list) xt_env" where
  "bench_xt_env = \<lparr>block_hash = (\<lambda>n. Some 77), best_hash = 99, best_number = 5,
     account_nonce = (\<lambda>h p. 3), pair_public = id, xt_era_mortal = Pair,
     payload_from_raw = (\<lambda>call extra v. call), payload_encoded = id, pair_sign = (\<lambda>k p. p),
     new_signed = (\<lambda>call who sig extra. (call, who, List.map_filter (\<lambda>x. case x of CheckNonce n \<Rightarrow> Some n | _ \<Rightarrow> None) extra))\<rparr>"

theorem pool_bench_extrinsics_witness:
  "\<exists>prep. create_account_extrinsics bench_xt_env id 0 [5, 6] = Some prep
     \<and> prep ! 3 = (Sudo_set_balance 6 (1000000 * DOLLARS) 0, 0, [6])"
proof -
  have "block_hash bench_xt_env 0 \<noteq> None"
    by (simp add: bench_xt_env_def)
  from pool_bench_extrinsics [OF this, of id 0 "[5, 6]" 0 0] obtain prep where
    "create_account_extrinsics bench_xt_env id 0 [5, 6] = Some prep"
    and "create_extrinsic bench_xt_env 0 (Sudo_set_balance (id (pair_public bench_xt_env ([5, 6] ! 1))) (1000000 * DOLLARS) 0)
      (Some (fetch_nonce bench_xt_env 0 + word_of_nat (1 * 2 + 1))) = Some (prep ! (1 * 2 + 1))"
    by fastforce
  then show ?thesis
    by (simp add: bench_xt_env_def create_extrinsic_def fetch_nonce_def signed_extra_def map_filter_simps Let_def)
qed

definition demo_builder :: "nat list \<Rightarrow> nat \<Rightarrow> push_result \<times> nat list" where
  "demo_builder b x = (if length b < 3 then (Pushed, b @ [x]) else (Exhausted_resources, b))"

theorem prepared_block_witness:
  "prepare_benchmark unat (\<lambda>n. Some 0) demo_builder (Some []) = Some (Some (2, [1501, 0, 0]))"
proof -
  have zeros: "map (\<lambda>i. 0) [0..<2] = [0, 0 :: nat]"
    by (simp add: numeral_2_eq_2)
  then have "all_pushed demo_builder (unat (1 + MINIMUM_PERIOD_FOR_BLOCKS) # map (\<lambda>i. 0) [0..<2]) [] = Some [1501, 0, 0]"
    by (simp add: demo_builder_def MINIMUM_PERIOD_FOR_BLOCKS_def)
  moreover have "fst (demo_builder [1501, 0, 0] 0) = Exhausted_resources"
    by (simp add: demo_builder_def)
  ultimately show ?thesis
    using prepared_block [where create = "\<lambda>n. Some 0" and xs = "\<lambda>i. 0" and set_time = unat and n = 2
        and push = demo_builder and b = "[]" and b' = "[1501, 0, 0]" and build = Some] zeros
    by simp
qed

end
