(* ===== verification/Runtime_Weights.thy ===== *)
theory Runtime_Weights
  imports Runtime_Multiplier
begin

text \<open>
  The builder of the block weights (\<open>RuntimeBlockWeights\<close> of \<open>runtime/src/lib.rs\<close>): the calls that the runtime makes on the
  framework's builder, with the closures that set the limits of the classes of extrinsics. The builder itself is a parameter; what
  it documents of its methods is \<open>builder_laws\<close>.
\<close>

section \<open>The builder\<close>

datatype dispatch_class = Normal_class | Operational_class | Mandatory_class

record class_weights =
  cw_base_extrinsic :: u64
  cw_max_extrinsic :: "u64 option"
  cw_max_total :: "u64 option"
  cw_reserved :: "u64 option"

record ('b, 'w) weights_builder =
  wb_builder :: 'b
  wb_base_block :: "u64 \<Rightarrow> 'b \<Rightarrow> 'b"
  wb_for_class :: "dispatch_class list \<Rightarrow> (class_weights \<Rightarrow> class_weights) \<Rightarrow> 'b \<Rightarrow> 'b"
  wb_avg_block_initialization :: "u32 \<Rightarrow> 'b \<Rightarrow> 'b"
  wb_build_or_panic :: "'b \<Rightarrow> 'w option"

definition all_classes :: "dispatch_class list" where
  "all_classes = [Normal_class, Operational_class, Mandatory_class]"

text \<open>The closures, and the chain of calls; a \<open>None\<close> of the whole is the panic of \<open>build_or_panic\<close>.\<close>

definition set_base_extrinsic :: "u64 \<Rightarrow> class_weights \<Rightarrow> class_weights" where
  "set_base_extrinsic ExtrinsicBaseWeight weights = weights\<lparr>cw_base_extrinsic := ExtrinsicBaseWeight\<rparr>"

definition set_normal_weights :: "weight_env \<Rightarrow> class_weights \<Rightarrow> class_weights" where
  "set_normal_weights env weights =
     weights\<lparr>cw_max_total := Some (ratio_times env (NORMAL_DISPATCH_RATIO env) (MAXIMUM_BLOCK_WEIGHT env))\<rparr>"

definition set_operational_weights :: "weight_env \<Rightarrow> class_weights \<Rightarrow> class_weights" where
  "set_operational_weights env weights =
     weights\<lparr>cw_max_total := Some (MAXIMUM_BLOCK_WEIGHT env),
       cw_reserved := Some (MAXIMUM_BLOCK_WEIGHT env - ratio_times env (NORMAL_DISPATCH_RATIO env) (MAXIMUM_BLOCK_WEIGHT env))\<rparr>"

definition weights_to_build :: "('b, 'w) weights_builder \<Rightarrow> weight_env \<Rightarrow> u64 \<Rightarrow> u64 \<Rightarrow> 'b" where
  "weights_to_build ops env BlockExecutionWeight ExtrinsicBaseWeight =
     (let b = wb_builder ops;
          b = wb_base_block ops BlockExecutionWeight b;
          b = wb_for_class ops all_classes (set_base_extrinsic ExtrinsicBaseWeight) b;
          b = wb_for_class ops [Normal_class] (set_normal_weights env) b;
          b = wb_for_class ops [Operational_class] (set_operational_weights env) b
      in wb_avg_block_initialization ops (AVERAGE_ON_INITIALIZE_RATIO env) b)"

definition RuntimeBlockWeights :: "('b, 'w) weights_builder \<Rightarrow> weight_env \<Rightarrow> u64 \<Rightarrow> u64 \<Rightarrow> 'w option" where
  "RuntimeBlockWeights ops env BlockExecutionWeight ExtrinsicBaseWeight =
     wb_build_or_panic ops (weights_to_build ops env BlockExecutionWeight ExtrinsicBaseWeight)"

section \<open>What is built\<close>

text \<open>\<open>weights b c\<close> are the weights of class \<open>c\<close> in the builder: only \<open>for_class\<close> changes them, for its own classes.\<close>

definition builder_laws :: "('b, 'w) weights_builder \<Rightarrow> ('b \<Rightarrow> dispatch_class \<Rightarrow> class_weights) \<Rightarrow> bool" where
  "builder_laws ops weights \<longleftrightarrow>
     (\<forall>w b. weights (wb_base_block ops w b) = weights b)
     \<and> (\<forall>cs f b c. weights (wb_for_class ops cs f b) c = (if c \<in> set cs then f (weights b c) else weights b c))
     \<and> (\<forall>r b. weights (wb_avg_block_initialization ops r b) = weights b)"

text \<open>
  The limits that are built are those of the model of the weights: the normal and the operational class get their limits, the
  mandatory class stays without any, and the base weight is the same in all three.
\<close>

lemma weights_built:
  fixes env :: weight_env and base ext :: u64
  assumes "builder_laws ops weights"
  defines "b \<equiv> weights_to_build ops env base ext"
  shows "cw_max_total (weights b Normal_class) = max_total (normal_limits env)"
    and "cw_max_total (weights b Operational_class) = max_total (operational_limits env)"
    and "cw_reserved (weights b Operational_class) = reserved (operational_limits env)"
    and "cw_reserved (weights b Normal_class) = cw_reserved (weights (wb_builder ops) Normal_class)"
    and "weights b Mandatory_class = (weights (wb_builder ops) Mandatory_class)\<lparr>cw_base_extrinsic := ext\<rparr>"
    and "cw_base_extrinsic (weights b c) = ext"
  using assms(1)
  by (cases c; simp add: b_def builder_laws_def weights_to_build_def all_classes_def set_base_extrinsic_def
      set_normal_weights_def set_operational_weights_def normal_limits_def operational_limits_def Let_def)+

text \<open>The weight of normal extrinsics that the fee multiplier compares with is the built one.\<close>

lemma max_normal_built:
  assumes "builder_laws ops weights"
  shows "max_normal (cw_max_total (weights (weights_to_build ops env base ext) Normal_class)) max_block
    = ratio_times env (NORMAL_DISPATCH_RATIO env) (MAXIMUM_BLOCK_WEIGHT env)"
  by (simp add: weights_built(1) [OF assms] max_normal_def normal_limits_def)

text \<open>The laws hold of a builder that is the weights themselves, with the ratio of the initialization beside them.\<close>

definition table_builder ::
  "((dispatch_class \<Rightarrow> class_weights) \<times> u32 option, dispatch_class \<Rightarrow> class_weights) weights_builder" where
  "table_builder = \<lparr>
     wb_builder = (\<lambda>_. \<lparr>cw_base_extrinsic = 0, cw_max_extrinsic = None, cw_max_total = None, cw_reserved = None\<rparr>, None),
     wb_base_block = (\<lambda>_ b. b),
     wb_for_class = (\<lambda>cs f b. (\<lambda>c. if c \<in> set cs then f (fst b c) else fst b c, snd b)),
     wb_avg_block_initialization = (\<lambda>r b. (fst b, Some r)),
     wb_build_or_panic = (\<lambda>b. Some (fst b))\<rparr>"

lemma table_builder_laws: "builder_laws table_builder fst"
  by (simp add: builder_laws_def table_builder_def)

end
