(* ===== verification/Node_Tests.thy ===== *)
theory Node_Tests
  imports Node_Genesis Node_Cli
begin

text \<open>
  The programs in the test modules of the node: the chain specifications of the integration tests (\<open>cli/src/chain_spec.rs\<close>) and
  the synchronisation test (\<open>cli/src/service.rs\<close>), which authors blocks by claiming slots and signs transfers. The client, the
  key store and the epochs are parameters; a \<open>None\<close> is a panic, of an overflow among others, as in the builds that tests run in.
\<close>

section \<open>Chain specifications\<close>

definition local_testnet_genesis_instant_single ::
  "u8 list option \<Rightarrow> ('a, 'k) seeds \<Rightarrow> ('r, ('a, 'k) authority) rng \<Rightarrow> u32 \<Rightarrow> 'r \<Rightarrow> ('a, 'k) genesis option" where
  "local_testnet_genesis_instant_single wasm_binary env rng max_nominations r =
     (case authority_keys_from_seed env ''Alice'' of None \<Rightarrow> None | Some alice \<Rightarrow>
      (case get_account_id_from_seed env ''Alice'' of None \<Rightarrow> None | Some root_key \<Rightarrow>
        testnet_genesis wasm_binary env rng max_nominations r [alice] [] root_key None))"

definition integration_test_config_with_single_authority :: "'g \<Rightarrow> ('g, 't) chain_spec" where
  "integration_test_config_with_single_authority genesis =
     \<lparr>cs_name = ''Integration Test'', cs_id = ''test'', cs_type = Development, cs_genesis = genesis, cs_telemetry = None\<rparr>"

definition integration_test_config_with_two_authorities :: "'g \<Rightarrow> ('g, 't) chain_spec" where
  "integration_test_config_with_two_authorities genesis =
     \<lparr>cs_name = ''Integration Test'', cs_id = ''test'', cs_type = Development, cs_genesis = genesis, cs_telemetry = None\<rparr>"

text \<open>The network of the single authority has the genesis of the development network.\<close>

lemma instant_single_is_development:
  "local_testnet_genesis_instant_single wasm_binary env rng m r = development_config_genesis wasm_binary env rng m r"
  by (simp add: local_testnet_genesis_instant_single_def development_config_genesis_def)

section \<open>Claiming slots\<close>










section \<open>The transfers of the synchronisation test\<close>

text \<open>
  Charlie sends Bob five cents, with the versions of the runtime at the best block, an immortal era, and an index that counts the
  transfers. \<open>sign_payload\<close> signs the encoded payload, \<open>new_signed\<close> makes the extrinsic.
\<close>

definition sync_extrinsic ::
  "(u32 \<times> u32) option \<Rightarrow> 'hash option \<Rightarrow> 'era \<Rightarrow>
   (('a \<times> Balance) \<times> ('era, 'asset) signed_extension list \<times> u32 \<times> u32 \<times> 'hash \<times> 'hash \<Rightarrow> 'sig) \<Rightarrow> 'a \<Rightarrow> 'a \<Rightarrow> u32 \<Rightarrow>
   ((('a \<times> Balance) \<times> 'a \<times> 'sig \<times> ('era, 'asset) signed_extension list) \<times> u32) option" where
  "sync_extrinsic version genesis_hash immortal sign_payload charlie bob index =
     (case genesis_hash of None \<Rightarrow> None | Some genesis \<Rightarrow>
      (case version of None \<Rightarrow> None | Some (spec, transaction) \<Rightarrow>
        let amount = 5 * CENTS;
            function = (bob, amount);
            extra = signed_extra immortal index 0 None;
            signature = sign_payload (function, extra, spec, transaction, genesis, genesis)
        in Some ((function, charlie, signature, extra), index + 1)))"

section \<open>Properties\<close>










text \<open>The indices of the transfers count up from the first one.\<close>

lemma sync_extrinsic_index:
  "sync_extrinsic version genesis_hash immortal sign_payload charlie bob index = Some ((f, who, sig, extra), next_index) \<Longrightarrow>
     next_index = index + 1 \<and> f = (bob, 5 * CENTS) \<and> who = charlie \<and> CheckNonce index \<in> set extra"
  by (auto simp: sync_extrinsic_def signed_extra_def Let_def split: option.splits)




end
