(* ===== verification/Node_Build.thy ===== *)
theory Node_Build
  imports Node_Cli Runtime_Ratios
begin

text \<open>
  Around the command line: the description of the program (\<open>SubstrateCli\<close> of \<open>cli/src/command.rs\<close>), its entry point
  (\<open>cli/bin/main.rs\<close>) and the build scripts (\<open>cli/build.rs\<close>, \<open>runtime/build.rs\<close>). The generators of completions and of the
  WASM binary and the build environment are parameters.
\<close>

section \<open>The program\<close>

text \<open>The version, description and author come from the environment of the build; \<open>load_spec\<close> reads the name of a chain.\<close>

record 'spec substrate_cli =
  sc_impl_name :: string
  sc_impl_version :: string
  sc_description :: string
  sc_author :: string
  sc_support_url :: string
  sc_copyright_start_year :: int
  sc_load_spec :: "string \<Rightarrow> (string, 'spec) result"
  sc_native_runtime_version :: "'spec \<Rightarrow> runtime_version"

definition substrate_cli :: "(string \<Rightarrow> string) \<Rightarrow> 'spec specs \<Rightarrow> 'spec substrate_cli" where
  "substrate_cli env ss = \<lparr>
     sc_impl_name = ''Substrate Node'',
     sc_impl_version = env ''SUBSTRATE_CLI_IMPL_VERSION'',
     sc_description = env ''CARGO_PKG_DESCRIPTION'',
     sc_author = env ''CARGO_PKG_AUTHORS'',
     sc_support_url = ''https://github.com/paritytech/substrate/issues/new'',
     sc_copyright_start_year = 2017,
     sc_load_spec = load_spec ss,
     sc_native_runtime_version = (\<lambda>_. VERSION)\<rparr>"

definition node_main ::
  "bool \<Rightarrow> ('cmd option \<Rightarrow> (string, unit) result) \<Rightarrow> 'cmd subcommand option \<Rightarrow> (string, 'cmd outcome) result" where
  "node_main runtime_benchmarks create_runner subcommand = run runtime_benchmarks create_runner subcommand"

section \<open>The build scripts\<close>

text \<open>
  A path is the list of its components, the root being \<open>''/''\<close> at the head; the root and the empty path have no parent. The directory of the completions may exist already: creating it and generating may fail
  without stopping the build. A \<open>None\<close> is a panic for want of a parent directory.
\<close>

fun path_parent :: "string list \<Rightarrow> string list option" where
  "path_parent [] = None"
| "path_parent path = (if path = [''/''] then None else Some (butlast path))"

record ('shell, 's) build_env =
  be_out_dir :: "string list option"
  be_create_dir :: "string list \<Rightarrow> 's \<Rightarrow> 's"
  be_generate_to :: "'shell \<Rightarrow> string \<Rightarrow> string list \<Rightarrow> 's \<Rightarrow> 's"
  be_shells :: "'shell list"
  be_generate_cargo_keys :: "'s \<Rightarrow> 's"
  be_rerun_if_git_head_changed :: "'s \<Rightarrow> 's"

definition build_completion :: "('shell, 's) build_env \<Rightarrow> 'shell \<Rightarrow> 's \<Rightarrow> 's option" where
  "build_completion env shell s =
     (case be_out_dir env of
        None \<Rightarrow> Some s
      | Some outdir \<Rightarrow>
          (case Option.bind (Option.bind (path_parent outdir) path_parent) path_parent of
             None \<Rightarrow> None
           | Some dir \<Rightarrow>
               (let path = dir @ [''completion-scripts''];
                    s = be_create_dir env path s
                in Some (be_generate_to env shell ''substrate-node'' path s))))"

fun build_shell_completion :: "('shell, 's) build_env \<Rightarrow> 'shell list \<Rightarrow> 's \<Rightarrow> 's option" where
  "build_shell_completion env [] s = Some s"
| "build_shell_completion env (shell # shells) s =
     (case build_completion env shell s of None \<Rightarrow> None | Some s \<Rightarrow> build_shell_completion env shells s)"

text \<open>With the feature \<open>cli\<close> the script builds the completions of all shells first.\<close>

definition build_main :: "bool \<Rightarrow> ('shell, 's) build_env \<Rightarrow> 's \<Rightarrow> 's option" where
  "build_main cli env s =
     (if cli then
        map_option (be_rerun_if_git_head_changed env \<circ> be_generate_cargo_keys env)
          (build_shell_completion env (be_shells env) s)
      else Some s)"

datatype wasm_build_step = With_current_project | Export_heap_base | Import_memory | Build_wasm

definition runtime_build_main :: "wasm_build_step list" where
  "runtime_build_main = [With_current_project, Export_heap_base, Import_memory, Build_wasm]"

section \<open>When the build script panics\<close>

definition depth :: "string list \<Rightarrow> nat" where
  "depth p = (if p \<noteq> [] \<and> hd p = ''/'' then length p - 1 else length p)"

lemma path_parent_eq: "path_parent p = (if depth p = 0 then None else Some (butlast p))"
  by (cases p) (auto simp: depth_def)

lemma depth_butlast: "0 < depth p \<Longrightarrow> depth (butlast p) = depth p - 1"
  by (cases p) (auto simp: depth_def)

lemma path_parents:
  "Option.bind (path_parent p) (\<lambda>q. Option.bind (path_parent q) path_parent) =
     (if depth p < 3 then None else Some (butlast (butlast (butlast p))))"
  by (auto simp: path_parent_eq depth_butlast split: if_splits)

text \<open>
  The script panics exactly when completions are built into an output directory with fewer than three directories above it; it
  leaves the completions of all shells, in order, three directories above the output directory.
\<close>

lemma build_shell_completion_eq:
  "build_shell_completion env shells s =
     (case be_out_dir env of
        None \<Rightarrow> Some s
      | Some outdir \<Rightarrow>
          if depth outdir < 3 \<and> shells \<noteq> [] then None
          else (let path = butlast (butlast (butlast outdir)) @ [''completion-scripts''] in
            Some (fold (\<lambda>shell s. be_generate_to env shell ''substrate-node'' path (be_create_dir env path s)) shells s)))"
  by (induction shells arbitrary: s) (auto simp: build_completion_def path_parents Let_def split: option.splits)

lemma build_main_panics:
  "build_main cli env s = None \<longleftrightarrow>
     cli \<and> be_shells env \<noteq> [] \<and> (\<exists>outdir. be_out_dir env = Some outdir \<and> depth outdir < 3)"
  by (auto simp: build_main_def build_shell_completion_eq Let_def split: option.splits)

end
