(* ===== verification/Inspect_Tests.thy ===== *)
theory Inspect_Tests
  imports Node_Inspector
begin

text \<open>
  The inspector as an object and the tests of its addresses (\<open>inspect/src/lib.rs\<close>). The tests parse addresses whose hashes have
  160 bits and whose numbers have 64; the parser of numbers is the standard library's, those of hashes and of hexadecimal
  bytes are the framework's and satisfy what it documents of them (\<open>test_parser_laws\<close>).
\<close>

section \<open>The inspector\<close>

record ('printer, 'chain) inspector =
  in_printer :: 'printer
  in_chain :: 'chain

definition with_printer :: "'chain \<Rightarrow> 'printer \<Rightarrow> ('printer, 'chain) inspector" where
  "with_printer ch printer = \<lparr>in_printer = printer, in_chain = ch\<rparr>"

definition inspector_new :: "'printer \<Rightarrow> 'chain \<Rightarrow> ('printer, 'chain) inspector" where
  "inspector_new default_printer ch = with_printer ch default_printer"

text \<open>A printer is what it does with blocks and with extrinsics; the two methods print with the inspector's own.\<close>

record ('blk, 'x) pretty_printer =
  fmt_block :: "'blk \<Rightarrow> string"
  fmt_extrinsic :: "'x \<Rightarrow> string"

definition DebugPrinter :: "('blk, 'hdr, 'x) debug_fmt \<Rightarrow> ('blk \<Rightarrow> 'x list) \<Rightarrow> ('blk, 'x) pretty_printer" where
  "DebugPrinter f extrinsics = \<lparr>fmt_block = debug_fmt_block f extrinsics, fmt_extrinsic = debug_fmt_extrinsic f\<rparr>"

definition inspector_block ::
  "(('blk, 'x) pretty_printer, ('hash, 'n, 'hdr, 'x, 'blk, 'c, 'b) chain) inspector \<Rightarrow> ('hash, 'n) block_address \<Rightarrow>
   (('c, 'b) inspect_error, string) result" where
  "inspector_block self input = inspect_block (in_chain self) (fmt_block (in_printer self)) input"

definition inspector_extrinsic ::
  "(('blk, 'x) pretty_printer, ('hash, 'n, 'hdr, 'x, 'blk, 'c, 'b) chain) inspector \<Rightarrow> ('hash, 'n) extrinsic_address \<Rightarrow>
   (('c, 'b) inspect_error, string) result" where
  "inspector_extrinsic self input = inspect_extrinsic (in_chain self) (fmt_extrinsic (in_printer self)) input"

section \<open>The command line of the inspector\<close>

record ('shared, 'imp) inspect_cmd =
  ic_command :: inspect_subcmd
  ic_shared_params :: 'shared
  ic_import_params :: 'imp

text \<open>The \<open>CliConfiguration\<close> of the command: its own parameters.\<close>

definition shared_params :: "('shared, 'imp) inspect_cmd \<Rightarrow> 'shared" where
  "shared_params cmd = ic_shared_params cmd"

definition import_params :: "('shared, 'imp) inspect_cmd \<Rightarrow> 'imp option" where
  "import_params cmd = Some (ic_import_params cmd)"

section \<open>The tests\<close>

definition u64_from_str :: "string \<Rightarrow> u64 option" where
  "u64_from_str s = (case usize_from_str s of Inr n \<Rightarrow> Some (word_of_nat n) | Inl _ \<Rightarrow> None)"

definition should_parse_block_strings :: "('h, u64) parsers \<Rightarrow> bool" where
  "should_parse_block_strings ps =
     (let b0 = block_address_from_str ps ''3BfC20f0B9aFcAcE800D73D2191166FF16540258'';
          b1 = block_address_from_str ps ''1234'';
          b2 = block_address_from_str ps ''0'';
          b3 = block_address_from_str ps ''0x0012345f''
      in (case parse_hash ps ''3BfC20f0B9aFcAcE800D73D2191166FF16540258'' of
            Some h \<Rightarrow> b0 = Inr (Hash_address h) | None \<Rightarrow> False)
       \<and> b1 = Inr (Number_address 1234)
       \<and> b2 = Inr (Number_address 0)
       \<and> b3 = Inr (Bytes_address [0, 0x12, 0x34, 0x5f]))"

definition should_parse_extrinsic_address :: "('h, u64) parsers \<Rightarrow> bool" where
  "should_parse_extrinsic_address ps =
     (let e0 = extrinsic_address_from_str ps ''1234'';
          b0 = extrinsic_address_from_str ps ''3BfC20f0B9aFcAcE800D73D2191166FF16540258:5'';
          b1 = extrinsic_address_from_str ps ''1234:0'';
          b2 = extrinsic_address_from_str ps ''0 0'';
          b3 = extrinsic_address_from_str ps ''0x0012345f''
      in e0 = Inl ''Extrinsic index missing: example \"5:0\"''
       \<and> (case parse_hash ps ''3BfC20f0B9aFcAcE800D73D2191166FF16540258'' of
            Some h \<Rightarrow> b0 = Inr (Block_extrinsic (Hash_address h) 5) | None \<Rightarrow> False)
       \<and> b1 = Inr (Block_extrinsic (Number_address 1234) 0)
       \<and> b2 = Inr (Block_extrinsic (Number_address 0) 0)
       \<and> b3 = Inr (Bytes_extrinsic [0, 0x12, 0x34, 0x5f]))"

section \<open>The framework's parsers\<close>

definition hex_digit :: "char \<Rightarrow> nat option" where
  "hex_digit c = (let n = of_char c :: nat in
     if 48 \<le> n \<and> n \<le> 57 then Some (n - 48)
     else if 97 \<le> n \<and> n \<le> 102 then Some (n - 87)
     else if 65 \<le> n \<and> n \<le> 70 then Some (n - 55)
     else None)"

fun hex_bytes :: "string \<Rightarrow> u8 list option" where
  "hex_bytes [] = Some []"
| "hex_bytes [c] = None"
| "hex_bytes (c # d # cs) =
     (case (hex_digit c, hex_digit d, hex_bytes cs) of
        (Some h, Some l, Some bs) \<Rightarrow> Some (word_of_nat (16 * h + l) # bs)
      | _ \<Rightarrow> None)"

text \<open>
  Hashes are 40 hexadecimal digits, with or without the prefix; bytes are pairs of digits and need it.
\<close>

definition test_parser_laws :: "('h, u64) parsers \<Rightarrow> bool" where
  "test_parser_laws ps \<longleftrightarrow>
     parse_number ps = u64_from_str
     \<and> (\<forall>s. (parse_hash ps s \<noteq> None) \<longleftrightarrow>
          (let digits = if take 2 s = ''0x'' then drop 2 s else s in length digits = 40 \<and> hex_bytes digits \<noteq> None))
     \<and> (\<forall>s bs. (from_hex ps s = Inr bs) \<longleftrightarrow> take 2 s = ''0x'' \<and> hex_bytes (drop 2 s) = Some bs)"

lemma from_hex_law:
  assumes "test_parser_laws ps" "take 2 s = ''0x''" "hex_bytes (drop 2 s) = Some bs"
  shows "from_hex ps s = Inr bs"
  using assms by (simp add: test_parser_laws_def)

lemma from_hex_prefix:
  assumes "test_parser_laws ps" "take 2 s \<noteq> ''0x''"
  obtains e where "from_hex ps s = Inl e"
  using assms by (cases "from_hex ps s") (auto simp: test_parser_laws_def)

lemma parse_hash_short:
  assumes "test_parser_laws ps" "length s < 40"
  shows "parse_hash ps s = None"
proof -
  have "length (if take 2 s = ''0x'' then drop 2 s else s) < 40"
    using assms(2) by (simp add: less_imp_diff_less)
  then show ?thesis
    using assms(1) unfolding test_parser_laws_def Let_def by (metis less_irrefl)
qed

text \<open>A block number in decimal is never taken for a hash, and neither bytes nor an error.\<close>

lemma block_number_address:
  assumes "test_parser_laws ps" "usize_from_str s = Inr n" "length s < 40"
  shows "block_address_from_str ps s = Inr (Number_address (word_of_nat n))"
  using assms parse_hash_short [OF assms(1,3)]
  by (simp add: block_address_from_str_def test_parser_laws_def u64_from_str_def)

lemma block_hash_address:
  "parse_hash ps s = Some h \<Longrightarrow> block_address_from_str ps s = Inr (Hash_address h)"
  by (simp add: block_address_from_str_def)

lemma hash_sample:
  assumes "test_parser_laws ps"
  obtains h where "parse_hash ps ''3BfC20f0B9aFcAcE800D73D2191166FF16540258'' = Some h"
proof -
  have "parse_hash ps ''3BfC20f0B9aFcAcE800D73D2191166FF16540258'' \<noteq> None"
    using assms by (simp add: test_parser_laws_def Let_def hex_digit_def)
  then show thesis
    using that by blast
qed

lemma usize_samples:
  "usize_from_str ''1234'' = Inr 1234" "usize_from_str ''0'' = Inr 0" "usize_from_str ''5'' = Inr 5"
  by (simp_all add: usize_from_str_def digit_value_def Let_def)

lemma block_samples:
  assumes "test_parser_laws ps"
  shows "block_address_from_str ps ''1234'' = Inr (Number_address 1234)"
    and "block_address_from_str ps ''0'' = Inr (Number_address 0)"
    and "from_hex ps ''0x0012345f'' = Inr [0, 0x12, 0x34, 0x5f]"
  using block_number_address [OF assms usize_samples(1)] block_number_address [OF assms usize_samples(2)]
    from_hex_law [OF assms, of "''0x0012345f''"]
  by (simp_all add: hex_digit_def Let_def)

text \<open>Both tests pass.\<close>

lemma block_strings_parse:
  assumes "test_parser_laws ps"
  shows "should_parse_block_strings ps"
proof -
  obtain h where h: "parse_hash ps ''3BfC20f0B9aFcAcE800D73D2191166FF16540258'' = Some h"
    using hash_sample [OF assms] .
  have "parse_number ps ''0x0012345f'' = None"
    using assms by (simp add: test_parser_laws_def u64_from_str_def usize_from_str_def digit_value_def Let_def)
  then have "block_address_from_str ps ''0x0012345f'' = Inr (Bytes_address [0, 0x12, 0x34, 0x5f])"
    using parse_hash_short [OF assms, of "''0x0012345f''"] block_samples(3) [OF assms]
    by (simp add: block_address_from_str_def)
  then show ?thesis
    by (simp add: should_parse_block_strings_def h block_hash_address [OF h] block_samples [OF assms])
qed

lemma extrinsic_addresses_parse:
  assumes "test_parser_laws ps"
  shows "should_parse_extrinsic_address ps"
proof -
  obtain h where h: "parse_hash ps ''3BfC20f0B9aFcAcE800D73D2191166FF16540258'' = Some h"
    using hash_sample [OF assms] .
  have no_hex: "\<exists>e. from_hex ps s = Inl e" if "take 2 s \<noteq> ''0x''" for s
    using from_hex_prefix [OF assms that] by blast
  obtain e1 e2 e3 e4 where e: "from_hex ps ''1234'' = Inl e1" "from_hex ps ''1234:0'' = Inl e2" "from_hex ps ''0 0'' = Inl e3"
    "from_hex ps ''3BfC20f0B9aFcAcE800D73D2191166FF16540258:5'' = Inl e4"
    using no_hex [of "''1234''"] no_hex [of "''1234:0''"] no_hex [of "''0 0''"]
      no_hex [of "''3BfC20f0B9aFcAcE800D73D2191166FF16540258:5''"] by auto
  show ?thesis
    by (simp add: should_parse_extrinsic_address_def extrinsic_address_from_str_def e h block_hash_address [OF h]
        block_samples [OF assms] usize_samples is_separator_def)
qed

text \<open>The laws hold of the parsers that read nothing else.\<close>

definition h160_parsers :: "(u8 list, u64) parsers" where
  "h160_parsers =
     \<lparr>parse_hash = (\<lambda>s. let digits = if take 2 s = ''0x'' then drop 2 s else s in
        if length digits = 40 then hex_bytes digits else None),
      parse_number = u64_from_str,
      from_hex = (\<lambda>s. if take 2 s = ''0x'' then
          (case hex_bytes (drop 2 s) of Some bs \<Rightarrow> Inr bs | None \<Rightarrow> Inl ''invalid hex'')
        else Inl ''hex string without 0x prefix'')\<rparr>"

lemma h160_parsers_laws: "test_parser_laws h160_parsers"
  by (auto simp: test_parser_laws_def h160_parsers_def Let_def split: option.splits)

text \<open>A printed block number with a printed index is read back, and shown by the inspector's own printer.\<close>

lemma decimal_length: "n < 10 ^ k \<Longrightarrow> 0 < k \<Longrightarrow> length (decimal n) \<le> k"
proof (induction n arbitrary: k rule: decimal.induct)
  case (1 n)
  show ?case
  proof (cases "n < 10")
    case False
    have "k \<noteq> 1"
      using "1.prems"(1) False by auto
    then obtain j where k: "k = Suc j" "0 < j"
      using "1.prems"(2) that by (cases k) auto
    then have "n div 10 < 10 ^ j"
      using "1.prems"(1) by (simp add: less_mult_imp_div_less mult.commute)
    then show ?thesis
      using "1.IH" [OF False _ k(2)] False k(1) by (subst decimal.simps) simp
  qed (use "1.prems" in \<open>subst decimal.simps, simp\<close>)
qed

lemma decimal_block_number:
  assumes "test_parser_laws ps" "n < 2 ^ 64"
  shows "block_address_from_str ps (decimal n) = Inr (Number_address (word_of_nat n))"
  using block_number_address [OF assms(1) usize_from_decimal [OF assms(2)]] decimal_length [of n 20] assms(2) by simp

end
