(* ===== verification/Multiplier_Tests.thy ===== *)
theory Multiplier_Tests
  imports Runtime_Multiplier
begin

text \<open>
  The other tests of the fee multiplier (\<open>runtime/src/impls.rs\<close>) as programs over an adjustment \<open>update w fm\<close> of the
  multiplier \<open>fm\<close> after a block of weight \<open>w\<close>, and the theorem that their assertions hold for every adjustment that follows
  the reference as closely as eighteen decimals allow and saturates. \<open>normal\<close> is the weight of normal extrinsics, \<open>ideal\<close> the target.
\<close>

section \<open>The tests\<close>

type_synonym adjustment = "u64 \<Rightarrow> real \<Rightarrow> real"

definition error_rate :: "real \<Rightarrow> real \<Rightarrow> real \<Rightarrow> bool" where
  "error_rate x y e \<longleftrightarrow> x \<ge> y - e \<and> x \<le> y + e"

text \<open>The number of an inner value, and the largest multiplier, at which an integer that is too large saturates.\<close>

definition from_inner :: "nat \<Rightarrow> real" where "from_inner n = real n / 10 ^ 18"

definition max_fm :: real where "max_fm = min (2 ^ 127 - 1) ((2 ^ 128 - 1) / 10 ^ 18)"

definition truth_value_update_poc_works :: "u64 \<Rightarrow> u64 \<Rightarrow> adjustment \<Rightarrow> bool" where
  "truth_value_update_poc_works normal ideal update =
     (let fm = 1 / 2;
          test_set = [(0, fm), (100, fm), (1000, fm), (ideal, fm), (normal div 2, fm), (normal, fm)]
      in list_all (\<lambda>(w, fm). error_rate (truth_value_update normal ideal w fm) (update w fm) (from_inner 100)) test_set)"

definition multiplier_can_grow_from_zero :: "u64 \<Rightarrow> adjustment \<Rightarrow> bool" where
  "multiplier_can_grow_from_zero ideal update =
     (let next = update (ideal * 101 div 100) MinimumMultiplier in next > MinimumMultiplier)"

definition multiplier_cannot_go_below_limit :: "adjustment \<Rightarrow> bool" where
  "multiplier_cannot_go_below_limit update =
     (let next = update 0 MinimumMultiplier in next = MinimumMultiplier)"

definition stateless_weight_mul :: "u64 \<Rightarrow> u64 \<Rightarrow> adjustment \<Rightarrow> bool" where
  "stateless_weight_mul normal ideal update =
     (let fm = 1 / 2 in
      (let next = update (ideal div 4) fm in
       error_rate next (truth_value_update normal ideal (ideal div 4) fm) (from_inner 100) \<and> next < fm)
      \<and> (let next = update (ideal div 2) fm in
         error_rate next (truth_value_update normal ideal (ideal div 2) fm) (from_inner 100) \<and> next < fm)
      \<and> (let next = update ideal fm in
         error_rate next (truth_value_update normal ideal ideal fm) (from_inner 100) \<and> next = fm)
      \<and> (let next = update (ideal * 2) fm in
         error_rate next (truth_value_update normal ideal (ideal * 2) fm) (from_inner 100) \<and> next > fm))"

text \<open>The loops panic with \<open>None\<close> at the first assertion that fails.\<close>

fun growing :: "nat \<Rightarrow> (real \<Rightarrow> real) \<Rightarrow> (real \<Rightarrow> real) \<Rightarrow> real \<Rightarrow> real option" where
  "growing 0 update reference original = Some original"
| "growing (Suc n) update reference original =
     (let next = update original in
      if error_rate next (reference original) (from_inner 100) \<and> next > original
      then growing n update reference next else None)"

definition weight_mul_grow_on_big_block :: "u64 \<Rightarrow> u64 \<Rightarrow> adjustment \<Rightarrow> bool" where
  "weight_mul_grow_on_big_block normal ideal update \<longleftrightarrow>
     growing 1000 (update (ideal * 2)) (truth_value_update normal ideal (ideal * 2)) 0 \<noteq> None"

fun decreasing :: "nat \<Rightarrow> (real \<Rightarrow> real) \<Rightarrow> real \<Rightarrow> real option" where
  "decreasing 0 update original = Some original"
| "decreasing (Suc n) update original =
     (let next = update original in if next < original then decreasing n update next else None)"

definition weight_mul_decrease_on_small_block :: "u64 \<Rightarrow> adjustment \<Rightarrow> bool" where
  "weight_mul_decrease_on_small_block ideal update \<longleftrightarrow> decreasing 100 (update (ideal div 2)) (1 / 2) \<noteq> None"

definition weight_to_fee_should_not_overflow_on_large_weights :: "u64 \<Rightarrow> u64 \<Rightarrow> u64 \<Rightarrow> adjustment \<Rightarrow> bool" where
  "weight_to_fee_should_not_overflow_on_large_weights max_block normal ideal update =
     (let kb = 1024; mb = kb * kb; t = ideal in
      list_all (\<lambda>i. error_rate (truth_value_update normal ideal i 1) (update i 1) (from_inner 50000000))
        [0, 1, 10, 1000, kb, 10 * kb, 100 * kb, mb, 10 * mb, 2147483647, 4294967295,
         max_block div 2, max_block, (- 1) div 2, - 1]
      \<and> list_all (\<lambda>i. update i max_fm = max_fm) [t + 100, t * 2, t * 4])"

text \<open>
  The simulation of a congested chain panics when the multiplier stays the same; the result of its loop is the number of
  blocks before that.
\<close>

partial_function (option) congested_loop :: "(real \<Rightarrow> real) \<Rightarrow> real \<Rightarrow> nat \<Rightarrow> nat option" where
  "congested_loop update fm iterations =
     (let next = update fm in
      if fm = next then Some iterations else congested_loop update next (iterations + 1))"

text \<open>
  The whole simulation always panics if it ends: before the loop, when the weight of normal extrinsics has no maximum or one
  below 100, or when the multiplier of the module is not one, or in the loop, after some blocks. \<open>None\<close> is a loop without end.
\<close>

datatype simulation_panic = Before_loop | After_blocks nat

definition congested_chain_simulation :: "u64 option \<Rightarrow> real \<Rightarrow> adjustment \<Rightarrow> simulation_panic option" where
  "congested_chain_simulation normal_max_total next_fee_multiplier update =
     (case normal_max_total of
        None \<Rightarrow> Some Before_loop
      | Some normal \<Rightarrow>
          if normal < 100 then Some Before_loop
          else
            (let block_weight = normal - 100; fm = 1 in
             if fm \<noteq> next_fee_multiplier then Some Before_loop
             else map_option After_blocks (congested_loop (update block_weight) fm 0)))"

section \<open>The adjustment\<close>

text \<open>
  The framework's adjustment: the reference up to ten units of the last decimal, relative to multipliers above one, kept
  between the minimum and the largest multiplier; a block of the ideal weight changes nothing.
\<close>

definition adjusts :: "u64 \<Rightarrow> u64 \<Rightarrow> adjustment \<Rightarrow> bool" where
  "adjusts normal ideal update \<longleftrightarrow>
     (\<forall>w x. 0 \<le> x \<and> x \<le> max_fm \<longrightarrow>
        (\<exists>r. \<bar>r - truth_value_update normal ideal w x\<bar> \<le> 10 / 10 ^ 18 * max 1 x
           \<and> update w x = max MinimumMultiplier (min max_fm r)))
     \<and> (\<forall>x. MinimumMultiplier \<le> x \<and> x \<le> max_fm \<longrightarrow> update ideal x = x)"

text \<open>The share of a block beyond the ideal, as a part of the normal weight.\<close>

definition beyond :: "u64 \<Rightarrow> u64 \<Rightarrow> real" where
  "beyond normal w = min (real (unat w)) (real (unat normal)) / real (unat normal) - 1 / 4"

definition factor :: "real \<Rightarrow> real" where "factor q = 1 + q / 10 ^ 5 + (q / 10 ^ 5) ^ 2 / 2"

lemma max_fm_eq: "max_fm = (2 ^ 128 - 1) / 10 ^ 18"
  by (simp add: max_fm_def)

lemma max_fm_large: "10 ^ 20 < max_fm"
  by (simp add: max_fm_eq)

lemma quarter:
  assumes "4 * unat (ideal :: u64) = unat normal" "0 < unat ideal"
  shows "real (unat ideal) / real (unat normal) = 1 / 4" "0 < real (unat normal)"
proof -
  have "real (unat normal) = 4 * real (unat ideal)"
    by (metis assms(1) of_nat_mult of_nat_numeral)
  moreover have "0 < real (unat ideal)"
    using assms(2) by (simp only: of_nat_0_less_iff)
  ultimately show "real (unat ideal) / real (unat normal) = 1 / 4" "0 < real (unat normal)"
    by simp_all
qed

lemma truth_beyond:
  assumes "4 * unat ideal = unat normal" "0 < unat ideal"
  shows "truth_value_update normal ideal w x = max x MinimumMultiplier * factor (beyond normal w)"
  using quarter [OF assms]
  by (simp add: truth_value_update_def factor_def beyond_def AdjustmentVariable_def Let_def power2_eq_square)

lemma factor_up: "1 + q / 10 ^ 5 \<le> factor q"
  by (simp add: factor_def)

lemma factor_down:
  assumes "- 1 \<le> q" "q \<le> 0"
  shows "factor q \<le> 1 + 9 / 10 * q / 10 ^ 5"
proof -
  have "q * q \<le> - q"
    using mult_left_mono_neg [of "- 1" q q] assms by simp
  then show ?thesis
    using assms(2) by (simp add: factor_def power2_eq_square)
qed

lemma beyond_bounds: "0 < unat normal \<Longrightarrow> - 1 / 4 \<le> beyond normal w \<and> beyond normal w \<le> 3 / 4"
proof -
  assume "0 < unat normal"
  then have n: "0 < real (unat normal)"
    by (simp only: of_nat_0_less_iff)
  then have "min (real (unat w)) (real (unat normal)) / real (unat normal) \<le> 1"
    by (simp only: divide_le_eq_1_pos min.cobounded2)
  moreover have "0 \<le> min (real (unat w)) (real (unat normal)) / real (unat normal)"
    using n by (simp only: divide_nonneg_pos of_nat_0_le_iff min.boundedI)
  ultimately show ?thesis
    unfolding beyond_def by linarith
qed

lemma factor_bounds: "- 1 / 4 \<le> q \<Longrightarrow> q \<le> 3 / 4 \<Longrightarrow> 1 - 3 / 10 ^ 6 \<le> factor q \<and> factor q \<le> 1 + 8 / 10 ^ 6"
proof -
  assume q: "- 1 / 4 \<le> q" "q \<le> 3 / 4"
  then have "\<bar>q\<bar> \<le> 1"
    by simp
  then have "q ^ 2 \<le> 1"
    by (simp add: abs_square_le_1)
  then show ?thesis
    using q by (simp add: factor_def power_divide) (use zero_le_power2 [of q] in linarith)
qed


section \<open>Steps\<close>

lemma adjusts_near:
  assumes "adjusts normal ideal update" "4 * unat ideal = unat normal" "0 < unat ideal" "0 \<le> x" "x \<le> max_fm"
  obtains r where "\<bar>r - max x MinimumMultiplier * factor (beyond normal w)\<bar> \<le> max 1 x / 10 ^ 17"
    "update w x = max MinimumMultiplier (min max_fm r)"
  using assms(1,4,5) unfolding adjusts_def truth_beyond [OF assms(2,3)] by fastforce

lemma adjusts_same: "adjusts normal ideal update \<Longrightarrow> MinimumMultiplier \<le> x \<Longrightarrow> x \<le> max_fm \<Longrightarrow> update ideal x = x"
  by (simp add: adjusts_def)

text \<open>The tests compare with the reference for multipliers up to one, where it is never below the minimum.\<close>

lemma adjusts_error:
  assumes "adjusts normal ideal update" "4 * unat ideal = unat normal" "0 < unat ideal" "0 \<le> x" "x \<le> 1"
    and "MinimumMultiplier \<le> truth_value_update normal ideal w x"
  shows "\<bar>update w x - truth_value_update normal ideal w x\<bar> \<le> 1 / 10 ^ 17"
proof -
  let ?t = "truth_value_update normal ideal w x"
  obtain r where r: "\<bar>r - ?t\<bar> \<le> max 1 x / 10 ^ 17" "update w x = max MinimumMultiplier (min max_fm r)"
    using adjusts_near [OF assms(1-4)] assms(5) max_fm_large unfolding truth_beyond [OF assms(2,3)]
    by (metis (no_types, opaque_lifting) less_eq_real_def numeral_le_one_iff one_le_numeral one_le_power order_trans)
  have "max x MinimumMultiplier \<le> 1"
    using assms(5) by (simp add: MinimumMultiplier_def)
  moreover have "0 < unat normal"
    using assms(2,3) by simp
  then have "factor (beyond normal w) \<le> 2" "0 \<le> factor (beyond normal w)"
    using factor_bounds beyond_bounds [of normal w] by fastforce+
  ultimately have "?t \<le> 1 * 2"
    unfolding truth_beyond [OF assms(2,3)] by (intro mult_mono) (simp_all add: MinimumMultiplier_def)
  then have "?t \<le> max_fm"
    using max_fm_large by simp
  then show ?thesis
    using r assms(5,6) by (simp add: max_def min_def split: if_splits)
qed

lemma error_rate_close: "\<bar>x - y\<bar> \<le> 1 / 10 ^ 17 \<Longrightarrow> 100 \<le> n \<Longrightarrow> error_rate x y (from_inner n) \<and> error_rate y x (from_inner n)"
proof -
  assume "\<bar>x - y\<bar> \<le> 1 / 10 ^ 17" "100 \<le> n"
  moreover from this(2) have "1 / 10 ^ 17 \<le> from_inner n"
    by (simp add: from_inner_def field_simps)
  ultimately show ?thesis
    unfolding error_rate_def by linarith
qed

lemma adjusts_up:
  assumes "adjusts normal ideal update" "4 * unat ideal = unat normal" "0 < unat ideal"
    and "MinimumMultiplier \<le> x" "x \<le> max_fm" "y + max 1 x / 10 ^ 17 \<le> x * (1 + beyond normal w / 10 ^ 5)"
  shows "min max_fm y \<le> update w x"
proof -
  have x: "0 \<le> x" "max x MinimumMultiplier = x"
    using assms(4) by (simp_all add: MinimumMultiplier_def)
  obtain r where r: "\<bar>r - x * factor (beyond normal w)\<bar> \<le> max 1 x / 10 ^ 17"
    "update w x = max MinimumMultiplier (min max_fm r)"
    using adjusts_near [OF assms(1-3) x(1) assms(5), of w thesis] by (simp add: x(2))
  have "x * (1 + beyond normal w / 10 ^ 5) \<le> x * factor (beyond normal w)"
    using x(1) factor_up by (intro mult_left_mono)
  then have "y \<le> r"
    using r(1) assms(6) by linarith
  then show ?thesis
    unfolding r(2) by simp
qed

lemma adjusts_down:
  assumes "adjusts normal ideal update" "4 * unat ideal = unat normal" "0 < unat ideal"
    and "MinimumMultiplier \<le> x" "x \<le> 1" "beyond normal w \<le> - 1 / 8"
  shows "update w x = MinimumMultiplier \<or> update w x < x"
    and "x * (1 - 3 / 10 ^ 6) - 1 / 10 ^ 17 \<le> update w x"
proof -
  have x: "0 \<le> x" "max x MinimumMultiplier = x" "x \<le> max_fm" "max 1 x = 1"
    using assms(4,5) max_fm_large by (simp_all add: MinimumMultiplier_def)
  have "0 < unat normal"
    using assms(2,3) by simp
  then have q: "- 1 / 4 \<le> beyond normal w"
    using beyond_bounds by blast
  obtain r where r: "\<bar>r - x * factor (beyond normal w)\<bar> \<le> 1 / 10 ^ 17"
    "update w x = max MinimumMultiplier (min max_fm r)"
    using adjusts_near [OF assms(1-3) x(1,3), of w thesis] by (simp add: x(2,4))
  have "factor (beyond normal w) \<le> 1 - 1 / 10 ^ 6"
    using factor_down [of "beyond normal w"] q assms(6) by simp
  then have "x * factor (beyond normal w) \<le> x * (1 - 1 / 10 ^ 6)"
    using x(1) by (rule mult_left_mono)
  moreover have "x * (1 - 1 / 10 ^ 6) = x - x / 10 ^ 6" "1 / 10 ^ 17 < x / 10 ^ 6"
    using assms(4) by (simp_all add: MinimumMultiplier_def algebra_simps)
  ultimately have "r < x"
    using r(1) by linarith
  then show "update w x = MinimumMultiplier \<or> update w x < x"
    unfolding r(2) by (auto simp: max_def min_def)
  have "1 - 3 / 10 ^ 6 \<le> factor (beyond normal w)"
    using factor_bounds [of "beyond normal w"] q assms(6) by simp
  then have "x * (1 - 3 / 10 ^ 6) \<le> x * factor (beyond normal w)"
    using x(1) by (rule mult_left_mono)
  then have "x * (1 - 3 / 10 ^ 6) - 1 / 10 ^ 17 \<le> r"
    using r(1) by linarith
  moreover have "x * (1 - 3 / 10 ^ 6) - 1 / 10 ^ 17 \<le> max_fm"
    using x(1,3) by (simp add: algebra_simps)
  ultimately show "x * (1 - 3 / 10 ^ 6) - 1 / 10 ^ 17 \<le> update w x"
    unfolding r(2) by simp
qed

section \<open>The loops\<close>

lemma growing_returns:
  assumes "adjusts normal ideal update" "4 * unat ideal = unat normal" "0 < unat ideal" "beyond normal w = 1 / 4"
  shows "0 \<le> x \<Longrightarrow> x + real n / 10 ^ 5 \<le> 1 \<Longrightarrow>
    growing n (update w) (truth_value_update normal ideal w) x \<noteq> None"
proof (induction n arbitrary: x)
  case (Suc n)
  let ?t = "truth_value_update normal ideal w x" and ?y = "max x MinimumMultiplier"
  have t: "?t = ?y * factor (1 / 4)"
    using truth_beyond [OF assms(2,3), of w x] unfolding assms(4) .
  have f: "1 + 1 / (4 * 10 ^ 5) \<le> factor (1 / 4)" "factor (1 / 4) \<le> 1 + 8 / 10 ^ 6"
    using factor_up [of "1 / 4"] factor_bounds [of "1 / 4"] by simp_all
  have "0 \<le> real (Suc n) / 10 ^ 5"
    by simp
  then have y: "MinimumMultiplier \<le> ?y" "x \<le> ?y" "?y \<le> x + MinimumMultiplier" "x \<le> 1"
    using Suc.prems MinimumMultiplier_pos by linarith+
  have "0 \<le> ?y"
    using y(1) MinimumMultiplier_pos by linarith
  then have "?y * (1 + 1 / (4 * 10 ^ 5)) \<le> ?t" "?t \<le> ?y * (1 + 8 / 10 ^ 6)"
    unfolding t using f by (intro mult_left_mono; simp)+
  then have lower: "?y + ?y / (4 * 10 ^ 5) \<le> ?t" and upper: "?t \<le> ?y + ?y * 8 / 10 ^ 6"
    by (simp_all add: distrib_left)
  have near: "\<bar>update w x - ?t\<bar> \<le> 1 / 10 ^ 17"
  proof (rule adjusts_error [OF assms(1-3) Suc.prems(1) y(4)])
    have "0 \<le> ?y / (4 * 10 ^ 5)"
      using \<open>0 \<le> ?y\<close> by (intro divide_nonneg_pos) simp_all
    then show "MinimumMultiplier \<le> ?t"
      using lower y(1) by linarith
  qed
  have "MinimumMultiplier / (4 * 10 ^ 5) \<le> ?y / (4 * 10 ^ 5)"
    using y(1) by (intro divide_right_mono) simp_all
  then have "1 / 10 ^ 17 < ?y / (4 * 10 ^ 5)"
    by (simp add: MinimumMultiplier_def)
  then have grows: "x < update w x"
    using near lower y(2) by linarith
  have "?y \<le> 1 + MinimumMultiplier"
    using y(3,4) by linarith
  then have "?y * 8 / 10 ^ 6 \<le> 9 / 10 ^ 6"
    by (simp add: MinimumMultiplier_def)
  then have "?t \<le> x + MinimumMultiplier + 9 / 10 ^ 6"
    using upper y(3) by linarith
  moreover have "x + MinimumMultiplier + 9 / 10 ^ 6 + 1 / 10 ^ 17 \<le> x + 1 / 10 ^ 5"
    by (simp add: MinimumMultiplier_def)
  ultimately have "update w x \<le> x + 1 / 10 ^ 5"
    using near by linarith
  then have "update w x + real n / 10 ^ 5 \<le> 1"
    using Suc.prems(2) by (simp add: field_simps)
  then have "growing n (update w) (truth_value_update normal ideal w) (update w x) \<noteq> None"
    using grows Suc.prems(1) by (intro Suc.IH) simp_all
  then show ?case
    using error_rate_close [OF near, of 100] grows by (simp add: Let_def)
qed simp

lemma decreasing_returns:
  assumes "adjusts normal ideal update" "4 * unat ideal = unat normal" "0 < unat ideal" "beyond normal w \<le> - 1 / 8"
  shows "1 / 4 + real n / 10 ^ 5 \<le> x \<Longrightarrow> x \<le> 1 \<Longrightarrow> decreasing n (update w) x \<noteq> None"
proof (induction n arbitrary: x)
  case (Suc n)
  have "1 / 4 \<le> 1 / 4 + real (Suc n) / 10 ^ 5"
    by simp
  then have "MinimumMultiplier \<le> x"
    using Suc.prems(1) unfolding MinimumMultiplier_def by linarith
  note down = adjusts_down [OF assms(1-3) this Suc.prems(2) assms(4)]
  have "x * (1 - 3 / 10 ^ 6) = x - x * 3 / 10 ^ 6"
    by (simp add: algebra_simps)
  then have "x - 1 / 10 ^ 5 \<le> update w x"
    using down(2) Suc.prems(2) by simp
  then have low: "1 / 4 + real n / 10 ^ 5 \<le> update w x"
    using Suc.prems(1) by (simp add: field_simps)
  moreover have "0 \<le> real n / 10 ^ 5"
    by simp
  ultimately have "update w x \<noteq> MinimumMultiplier"
    unfolding MinimumMultiplier_def by linarith
  then have "update w x < x"
    using down(1) by blast
  then show ?case
    using Suc.IH [OF low] Suc.prems(2) by (simp add: Let_def)
qed simp

lemma congested_loop_Some:
  "(\<And>j. j < k \<Longrightarrow> update ((update ^^ j) x) \<noteq> (update ^^ j) x) \<Longrightarrow> update ((update ^^ k) x) = (update ^^ k) x \<Longrightarrow>
     congested_loop update x i = Some (i + k)"
proof (induction k arbitrary: x i)
  case 0
  then have "update x = x"
    by simp
  then show ?case
    by (subst congested_loop.simps) simp
next
  case (Suc k)
  have "congested_loop update (update x) (i + 1) = Some (i + 1 + k)"
    using Suc.prems(1) [of "Suc j" for j] Suc.prems(2) by (intro Suc.IH) (simp_all add: funpow_swap1)
  moreover have "x \<noteq> update x"
    using Suc.prems(1) [of 0] by simp
  ultimately show ?case
    by (subst congested_loop.simps) (simp add: Let_def)
qed

section \<open>The weights of the tests\<close>

lemma adjusts_range:
  assumes "adjusts normal ideal update" "0 \<le> x" "x \<le> max_fm"
  shows "MinimumMultiplier \<le> update w x \<and> update w x \<le> max_fm"
proof -
  obtain r where "update w x = max MinimumMultiplier (min max_fm r)"
    using assms unfolding adjusts_def by blast
  then show ?thesis
    using max_fm_large by (simp add: MinimumMultiplier_def)
qed

text \<open>A weight of \<open>d / c\<close> times the ideal.\<close>

lemma beyond_at:
  assumes "4 * unat ideal = unat normal" "0 < unat ideal" "0 < c"
  shows "c * unat w \<le> d * unat ideal \<Longrightarrow> beyond normal w \<le> real d / (4 * real c) - 1 / 4"
    and "unat w \<le> unat normal \<Longrightarrow> d * unat ideal \<le> c * unat w \<Longrightarrow> real d / (4 * real c) - 1 / 4 \<le> beyond normal w"
proof -
  obtain W I where WI: "W = unat w" "I = unat ideal" by blast
  then have N: "unat normal = 4 * I" "0 < I"
    using assms(1,2) by simp_all
  have quot: "beyond normal w = min (real W) (real (4 * I)) / real (4 * I) - 1 / 4"
    unfolding beyond_def WI(1) N(1) ..
  show "beyond normal w \<le> real d / (4 * real c) - 1 / 4" if "c * unat w \<le> d * unat ideal"
  proof -
    have "real c * real W \<le> real d * real I"
      using that unfolding WI [symmetric] by (metis of_nat_le_iff of_nat_mult)
    then have "real W / real (4 * I) \<le> real d / (4 * real c)"
      using N(2) assms(3) by (simp add: field_simps)
    moreover have "min (real W) (real (4 * I)) / real (4 * I) \<le> real W / real (4 * I)"
      by (intro divide_right_mono) simp_all
    ultimately show ?thesis
      unfolding quot by linarith
  qed
  show "real d / (4 * real c) - 1 / 4 \<le> beyond normal w"
    if "unat w \<le> unat normal" "d * unat ideal \<le> c * unat w"
  proof -
    have "real d * real I \<le> real c * real W"
      using that(2) unfolding WI [symmetric] by (metis of_nat_le_iff of_nat_mult)
    then have "real d / (4 * real c) \<le> real W / real (4 * I)"
      using N(2) assms(3) by (simp add: field_simps)
    moreover have "min (real W) (real (4 * I)) = real W"
      using that(1) unfolding N(1) WI(1) [symmetric] by (simp add: min_def)
    ultimately show ?thesis
      unfolding quot by simp
  qed
qed

lemma test_weights:
  assumes "4 * unat ideal = unat normal" "1000 \<le> unat ideal" "unat normal \<le> 10 ^ 13"
  shows "beyond normal 0 \<le> - 1 / 8" "beyond normal (ideal div 4) \<le> - 1 / 8" "beyond normal (ideal div 2) \<le> - 1 / 8"
    and "beyond normal (ideal * 2) = 1 / 4" "1 / 4 \<le> beyond normal (ideal * 4)"
    and "1 / 10 ^ 11 \<le> beyond normal (ideal + 100)" "225 / 10 ^ 5 \<le> beyond normal (ideal * 101 div 100)"
    and "7 / 10 \<le> beyond normal (normal - 100)"
proof -
  have pos: "0 < unat ideal" "unat ideal < 2 ^ 62"
    using assms by simp_all
  note at = beyond_at [OF assms(1) pos(1)]
  have up: "unat (ideal * 2) = unat ideal * 2" "unat (ideal * 4) = unat ideal * 4" "unat (ideal + 100) = unat ideal + 100"
    "unat (ideal * 101 div 100) = unat ideal * 101 div 100" "unat (normal - 100) = unat normal - 100"
    using assms by (simp_all add: unat_word_ariths unat_div unat_sub word_le_nat_alt)
  show "beyond normal 0 \<le> - 1 / 8" "beyond normal (ideal div 4) \<le> - 1 / 8" "beyond normal (ideal div 2) \<le> - 1 / 8"
    using at(1) [of 1 0 0] at(1) [of 4 "ideal div 4" 1] at(1) [of 2 "ideal div 2" 1] by (simp_all add: unat_div)
  show "beyond normal (ideal * 2) = 1 / 4" "1 / 4 \<le> beyond normal (ideal * 4)"
    using at(1) [of 1 "ideal * 2" 2] at(2) [of 1 "ideal * 2" 2] at(2) [of 1 "ideal * 4" 2] assms(1) by (simp_all add: up)
  show "1 / 10 ^ 11 \<le> beyond normal (ideal + 100)"
    using at(2) [of "10 ^ 11" "ideal + 100" "10 ^ 11 + 4"] assms by (simp add: up)
  show "225 / 10 ^ 5 \<le> beyond normal (ideal * 101 div 100)"
    using at(2) [of 1000 "ideal * 101 div 100" 1009] assms by (simp add: up)
  show "7 / 10 \<le> beyond normal (normal - 100)"
    using at(2) [of 10 "normal - 100" 38] assms by (simp add: up)
qed

section \<open>Properties\<close>

text \<open>Around one half and one every comparison with the reference holds.\<close>

lemma adjusts_compared:
  assumes "adjusts normal ideal update" "4 * unat ideal = unat normal" "0 < unat ideal" "1 / 2 \<le> x" "x \<le> 1" "100 \<le> n"
  shows "error_rate (update w x) (truth_value_update normal ideal w x) (from_inner n)
    \<and> error_rate (truth_value_update normal ideal w x) (update w x) (from_inner n)"
proof -
  have "0 < unat normal"
    using assms(2,3) by simp
  then have "1 - 3 / 10 ^ 6 \<le> factor (beyond normal w)"
    using beyond_bounds factor_bounds by blast
  then have "1 / 2 * (1 - 3 / 10 ^ 6) \<le> max x MinimumMultiplier * factor (beyond normal w)"
    using assms(4) by (intro mult_mono) simp_all
  then have "MinimumMultiplier \<le> truth_value_update normal ideal w x"
    unfolding truth_beyond [OF assms(2,3)] by (simp add: MinimumMultiplier_def)
  then have "\<bar>update w x - truth_value_update normal ideal w x\<bar> \<le> 1 / 10 ^ 17"
    using assms(4,5) by (intro adjusts_error [OF assms(1-3)]) simp_all
  then show ?thesis
    using error_rate_close assms(6) by blast
qed

text \<open>
  The assertions of the fee multiplier's tests hold for every adjustment that follows the reference up to ten units of
  the last decimal: it agrees with the reference at all tested weights, grows from the minimum, does not fall below it, falls after
  light blocks, stays after ideal ones and grows after heavy ones, a hundred and a thousand times in a row, and stays at
  the largest multiplier. The target is a quarter of a normal weight of at most \<open>10 ^ 13\<close>.
\<close>

theorem multiplier_tests_hold:
  assumes "adjusts normal ideal update" "4 * unat ideal = unat normal" "1000 \<le> unat ideal" "unat normal \<le> 10 ^ 13"
  shows "truth_value_update_poc_works normal ideal update \<and> multiplier_can_grow_from_zero ideal update
    \<and> multiplier_cannot_go_below_limit update \<and> stateless_weight_mul normal ideal update
    \<and> weight_mul_grow_on_big_block normal ideal update \<and> weight_mul_decrease_on_small_block ideal update
    \<and> weight_to_fee_should_not_overflow_on_large_weights max_block normal ideal update"
proof -
  have pos: "0 < unat ideal"
    using assms(3) by simp
  note compared = adjusts_compared [OF assms(1,2) pos] and up = adjusts_up [OF assms(1,2) pos]
    and down = adjusts_down(1) [OF assms(1,2) pos] and weights = test_weights [OF assms(2-4)]
  have Min: "MinimumMultiplier = 1 / 10 ^ 9"
    by (simp add: MinimumMultiplier_def)
  have "truth_value_update_poc_works normal ideal update"
    unfolding truth_value_update_poc_works_def Let_def using compared [of "1 / 2" 100] by simp
  moreover have "multiplier_can_grow_from_zero ideal update"
    using up [of MinimumMultiplier "1 / 10 ^ 9 + 1 / 10 ^ 18" "ideal * 101 div 100"] weights(7) max_fm_large
    unfolding multiplier_can_grow_from_zero_def Let_def Min by simp
  moreover have "multiplier_cannot_go_below_limit update"
    using down [of MinimumMultiplier 0] weights(1) adjusts_range [OF assms(1), of MinimumMultiplier 0] max_fm_large
    unfolding multiplier_cannot_go_below_limit_def Let_def Min by simp
  moreover have "update w (1 / 2) < 1 / 2" if "beyond normal w \<le> - 1 / 8" for w
    using down [of "1 / 2" w] that unfolding Min by auto
  then have "stateless_weight_mul normal ideal update"
    using compared [of "1 / 2" 100] weights(2,3,4) adjusts_same [OF assms(1), of "1 / 2"]
      up [of "1 / 2" "1 / 2 + 1 / 10 ^ 9" "ideal * 2"] max_fm_large
    unfolding stateless_weight_mul_def Let_def Min by simp
  moreover have "weight_mul_grow_on_big_block normal ideal update"
    unfolding weight_mul_grow_on_big_block_def by (rule growing_returns [OF assms(1,2) pos weights(4)]) simp_all
  moreover have "weight_mul_decrease_on_small_block ideal update"
    unfolding weight_mul_decrease_on_small_block_def by (rule decreasing_returns [OF assms(1,2) pos weights(3)]) simp_all
  moreover have "update w max_fm = max_fm" if "1 / 10 ^ 12 \<le> beyond normal w" for w
  proof -
    have "max_fm * (1 + 1 / 10 ^ 17) \<le> max_fm * (1 + beyond normal w / 10 ^ 5)"
      using that max_fm_large by (intro mult_left_mono) simp_all
    then have "max_fm + max 1 max_fm / 10 ^ 17 \<le> max_fm * (1 + beyond normal w / 10 ^ 5)"
      using max_fm_large by (simp add: distrib_left)
    then show ?thesis
      using up [of max_fm max_fm w] adjusts_range [OF assms(1), of max_fm w] max_fm_large unfolding Min by simp
  qed
  then have "weight_to_fee_should_not_overflow_on_large_weights max_block normal ideal update"
    using compared [of 1 50000000] weights(4,5,6)
    unfolding weight_to_fee_should_not_overflow_on_large_weights_def Let_def by simp
  ultimately show ?thesis by blast
qed

text \<open>A step of the congested chain: up by at least six and at most nine parts in a million, until the largest multiplier.\<close>

lemma congested_step:
  assumes "adjusts normal ideal update" "4 * unat ideal = unat normal" "1000 \<le> unat ideal" "unat normal \<le> 10 ^ 13"
    and "1 \<le> x" "x \<le> max_fm"
  shows "min max_fm (x * (1 + 6 / 10 ^ 6)) \<le> update (normal - 100) x"
    and "update (normal - 100) x \<le> x * (1 + 9 / 10 ^ 6)" "update (normal - 100) x \<le> max_fm"
proof -
  have pos: "0 < unat ideal" "0 < unat normal"
    using assms(2,3) by simp_all
  have x: "0 \<le> x" "MinimumMultiplier \<le> x" "max 1 x = x" "max x MinimumMultiplier = x"
    using assms(5) by (simp_all add: MinimumMultiplier_def)
  have "x * (1 + 7 / 10 ^ 6) \<le> x * (1 + beyond normal (normal - 100) / 10 ^ 5)"
    using test_weights(8) [OF assms(2-4)] x(1) by (intro mult_left_mono) simp_all
  then show "min max_fm (x * (1 + 6 / 10 ^ 6)) \<le> update (normal - 100) x"
    using x(1) by (intro adjusts_up [OF assms(1,2) pos(1) x(2) assms(6)]) (simp add: x(3) distrib_left)
  obtain r where r: "\<bar>r - x * factor (beyond normal (normal - 100))\<bar> \<le> x / 10 ^ 17"
    "update (normal - 100) x = max MinimumMultiplier (min max_fm r)"
    using adjusts_near [OF assms(1,2) pos(1) x(1) assms(6), of "normal - 100" thesis] by (simp add: x(3,4))
  have "factor (beyond normal (normal - 100)) \<le> 1 + 8 / 10 ^ 6"
    using beyond_bounds [OF pos(2)] factor_bounds by blast
  then have "x * factor (beyond normal (normal - 100)) \<le> x * (1 + 8 / 10 ^ 6)"
    using x(1) by (rule mult_left_mono)
  moreover have "x * (1 + 8 / 10 ^ 6) + x / 10 ^ 17 \<le> x * (1 + 9 / 10 ^ 6)"
    using x(1) by (simp add: distrib_left)
  ultimately have "r \<le> x * (1 + 9 / 10 ^ 6)"
    using r(1) by linarith
  moreover have "MinimumMultiplier \<le> x * (1 + 9 / 10 ^ 6)"
    using x(1,2) by (simp add: distrib_left)
  ultimately show "update (normal - 100) x \<le> x * (1 + 9 / 10 ^ 6)"
    unfolding r(2) by simp
  show "update (normal - 100) x \<le> max_fm"
    using adjusts_range [OF assms(1) x(1) assms(6)] by blast
qed

lemma congested_iterates:
  assumes "adjusts normal ideal update" "4 * unat ideal = unat normal" "1000 \<le> unat ideal" "unat normal \<le> 10 ^ 13"
  defines "it n \<equiv> (update (normal - 100) ^^ n) 1"
  shows "1 \<le> it n \<and> it n \<le> max_fm \<and> min max_fm ((1 + 6 / 10 ^ 6) ^ n) \<le> it n \<and> it n \<le> (1 + 9 / 10 ^ 6) ^ n"
proof (induction n)
  case 0
  then show ?case using max_fm_large by (simp add: it_def)
next
  case (Suc n)
  have it: "it (Suc n) = update (normal - 100) (it n)"
    by (simp add: it_def)
  note step = congested_step [OF assms(1-4), of "it n"]
  have "it n * 1 \<le> it n * (1 + 6 / 10 ^ 6)"
    using Suc by (intro mult_left_mono) simp_all
  then have "1 \<le> min max_fm (it n * (1 + 6 / 10 ^ 6))"
    using Suc max_fm_large by (intro min.boundedI) linarith+
  then have "1 \<le> it (Suc n)"
    using step(1) Suc unfolding it by linarith
  moreover have "min max_fm ((1 + 6 / 10 ^ 6) ^ Suc n) \<le> min max_fm (it n * (1 + 6 / 10 ^ 6))"
  proof (cases "(1 + 6 / 10 ^ 6) ^ n \<le> it n")
    case True
    then have "(1 + 6 / 10 ^ 6) ^ n * (1 + 6 / 10 ^ 6) \<le> it n * (1 + 6 / 10 ^ 6)"
      by (intro mult_right_mono) simp_all
    then show ?thesis by (simp only: power_Suc2 min.mono order_refl)
  next
    case False
    then have "max_fm \<le> it n"
      using Suc by (simp add: min_def split: if_splits)
    then show ?thesis
      using \<open>it n * 1 \<le> _\<close> by simp
  qed
  moreover have "it n * (1 + 9 / 10 ^ 6) \<le> (1 + 9 / 10 ^ 6) ^ n * (1 + 9 / 10 ^ 6)"
    using Suc by (intro mult_right_mono) simp_all
  ultimately show ?case
    using step Suc unfolding it power_Suc2 by (meson order_trans)
qed

lemma largest_takes_long:
  assumes "max_fm \<le> (1 + 9 / 10 ^ 6) ^ k"
  shows "4000000 < k"
proof (rule ccontr)
  assume "\<not> 4000000 < k"
  note assms
  also have "(1 + 9 / 10 ^ 6) ^ k \<le> (1 + 9 / 10 ^ 6 :: real) ^ 4000000"
    using \<open>\<not> 4000000 < k\<close> by (intro power_increasing) simp_all
  also have "\<dots> \<le> exp (9 / 10 ^ 6) ^ 4000000"
    using exp_ge_add_one_self [of "9 / 10 ^ 6"] by (intro power_mono) simp_all
  also have "\<dots> = exp 1 ^ 36"
    by (simp flip: exp_of_nat_mult)
  also have "\<dots> \<le> 3 ^ 36"
    using exp_le by (intro power_mono) simp_all
  finally show False
    using max_fm_large by simp
qed

text \<open>
  C31: the simulation of a congested chain does not run forever. When the multiplier of the module is one, as at the genesis, and
  the maximal weight of normal extrinsics is set, then after finitely many and more than four million blocks the multiplier is
  the largest one, stays the same, and the simulation panics; with any other multiplier, or without that weight, it panics before its
  loop. This is for every adjustment that follows the reference up to ten units of the last decimal, with a target of a quarter
  of a normal weight of at most \<open>10 ^ 13\<close>.
\<close>

theorem congested_chain_panics:
  assumes "adjusts normal ideal update" "4 * unat ideal = unat normal" "1000 \<le> unat ideal" "unat normal \<le> 10 ^ 13"
  shows "(\<exists>k > 4000000. congested_chain_simulation (Some normal) 1 update = Some (After_blocks k)
      \<and> (update (normal - 100) ^^ k) 1 = max_fm \<and> (\<forall>j < k. (update (normal - 100) ^^ j) 1 < max_fm))
    \<and> (fm \<noteq> 1 \<longrightarrow> congested_chain_simulation (Some normal) fm update = Some Before_loop)
    \<and> congested_chain_simulation None fm update = Some Before_loop"
proof -
  let ?u = "update (normal - 100)"
  let ?it = "\<lambda>n. (?u ^^ n) 1"
  note it = congested_iterates [OF assms] and step = congested_step [OF assms]
  obtain n where "max_fm < (1 + 6 / 10 ^ 6) ^ n"
    using real_arch_pow [of "1 + 6 / 10 ^ 6" max_fm] by auto
  then have "?it n = max_fm"
    using it [of n] by simp
  define k where "k = (LEAST n. ?it n = max_fm)"
  have k: "?it k = max_fm"
    using \<open>?it n = max_fm\<close> unfolding k_def by (rule LeastI)
  have below: "?it j < max_fm" if "j < k" for j
    using not_less_Least [of j "\<lambda>n. ?it n = max_fm"] that it [of j] unfolding k_def by (simp add: order_less_le)
  have grows: "?u (?it j) \<noteq> ?it j" if "j < k" for j
  proof -
    have "?it j < ?it j * (1 + 6 / 10 ^ 6)"
      using it [of j] by (simp add: distrib_left)
    then have "?it j < min max_fm (?it j * (1 + 6 / 10 ^ 6))"
      using below [OF that] by simp
    then show ?thesis
      using step(1) [of "?it j"] it [of j] by fastforce
  qed
  have "max_fm \<le> min max_fm (max_fm * (1 + 6 / 10 ^ 6))"
    using max_fm_large by simp
  then have "?u (?it k) = ?it k"
    using step(1,3) [of max_fm] max_fm_large unfolding k by fastforce
  then have "congested_loop ?u 1 0 = Some (0 + k)"
    using grows by (intro congested_loop_Some)
  moreover have "4000000 < k"
    using it [of k] k by (intro largest_takes_long) simp
  moreover have "\<not> normal < 100"
    using assms(2,3) by (simp add: word_less_nat_alt)
  ultimately show ?thesis
    using k below unfolding congested_chain_simulation_def Let_def by auto
qed

section \<open>Witnesses\<close>

definition demo_adjustment :: adjustment where
  "demo_adjustment w x = max MinimumMultiplier (min max_fm (truth_value_update 4000 1000 w x))"

lemma demo_adjusts: "adjusts 4000 1000 demo_adjustment"
proof -
  have "truth_value_update 4000 1000 1000 x = x" if "MinimumMultiplier \<le> x" for x
    using that by (simp add: truth_value_update_def Let_def)
  then show ?thesis
    unfolding adjusts_def demo_adjustment_def
    by (intro conjI allI impI exI [of _ "truth_value_update 4000 1000 _ _"]) (simp_all add: max_absorb2)
qed

theorem multiplier_tests_hold_witness:
  "stateless_weight_mul 4000 1000 demo_adjustment \<and> multiplier_cannot_go_below_limit demo_adjustment"
  using multiplier_tests_hold [OF demo_adjusts] by simp

theorem congested_chain_panics_witness:
  "\<exists>k > 4000000. congested_chain_simulation (Some 4000) 1 demo_adjustment = Some (After_blocks k)"
  using congested_chain_panics [OF demo_adjusts, of 1] by auto

end
