(* ===== verification/Votechain_Tests.thy ===== *)
theory Votechain_Tests
  imports Runtime_Config
begin

text \<open>
  The unit tests (\<open>pallets/votechain/src/tests.rs\<close>) and the benchmark (\<open>pallets/votechain/src/benchmarking.rs\<close>) of the voting
  pallet as programs over its model: a test is true when it passes. The mock runtime (\<open>mock.rs\<close>) has the storage of the pallet and the
  reserved balances of the accounts, which no call of the pallet touches.
\<close>

section \<open>The mock runtime\<close>

text \<open>The pallets with the crates they come from and their parts, and their configurations, as those of the runtime.\<close>

definition mock_construct_runtime :: "(pallet \<times> string \<times> string list) list" where
  "mock_construct_runtime = [
     (System, ''frame_system'', [''Pallet'', ''Call'', ''Config'', ''Storage'', ''Event'']),
     (Balances, ''pallet_balances'', [''Pallet'', ''Call'', ''Storage'', ''Config'', ''Event'']),
     (Votechain, ''pallet_votechain'', [''Pallet'', ''Call'', ''Storage'', ''Event''])]"

definition mock_config_System :: config_entries where
  "mock_config_System = [
     (''BaseCallFilter'', Text ''Everything''), (''BlockWeights'', Unit), (''BlockLength'', Unit), (''DbWeight'', Unit),
     (''Origin'', Text ''Origin''), (''Call'', Text ''Call''), (''Index'', Text ''u64''), (''BlockNumber'', Text ''u64''),
     (''Hash'', Text ''H256''), (''Hashing'', Text ''BlakeTwo256''), (''AccountId'', Text ''u64''),
     (''Lookup'', Text ''IdentityLookup''), (''Header'', Text ''Header''), (''Event'', Text ''Event''),
     (''BlockHashCount'', Number 250), (''Version'', Unit), (''PalletInfo'', Text ''PalletInfo''),
     (''AccountData'', App ''pallet_balances::AccountData'' [Text ''u64'']), (''OnNewAccount'', Unit),
     (''OnKilledAccount'', Unit), (''SystemWeightInfo'', Unit), (''SS58Prefix'', Number 42), (''OnSetCode'', Unit),
     (''MaxConsumers'', Number 16)]"

definition mock_config_Balances :: config_entries where
  "mock_config_Balances = [
     (''MaxLocks'', Unit), (''MaxReserves'', Unit), (''ReserveIdentifier'', Text ''[u8; 8]''), (''Balance'', Text ''u64''),
     (''DustRemoval'', Unit), (''Event'', Text ''Event''), (''ExistentialDeposit'', Number 1),
     (''AccountStore'', Ref System), (''WeightInfo'', Unit)]"

definition mock_config_Votechain :: config_entries where
  "mock_config_Votechain = [
     (''Event'', Text ''Event''), (''Currency'', Ref Balances), (''ElectionMinBytes'', Number 8),
     (''ElectionMaxBytes'', Number 4096), (''CandidateMinBytes'', Number 8), (''CandidateMaxBytes'', Number 4096)]"

text \<open>
  The mock runtime configures every pallet with the names that the runtime configures, the voting pallet alike, and refers to its own
  pallets only.
\<close>

lemma mock_configuration:
  "map fst mock_config_System = map fst config_System" "map fst mock_config_Balances = map fst config_Balances"
  "mock_config_Votechain = config_Votechain"
  "\<forall>(p, crate, _) \<in> set mock_construct_runtime. p \<in> set construct_runtime \<and> crate = pallet_crate p"
  "\<forall>(_, v) \<in> set (mock_config_System @ mock_config_Balances @ mock_config_Votechain).
     \<forall>p \<in> set (value_refs v). p \<in> set (map fst mock_construct_runtime)"
  by (simp_all add: mock_config_System_def mock_config_Balances_def mock_config_Votechain_def mock_construct_runtime_def
      config_System_def config_Balances_def config_Votechain_def construct_runtime_def parameter_defs)

section \<open>The tests\<close>

datatype mock_origin = Root_origin | Signed_origin u64 | None_origin

definition mock_signer :: "mock_origin \<Rightarrow> u64 option" where
  "mock_signer origin = (case origin of Signed_origin who \<Rightarrow> Some who | _ \<Rightarrow> None)"

definition mock_config :: "(election \<Rightarrow> 'h) \<Rightarrow> ('h candidate \<Rightarrow> 'h) \<Rightarrow> (mock_origin, u64, 'h) pallet_config" where
  "mock_config = votechain_mock_config mock_signer (\<lambda>origin. origin = Root_origin)"

record 'h mock_ext =
  mock_storage :: "(u64, 'h) storage"
  reserved_balance :: "u64 \<Rightarrow> u64"

definition new_test_ext :: "'h mock_ext" where
  "new_test_ext = \<lparr>mock_storage = empty_storage, reserved_balance = (\<lambda>_. 0)\<rparr>"

definition it_works_for_default_value :: "(mock_origin, u64, 'h) pallet_config \<Rightarrow> bool" where
  "it_works_for_default_value cfg =
     (let ext = new_test_ext; (r, s) = do_something cfg (Signed_origin 1) 42 (mock_storage ext)
      in r = Inr () \<and> something s = Some 42 \<and> reserved_balance ext 1 = 1)"

definition correct_error_for_none_value :: "(mock_origin, u64, 'h) pallet_config \<Rightarrow> bool" where
  "correct_error_for_none_value cfg =
     (let ext = new_test_ext; (r, s) = cause_error cfg (Signed_origin 1) (mock_storage ext)
      in r = Inl (Module NoneValue) \<and> s = mock_storage ext \<and> reserved_balance ext 1 = 0)"

text \<open>The benchmark calls with a parameter from 0 to 100 and verifies the stored value.\<close>

definition benchmark_do_something :: "('o, 'a, 'h) pallet_config \<Rightarrow> ('a \<Rightarrow> 'o) \<Rightarrow> 'a \<Rightarrow> u32 \<Rightarrow> ('a, 'h) storage \<Rightarrow> bool" where
  "benchmark_do_something cfg raw_signed caller x s =
     (let (r, s) = do_something cfg (raw_signed caller) x s in r = Inr () \<and> something s = Some x)"

text \<open>
  The second test passes; the first one fails, since it expects one unit of balance to be reserved and nothing is; the
  verification of the benchmark holds in every storage and for every parameter.
\<close>

theorem pallet_tests:
  "\<not> it_works_for_default_value (mock_config hash_el hash_ca)"
  "correct_error_for_none_value (mock_config hash_el hash_ca)"
  "benchmark_do_something (mock_config hash_el hash_ca) Signed_origin caller x s"
  by (simp_all add: it_works_for_default_value_def correct_error_for_none_value_def benchmark_do_something_def
      mock_config_def votechain_mock_config_def mock_signer_def new_test_ext_def empty_storage_def
      do_something_eq cause_error_eq)

end
