(* ===== verification/Executor_Blocks.thy ===== *)
theory Executor_Blocks
  imports Cli_Benches Runtime_Ratios
begin

text \<open>
  The native executor (\<open>executor/src/lib.rs\<close>) and the tests that build blocks with it and import them again
  (\<open>executor/tests/common.rs\<close>, \<open>basic.rs\<close>, \<open>fees.rs\<close>). The framework's executor, codecs, tries and hashes and the test
  externalities are parameters, encoded data being an abstract type; a \<open>None\<close> is a panic: a failed \<open>unwrap\<close> or \<open>assert\<close>,
  or an overflow of the checked arithmetic of the tests.
\<close>

section \<open>The executor\<close>

text \<open>The dispatcher that the runtime's APIs generate is a parameter, as is what the native version says of authoring.\<close>

record ('enc, 's) native_execution_dispatch =
  ne_dispatch :: "string \<Rightarrow> 'enc \<Rightarrow> 'enc option"
  ne_native_version :: "runtime_version \<times> 's"

definition ExecutorDispatch :: "(string \<Rightarrow> 'enc \<Rightarrow> 'enc option) \<Rightarrow> 's \<Rightarrow> ('enc, 's) native_execution_dispatch" where
  "ExecutorDispatch api_dispatch default_can_author_with =
     \<lparr>ne_dispatch = api_dispatch, ne_native_version = native_version default_can_author_with\<rparr>"

record executor_options =
  xo_method :: wasm_execution_method
  xo_default_heap_pages :: "u64 option"
  xo_max_runtime_instances :: nat
  xo_runtime_cache_size :: u8

definition test_executor :: executor_options where
  "test_executor = \<lparr>xo_method = Interpreted, xo_default_heap_pages = None, xo_max_runtime_instances = 8,
     xo_runtime_cache_size = 2\<rparr>"

section \<open>Calling the runtime\<close>

record 'enc runtime_code =
  rc_code :: 'enc
  rc_hash :: "u8 list"
  rc_heap_pages :: "u64 option"

text \<open>What a call returns: a native value, or an encoded one. The tests ask for a type without native values.\<close>

datatype ('r, 'enc) native_or_encoded = Native_value 'r | Encoded_value 'enc

record secondary_plain_pre_digest =
  sp_slot :: u64
  sp_authority_index :: u32

datatype 'a test_call =
    Timestamp_set_call Moment
  | Transfer_to 'a Balance
  | Fill_block nat
  | Remark_call "u8 list"

datatype 'a runtime_event =
    Extrinsic_success bool u64
  | Withdraw 'a Balance
  | Transfer_event 'a 'a Balance
  | Deposit 'a Balance
  | Treasury_deposit Balance

text \<open>
  The environment of the tests. Of the externalities \<open>'e\<close> the tests read the storage, the balances, the fee of a transfer of a
  given length and weight, the multiplier for the next block and the events with the extrinsic that they belong to.
\<close>

record ('e, 'enc, 'err, 'ver, 'r, 'h, 'eng, 'a, 'x, 'cx) test_env =
  te_storage :: "'e \<Rightarrow> string \<Rightarrow> 'enc option"
  te_blake2_256 :: "'enc \<Rightarrow> u8 list"
  te_decode_u64 :: "'enc \<Rightarrow> u64 option"
  te_call :: "executor_options \<Rightarrow> 'e \<Rightarrow> 'enc runtime_code \<Rightarrow> string \<Rightarrow> 'enc \<Rightarrow> bool \<Rightarrow>
    ('err, ('r, 'enc) native_or_encoded) result \<times> 'e"
  te_into_encoded :: "'r \<Rightarrow> 'enc"
  te_encode_header :: "('h, 'eng digest_item) Header \<Rightarrow> 'enc"
  te_decode_header :: "'enc \<Rightarrow> ('h, 'eng digest_item) Header option"
  te_hash_header :: "('h, 'eng digest_item) Header \<Rightarrow> 'h"
  te_encode_extrinsic :: "'x \<Rightarrow> 'enc"
  te_encode_block :: "('h, 'eng digest_item, 'x) Block \<Rightarrow> 'enc"
  te_encode_pre_digest :: "secondary_plain_pre_digest \<Rightarrow> u8 list"
  te_encode_nothing :: 'enc
  te_decode_apply_result :: "'enc \<Rightarrow> ('ver, unit) result option"
  te_ordered_trie_root :: "'enc list \<Rightarrow> 'h"
  te_default_hash :: 'h
  te_hash_of :: "u8 list \<Rightarrow> 'h"
  te_babe_engine_id :: 'eng
  te_sign :: "'cx \<Rightarrow> 'x option"
  te_encoded_len :: "'enc \<Rightarrow> u32"
  te_total_balance :: "'e \<Rightarrow> 'a \<Rightarrow> Balance"
  te_compute_fee :: "'e \<Rightarrow> u32 \<Rightarrow> u64 \<Rightarrow> Balance \<Rightarrow> Balance"
  te_multiplier :: "'e \<Rightarrow> real"
  te_events :: "'e \<Rightarrow> (nat \<times> 'a runtime_event) list"
  te_transfer_weight :: u64
  te_timestamp_weight :: u64
  te_account :: "keyring \<Rightarrow> 'a"
  te_treasury :: 'a

definition executor_call ::
  "('e, 'enc, 'err, 'ver, 'r, 'h, 'eng, 'a, 'x, 'cx) test_env \<Rightarrow> 'e \<Rightarrow> string \<Rightarrow> 'enc \<Rightarrow> bool \<Rightarrow>
   (('err, ('r, 'enc) native_or_encoded) result \<times> 'e) option" where
  "executor_call env t method data use_native = do {
     code \<leftarrow> te_storage env t '':code'';
     let heap_pages = te_storage env t '':heappages'';
     let runtime_code = \<lparr>rc_code = code, rc_hash = te_blake2_256 env code,
       rc_heap_pages = Option.bind heap_pages (te_decode_u64 env)\<rparr>;
     Some (te_call env test_executor t runtime_code method data use_native)
   }"

text \<open>\<open>unwrap\<close> of the result of a call.\<close>

fun unwrap_call :: "('err, 'v) result \<times> 'e \<Rightarrow> ('v \<times> 'e) option" where
  "unwrap_call (Inl e, t) = None"
| "unwrap_call (Inr v, t) = Some (v, t)"

section \<open>Building a block\<close>

text \<open>An extrinsic whose dispatch fails is applied all the same; one that is not valid is a panic.\<close>

fun apply_all ::
  "('e, 'enc, 'err, 'ver, 'r, 'h, 'eng, 'a, 'x, 'cx) test_env \<Rightarrow> 'x list \<Rightarrow> 'e \<Rightarrow> 'e option" where
  "apply_all env [] t = Some t"
| "apply_all env (extrinsic # extrinsics) t = do {
     c \<leftarrow> executor_call env t ''BlockBuilder_apply_extrinsic'' (te_encode_extrinsic env extrinsic) True;
     (v, t) \<leftarrow> unwrap_call c;
     let r = (case v of Native_value n \<Rightarrow> te_into_encoded env n | Encoded_value e \<Rightarrow> e);
     applied \<leftarrow> te_decode_apply_result env r;
     case applied of Inr _ \<Rightarrow> apply_all env extrinsics t | Inl e \<Rightarrow> None
   }"

definition initial_header ::
  "('e, 'enc, 'err, 'ver, 'r, 'h, 'eng, 'a, 'x, 'cx) test_env \<Rightarrow> BlockNumber \<Rightarrow> 'h \<Rightarrow> 'x list \<Rightarrow> u64 \<Rightarrow>
   ('h, 'eng digest_item) Header" where
  "initial_header env number parent_hash extrinsics babe_slot =
     \<lparr>hd_parent_hash = parent_hash, hd_number = number, hd_state_root = te_default_hash env,
      hd_extrinsics_root = te_ordered_trie_root env (map (te_encode_extrinsic env) extrinsics),
      hd_digest = [Pre_runtime (te_babe_engine_id env)
        (te_encode_pre_digest env \<lparr>sp_slot = babe_slot, sp_authority_index = 42\<rparr>)]\<rparr>"

definition construct_test_block ::
  "('e, 'enc, 'err, 'ver, 'r, 'h, 'eng, 'a, 'x, 'cx) test_env \<Rightarrow> 'e \<Rightarrow> BlockNumber \<Rightarrow> 'h \<Rightarrow> 'cx list \<Rightarrow> u64 \<Rightarrow>
   (('enc \<times> 'h) \<times> 'e) option" where
  "construct_test_block env t number parent_hash extrinsics babe_slot = do {
     extrinsics \<leftarrow> those (map (te_sign env) extrinsics);
     let header = initial_header env number parent_hash extrinsics babe_slot;
     c \<leftarrow> executor_call env t ''Core_initialize_block'' (te_encode_header env header) True;
     (_, t) \<leftarrow> unwrap_call c;
     t \<leftarrow> apply_all env extrinsics t;
     c \<leftarrow> executor_call env t ''BlockBuilder_finalize_block'' (te_encode_nothing env) True;
     (v, t) \<leftarrow> unwrap_call c;
     header \<leftarrow> (case v of Native_value _ \<Rightarrow> None | Encoded_value h \<Rightarrow> te_decode_header env h);
     Some ((te_encode_block env \<lparr>bk_header = header, bk_extrinsics = extrinsics\<rparr>, te_hash_header env header), t)
   }"

text \<open>The signing of the tests, with the versions of the runtime and the genesis hash of the tests.\<close>

definition sign_for_tests ::
  "('a \<Rightarrow> 'key option) \<Rightarrow> ('key \<Rightarrow> bytes \<Rightarrow> 'sig) \<Rightarrow> (bytes \<Rightarrow> bytes) \<Rightarrow> (('call, 'extra, bytes) payload \<Rightarrow> bytes) \<Rightarrow>
   ('a, 'call, 'extra) checked_extrinsic \<Rightarrow> ('a, 'call, 'extra, 'sig) unchecked_extrinsic option" where
  "sign_for_tests from_account_id key_sign hash encode xt =
     test_sign from_account_id key_sign hash encode xt (spec_version VERSION) (transaction_version VERSION) GENESIS_HASH"

section \<open>The blocks of the tests\<close>

type_synonym ('a, 'era, 'asset) test_extrinsic =
  "('a, 'a test_call, ('era, 'asset) signed_extension list) checked_extrinsic"

type_synonym ('e, 'enc, 'err, 'ver, 'r, 'h, 'eng, 'a, 'x, 'era, 'asset) block_env =
  "('e, 'enc, 'err, 'ver, 'r, 'h, 'eng, 'a, 'x, ('a, 'era, 'asset) test_extrinsic) test_env"

definition timestamp_inherent :: "Moment \<Rightarrow> ('a, 'era, 'asset) test_extrinsic" where
  "timestamp_inherent now = \<lparr>cx_signed = None, cx_function = Timestamp_set_call now\<rparr>"

definition signed_call ::
  "(u64 \<Rightarrow> u64 \<Rightarrow> 'era) \<Rightarrow> 'a \<Rightarrow> Index \<Rightarrow> Balance \<Rightarrow> 'a test_call \<Rightarrow> ('a, 'era, 'asset) test_extrinsic" where
  "signed_call mortal signer nonce tip call =
     \<lparr>cx_signed = Some (signer, test_signed_extra mortal nonce tip), cx_function = call\<rparr>"

definition default_transfer_call ::
  "('e, 'enc, 'err, 'ver, 'r, 'h, 'eng, 'a, 'x, 'cx) test_env \<Rightarrow> 'a test_call" where
  "default_transfer_call env = Transfer_to (te_account env Bob) (69 * DOLLARS)"

definition test_xt ::
  "('e, 'enc, 'err, 'ver, 'r, 'h, 'eng, 'a, 'x, 'era, 'asset) block_env \<Rightarrow> (u64 \<Rightarrow> u64 \<Rightarrow> 'era) \<Rightarrow> 'x option" where
  "test_xt env mortal = te_sign env (signed_call mortal (te_account env Alice) 0 0 (default_transfer_call env))"

definition transfer_fee ::
  "('e, 'enc, 'err, 'ver, 'r, 'h, 'eng, 'a, 'x, 'cx) test_env \<Rightarrow> 'e \<Rightarrow> 'x \<Rightarrow> Balance" where
  "transfer_fee env t extrinsic =
     te_compute_fee env t (te_encoded_len env (te_encode_extrinsic env extrinsic)) (te_transfer_weight env) 0"

definition block1_of_tests ::
  "('e, 'enc, 'err, 'ver, 'r, 'h, 'eng, 'a, 'x, 'era, 'asset) block_env \<Rightarrow> (u64 \<Rightarrow> u64 \<Rightarrow> 'era) \<Rightarrow> Moment \<Rightarrow>
   ('a, 'era, 'asset) test_extrinsic list" where
  "block1_of_tests env mortal time =
     [timestamp_inherent time,
      signed_call mortal (te_account env Alice) 0 0 (Transfer_to (te_account env Bob) (69 * DOLLARS))]"

definition block2_of_tests ::
  "('e, 'enc, 'err, 'ver, 'r, 'h, 'eng, 'a, 'x, 'era, 'asset) block_env \<Rightarrow> (u64 \<Rightarrow> u64 \<Rightarrow> 'era) \<Rightarrow> Moment \<Rightarrow>
   ('a, 'era, 'asset) test_extrinsic list" where
  "block2_of_tests env mortal time =
     [timestamp_inherent time,
      signed_call mortal (te_account env Bob) 0 0 (Transfer_to (te_account env Alice) (5 * DOLLARS)),
      signed_call mortal (te_account env Alice) 1 0 (Transfer_to (te_account env Bob) (15 * DOLLARS))]"

definition assert_that :: "bool \<Rightarrow> unit option" where
  "assert_that b = (if b then Some () else None)"

text \<open>\<open>new_ext\<close> is a fresh copy of the genesis externalities; both blocks are made on one copy.\<close>

definition changes_trie_block ::
  "('e, 'enc, 'err, 'ver, 'r, 'h, 'eng, 'a, 'x, 'era, 'asset) block_env \<Rightarrow> (u64 \<Rightarrow> u64 \<Rightarrow> 'era) \<Rightarrow> 'e option \<Rightarrow>
   ('enc \<times> 'h) option" where
  "changes_trie_block env mortal new_ext = do {
     let time = 42 * 1000;
     t \<leftarrow> new_ext;
     (block, _) \<leftarrow> construct_test_block env t 1 (te_hash_of env GENESIS_HASH) (block1_of_tests env mortal time)
       (time div SLOT_DURATION);
     Some block
   }"

definition blocks_of_tests ::
  "('e, 'enc, 'err, 'ver, 'r, 'h, 'eng, 'a, 'x, 'era, 'asset) block_env \<Rightarrow> (u64 \<Rightarrow> u64 \<Rightarrow> 'era) \<Rightarrow> 'e option \<Rightarrow>
   (('enc \<times> 'h) \<times> ('enc \<times> 'h)) option" where
  "blocks_of_tests env mortal new_ext = do {
     t \<leftarrow> new_ext;
     let time1 = 42 * 1000;
     (block1, t) \<leftarrow> construct_test_block env t 1 (te_hash_of env GENESIS_HASH) (block1_of_tests env mortal time1)
       (time1 div SLOT_DURATION);
     let time2 = 52 * 1000;
     (block2, t) \<leftarrow> construct_test_block env t 2 (snd block1) (block2_of_tests env mortal time2) (time2 div SLOT_DURATION);
     header \<leftarrow> te_decode_header env (fst block2);
     assert_that (length (hd_digest header) = 1);
     Some (block1, block2)
   }"

definition block_with_size ::
  "('e, 'enc, 'err, 'ver, 'r, 'h, 'eng, 'a, 'x, 'era, 'asset) block_env \<Rightarrow> (u64 \<Rightarrow> u64 \<Rightarrow> 'era) \<Rightarrow> 'e option \<Rightarrow>
   u64 \<Rightarrow> u32 \<Rightarrow> nat \<Rightarrow> ('enc \<times> 'h) option" where
  "block_with_size env mortal new_ext time nonce len = do {
     t \<leftarrow> new_ext;
     (block, _) \<leftarrow> construct_test_block env t 1 (te_hash_of env GENESIS_HASH)
       [timestamp_inherent (time * 1000), signed_call mortal (te_account env Alice) nonce 0 (Remark_call (replicate len 0))]
       (time * 1000 div SLOT_DURATION);
     Some block
   }"

section \<open>The import tests\<close>

text \<open>Arithmetic on balances in the tests panics on overflow.\<close>

definition checked_sub :: "u128 \<Rightarrow> u128 \<Rightarrow> u128 option" where
  "checked_sub a b = (if b \<le> a then Some (a - b) else None)"

definition checked_mul :: "u128 \<Rightarrow> u128 \<Rightarrow> u128 option" where
  "checked_mul a b = (if unat a * unat b < 2 ^ 128 then Some (a * b) else None)"

definition execute_block ::
  "('e, 'enc, 'err, 'ver, 'r, 'h, 'eng, 'a, 'x, 'cx) test_env \<Rightarrow> 'e \<Rightarrow> 'enc \<Rightarrow> bool \<Rightarrow> 'e option" where
  "execute_block env t block use_native = do {
     c \<leftarrow> executor_call env t ''Core_execute_block'' block use_native;
     (_, t) \<leftarrow> unwrap_call c;
     Some t
   }"

definition timestamp_event ::
  "('e, 'enc, 'err, 'ver, 'r, 'h, 'eng, 'a, 'x, 'cx) test_env \<Rightarrow> nat \<times> 'a runtime_event" where
  "timestamp_event env = (0, Extrinsic_success True (te_timestamp_weight env))"

text \<open>The events that the tests list for the \<open>i\<close>th extrinsic, a transfer; \<open>share\<close> is what the treasury gets of the fee.\<close>

definition listed_transfer_events ::
  "('e, 'enc, 'err, 'ver, 'r, 'h, 'eng, 'a, 'x, 'cx) test_env \<Rightarrow> nat \<Rightarrow> 'a \<Rightarrow> 'a \<Rightarrow> Balance \<Rightarrow> Balance \<Rightarrow> Balance \<Rightarrow>
   (nat \<times> 'a runtime_event) list" where
  "listed_transfer_events env i from dest amount fees share =
     [(i, Withdraw from fees), (i, Transfer_event from dest amount), (i, Deposit (te_treasury env) share),
      (i, Treasury_deposit share), (i, Extrinsic_success False (te_transfer_weight env))]"

text \<open>Both tests: the native one also compares the events (\<open>compare_events\<close>).\<close>

definition import_test ::
  "('e, 'enc, 'err, 'ver, 'r, 'h, 'eng, 'a, 'x, 'era, 'asset) block_env \<Rightarrow> (u64 \<Rightarrow> u64 \<Rightarrow> 'era) \<Rightarrow> 'e option \<Rightarrow>
   bool \<Rightarrow> bool \<Rightarrow> unit option" where
  "import_test env mortal new_ext use_native compare_events = do {
     let alice = te_account env Alice;
     let bob = te_account env Bob;
     t \<leftarrow> new_ext;
     (block1, block2) \<leftarrow> blocks_of_tests env mortal new_ext;
     x \<leftarrow> test_xt env mortal;
     let fees = transfer_fee env t x;
     t \<leftarrow> execute_block env t (fst block1) use_native;
     left_alice \<leftarrow> checked_sub (42 * DOLLARS) fees;
     assert_that (te_total_balance env t alice = left_alice);
     assert_that (te_total_balance env t bob = 169 * DOLLARS);
     let alice_last_known_balance = te_total_balance env t alice;
     share \<leftarrow> map_option (\<lambda>m. m div 10) (checked_mul fees 8);
     assert_that (compare_events \<longrightarrow> te_events env t =
       timestamp_event env # listed_transfer_events env 1 alice bob (69 * DOLLARS) fees share);
     x \<leftarrow> test_xt env mortal;
     let fees = transfer_fee env t x;
     t \<leftarrow> execute_block env t (fst block2) use_native;
     left_alice \<leftarrow> Option.bind (checked_sub alice_last_known_balance (10 * DOLLARS)) (\<lambda>b. checked_sub b fees);
     assert_that (te_total_balance env t alice = left_alice);
     left_bob \<leftarrow> checked_sub (179 * DOLLARS) fees;
     assert_that (te_total_balance env t bob = left_bob);
     share \<leftarrow> map_option (\<lambda>m. m div 10) (checked_mul fees 8);
     assert_that (compare_events \<longrightarrow> te_events env t =
       timestamp_event env # listed_transfer_events env 1 bob alice (5 * DOLLARS) fees share
         @ listed_transfer_events env 2 alice bob (15 * DOLLARS) fees share)
   }"

definition full_native_block_import_works ::
  "('e, 'enc, 'err, 'ver, 'r, 'h, 'eng, 'a, 'x, 'era, 'asset) block_env \<Rightarrow> (u64 \<Rightarrow> u64 \<Rightarrow> 'era) \<Rightarrow> 'e option \<Rightarrow>
   unit option" where
  "full_native_block_import_works env mortal new_ext = import_test env mortal new_ext True True"

definition full_wasm_block_import_works ::
  "('e, 'enc, 'err, 'ver, 'r, 'h, 'eng, 'a, 'x, 'era, 'asset) block_env \<Rightarrow> (u64 \<Rightarrow> u64 \<Rightarrow> 'era) \<Rightarrow> 'e option \<Rightarrow>
   unit option" where
  "full_wasm_block_import_works env mortal new_ext = import_test env mortal new_ext False False"

section \<open>The fee test\<close>

text \<open>A block that is more than half full raises the multiplier, an almost empty one lowers it.\<close>

definition fee_blocks ::
  "('e, 'enc, 'err, 'ver, 'r, 'h, 'eng, 'a, 'x, 'era, 'asset) block_env \<Rightarrow> (u64 \<Rightarrow> u64 \<Rightarrow> 'era) \<Rightarrow>
   ('a, 'era, 'asset) test_extrinsic list \<times> ('a, 'era, 'asset) test_extrinsic list" where
  "fee_blocks env mortal =
     (let charlie = te_account env Charlie in
      ([timestamp_inherent (42 * 1000), signed_call mortal charlie 0 0 (Fill_block 60)],
       [timestamp_inherent (52 * 1000), signed_call mortal charlie 1 0 (Remark_call [0])]))"

definition fee_multiplier_increases_and_decreases_on_big_weight ::
  "('e, 'enc, 'err, 'ver, 'r, 'h, 'eng, 'a, 'x, 'era, 'asset) block_env \<Rightarrow> (u64 \<Rightarrow> u64 \<Rightarrow> 'era) \<Rightarrow> 'e option \<Rightarrow>
   unit option" where
  "fee_multiplier_increases_and_decreases_on_big_weight env mortal new_ext = do {
     t \<leftarrow> new_ext;
     let prev_multiplier = 1;
     assert_that (te_multiplier env t = prev_multiplier);
     tt \<leftarrow> new_ext;
     let time1 = 42 * 1000;
     (block1, tt) \<leftarrow> construct_test_block env tt 1 (te_hash_of env GENESIS_HASH) (fst (fee_blocks env mortal))
       (time1 div SLOT_DURATION);
     let time2 = 52 * 1000;
     (block2, tt) \<leftarrow> construct_test_block env tt 2 (snd block1) (snd (fee_blocks env mortal)) (time2 div SLOT_DURATION);
     t \<leftarrow> execute_block env t (fst block1) True;
     let fm = te_multiplier env t;
     assert_that (fm > prev_multiplier);
     let prev_multiplier = fm;
     t \<leftarrow> execute_block env t (fst block2) True;
     let fm = te_multiplier env t;
     assert_that (fm < prev_multiplier)
   }"

end
