(* ===== verification/Executor_Tests.thy ===== *)
theory Executor_Tests
  imports Executor_Blocks Runtime_Fees Multiplier_Tests
begin

text \<open>
  What the tests of the executor rely on and why they pass: the contract of the framework's runtime between calls, a reference
  ledger that a block of payments refines, the import tests of \<open>executor/tests/basic.rs\<close> and the fee test of
  \<open>executor/tests/fees.rs\<close>. A small runtime that keeps the contract shows that it can be kept.
\<close>

section \<open>What the runtime promises\<close>

text \<open>
  What the documentation of the framework says of the state between calls: the number of the last block, the slot of the
  block that is being built, how many extrinsics it has, the last timestamp, and the nonces.
\<close>

record 'a runtime_view =
  rv_number :: BlockNumber
  rv_slot :: "u64 option"
  rv_applied :: nat
  rv_time :: Moment
  rv_nonce :: "'a \<Rightarrow> Index"

text \<open>What the treasury and the author of the block make of the fee, by the runtime's own handler; the blocks of the tests name an
  authority that does not exist, so they have no author.\<close>

fun fee_events :: "'a \<Rightarrow> ('a, Balance) fee_action list \<Rightarrow> 'a runtime_event list" where
  "fee_events treasury [] = []"
| "fee_events treasury (Treasury_on_unbalanced i # as) =
     (if i = 0 then [] else [Deposit treasury i, Treasury_deposit i]) @ fee_events treasury as"
| "fee_events treasury (Resolve_creating a i # as) = Deposit a i # fee_events treasury as"
| "fee_events treasury (Dropped i # as) = fee_events treasury as"

definition calls ::
  "('e, 'enc, 'err, 'ver, 'r, 'h, 'eng, 'a, 'x, 'cx) test_env \<Rightarrow> 'e \<Rightarrow> string \<Rightarrow> 'enc \<Rightarrow> bool \<Rightarrow>
   ('r, 'enc) native_or_encoded \<Rightarrow> 'e \<Rightarrow> bool" where
  "calls env t method data use_native v t' \<longleftrightarrow> executor_call env t method data use_native = Some (Inr v, t')"

definition applies ::
  "('e, 'enc, 'err, 'ver, 'r, 'h, 'eng, 'a, 'x, 'cx) test_env \<Rightarrow> 'e \<Rightarrow> 'x \<Rightarrow> 'e \<Rightarrow> bool" where
  "applies env t x t' \<longleftrightarrow> (\<exists>e. calls env t ''BlockBuilder_apply_extrinsic'' (te_encode_extrinsic env x) True (Encoded_value e) t'
     \<and> te_decode_apply_result env e = Some (Inr ()))"

text \<open>
  The contract is that of the first epoch, in which no session ends and no authority changes, and of the accounts of the test support
  whose balances are not staked.
\<close>

definition unlocked :: "('e, 'enc, 'err, 'ver, 'r, 'h, 'eng, 'a, 'x, 'cx) test_env \<Rightarrow> 'a set" where
  "unlocked env = {te_account env Alice, te_account env Bob, te_account env Charlie}"

definition in_first_epoch :: "u64 option \<Rightarrow> bool" where
  "in_first_epoch slot \<longleftrightarrow> (case slot of Some slot \<Rightarrow> slot < EpochDuration | None \<Rightarrow> False)"

text \<open>A block starts: the events are cleared, the balances and the fees stay.\<close>

definition initialize_law ::
  "('e, 'enc, 'err, 'ver, 'r, 'h, 'eng, 'a, 'x, 'cx) test_env \<Rightarrow> ('e \<Rightarrow> 'a runtime_view) \<Rightarrow> bool" where
  "initialize_law env view \<longleftrightarrow> (\<forall>t n p xs slot. rv_slot (view t) = None \<and> n = rv_number (view t) + 1
       \<and> in_first_epoch (Some slot) \<longrightarrow>
     (\<exists>v t'. calls env t ''Core_initialize_block'' (te_encode_header env (initial_header env n p xs slot)) True v t'
        \<and> view t' = (view t)\<lparr>rv_number := n, rv_slot := Some slot, rv_applied := 0\<rparr>
        \<and> te_total_balance env t' = te_total_balance env t \<and> te_compute_fee env t' = te_compute_fee env t
        \<and> te_events env t' = []))"

text \<open>The timestamp comes first, lies in the slot of the block and is at least the minimum period after the last one.\<close>

definition timestamp_law ::
  "('e, 'enc, 'err, 'ver, 'r, 'h, 'eng, 'a, 'x, 'era, 'asset) block_env \<Rightarrow> ('e \<Rightarrow> 'a runtime_view) \<Rightarrow> bool" where
  "timestamp_law env view \<longleftrightarrow> (\<forall>t x now.
     te_sign env (timestamp_inherent now) = Some x \<and> rv_slot (view t) = Some (now div SLOT_DURATION) \<and> rv_applied (view t) = 0
       \<and> unat (rv_time (view t)) + unat MinimumPeriod \<le> unat now \<longrightarrow>
     (\<exists>t'. applies env t x t' \<and> view t' = (view t)\<lparr>rv_applied := 1, rv_time := now\<rparr>
        \<and> te_total_balance env t' = te_total_balance env t \<and> te_compute_fee env t' = te_compute_fee env t
        \<and> te_events env t' = te_events env t @ [timestamp_event env]))"

text \<open>
  A signed transfer in a block with at most a hundred extrinsics before it, with the sender's next nonce, which leaves the sender more than the existential deposit after the fee:
  the fee is withdrawn and handed to the runtime's handler, the amount is moved.
\<close>

definition transfer_law ::
  "('e, 'enc, 'err, 'ver, 'r, 'h, 'eng, 'a, 'x, 'era, 'asset) block_env \<Rightarrow> (u64 \<Rightarrow> u64 \<Rightarrow> 'era) \<Rightarrow>
   ('e \<Rightarrow> 'a runtime_view) \<Rightarrow> bool" where
  "transfer_law env mortal view \<longleftrightarrow> (\<forall>t x signer dest amount.
     te_sign env (signed_call mortal signer (rv_nonce (view t) signer) 0 (Transfer_to dest amount)) = Some x
       \<and> rv_slot (view t) \<noteq> None \<and> rv_applied (view t) \<in> {1..100}
       \<and> signer \<in> unlocked env \<and> signer \<noteq> dest \<and> te_treasury env \<noteq> dest
       \<and> unat (transfer_fee env t x) + unat amount + unat ExistentialDeposit \<le> unat (te_total_balance env t signer)
       \<and> unat (te_total_balance env t dest) + unat amount < 2 ^ 128 \<longrightarrow>
     (\<exists>t'. applies env t x t'
        \<and> view t' = (view t)\<lparr>rv_applied := rv_applied (view t) + 1,
            rv_nonce := (rv_nonce (view t))(signer := rv_nonce (view t) signer + 1)\<rparr>
        \<and> te_total_balance env t' signer = te_total_balance env t signer - transfer_fee env t x - amount
        \<and> te_total_balance env t' dest = te_total_balance env t dest + amount
        \<and> (\<forall>a. a \<notin> {signer, dest, te_treasury env} \<longrightarrow> te_total_balance env t' a = te_total_balance env t a)
        \<and> te_compute_fee env t' = te_compute_fee env t
        \<and> te_events env t' = te_events env t @ map (Pair (rv_applied (view t)))
            (Withdraw signer (transfer_fee env t x) # Transfer_event signer dest amount
             # fee_events (te_treasury env) (deal_with_fees balance_imbalance None [transfer_fee env t x, 0])
             @ [Extrinsic_success False (te_transfer_weight env)])))"

text \<open>A block ends: its header has the item of the engine as the only one, since no authorities change.\<close>

definition finalize_law ::
  "('e, 'enc, 'err, 'ver, 'r, 'h, 'eng, 'a, 'x, 'cx) test_env \<Rightarrow> ('e \<Rightarrow> 'a runtime_view) \<Rightarrow> bool" where
  "finalize_law env view \<longleftrightarrow> (\<forall>t. in_first_epoch (rv_slot (view t)) \<and> 0 < rv_applied (view t) \<longrightarrow>
     (\<exists>h hdr t'. calls env t ''BlockBuilder_finalize_block'' (te_encode_nothing env) True (Encoded_value h) t'
        \<and> te_decode_header env h = Some hdr \<and> length (hd_digest hdr) = 1
        \<and> view t' = (view t)\<lparr>rv_slot := None\<rparr>
        \<and> te_total_balance env t' = te_total_balance env t \<and> te_events env t' = te_events env t))"

text \<open>
  Executing the next block, natively or not, does what building it did, when its timestamp comes first and the rest is signed;
  the encoding of a block starts with its header.
\<close>

definition execute_law ::
  "('e, 'enc, 'err, 'ver, 'r, 'h, 'eng, 'a, 'x, 'era, 'asset) block_env \<Rightarrow> ('e \<Rightarrow> 'a runtime_view) \<Rightarrow> bool" where
  "execute_law env view \<longleftrightarrow> (\<forall>t p now xts slot blk h t'.
     rv_slot (view t) = None \<and> (\<forall>xt \<in> set xts. cx_signed xt \<noteq> None)
       \<and> construct_test_block env t (rv_number (view t) + 1) p (timestamp_inherent now # xts) slot = Some ((blk, h), t') \<longrightarrow>
       (\<forall>use_native. \<exists>v. calls env t ''Core_execute_block'' blk use_native v t'))"

definition runtime_contract ::
  "('e, 'enc, 'err, 'ver, 'r, 'h, 'eng, 'a, 'x, 'era, 'asset) block_env \<Rightarrow> (u64 \<Rightarrow> u64 \<Rightarrow> 'era) \<Rightarrow>
   ('e \<Rightarrow> 'a runtime_view) \<Rightarrow> bool" where
  "runtime_contract env mortal view \<longleftrightarrow>
     initialize_law env view \<and> timestamp_law env view \<and> transfer_law env mortal view \<and> finalize_law env view
     \<and> execute_law env view
     \<and> (\<forall>b. te_decode_header env (te_encode_block env b) = Some (bk_header b))
     \<and> (\<forall>xt. (case cx_signed xt of None \<Rightarrow> True | Some (a, _) \<Rightarrow> a \<in> range (te_account env)) \<longrightarrow> te_sign env xt \<noteq> None)
     \<and> inj (te_account env) \<and> te_treasury env \<notin> range (te_account env)"

section \<open>The reference ledger\<close>








section \<open>Lemmas\<close>

lemma apply_all_step:
  "applies env t x t' \<Longrightarrow> apply_all env (x # xs) t = apply_all env xs t'"
  by (auto simp: applies_def calls_def)

lemma contract_laws:
  assumes "runtime_contract env mortal view"
  shows "initialize_law env view" "timestamp_law env view" "transfer_law env mortal view" "finalize_law env view"
    "execute_law env view" "te_decode_header env (te_encode_block env b) = Some (bk_header b)"
    "inj (te_account env)" "te_treasury env \<notin> range (te_account env)"
  using assms by (simp_all add: runtime_contract_def)

lemma signs:
  assumes "runtime_contract env mortal view"
  obtains x where "te_sign env (signed_call mortal (te_account env k) nonce tip call) = Some x"
proof -
  have "te_sign env (signed_call mortal (te_account env k) nonce tip call) \<noteq> None"
    using assms by (simp add: runtime_contract_def signed_call_def)
  then show thesis
    using that by blast
qed

lemma signs_timestamp:
  assumes "runtime_contract env mortal view"
  obtains x where "te_sign env (timestamp_inherent now) = Some x"
proof -
  have "te_sign env (timestamp_inherent now) \<noteq> None"
    using assms by (simp add: runtime_contract_def timestamp_inherent_def)
  then show thesis
    using that by blast
qed







text \<open>
  Any block: after the timestamp the extrinsics are applied to externalities \<open>t2\<close> of the given view, and \<open>Q\<close> holds when they are through.
\<close>

lemma block_builds:
  assumes contract: "runtime_contract env mortal view" and idle: "rv_slot (view t) = None"
    and time: "unat (rv_time (view t)) + unat MinimumPeriod \<le> unat time"
    and early: "in_first_epoch (Some (time div SLOT_DURATION))"
    and signed: "those (map (te_sign env) xts) = Some xs" "\<forall>xt \<in> set xts. cx_signed xt \<noteq> None"
    and step: "\<And>t2. view t2 = (view t)\<lparr>rv_number := rv_number (view t) + 1, rv_slot := Some (time div SLOT_DURATION),
           rv_applied := 1, rv_time := time\<rparr> \<Longrightarrow>
        te_total_balance env t2 = te_total_balance env t \<Longrightarrow> te_compute_fee env t2 = te_compute_fee env t \<Longrightarrow>
        te_events env t2 = [timestamp_event env] \<Longrightarrow>
        \<exists>t3. apply_all env xs t2 = Some t3 \<and> rv_slot (view t3) = Some (time div SLOT_DURATION) \<and> 0 < rv_applied (view t3) \<and> Q t3"
  obtains blk h t3 t' where
    "construct_test_block env t (rv_number (view t) + 1) p (timestamp_inherent time # xts) (time div SLOT_DURATION)
       = Some ((blk, h), t')"
    "\<And>use_native. execute_block env t blk use_native = Some t'" "Q t3" "view t' = (view t3)\<lparr>rv_slot := None\<rparr>"
    "te_total_balance env t' = te_total_balance env t3" "te_events env t' = te_events env t3"
    "map_option (\<lambda>h. length (hd_digest h)) (te_decode_header env blk) = Some 1"
proof -
  obtain x where x: "te_sign env (timestamp_inherent time) = Some x"
    using signs_timestamp [OF contract] .
  let ?n = "rv_number (view t) + 1" and ?slot = "time div SLOT_DURATION"
  obtain v t1 where t1: "calls env t ''Core_initialize_block'' (te_encode_header env (initial_header env ?n p (x # xs) ?slot)) True v t1"
    "view t1 = (view t)\<lparr>rv_number := ?n, rv_slot := Some ?slot, rv_applied := 0\<rparr>"
    "te_total_balance env t1 = te_total_balance env t" "te_compute_fee env t1 = te_compute_fee env t" "te_events env t1 = []"
    using contract_laws(1) [OF contract, unfolded initialize_law_def, rule_format, of t ?n ?slot p "x # xs"] idle early by blast
  obtain t2 where t2: "applies env t1 x t2" "view t2 = (view t1)\<lparr>rv_applied := 1, rv_time := time\<rparr>"
    "te_total_balance env t2 = te_total_balance env t1" "te_compute_fee env t2 = te_compute_fee env t1"
    "te_events env t2 = te_events env t1 @ [timestamp_event env]"
    using contract_laws(2) [OF contract, unfolded timestamp_law_def, rule_format, of time x t1] x time by (auto simp: t1(2))
  obtain t3 where t3: "apply_all env xs t2 = Some t3" "rv_slot (view t3) = Some ?slot" "0 < rv_applied (view t3)" "Q t3"
    using step [of t2] by (auto simp: t2(2-5) t1(2-5))
  obtain e hdr t' where t': "calls env t3 ''BlockBuilder_finalize_block'' (te_encode_nothing env) True (Encoded_value e) t'"
    "te_decode_header env e = Some hdr" "length (hd_digest hdr) = 1" "view t' = (view t3)\<lparr>rv_slot := None\<rparr>"
    "te_total_balance env t' = te_total_balance env t3" "te_events env t' = te_events env t3"
    using contract_laws(4) [OF contract, unfolded finalize_law_def, rule_format, of t3] t3(2,3) early by auto
  let ?blk = "te_encode_block env \<lparr>bk_header = hdr, bk_extrinsics = x # xs\<rparr>"
  have all: "apply_all env (x # xs) t1 = Some t3"
    unfolding apply_all_step [OF t2(1)] by (rule t3(1))
  have built: "construct_test_block env t ?n p (timestamp_inherent time # xts) ?slot = Some ((?blk, te_hash_header env hdr), t')"
    using t1(1) t'(1,2) all by (simp add: construct_test_block_def signed(1) x calls_def Let_def del: apply_all.simps)
  have executes: "execute_block env t ?blk use_native = Some t'" for use_native
  proof -
    obtain v where "calls env t ''Core_execute_block'' ?blk use_native v t'"
      using contract_laws(5) [OF contract, unfolded execute_law_def] idle signed(2) built by blast
    then show ?thesis
      by (simp add: execute_block_def calls_def)
  qed
  show thesis
    by (rule that [OF built executes t3(4) t'(4-6)]) (simp add: t'(3) contract_laws(6) [OF contract])
qed



section \<open>The assertions of the tests\<close>









lemma min_period: "unat MinimumPeriod = 1500"
  by (simp add: MinimumPeriod_def SLOT_DURATION_def MILLISECS_PER_BLOCK_def)

lemma test_slots: "in_first_epoch (Some (42000 div SLOT_DURATION))" "in_first_epoch (Some (52000 div SLOT_DURATION))"
  by (simp_all add: in_first_epoch_def EpochDuration_def time_values)








section \<open>The multiplier\<close>

lemma adjusts_below:
  assumes "adjusts normal ideal update" "4 * unat ideal = unat normal" "0 < unat ideal"
    and "1 \<le> x" "x \<le> max_fm" "beyond normal w \<le> - 1 / 8"
  shows "update w x < x"
proof -
  have x: "0 \<le> x" "max x MinimumMultiplier = x" "max 1 x = x" "MinimumMultiplier < x"
    using assms(4) by (simp_all add: MinimumMultiplier_def)
  have "0 < unat normal"
    using assms(2,3) by simp
  then have q: "- 1 \<le> beyond normal w"
    using beyond_bounds [of normal w] by linarith
  obtain r where r: "\<bar>r - x * factor (beyond normal w)\<bar> \<le> x / 10 ^ 17"
    "update w x = max MinimumMultiplier (min max_fm r)"
    using adjusts_near [OF assms(1-3) x(1) assms(5), of w thesis] by (simp add: x(2,3))
  have "factor (beyond normal w) \<le> 1 - 1 / 10 ^ 6"
    using factor_down [OF q] assms(6) by simp
  then have "x * factor (beyond normal w) \<le> x * (1 - 1 / 10 ^ 6)"
    using x(1) by (rule mult_left_mono)
  then have "x * factor (beyond normal w) \<le> x - x / 10 ^ 6"
    by (simp add: algebra_simps)
  moreover have "x / 10 ^ 17 < x / 10 ^ 6"
    using assms(4) by simp
  ultimately have "r < x"
    using r(1) by linarith
  then show ?thesis
    using x(4) by (simp add: r(2))
qed

lemma adjusts_above:
  assumes "adjusts normal ideal update" "4 * unat ideal = unat normal" "0 < unat ideal" "1 / 2 \<le> beyond normal w"
  shows "1 < update w 1" "update w 1 \<le> max_fm"
proof -
  have "min max_fm (1 + 1 / 10 ^ 6) \<le> update w 1"
    by (rule adjusts_up [OF assms(1-3)])
      (use assms(4) max_fm_large in \<open>simp_all add: MinimumMultiplier_def\<close>)
  then show "1 < update w 1"
    using max_fm_large by (simp add: min_def split: if_splits)
  show "update w 1 \<le> max_fm"
  proof -
    have one: "1 \<le> max_fm"
      using max_fm_large by simp
    obtain r where "update w 1 = max MinimumMultiplier (min max_fm r)"
      using adjusts_near [OF assms(1-3) zero_le_one one] by blast
    then show ?thesis
      using one by (simp add: MinimumMultiplier_def)
  qed
qed

section \<open>The fee test\<close>

text \<open>
  The two calls of the fee test are applied for a signer who can pay a thousand dollars, whatever comes of their dispatch. Building the
  two blocks adjusts the multiplier by their weights \<open>w1\<close> and \<open>w2\<close>.
\<close>

definition call_law ::
  "('e, 'enc, 'err, 'ver, 'r, 'h, 'eng, 'a, 'x, 'era, 'asset) block_env \<Rightarrow> (u64 \<Rightarrow> u64 \<Rightarrow> 'era) \<Rightarrow>
   ('e \<Rightarrow> 'a runtime_view) \<Rightarrow> bool" where
  "call_law env mortal view \<longleftrightarrow> (\<forall>t x signer call.
     te_sign env (signed_call mortal signer (rv_nonce (view t) signer) 0 call) = Some x
       \<and> call \<in> {Fill_block 60, Remark_call [0]} \<and> rv_slot (view t) \<noteq> None \<and> rv_applied (view t) = 1
       \<and> signer \<in> unlocked env
       \<and> 1000 * DOLLARS \<le> te_total_balance env t signer \<longrightarrow>
     (\<exists>t'. applies env t x t'
        \<and> view t' = (view t)\<lparr>rv_applied := rv_applied (view t) + 1,
            rv_nonce := (rv_nonce (view t))(signer := rv_nonce (view t) signer + 1)\<rparr>
        \<and> te_total_balance env t signer - 1000 * DOLLARS \<le> te_total_balance env t' signer))"

definition multiplier_law ::
  "('e, 'enc, 'err, 'ver, 'r, 'h, 'eng, 'a, 'x, 'era, 'asset) block_env \<Rightarrow> (u64 \<Rightarrow> u64 \<Rightarrow> 'era) \<Rightarrow> ('e \<Rightarrow> 'a runtime_view) \<Rightarrow>
   adjustment \<Rightarrow> u64 \<Rightarrow> u64 \<Rightarrow> bool" where
  "multiplier_law env mortal view update w1 w2 \<longleftrightarrow> (\<forall>t p slot blk h t'. rv_slot (view t) = None \<longrightarrow>
     (rv_number (view t) = 0 \<and> construct_test_block env t 1 p (fst (fee_blocks env mortal)) slot = Some ((blk, h), t') \<longrightarrow>
        te_multiplier env t' = update w1 (te_multiplier env t))
     \<and> (rv_number (view t) = 1 \<and> construct_test_block env t 2 p (snd (fee_blocks env mortal)) slot = Some ((blk, h), t') \<longrightarrow>
        te_multiplier env t' = update w2 (te_multiplier env t)))"

lemma call_block_builds:
  assumes contract: "runtime_contract env mortal view" and call: "call_law env mortal view" "call \<in> {Fill_block 60, Remark_call [0]}"
    and v: "view t = \<lparr>rv_number = n, rv_slot = None, rv_applied = i, rv_time = time0, rv_nonce = nonce\<rparr>"
    and time: "unat time0 + unat MinimumPeriod \<le> unat time" "in_first_epoch (Some (time div SLOT_DURATION))"
    and pays: "te_account env k \<in> unlocked env" "1000 * DOLLARS \<le> te_total_balance env t (te_account env k)"
  obtains blk h t' where
    "construct_test_block env t (n + 1) p
       [timestamp_inherent time, signed_call mortal (te_account env k) (nonce (te_account env k)) 0 call] (time div SLOT_DURATION)
       = Some ((blk, h), t')"
    "\<And>use_native. execute_block env t blk use_native = Some t'"
    "view t' = \<lparr>rv_number = n + 1, rv_slot = None, rv_applied = 2, rv_time = time,
       rv_nonce = nonce(te_account env k := nonce (te_account env k) + 1)\<rparr>"
    "te_total_balance env t (te_account env k) - 1000 * DOLLARS \<le> te_total_balance env t' (te_account env k)"
proof -
  let ?a = "te_account env k"
  obtain x where x: "te_sign env (signed_call mortal ?a (nonce ?a) 0 call) = Some x"
    using signs [OF contract] .
  define Q where "Q t3 \<longleftrightarrow>
      view t3 = \<lparr>rv_number = n + 1, rv_slot = Some (time div SLOT_DURATION), rv_applied = 2, rv_time = time,
        rv_nonce = nonce(?a := nonce ?a + 1)\<rparr>
      \<and> te_total_balance env t ?a - 1000 * DOLLARS \<le> te_total_balance env t3 ?a" for t3
  have idle: "rv_slot (view t) = None" "unat (rv_time (view t)) + unat MinimumPeriod \<le> unat time"
    "in_first_epoch (Some (time div SLOT_DURATION))"
    "those (map (te_sign env) [signed_call mortal ?a (nonce ?a) 0 call]) = Some [x]"
    "\<forall>xt \<in> set [signed_call mortal ?a (nonce ?a) 0 call]. cx_signed xt \<noteq> None"
    using time by (simp_all add: v x) (simp add: signed_call_def)
  have step: "\<exists>t3. apply_all env [x] t2 = Some t3 \<and> rv_slot (view t3) = Some (time div SLOT_DURATION) \<and> 0 < rv_applied (view t3) \<and> Q t3"
    if v2: "view t2 = (view t)\<lparr>rv_number := rv_number (view t) + 1, rv_slot := Some (time div SLOT_DURATION),
           rv_applied := 1, rv_time := time\<rparr>"
      and same: "te_total_balance env t2 = te_total_balance env t" for t2
  proof -
    obtain t3 where t3: "applies env t2 x t3"
      "view t3 = (view t2)\<lparr>rv_applied := rv_applied (view t2) + 1, rv_nonce := (rv_nonce (view t2))(?a := rv_nonce (view t2) ?a + 1)\<rparr>"
      "te_total_balance env t2 ?a - 1000 * DOLLARS \<le> te_total_balance env t3 ?a"
      using call(1) [unfolded call_law_def, rule_format, of ?a t2 call x] call(2) x pays by (auto simp: v v2 same)
    show ?thesis
      by (rule exI [of _ t3]) (use t3 in \<open>simp add: Q_def v v2 same apply_all_step [OF t3(1)] del: apply_all.simps(2)\<close>)
  qed
  obtain blk h t' t3 where b: "construct_test_block env t (rv_number (view t) + 1) p
      (timestamp_inherent time # [signed_call mortal ?a (nonce ?a) 0 call]) (time div SLOT_DURATION) = Some ((blk, h), t')"
    "\<And>use_native. execute_block env t blk use_native = Some t'" "Q t3" "view t' = (view t3)\<lparr>rv_slot := None\<rparr>"
    "te_total_balance env t' = te_total_balance env t3" "te_events env t' = te_events env t3"
    "map_option (\<lambda>h. length (hd_digest h)) (te_decode_header env blk) = Some 1"
    by (rule block_builds [OF contract idle, of Q p]) (rule step, assumption+, rule that)
  show thesis
    by (rule that [OF _ b(2)]) (use b(1,3) in \<open>simp_all add: v Q_def b(4,5)\<close>)
qed

text \<open>Charlie's block of 60 percent exceeds the ideal by half of the normal weight, since that is three quarters of a block.\<close>

lemma beyond_of_weights:
  assumes "0 < unat normal"
  shows "4 * unat normal \<le> 5 * unat w \<Longrightarrow> 1 / 2 \<le> beyond normal w" "8 * unat w \<le> unat normal \<Longrightarrow> beyond normal w \<le> - 1 / 8"
proof -
  have n: "0 < real (unat normal)"
    using assms by (simp only: of_nat_0_less_iff)
  show "1 / 2 \<le> beyond normal w" if "4 * unat normal \<le> 5 * unat w"
  proof -
    have "real (4 * unat normal) \<le> real (5 * unat w)"
      using that by (simp only: of_nat_le_iff)
    then have "4 * real (unat normal) \<le> 5 * real (unat w)"
      by simp
    then have "4 / 5 * real (unat normal) \<le> min (real (unat w)) (real (unat normal))"
      using n by simp
    then have "4 / 5 \<le> min (real (unat w)) (real (unat normal)) / real (unat normal)"
      using n by (simp only: pos_le_divide_eq)
    then show ?thesis
      unfolding beyond_def by linarith
  qed
  show "beyond normal w \<le> - 1 / 8" if "8 * unat w \<le> unat normal"
  proof -
    have "real (8 * unat w) \<le> real (unat normal)"
      using that by (simp only: of_nat_le_iff)
    then have "min (real (unat w)) (real (unat normal)) \<le> 1 / 8 * real (unat normal)"
      by simp
    then have "min (real (unat w)) (real (unat normal)) / real (unat normal) \<le> 1 / 8"
      using n by (simp only: pos_divide_le_eq)
    then show ?thesis
      unfolding beyond_def by linarith
  qed
qed

lemma charlie_pays:
  assumes "inj (te_account env)"
    and "config wasm_binary (Some code) (te_account env) ed sr = Some g" "\<And>k. map_of (g_balances g) (te_account env k)
        = Some (te_total_balance env t0 (te_account env k))"
  shows "te_total_balance env t0 (te_account env Charlie) = 100000000 * DOLLARS"
  using assms(3) [of Charlie] assms(1,2) by (auto simp: config_def config_endowed_def inj_eq)

text \<open>
  The fee test passes: on the genesis of the test support both blocks are built and executed, the multiplier rises after the
  block of 60 percent and falls after the almost empty one, for every adjustment that follows the reference as closely as
  eighteen decimals allow.
\<close>

theorem fee_test_passes:
  assumes contract: "runtime_contract env mortal view" and calls: "call_law env mortal view"
    and multiplier: "multiplier_law env mortal view update w1 w2"
    and adjusts: "adjusts normal ideal update" "4 * unat ideal = unat normal" "0 < unat ideal"
    and big: "4 * unat normal \<le> 5 * unat w1" and small: "8 * unat w2 \<le> unat normal"
    and new: "new_ext = Some t0" and one: "te_multiplier env t0 = 1"
    and v0: "view t0 = \<lparr>rv_number = 0, rv_slot = None, rv_applied = 0, rv_time = 0, rv_nonce = \<lambda>_. 0\<rparr>"
    and genesis: "config wasm_binary (Some code) (te_account env) ed sr = Some g" "\<And>k. map_of (g_balances g) (te_account env k)
        = Some (te_total_balance env t0 (te_account env k))"
  shows "fee_multiplier_increases_and_decreases_on_big_weight env mortal new_ext = Some ()"
proof -
  let ?c = "te_account env Charlie"
  have pays0: "1000 * DOLLARS \<le> te_total_balance env t0 ?c"
    unfolding charlie_pays [OF contract_laws(7) [OF contract] genesis]
    by (simp add: DOLLARS_def CENTS_def MILLICENTS_def word_le_nat_alt)
  obtain blk1 h1 t1 where t1:
    "construct_test_block env t0 1 (te_hash_of env GENESIS_HASH) (fst (fee_blocks env mortal)) (42 * 1000 div SLOT_DURATION)
       = Some ((blk1, h1), t1)"
    "\<And>native. execute_block env t0 blk1 native = Some t1"
    "view t1 = \<lparr>rv_number = 1, rv_slot = None, rv_applied = 2, rv_time = 42 * 1000, rv_nonce = (\<lambda>_. 0)(?c := 1)\<rparr>"
    "te_total_balance env t0 ?c - 1000 * DOLLARS \<le> te_total_balance env t1 ?c"
    by (rule call_block_builds [OF contract calls _ v0 _ _ _ pays0, of "Fill_block 60" "42 * 1000" "te_hash_of env GENESIS_HASH"])
      (simp_all add: min_period test_slots unlocked_def fee_blocks_def Let_def)
  have pays1: "1000 * DOLLARS \<le> te_total_balance env t1 ?c"
  proof -
    have "1000 * DOLLARS \<le> 100000000 * DOLLARS - 1000 * DOLLARS"
      by (simp add: DOLLARS_def CENTS_def MILLICENTS_def word_le_nat_alt)
    then show ?thesis
      using t1(4) charlie_pays [OF contract_laws(7) [OF contract] genesis] by simp
  qed
  obtain blk2 h2 t2 where t2:
    "construct_test_block env t1 2 h1 (snd (fee_blocks env mortal)) (52 * 1000 div SLOT_DURATION) = Some ((blk2, h2), t2)"
    "\<And>native. execute_block env t1 blk2 native = Some t2"
    by (rule call_block_builds [OF contract calls _ t1(3) _ _ _ pays1, of "Remark_call [0]" "52 * 1000" h1])
      (simp_all add: min_period test_slots unlocked_def fee_blocks_def Let_def)
  have m1: "te_multiplier env t1 = update w1 1"
    using multiplier [unfolded multiplier_law_def, rule_format, of t0] t1(1) by (simp add: v0 one)
  have m2: "te_multiplier env t2 = update w2 (te_multiplier env t1)"
    using multiplier [unfolded multiplier_law_def, rule_format, of t1] t2(1) by (simp add: t1(3))
  have normal: "0 < unat normal"
    using adjusts(2,3) by simp
  have up: "1 < te_multiplier env t1" "te_multiplier env t1 \<le> max_fm"
    using adjusts_above [OF adjusts beyond_of_weights(1) [OF normal big]] by (simp_all add: m1)
  have "te_multiplier env t2 < te_multiplier env t1"
    unfolding m2 using adjusts_below [OF adjusts less_imp_le [OF up(1)] up(2) beyond_of_weights(2) [OF normal small]] .
  then show ?thesis
    using t1(1,2) t2(1,2) up(1)
    by (simp add: fee_multiplier_increases_and_decreases_on_big_weight_def new one assert_that_def Let_def)
qed

section \<open>A runtime that keeps the contract\<close>

text \<open>
  A small runtime over the accounts of the keyring and a treasury \<open>None\<close>. It keeps the header of the block that it builds, charges
  ten units for every transfer, applies what it is given without checks, adds up the weights and adjusts the multiplier.
\<close>

type_synonym demo_xt = "(keyring option, unit, unit) test_extrinsic"

datatype demo_data =
    D_code
  | D_nothing
  | D_ok
  | D_header "(unit, unit digest_item) Header"
  | D_xt demo_xt
  | D_block "(unit, unit digest_item, demo_xt) Block"

record demo_state =
  ds_number :: BlockNumber
  ds_building :: "(unit, unit digest_item) Header option"
  ds_applied :: nat
  ds_time :: Moment
  ds_nonce :: "keyring option \<Rightarrow> Index"
  ds_balance :: "keyring option \<Rightarrow> Balance"
  ds_events :: "(nat \<times> keyring option runtime_event) list"
  ds_weight :: u64
  ds_multiplier :: real

definition slot_bytes :: "u64 \<Rightarrow> u8 list" where
  "slot_bytes slot = map (\<lambda>i. of_bool (bit slot i)) [0..<64]"

definition bytes_slot :: "u8 list \<Rightarrow> u64" where
  "bytes_slot bs = horner_sum of_bool 2 (map (\<lambda>b. b = 1) bs)"

lemma bytes_slot_inverse: "bytes_slot (slot_bytes slot) = slot"
proof -
  have "bytes_slot (slot_bytes slot) = horner_sum of_bool 2 (map (bit slot) [0..<64])"
    by (simp add: bytes_slot_def slot_bytes_def comp_def)
  then show ?thesis
    by (simp add: horner_sum_bit_eq_take_bit take_bit_length_eq [where 'a = 64, simplified])
qed

fun slot_of :: "(unit, unit digest_item) Header option \<Rightarrow> u64 option" where
  "slot_of None = None"
| "slot_of (Some h) = (case hd_digest h of [Pre_runtime _ bs] \<Rightarrow> Some (bytes_slot bs) | _ \<Rightarrow> None)"

definition demo_view :: "demo_state \<Rightarrow> keyring option runtime_view" where
  "demo_view t = \<lparr>rv_number = ds_number t, rv_slot = slot_of (ds_building t), rv_applied = ds_applied t,
     rv_time = ds_time t, rv_nonce = ds_nonce t\<rparr>"

definition demo_init :: "(unit, unit digest_item) Header \<Rightarrow> demo_state \<Rightarrow> demo_state" where
  "demo_init h t = t\<lparr>ds_number := hd_number h, ds_building := Some h, ds_applied := 0, ds_events := [], ds_weight := 0\<rparr>"

definition demo_finalize :: "demo_state \<Rightarrow> demo_state" where
  "demo_finalize t = t\<lparr>ds_building := None, ds_multiplier := demo_adjustment (ds_weight t) (ds_multiplier t)\<rparr>"

fun demo_apply :: "keyring option test_call \<Rightarrow> keyring option option \<Rightarrow> demo_state \<Rightarrow> demo_state" where
  "demo_apply (Timestamp_set_call now) None t =
     t\<lparr>ds_applied := 1, ds_time := now, ds_events := ds_events t @ [(0, Extrinsic_success True 7)]\<rparr>"
| "demo_apply (Transfer_to dest amount) (Some signer) t =
     t\<lparr>ds_applied := ds_applied t + 1, ds_nonce := (ds_nonce t)(signer := ds_nonce t signer + 1),
       ds_balance := (ds_balance t)(signer := ds_balance t signer - 10 - amount, dest := ds_balance t dest + amount),
       ds_events := ds_events t @ map (Pair (ds_applied t)) (Withdraw signer 10 # Transfer_event signer dest amount
         # fee_events None (deal_with_fees balance_imbalance None [10, 0]) @ [Extrinsic_success False 8])\<rparr>"
| "demo_apply (Fill_block ratio) (Some signer) t =
     t\<lparr>ds_applied := ds_applied t + 1, ds_nonce := (ds_nonce t)(signer := ds_nonce t signer + 1)\<rparr>"
| "demo_apply (Remark_call remark) (Some signer) t =
     t\<lparr>ds_applied := ds_applied t + 1, ds_nonce := (ds_nonce t)(signer := ds_nonce t signer + 1)\<rparr>"
| "demo_apply _ _ t = t"

fun demo_weight :: "keyring option test_call \<Rightarrow> u64" where
  "demo_weight (Fill_block ratio) = 54 * word_of_nat ratio"
| "demo_weight (Remark_call remark) = 9"
| "demo_weight (Timestamp_set_call now) = 7"
| "demo_weight (Transfer_to dest amount) = 8"

definition demo_step :: "demo_xt \<Rightarrow> demo_state \<Rightarrow> demo_state" where
  "demo_step x t =
     (demo_apply (cx_function x) (map_option fst (cx_signed x)) t)\<lparr>ds_weight := ds_weight t + demo_weight (cx_function x)\<rparr>"

fun demo_call :: "string \<Rightarrow> demo_data \<Rightarrow> demo_state \<Rightarrow> demo_data \<times> demo_state" where
  "demo_call method (D_header h) t = (D_nothing, demo_init h t)"
| "demo_call method (D_xt x) t = (D_ok, demo_step x t)"
| "demo_call method D_nothing t = ((case ds_building t of Some h \<Rightarrow> D_header h | None \<Rightarrow> D_nothing), demo_finalize t)"
| "demo_call method (D_block b) t =
     (D_nothing, demo_finalize (fold demo_step (bk_extrinsics b) (demo_init (bk_header b) t)))"
| "demo_call method _ t = (D_nothing, t)"

definition demo_env ::
  "(demo_state, demo_data, unit, unit, unit, unit, unit, keyring option, demo_xt, unit, unit) block_env" where
  "demo_env = \<lparr>
     te_storage = (\<lambda>_ _. Some D_code), te_blake2_256 = (\<lambda>_. []), te_decode_u64 = (\<lambda>_. None),
     te_call = (\<lambda>_ t _ method data _. (Inr (Encoded_value (fst (demo_call method data t))), snd (demo_call method data t))),
     te_into_encoded = (\<lambda>_. D_nothing), te_encode_header = D_header,
     te_decode_header = (\<lambda>d. case d of D_header h \<Rightarrow> Some h | D_block b \<Rightarrow> Some (bk_header b) | _ \<Rightarrow> None),
     te_hash_header = (\<lambda>_. ()), te_encode_extrinsic = D_xt, te_encode_block = D_block,
     te_encode_pre_digest = slot_bytes \<circ> sp_slot, te_encode_nothing = D_nothing,
     te_decode_apply_result = (\<lambda>d. if d = D_ok then Some (Inr ()) else None),
     te_ordered_trie_root = (\<lambda>_. ()), te_default_hash = (), te_hash_of = (\<lambda>_. ()), te_babe_engine_id = (),
     te_sign = Some, te_encoded_len = (\<lambda>_. 150), te_total_balance = ds_balance, te_compute_fee = (\<lambda>_ _ _ _. 10),
     te_multiplier = ds_multiplier, te_events = ds_events, te_transfer_weight = 8, te_timestamp_weight = 7,
     te_account = Some, te_treasury = None\<rparr>"

lemma demo_executor_call:
  "executor_call demo_env t method data use_native =
     Some (Inr (Encoded_value (fst (demo_call method data t))), snd (demo_call method data t))"
  by (simp add: executor_call_def demo_env_def)

lemma demo_calls: "calls demo_env t method data use_native v t' \<longleftrightarrow>
    v = Encoded_value (fst (demo_call method data t)) \<and> t' = snd (demo_call method data t)"
  by (auto simp: calls_def demo_executor_call)

lemma demo_applies: "applies demo_env t x t' \<longleftrightarrow> t' = demo_step x t"
  by (simp add: applies_def demo_calls) (simp add: demo_env_def)

lemma demo_header_slot: "slot_of (Some (initial_header demo_env n p xs slot)) = Some slot"
  by (simp add: initial_header_def demo_env_def bytes_slot_inverse)

lemma demo_step_building: "ds_building (demo_step x t) = ds_building t"
  unfolding demo_step_def by (rule demo_apply.cases [of "(cx_function x, map_option fst (cx_signed x), t)"]) auto

lemma demo_step_multiplier: "ds_multiplier (demo_step x t) = ds_multiplier t"
  unfolding demo_step_def by (rule demo_apply.cases [of "(cx_function x, map_option fst (cx_signed x), t)"]) auto

lemma demo_fold_building: "ds_building (fold demo_step xs t) = ds_building t"
  by (induction xs arbitrary: t) (simp_all add: demo_step_building)

lemma demo_step_weight: "ds_weight (demo_step x t) = ds_weight t + demo_weight (cx_function x)"
  by (simp add: demo_step_def)

lemma demo_apply_all: "apply_all demo_env xs t = Some (fold demo_step xs t)"
proof (induction xs arbitrary: t)
  case (Cons x xs)
  show ?case
    unfolding apply_all_step [OF demo_applies [THEN iffD2, OF refl]] by (simp add: Cons.IH)
qed simp

lemma demo_construct:
  "construct_test_block demo_env t n p xs slot = Some ((D_block \<lparr>bk_header = initial_header demo_env n p xs slot, bk_extrinsics = xs\<rparr>, ()),
     demo_finalize (fold demo_step xs (demo_init (initial_header demo_env n p xs slot) t)))"
proof -
  have signs: "te_sign demo_env = Some" "te_encode_header demo_env = D_header" "te_encode_nothing demo_env = D_nothing"
    "te_encode_block demo_env = D_block" "te_decode_header demo_env (D_header h) = Some h" for h
    by (simp_all add: demo_env_def)
  have "those (map Some xs) = Some xs"
    by (induction xs) simp_all
  then show ?thesis
    by (simp add: construct_test_block_def signs demo_executor_call demo_apply_all demo_fold_building demo_init_def Let_def)
qed

lemma demo_env_simps:
  "te_encode_header demo_env = D_header" "te_encode_nothing demo_env = D_nothing" "te_encode_extrinsic demo_env = D_xt"
  "te_encode_block demo_env = D_block" "te_sign demo_env = Some" "te_total_balance demo_env = ds_balance"
  "te_compute_fee demo_env = (\<lambda>_ _ _ _. 10)" "te_events demo_env = ds_events" "te_transfer_weight demo_env = 8"
  "te_timestamp_weight demo_env = 7" "te_account demo_env = Some" "te_treasury demo_env = None"
  "te_decode_header demo_env (D_header h) = Some h" "te_decode_header demo_env (D_block b) = Some (bk_header b)"
  "te_encoded_len demo_env = (\<lambda>_. 150)" "transfer_fee demo_env t x = 10"
  by (simp_all add: demo_env_def transfer_fee_def)

lemma demo_contract: "runtime_contract demo_env (\<lambda>_ _. ()) demo_view"
proof -
  have "initialize_law demo_env demo_view"
    unfolding initialize_law_def demo_calls demo_env_simps using demo_header_slot
    by (auto simp: demo_view_def demo_init_def initial_header_def)
  moreover have "timestamp_law demo_env demo_view"
    unfolding timestamp_law_def demo_applies demo_env_simps
    by (auto simp: demo_view_def demo_step_def timestamp_inherent_def timestamp_event_def demo_env_simps)
  moreover have "transfer_law demo_env (\<lambda>_ _. ()) demo_view"
    unfolding transfer_law_def demo_applies demo_env_simps
    by (auto simp: demo_view_def demo_step_def signed_call_def)
  moreover have "finalize_law demo_env demo_view"
    unfolding finalize_law_def demo_calls demo_env_simps
    by (auto simp: demo_view_def demo_finalize_def demo_env_simps in_first_epoch_def split: option.splits list.splits digest_item.splits)
  moreover have "execute_law demo_env demo_view"
    unfolding execute_law_def demo_construct demo_calls by auto
  ultimately show ?thesis
    by (simp add: runtime_contract_def demo_env_simps)
qed

definition demo_genesis :: demo_state where
  "demo_genesis = \<lparr>ds_number = 0, ds_building = None, ds_applied = 0, ds_time = 0, ds_nonce = \<lambda>_. 0,
     ds_balance = (\<lambda>a. case map_of (g_balances (the (config None (Some []) Some (\<lambda>_. ()) (\<lambda>_. ())))) a of Some b \<Rightarrow> b | None \<Rightarrow> 0),
     ds_events = [], ds_weight = 0, ds_multiplier = 1\<rparr>"


lemma demo_config:
  obtains g where "config None (Some []) (te_account demo_env) (\<lambda>_. ()) (\<lambda>_. ()) = Some g"
    "\<forall>k. map_of (g_balances g) (te_account demo_env k) = Some (te_total_balance demo_env demo_genesis (te_account demo_env k))"
proof -
  obtain g where g: "config None (Some []) (te_account demo_env) (\<lambda>_. ()) (\<lambda>_. ()) = Some g"
    by (simp add: config_def config_endowed_def)
  have "map_of (g_balances g) (te_account demo_env k) = Some (te_total_balance demo_env demo_genesis (te_account demo_env k))" for k
    using g by (cases k) (auto simp: demo_env_simps demo_genesis_def config_def config_endowed_def)
  then show thesis
    using that g by blast
qed


theorem fee_test_passes_witness:
  "fee_multiplier_increases_and_decreases_on_big_weight demo_env (\<lambda>_ _. ()) (Some demo_genesis) = Some ()"
proof -
  obtain g where g: "config None (Some []) (te_account demo_env) (\<lambda>_. ()) (\<lambda>_. ()) = Some g"
    "\<forall>k. map_of (g_balances g) (te_account demo_env k) = Some (te_total_balance demo_env demo_genesis (te_account demo_env k))"
    by (rule demo_config)
  show ?thesis
  proof (rule fee_test_passes [OF demo_contract _ _ demo_adjusts _ _ _ _ refl _ _ g(1) g(2) [rule_format], where ?w1.0 = 3247 and ?w2.0 = 16])
    show "call_law demo_env (\<lambda>_ _. ()) demo_view"
      unfolding call_law_def demo_applies demo_env_simps
      by (auto simp: demo_view_def demo_step_def signed_call_def word_le_nat_alt unat_sub)
    show "multiplier_law demo_env (\<lambda>_ _. ()) demo_view demo_adjustment 3247 16"
      unfolding multiplier_law_def demo_construct
      by (auto simp: demo_env_def demo_finalize_def demo_step_weight demo_step_multiplier demo_init_def fee_blocks_def signed_call_def timestamp_inherent_def
          Let_def)
  qed (simp_all add: demo_view_def demo_genesis_def demo_env_def)
qed

end
