(* ===== verification/Spec2Isabelle.thy ===== *)
theory Spec2Isabelle
  imports Votechain_Properties Runtime_Proxy Runtime_Fees Runtime_Delegation Runtime_Multiplier Voter_Bags
    Bench_Interfaces Cli_Benches Runtime_Ratios Runtime_Weights Node_Tests Node_Build Inspect_Tests Multiplier_Tests
    Votechain_Tests Executor_Tests
begin

text \<open>
  A verification library for the votechain node: a Substrate node (branch polkadot-v0.9.17) whose runtime
  has a pallet for elections with on-chain votes.

  \<^bold>\<open>The program.\<close> The runtime (\<open>votechain/runtime\<close>) puts some fifty pallets together; the one of this repository is the
  voting pallet (\<open>votechain/pallets/votechain\<close>): root creates and closes elections and registers candidates, signed
  accounts vote. The node (\<open>votechain/cli\<close>, \<open>rpc\<close>, \<open>inspect\<close>) builds a service around that runtime, and \<open>votechain/bench\<close> measures
  the trie the state is kept in. The runtime configures the pallet and gives it the framework's origin checks
  and hashes; the service starts the node that executes the runtime; the benchmarks use the block types alone.

  \<^bold>\<open>The theories.\<close>
  \<^item> \<open>Prelude\<close>: words, results, storage maps, and the interfaces \<open>kv_store\<close>, \<open>invariant_machine\<close>,
    \<open>monotone_machine\<close> and \<open>refined_machine\<close>.
  \<^item> \<open>Votechain_Pallet\<close>: data, storage and the six dispatchables of \<open>pallets/votechain/src/lib.rs\<close>, with their
    branches as equations. \<open>Votechain_Invariants\<close>: the possible effects of a call and the storage invariant.
    \<open>Votechain_Runs\<close>: what whole runs keep, and the two copies of each vote. \<open>Votechain_Ballot\<close>: the
    abstract ballots and the refinement. \<open>Votechain_Properties\<close>: the properties of the pallet.
    \<open>Votechain_Tests\<close>: its mock runtime, its unit tests, of which one fails, and the body of its benchmark.
  \<^item> \<open>Primitives\<close>, \<open>Runtime_Constants\<close>: numeric types, headers and blocks, constants. \<open>Runtime_Pallets\<close>: declaration order and indices.
    \<open>Runtime_Proxy\<close>: proxy types. \<open>Runtime_Fees\<close>: fees. \<open>Runtime_Governance\<close>: origins and block weights.
    \<open>Runtime_Transactions\<close>: signed transactions of off-chain workers, the election miner, the two configurations of the voting
    pallet. \<open>Runtime_Api\<close>: tracks, runtime APIs and the properties of the constants. \<open>Voter_Bags\<close>: the table of bag thresholds.
    \<open>Runtime_Config\<close>: the \<open>Config\<close> of every pallet in \<open>runtime/src/lib.rs\<close>, as the list of its associated types and constants.
    \<open>Runtime_Delegation\<close>: the API methods that hand over to a pallet. \<open>Runtime_Multiplier\<close>: the fee multiplier
    of \<open>runtime/src/impls.rs\<close> with the two simulations of its tests, over real numbers; \<open>Multiplier_Tests\<close>: its other tests.
    \<open>Runtime_Ratios\<close>: ratios, configurations of benchmarks, assertions at compile time, session keys, the remaining API methods.
    \<open>Runtime_Weights\<close>: the builder of the block weights.
  \<^item> \<open>Bench_Core\<close>: runner and averages. \<open>Bench_Trie\<close>: key/value databases, the overlay, its flush and the generation of a trie, and the
    wrapper of the parity database, which counts references. \<open>Temp_Databases\<close>: the file system as an explicit store of directories, the copy
    of a directory, and the temporary databases of \<open>bench/src/tempdb.rs\<close>. \<open>Bench_Sizes\<close>, \<open>State_Sizes\<close>, \<open>Bench_Setup\<close>,
    \<open>Bench_Runs\<close>: sizes, the Kusama table, the weighted draw, setup and run of the trie benchmarks.
    \<open>Bench_Main\<close>: the list of benchmarks and the choice of \<open>main\<close>, the checks and the pool of the client benchmarks.
  \<^item> \<open>Node_Inspect\<close>, \<open>Node_Inspector\<close>, \<open>Inspect_Tests\<close>: the block inspector and its tests. \<open>Node_Service\<close>: building the node. \<open>Node_Cli\<close>: signed
    transactions, command line and RPC. \<open>Node_Genesis\<close>: the genesis of the test networks, the named networks of
    \<open>cli/src/chain_spec.rs\<close> and the genesis of the test support. \<open>Node_Build\<close>: the program's description and entry point, and the build scripts.
  \<^item> \<open>Testing_Bench\<close>: the test support of the benchmarks (\<open>testing/src/bench.rs\<close>): keyring, signing, the transactions of a
    block, the loop that fills a block and the import. It stands on the genesis and the benchmark theories.
  \<^item> \<open>Bench_Databases\<close>: the databases of the client benchmarks (\<open>testing/src/bench.rs\<close>) over the directories of
    \<open>Temp_Databases\<close>: seeds, contexts, and with them the setups and runs of the client benchmarks and the trie read benchmark.
    \<open>Bench_Interfaces\<close>: the storage, key/value database and pool transactions that the benchmarks hand to the framework.
  \<^item> \<open>Cli_Benches\<close>: the criterion benches of the pool, of block production (\<open>cli/benches\<close>) and of block execution
    (\<open>executor/benches\<close>). \<open>Node_Tests\<close>: the networks of the integration tests and the authoring of blocks in the test of
    synchronisation (\<open>cli/src/chain_spec.rs\<close>, \<open>cli/src/service.rs\<close>).
  \<^item> \<open>Executor_Blocks\<close>: the native executor (\<open>executor/src/lib.rs\<close>) and the building of blocks, the import tests and the fee test
    of \<open>executor/tests\<close>. \<open>Executor_Tests\<close>: the contract of the runtime behind the executor, the reference ledger that a block of
    payments refines, and why the tests pass; it ties the fee handler, the genesis of the test support and the multiplier together.

  \<^bold>\<open>State and errors.\<close> The pallet's storage is the record \<open>storage\<close>, one partial map for each storage map. A dispatchable takes the
  storage and returns a result (\<open>Inr\<close> is \<open>Ok\<close>, \<open>Inl\<close> is \<open>Err\<close>) with the storage it leaves: in this version of the
  framework a failing dispatchable keeps its writes unless it is transactional, which only \<open>create_election\<close> is. A panic
  is a \<open>None\<close>. The service is a list of actions with the first failing step. There is no fuel: most loops of the modelled
  code are bounded by a list or a range, and the recursions are structural or on a quotient by ten. The loop that fills a
  block ends by a measure on the transactions left, and the search for a slot of one's own by one on the slots that 64 bits leave. The loops
  without a bound are partial functions, and theorems show that they return: the wait for the fee multiplier to reach its minimum,
  the simulation of a congested chain, and the block that is filled until a transfer does not fit.

  \<^bold>\<open>What the lemmas show.\<close> For the pallet: one vote per voter and election, what succeeds and what it changes, frozen closed elections, error
  atomicity and its exception, authority, the agreement of the two copies of the votes, commutation of
  votes and the refinement of ballots; the theorems about orphan votes, votes across elections and re-creation state
  behaviour of the code that its users should know. For the runtime: proxy order, fee conservation, eras, indices, limits,
  who holds the authority each pallet is configured with, which storage and calls the voting pallet shares with others, how the
  fee multiplier moves and that it reaches its minimum. For the node: which tasks start and when, parsing and lookups, whom the
  genesis endows and nominates and how much it issues. For the benchmarks: flush, draws, samples, averages, what a
  generated block holds, which of its transfers cannot be paid, that runs leave no trace on the seed databases, that the assertions of the setups hold,
  and what the criterion benches prepare. For the tests: that the assertions on the fee multiplier hold, that blocks are authored in increasing slots, that the
  built blocks import and leave the balances of a reference ledger and the asserted events and multiplier, and that the inspector's examples parse.

  \<^bold>\<open>Not modelled.\<close> Third-party code is a parameter of the definitions that use it; what is relied on is a
  hypothesis of the theorem, and an instance shows that it can hold: the fee split is exact only below the saturation of u128, a flush
  commits the overlay only to a database that keeps the last value of each key, and accounts come from seeds that are accepted.
  A panic of the parameters is a \<open>None\<close>, but the missing genesis block of the service is a failing step like its errors.
  What the executor dispatches to is generated code, so the runtime between two calls is a contract of its documented
  behaviour (\<open>runtime_contract\<close>), which a small runtime is shown to keep. The adjustment that the runtime applies to the fee
  multiplier is the framework's, the harness of the criterion benches decides how often their parts run, and the web client is
  written in another language. Of the tests of the executor those of contracts, of single extrinsics, of big blocks, of signed
  submissions and of the stress-test feature are left out: what they assert is decided by the framework's pallets alone.
  What is left of the Rust files are imports, module and type declarations, and tests that only start the framework's network harness.
\<close>

end
